(* ===== verification/Prelude.thy ===== *)
theory Prelude
  imports Main "HOL-Library.Word"
begin

text \<open>
  Shared vocabulary of the development: Go's machine integers as words, Go maps as HOL maps,
  Go errors and panics as the left half of a sum, and the combinators that stand for Go's
  \<open>if err != nil { return err }\<close>: \<open>andThen\<close> for code without effects and \<open>andThenA\<close> for
  code that runs against a world. Their rules are in the collection \<open>go_simps\<close>, which the
  component theories pass to \<open>simp\<close> and \<open>auto\<close>.
\<close>

named_theorems go_simps \<open>case analysis of the error-propagating combinators\<close>

section \<open>Go's basic types\<close>

text \<open>
  Fixed-width integers keep their width. A Go string and a byte slice are both sequences of
  8-bit values, and a \<open>char\<close> is one, so a conversion between the two is the identity.
  A \<open>map[string]string\<close> is a partial function; the code never tells a nil map from an empty one
  except to skip it, so both are the empty map.
\<close>

type_synonym int32 = "32 word"
type_synonym int64 = "64 word"
type_synonym uint16 = "16 word"
type_synonym bytes = string
type_synonym strmap = "string \<rightharpoonup> string"

text \<open>Go's \<open>p > 0\<close> on a signed integer.\<close>

abbreviation positive :: "'a::len word \<Rightarrow> bool" where
  "positive p \<equiv> 0 <s p"

text \<open>The builtin \<open>min\<close> on signed integers.\<close>

definition signedMin :: "'a::len word \<Rightarrow> 'a word \<Rightarrow> 'a word" where
  "signedMin a b = (if b <s a then b else a)"

lemma signedMin_le: "signedMin a b \<le>s a" "signedMin a b \<le>s b"
  by (simp_all add: signedMin_def word_sle_eq word_sless_alt)

section \<open>Errors and panics\<close>

text \<open>
  The errors the operator's own code returns or tells apart, and the run-time panics its
  unguarded dereferences can raise. \<open>Wrapped\<close> is \<open>errors.Wrapf\<close>; \<open>errors.WithStack\<close> only adds a
  stack trace and is left out. A panic ends the call exactly as an error does, so both are
  values of one type, told apart by \<open>isPanic\<close>.
\<close>

datatype panic = NilDereference string | IndexOutOfRange string

datatype error =
    NotFound string
  | ApiError string
  | DecodeError string
  | OwnerError string
  | NoHostnames
  | PortNotPositive
  | PollTimeout
  | UnexpectedType string
  | Wrapped string error
  | Panic panic

text \<open>\<open>IsNotFound\<close> looks through wrapped errors, as \<open>errors.As\<close> does.\<close>

fun isNotFound :: "error \<Rightarrow> bool" where
  "isNotFound (NotFound _) = True"
| "isNotFound (Wrapped _ e) = isNotFound e"
| "isNotFound _ = False"

fun isPanic :: "error \<Rightarrow> bool" where
  "isPanic (Panic _) = True"
| "isPanic _ = False"

section \<open>Results\<close>

type_synonym 'a result = "error + 'a"

definition andThen :: "'a result \<Rightarrow> ('a \<Rightarrow> 'b result) \<Rightarrow> 'b result" where
  "andThen m f = (case m of Inl e \<Rightarrow> Inl e | Inr x \<Rightarrow> f x)"

text \<open>Dereference a pointer that the code does not check.\<close>

definition deref :: "string \<Rightarrow> 'a option \<Rightarrow> 'a result" where
  "deref what p = (case p of None \<Rightarrow> Inl (Panic (NilDereference what)) | Some x \<Rightarrow> Inr x)"

text \<open>\<open>errors.Wrapf\<close> on the error of a result.\<close>

definition wrapf :: "string \<Rightarrow> 'a result \<Rightarrow> 'a result" where
  "wrapf msg m = (case m of Inl (Panic p) \<Rightarrow> Inl (Panic p) | Inl e \<Rightarrow> Inl (Wrapped msg e) | Inr x \<Rightarrow> Inr x)"

lemma andThen_simps [simp]:
  "andThen (Inl e) f = Inl e"
  "andThen (Inr x) f = f x"
  by (simp_all add: andThen_def)

lemma andThen_eq_Inr [go_simps]: "andThen m f = Inr y \<longleftrightarrow> (\<exists>x. m = Inr x \<and> f x = Inr y)"
  by (simp add: andThen_def split: sum.splits)

lemma andThen_eq_Inl [go_simps]:
  "andThen m f = Inl e \<longleftrightarrow> m = Inl e \<or> (\<exists>x. m = Inr x \<and> f x = Inl e)"
  by (auto simp add: andThen_def split: sum.splits)

lemma deref_simps [simp]:
  "deref what None = Inl (Panic (NilDereference what))"
  "deref what (Some x) = Inr x"
  by (simp_all add: deref_def)

lemma deref_eq_Inr [go_simps]: "deref what p = Inr x \<longleftrightarrow> p = Some x"
  by (simp add: deref_def split: option.splits)

lemma wrapf_eq_Inr [go_simps]: "wrapf msg m = Inr x \<longleftrightarrow> m = Inr x"
  by (auto simp add: wrapf_def split: sum.splits error.splits)

lemma wrapf_Inr [simp]: "wrapf msg (Inr x) = Inr x"
  by (simp add: wrapf_def)

section \<open>Actions\<close>

text \<open>
  An action runs against a world and either fails or returns, in both cases with the world it
  leaves: what was done before an error stays done.
\<close>

type_synonym ('w, 'a) action = "'w \<Rightarrow> 'a result \<times> 'w"

definition returnA :: "'a \<Rightarrow> ('w, 'a) action" where
  "returnA x = (\<lambda>w. (Inr x, w))"

definition failA :: "error \<Rightarrow> ('w, 'a) action" where
  "failA e = (\<lambda>w. (Inl e, w))"

definition liftA :: "'a result \<Rightarrow> ('w, 'a) action" where
  "liftA m = (\<lambda>w. (m, w))"

definition andThenA :: "('w, 'a) action \<Rightarrow> ('a \<Rightarrow> ('w, 'b) action) \<Rightarrow> ('w, 'b) action" where
  "andThenA m f = (\<lambda>w. case m w of (Inl e, w') \<Rightarrow> (Inl e, w') | (Inr x, w') \<Rightarrow> f x w')"

definition wrapfA :: "string \<Rightarrow> ('w, 'a) action \<Rightarrow> ('w, 'a) action" where
  "wrapfA msg m = (\<lambda>w. case m w of (r, w') \<Rightarrow> (wrapf msg r, w'))"

lemma action_simps [simp]:
  "returnA x w = (Inr x, w)"
  "failA e w = (Inl e, w)"
  "liftA m w = (m, w)"
  by (simp_all add: returnA_def failA_def liftA_def)

lemma andThenA_simps [simp]:
  "andThenA (returnA x) f = f x"
  "andThenA (failA e) f = failA e"
  by (auto simp: andThenA_def fun_eq_iff)

lemma andThenA_liftA: "andThenA (liftA m) f w = (case m of Inl e \<Rightarrow> (Inl e, w) | Inr x \<Rightarrow> f x w)"
  by (simp add: andThenA_def split: sum.split)

lemma andThenA_Inl: "m w = (Inl e, w') \<Longrightarrow> andThenA m f w = (Inl e, w')"
  by (simp add: andThenA_def)

lemma andThenA_Inr: "m w = (Inr x, w') \<Longrightarrow> andThenA m f w = f x w'"
  by (simp add: andThenA_def)

lemma andThenA_eq_Inr [go_simps]:
  "andThenA m f w = (Inr y, w'') \<longleftrightarrow> (\<exists>x w'. m w = (Inr x, w') \<and> f x w' = (Inr y, w''))"
  by (auto simp: andThenA_def split: prod.splits sum.splits)

lemma andThenA_eq_Inl [go_simps]:
  "andThenA m f w = (Inl e, w'') \<longleftrightarrow>
     m w = (Inl e, w'') \<or> (\<exists>x w'. m w = (Inr x, w') \<and> f x w' = (Inl e, w''))"
  by (auto simp: andThenA_def split: prod.splits sum.splits)

text \<open>
  A relation between the worlds before and after that every part of a composed action keeps
  holds for the whole: the frame rule of the controllers.
\<close>

definition keeps :: "('w \<Rightarrow> 'w \<Rightarrow> bool) \<Rightarrow> ('w, 'a) action \<Rightarrow> bool" where
  "keeps R m \<longleftrightarrow> (\<forall>w. R w (snd (m w)))"

lemma keepsD: "keeps R m \<Longrightarrow> m w = (r, w') \<Longrightarrow> R w w'"
  by (metis keeps_def snd_conv)

lemma keeps_pure: "(\<And>w. R w w) \<Longrightarrow> keeps R (returnA x)" "(\<And>w. R w w) \<Longrightarrow> keeps R (failA e)"
  "(\<And>w. R w w) \<Longrightarrow> keeps R (liftA r)"
  by (simp_all add: keeps_def)

lemma keeps_andThenA:
  assumes trans: "\<And>u v w. R u v \<Longrightarrow> R v w \<Longrightarrow> R u w"
    and m: "keeps R m" and f: "\<And>x. keeps R (f x)"
  shows "keeps R (andThenA m f)"
  unfolding keeps_def
proof
  fix w
  obtain r w' where mw: "m w = (r, w')" by fastforce
  have R1: "R w w'" using keepsD [OF m mw] .
  show "R w (snd (andThenA m f w))"
  proof (cases r)
    case (Inl e)
    with mw R1 show ?thesis by (simp add: andThenA_def)
  next
    case (Inr x)
    have "R w' (snd (f x w'))" using f by (simp add: keeps_def)
    with mw R1 Inr trans show ?thesis by (auto simp: andThenA_def)
  qed
qed

section \<open>Maps\<close>

lemma map_le_update: "m \<subseteq>\<^sub>m m' \<Longrightarrow> k \<notin> dom m \<Longrightarrow> m \<subseteq>\<^sub>m m'(k \<mapsto> v)"
  by (auto simp: map_le_def)

end
