(* ===== verification/KubeTypes.thy ===== *)
theory KubeTypes
  imports Prelude
begin

text \<open>
  The Kubernetes API types the operator builds, as records with the fields its code reads or
  writes. A field \<open>F\<close> of a Go struct \<open>T\<close> is a record field with a prefix for \<open>T\<close>
  (\<open>ObjectMeta.Labels\<close> is \<open>om_Labels\<close>); a pointer is an \<open>option\<close>; a value that the code only
  passes on (a toleration, a volume source that is not a secret) is kept opaque, as the text a
  user wrote. \<open>kobj\<close> is the interface \<open>client.Object\<close>: any of the kinds the operator manages.
\<close>

section \<open>Object metadata\<close>

record OwnerReference =
  or_Kind :: string
  or_Name :: string
  or_UID :: string

record ObjectMeta =
  om_Name :: string
  om_Namespace :: string
  om_UID :: string
  om_Generation :: int64
  om_Labels :: strmap
  om_Annotations :: strmap
  om_OwnerReferences :: "OwnerReference list"
  om_Finalizers :: "string list"
  om_DeletionTimestamp :: "int64 option"
  om_DeletionGracePeriodSeconds :: "int64 option"

text \<open>\<open>metav1.ObjectMeta{Name, Namespace, Labels, Annotations}\<close>: every other field has its zero value.\<close>

definition newMeta :: "string \<Rightarrow> string \<Rightarrow> strmap \<Rightarrow> strmap \<Rightarrow> ObjectMeta" where
  "newMeta name namespace labels annotations =
     \<lparr>om_Name = name, om_Namespace = namespace, om_UID = '''', om_Generation = 0,
      om_Labels = labels, om_Annotations = annotations, om_OwnerReferences = [],
      om_Finalizers = [], om_DeletionTimestamp = None, om_DeletionGracePeriodSeconds = None\<rparr>"

lemma newMeta_simps [simp]:
  "om_Name (newMeta n ns l a) = n" "om_Namespace (newMeta n ns l a) = ns"
  "om_Labels (newMeta n ns l a) = l" "om_Annotations (newMeta n ns l a) = a"
  "om_OwnerReferences (newMeta n ns l a) = []" "om_Finalizers (newMeta n ns l a) = []"
  "om_DeletionTimestamp (newMeta n ns l a) = None"
  by (simp_all add: newMeta_def)

section \<open>Numbers or names, quantities\<close>

text \<open>
  \<open>intstr.IntOrString\<close> is a struct whose \<open>Type\<close> field says which of the two others counts; the
  zero value of \<open>Type\<close> is the integer case. \<open>FromString\<close> sets all three fields.
\<close>

datatype IntOrStringType = IntKind | StringKind

record IntOrString =
  ios_Type :: IntOrStringType
  ios_IntVal :: int32
  ios_StrVal :: string

definition FromString :: "string \<Rightarrow> IntOrString" where
  "FromString s = \<lparr>ios_Type = StringKind, ios_IntVal = 0, ios_StrVal = s\<rparr>"

text \<open>The composite literals \<open>IntOrString{IntVal: n}\<close> and \<open>IntOrString{StrVal: s}\<close>.\<close>

definition IntValLiteral :: "int32 \<Rightarrow> IntOrString" where
  "IntValLiteral n = \<lparr>ios_Type = IntKind, ios_IntVal = n, ios_StrVal = ''''\<rparr>"

definition StrValLiteral :: "string \<Rightarrow> IntOrString" where
  "StrValLiteral s = \<lparr>ios_Type = IntKind, ios_IntVal = 0, ios_StrVal = s\<rparr>"

text \<open>The inner value, which is what the API server receives: the field that \<open>Type\<close> selects.\<close>

definition innerValue :: "IntOrString \<Rightarrow> int32 + string" where
  "innerValue v = (case ios_Type v of IntKind \<Rightarrow> Inl (ios_IntVal v) | StringKind \<Rightarrow> Inr (ios_StrVal v))"

text \<open>A \<open>resource.Quantity\<close> is kept as the text it was parsed from.\<close>

datatype Quantity = Quantity string

type_synonym ResourceList = "string \<rightharpoonup> Quantity"

record ResourceRequirements =
  rr_Limits :: ResourceList
  rr_Requests :: ResourceList

definition noResources :: ResourceRequirements where
  "noResources = \<lparr>rr_Limits = Map.empty, rr_Requests = Map.empty\<rparr>"

section \<open>Pods\<close>

datatype EnvVarSource = FieldRef string | OtherEnvVarSource string

record EnvVar =
  ev_Name :: string
  ev_Value :: string
  ev_ValueFrom :: "EnvVarSource option"

definition envValue :: "string \<Rightarrow> string \<Rightarrow> EnvVar" where
  "envValue n v = \<lparr>ev_Name = n, ev_Value = v, ev_ValueFrom = None\<rparr>"

definition envFieldRef :: "string \<Rightarrow> string \<Rightarrow> EnvVar" where
  "envFieldRef n path = \<lparr>ev_Name = n, ev_Value = '''', ev_ValueFrom = Some (FieldRef path)\<rparr>"

record KeyToPath =
  ktp_Key :: string
  ktp_Path :: string

datatype VolumeSource =
    SecretVolumeSource string "KeyToPath list"
  | OtherVolumeSource string

record Volume =
  vol_Name :: string
  vol_Source :: VolumeSource

record VolumeMount =
  vm_Name :: string
  vm_ReadOnly :: bool
  vm_MountPath :: string
  vm_SubPath :: string

record ContainerPort =
  cp_Name :: string
  cp_ContainerPort :: int32
  cp_Protocol :: string

datatype URIScheme = URISchemeHTTP | URISchemeHTTPS

record Probe =
  pr_Path :: string
  pr_Port :: IntOrString
  pr_Scheme :: URIScheme
  pr_InitialDelaySeconds :: int32
  pr_TimeoutSeconds :: int32
  pr_FailureThreshold :: int32

record SecurityContext =
  sc_RunAsUser :: "int64 option"
  sc_RunAsGroup :: "int64 option"
  sc_AllowPrivilegeEscalation :: "bool option"

record PodSecurityContext =
  psc_RunAsUser :: "int64 option"
  psc_RunAsGroup :: "int64 option"

record Container =
  c_Name :: string
  c_Image :: string
  c_ImagePullPolicy :: string
  c_Command :: "string list"
  c_Args :: "string list"
  c_Ports :: "ContainerPort list"
  c_Env :: "EnvVar list"
  c_Resources :: ResourceRequirements
  c_VolumeMounts :: "VolumeMount list"
  c_ReadinessProbe :: "Probe option"
  c_LivenessProbe :: "Probe option"
  c_SecurityContext :: "SecurityContext option"

text \<open>\<open>corev1.Container{}\<close>.\<close>

definition zeroContainer :: Container where
  "zeroContainer =
     \<lparr>c_Name = '''', c_Image = '''', c_ImagePullPolicy = '''', c_Command = [], c_Args = [], c_Ports = [],
      c_Env = [], c_Resources = noResources, c_VolumeMounts = [], c_ReadinessProbe = None,
      c_LivenessProbe = None, c_SecurityContext = None\<rparr>"

record LabelSelectorRequirement =
  lsr_Key :: string
  lsr_Operator :: string
  lsr_Values :: "string list"

record WeightedPodAffinityTerm =
  wpat_Weight :: int32
  wpat_TopologyKey :: string
  wpat_MatchExpressions :: "LabelSelectorRequirement list"

record Affinity =
  aff_PreferredPodAffinity :: "WeightedPodAffinityTerm list"

datatype Toleration = Toleration string

record PodSpec =
  ps_ServiceAccountName :: string
  ps_RestartPolicy :: string
  ps_TerminationGracePeriodSeconds :: "int64 option"
  ps_SecurityContext :: "PodSecurityContext option"
  ps_Affinity :: "Affinity option"
  ps_NodeSelector :: strmap
  ps_InitContainers :: "Container list"
  ps_Containers :: "Container list"
  ps_Tolerations :: "Toleration list"
  ps_Volumes :: "Volume list"

text \<open>\<open>corev1.PodSpec{}\<close>.\<close>

definition zeroPodSpec :: PodSpec where
  "zeroPodSpec =
     \<lparr>ps_ServiceAccountName = '''', ps_RestartPolicy = '''', ps_TerminationGracePeriodSeconds = None,
      ps_SecurityContext = None, ps_Affinity = None, ps_NodeSelector = Map.empty, ps_InitContainers = [],
      ps_Containers = [], ps_Tolerations = [], ps_Volumes = []\<rparr>"

record PodTemplateSpec =
  pt_Meta :: ObjectMeta
  pt_Spec :: PodSpec

section \<open>Workloads\<close>

record DeploymentStrategy =
  ds_Type :: string
  ds_MaxUnavailable :: "IntOrString option"

definition zeroDeploymentStrategy :: DeploymentStrategy where
  "zeroDeploymentStrategy = \<lparr>ds_Type = '''', ds_MaxUnavailable = None\<rparr>"

record DeploymentSpec =
  d_Replicas :: "int32 option"
  d_Selector :: strmap
  d_Template :: PodTemplateSpec
  d_Strategy :: DeploymentStrategy

record Deployment =
  dep_Meta :: ObjectMeta
  dep_Spec :: DeploymentSpec

datatype JobConditionType = JobComplete | JobFailed | OtherJobCondition string

datatype ConditionStatus = ConditionTrue | ConditionFalse | ConditionUnknown

record JobCondition =
  jc_Type :: JobConditionType
  jc_Status :: ConditionStatus
  jc_Message :: string

record JobSpec =
  js_Parallelism :: "int32 option"
  js_Completions :: "int32 option"
  js_BackoffLimit :: "int32 option"
  js_ActiveDeadlineSeconds :: "int64 option"
  js_Template :: PodTemplateSpec

record Job =
  job_Meta :: ObjectMeta
  job_Spec :: JobSpec
  job_Conditions :: "JobCondition list"

text \<open>\<open>batchv1.Job{}\<close>.\<close>

definition zeroJob :: Job where
  "zeroJob =
     \<lparr>job_Meta = newMeta '''' '''' Map.empty Map.empty,
      job_Spec = \<lparr>js_Parallelism = None, js_Completions = None, js_BackoffLimit = None,
        js_ActiveDeadlineSeconds = None,
        js_Template = \<lparr>pt_Meta = newMeta '''' '''' Map.empty Map.empty, pt_Spec = zeroPodSpec\<rparr>\<rparr>,
      job_Conditions = []\<rparr>"

record CronJobSpec =
  cjs_Schedule :: string
  cjs_ConcurrencyPolicy :: string
  cjs_JobTemplateMeta :: ObjectMeta
  cjs_JobTemplateSpec :: JobSpec

record CronJob =
  cj_Meta :: ObjectMeta
  cj_Spec :: CronJobSpec

section \<open>Services, accounts, secrets\<close>

record ServicePort =
  sp_Name :: string
  sp_Port :: int32
  sp_NodePort :: int32
  sp_Protocol :: string

datatype ServiceType = ServiceTypeClusterIP | ServiceTypeNodePort

record ServiceSpec =
  ss_Selector :: strmap
  ss_Ports :: "ServicePort list"
  ss_Type :: ServiceType

record Service =
  svc_Meta :: ObjectMeta
  svc_Spec :: ServiceSpec

datatype ObjectReference = ObjectReference string

record ServiceAccount =
  sa_Meta :: ObjectMeta
  sa_Secrets :: "ObjectReference list"
  sa_ImagePullSecrets :: "ObjectReference list"
  sa_AutomountServiceAccountToken :: "bool option"

record Secret =
  sec_Meta :: ObjectMeta
  sec_Data :: "string \<rightharpoonup> bytes"

section \<open>Ingress\<close>

record HTTPIngressPath =
  hp_Path :: string
  hp_PathType :: string
  hp_ServiceName :: string
  hp_ServicePort :: int32

record IngressRule =
  ir_Host :: string
  ir_Paths :: "HTTPIngressPath list"

record IngressTLS =
  tls_Hosts :: "string list"
  tls_SecretName :: string

record IngressSpec =
  is_TLS :: "IngressTLS list"
  is_Rules :: "IngressRule list"

record Ingress =
  ing_Meta :: ObjectMeta
  ing_Spec :: IngressSpec

section \<open>Access control, disruption budgets\<close>

record PolicyRule =
  rule_Verbs :: "string list"
  rule_APIGroups :: "string list"
  rule_Resources :: "string list"

record ClusterRole =
  crole_Meta :: ObjectMeta
  crole_Rules :: "PolicyRule list"

record Subject =
  sub_Kind :: string
  sub_Name :: string
  sub_Namespace :: string

record RoleRef =
  rref_Kind :: string
  rref_APIGroup :: string
  rref_Name :: string

record ClusterRoleBinding =
  crb_Meta :: ObjectMeta
  crb_Subjects :: "Subject list"
  crb_RoleRef :: RoleRef

record PodDisruptionBudgetSpec =
  pdbs_MinAvailable :: "IntOrString option"
  pdbs_MaxUnavailable :: "IntOrString option"
  pdbs_Selector :: "strmap option"

record PodDisruptionBudget =
  pdb_Meta :: ObjectMeta
  pdb_Spec :: PodDisruptionBudgetSpec

section \<open>Prometheus\<close>

record Endpoint =
  ep_Port :: string
  ep_Interval :: string

record ServiceMonitor =
  sm_Meta :: ObjectMeta
  sm_Selector :: strmap
  sm_AttachMetadataNode :: "bool option"
  sm_Endpoints :: "Endpoint list"

record Rule =
  prule_Record :: string
  prule_Expr :: IntOrString

record RuleGroup =
  rg_Name :: string
  rg_Interval :: "string option"
  rg_Rules :: "Rule list"

record PrometheusRule =
  prom_Meta :: ObjectMeta
  prom_Groups :: "RuleGroup list"

section \<open>Status conditions\<close>

record Condition =
  cond_Type :: string
  cond_Status :: ConditionStatus
  cond_ObservedGeneration :: int64
  cond_Reason :: string
  cond_Message :: string

section \<open>Objects of any kind\<close>

datatype kobj =
    KServiceAccount ServiceAccount
  | KSecret Secret
  | KDeployment Deployment
  | KService Service
  | KIngress Ingress
  | KClusterRole ClusterRole
  | KClusterRoleBinding ClusterRoleBinding
  | KPrometheusRule PrometheusRule
  | KServiceMonitor ServiceMonitor
  | KPodDisruptionBudget PodDisruptionBudget
  | KJob Job
  | KCronJob CronJob

datatype kind =
    ServiceAccountKind | SecretKind | DeploymentKind | ServiceKind | IngressKind | ClusterRoleKind
  | ClusterRoleBindingKind | PrometheusRuleKind | ServiceMonitorKind | PodDisruptionBudgetKind
  | JobKind | CronJobKind

fun kindOf :: "kobj \<Rightarrow> kind" where
  "kindOf (KServiceAccount _) = ServiceAccountKind"
| "kindOf (KSecret _) = SecretKind"
| "kindOf (KDeployment _) = DeploymentKind"
| "kindOf (KService _) = ServiceKind"
| "kindOf (KIngress _) = IngressKind"
| "kindOf (KClusterRole _) = ClusterRoleKind"
| "kindOf (KClusterRoleBinding _) = ClusterRoleBindingKind"
| "kindOf (KPrometheusRule _) = PrometheusRuleKind"
| "kindOf (KServiceMonitor _) = ServiceMonitorKind"
| "kindOf (KPodDisruptionBudget _) = PodDisruptionBudgetKind"
| "kindOf (KJob _) = JobKind"
| "kindOf (KCronJob _) = CronJobKind"

fun metaOf :: "kobj \<Rightarrow> ObjectMeta" where
  "metaOf (KServiceAccount x) = sa_Meta x"
| "metaOf (KSecret x) = sec_Meta x"
| "metaOf (KDeployment x) = dep_Meta x"
| "metaOf (KService x) = svc_Meta x"
| "metaOf (KIngress x) = ing_Meta x"
| "metaOf (KClusterRole x) = crole_Meta x"
| "metaOf (KClusterRoleBinding x) = crb_Meta x"
| "metaOf (KPrometheusRule x) = prom_Meta x"
| "metaOf (KServiceMonitor x) = sm_Meta x"
| "metaOf (KPodDisruptionBudget x) = pdb_Meta x"
| "metaOf (KJob x) = job_Meta x"
| "metaOf (KCronJob x) = cj_Meta x"

text \<open>\<open>client.ObjectKeyFromObject\<close>, with the kind that selects the API the client talks to.\<close>

type_synonym objkey = "kind \<times> string \<times> string"

definition keyOf :: "kobj \<Rightarrow> objkey" where
  "keyOf x = (kindOf x, om_Namespace (metaOf x), om_Name (metaOf x))"

end
