(* ===== verification/ApiTypes.thy ===== *)
theory ApiTypes
  imports KubeTypes
begin

text \<open>
  The custom resources of \<open>api/install/v1alpha1\<close>: the shared \<open>CommonSpecBase\<close>, one spec per custom
  resource as a record extending it (Go's struct embedding, so a promoted field is the base
  record's field), and the resource itself. Where a spec declares a field that the base has too
  (\<open>NodeSelector\<close>), the outer one shadows it in Go and is a field of its own here. An application
  configuration is the raw JSON text a user wrote.
\<close>

section \<open>Blocks shared by the specs\<close>

record Image =
  im_Repository :: string
  im_Tag :: string

record PrometheusConfig =
  pc_Enabled :: bool
  pc_Labels :: strmap
  pc_ScrapeInterval :: "int64 option"

record ServiceAccountConfig =
  sac_Secrets :: "ObjectReference list"
  sac_ImagePullSecrets :: "ObjectReference list"
  sac_AutomountServiceAccountToken :: "bool option"

record IngressConfig =
  ic_Labels :: strmap
  ic_Annotations :: strmap
  ic_IngressClass :: string
  ic_Hostnames :: "string list"
  ic_ClusterIssuer :: string

record AdditionalClusterRoleBinding =
  acrb_NameSuffix :: string
  acrb_ClusterRoleName :: string

record CommonSpecBase =
  csb_Labels :: strmap
  csb_Image :: Image
  csb_ApplicationConfig :: bytes
  csb_Prometheus :: "PrometheusConfig option"
  csb_Resources :: "ResourceRequirements option"
  csb_Tolerations :: "Toleration list"
  csb_TerminationGracePeriodSeconds :: "int64 option"
  csb_CustomServiceAccount :: string
  csb_ServiceAccount :: "ServiceAccountConfig option"
  csb_Environment :: "EnvVar list"
  csb_AdditionalVolumes :: "Volume list"
  csb_AdditionalVolumeMounts :: "VolumeMount list"
  csb_NodeSelector :: strmap
  csb_TopologyKey :: string

definition GetDefaultSecurityContext :: SecurityContext where
  "GetDefaultSecurityContext =
     \<lparr>sc_RunAsUser = Some 1000, sc_RunAsGroup = Some 2000, sc_AllowPrivilegeEscalation = Some False\<rparr>"

definition GetDefaultPodSecurityContext :: PodSecurityContext where
  "GetDefaultPodSecurityContext = \<lparr>psc_RunAsUser = Some 1000, psc_RunAsGroup = Some 2000\<rparr>"

section \<open>The specs\<close>

record ArmadaServerSpec = CommonSpecBase +
  as_Replicas :: "int32 option"
  as_NodeSelector :: strmap
  as_Ingress :: "IngressConfig option"
  as_ProfilingIngressConfig :: "IngressConfig option"
  as_HostNames :: "string list"
  as_ClusterIssuer :: string
  as_PulsarInit :: bool
  as_SecurityContext :: "SecurityContext option"
  as_PodSecurityContext :: "PodSecurityContext option"

record BinocularsSpec = CommonSpecBase +
  bn_Replicas :: "int32 option"
  bn_NodeSelector :: strmap
  bn_Ingress :: "IngressConfig option"
  bn_ProfilingIngressConfig :: "IngressConfig option"
  bn_HostNames :: "string list"
  bn_ClusterIssuer :: string
  bn_SecurityContext :: "SecurityContext option"
  bn_PodSecurityContext :: "PodSecurityContext option"

record EventIngesterSpec = CommonSpecBase +
  ei_Replicas :: "int32 option"
  ei_NodeSelector :: strmap
  ei_SecurityContext :: "SecurityContext option"
  ei_PodSecurityContext :: "PodSecurityContext option"
  ei_ProfilingIngressConfig :: "IngressConfig option"

record ExecutorSpec = CommonSpecBase +
  ex_Replicas :: "int32 option"
  ex_NodeSelector :: strmap
  ex_AdditionalClusterRoleBindings :: "AdditionalClusterRoleBinding list"
  ex_SecurityContext :: "SecurityContext option"
  ex_PodSecurityContext :: "PodSecurityContext option"
  ex_ProfilingIngressConfig :: "IngressConfig option"

record PartitionJobTableConfig =
  pjt_Enabled :: bool
  pjt_ActiveDeadlineSeconds :: "int64 option"

record LookoutSpec = CommonSpecBase +
  lk_Replicas :: "int32 option"
  lk_NodeSelector :: strmap
  lk_Ingress :: "IngressConfig option"
  lk_HostNames :: "string list"
  lk_ClusterIssuer :: string
  lk_Migrate :: "bool option"
  lk_MigrationDbWaitImage :: "Image option"
  lk_DbPruningEnabled :: "bool option"
  lk_DbPruningSchedule :: "string option"
  lk_SecurityContext :: "SecurityContext option"
  lk_PodSecurityContext :: "PodSecurityContext option"
  lk_ProfilingIngressConfig :: "IngressConfig option"
  lk_PartitionJobTable :: "PartitionJobTableConfig option"

record LookoutIngesterSpec = CommonSpecBase +
  li_Replicas :: "int32 option"
  li_SecurityContext :: "SecurityContext option"
  li_PodSecurityContext :: "PodSecurityContext option"
  li_ProfilingIngressConfig :: "IngressConfig option"

record PrunerArgs =
  pa_Timeout :: string
  pa_Batchsize :: int32
  pa_ExpireAfter :: string

record PrunerConfig =
  prn_Enabled :: bool
  prn_Schedule :: string
  prn_Resources :: "ResourceRequirements option"
  prn_Args :: PrunerArgs

record SchedulerSpec = CommonSpecBase +
  sd_Replicas :: "int32 option"
  sd_Ingress :: "IngressConfig option"
  sd_ProfilingIngressConfig :: "IngressConfig option"
  sd_HostNames :: "string list"
  sd_ClusterIssuer :: string
  sd_Migrate :: "bool option"
  sd_MigrationDbWaitImage :: "Image option"
  sd_Pruner :: "PrunerConfig option"
  sd_SecurityContext :: "SecurityContext option"
  sd_PodSecurityContext :: "PodSecurityContext option"

record SchedulerIngesterSpec = CommonSpecBase +
  si_Replicas :: "int32 option"
  si_SecurityContext :: "SecurityContext option"
  si_PodSecurityContext :: "PodSecurityContext option"
  si_ProfilingIngressConfig :: "IngressConfig option"

section \<open>Statuses and the resources\<close>

text \<open>Only Lookout has a status; the status struct of every other resource is empty.\<close>

definition ConditionTypeJobTablePartitioned :: string where
  "ConditionTypeJobTablePartitioned = ''JobTablePartitioned''"

definition ReasonPartitionJobTableRunning :: string where
  "ReasonPartitionJobTableRunning = ''Running''"

definition ReasonPartitionJobTableSucceeded :: string where
  "ReasonPartitionJobTableSucceeded = ''Succeeded''"

definition ReasonPartitionJobTableFailed :: string where
  "ReasonPartitionJobTableFailed = ''Failed''"

record LookoutStatus =
  lst_Conditions :: "Condition list"

text \<open>
  A custom resource: metadata, spec and status. Its kind is fixed by its Go type; the code
  reads \<open>TypeMeta.Kind\<close> only to write a log line.
\<close>

record ('spec, 'status) CR =
  cr_Meta :: ObjectMeta
  cr_Spec :: 'spec
  cr_Status :: 'status

type_synonym ArmadaServer = "(ArmadaServerSpec, unit) CR"
type_synonym Binoculars = "(BinocularsSpec, unit) CR"
type_synonym EventIngester = "(EventIngesterSpec, unit) CR"
type_synonym Executor = "(ExecutorSpec, unit) CR"
type_synonym Lookout = "(LookoutSpec, LookoutStatus) CR"
type_synonym LookoutIngester = "(LookoutIngesterSpec, unit) CR"
type_synonym Scheduler = "(SchedulerSpec, unit) CR"
type_synonym SchedulerIngester = "(SchedulerIngesterSpec, unit) CR"

abbreviation crName :: "('spec, 'status) CR \<Rightarrow> string" where
  "crName cr \<equiv> om_Name (cr_Meta cr)"

abbreviation crNamespace :: "('spec, 'status) CR \<Rightarrow> string" where
  "crNamespace cr \<equiv> om_Namespace (cr_Meta cr)"

text \<open>The namespaced name under which a custom resource is requested.\<close>

definition crKey :: "('spec, 'status) CR \<Rightarrow> string \<times> string" where
  "crKey cr = (crNamespace cr, crName cr)"

abbreviation crLabels :: "('spec, 'status) CR \<Rightarrow> strmap" where
  "crLabels cr \<equiv> om_Labels (cr_Meta cr)"

end
