(* ===== verification/Externs.thy ===== *)
theory Externs
  imports ApiTypes
begin

text \<open>
  The configuration records the operator scans out of an application configuration, and the
  functions of third-party packages it calls on data, gathered in one record that the
  definitions take as their first argument: YAML conversion and decoding
  (\<open>sigs.k8s.io/yaml\<close>), \<open>controllerutil\<close>'s handling of owner references and finalizers,
  \<open>resource.Quantity.Value\<close>, \<open>duration.ShortHumanDuration\<close> and \<open>meta.SetStatusCondition\<close>. What the code relies on of them is
  stated by the predicates at the end and assumed only where a theorem names it.
\<close>

section \<open>Scanned configuration\<close>

record TLSConfig =
  tlsc_Enabled :: bool

record GRPCConfig =
  grpc_Enabled :: bool
  grpc_TLS :: TLSConfig

record ProfilingConfig =
  prof_Port :: int32

record CommonApplicationConfig =
  cac_HTTPPort :: int32
  cac_HTTPNodePort :: int32
  cac_GRPCPort :: int32
  cac_GRPCNodePort :: int32
  cac_MetricsPort :: int32
  cac_Profiling :: ProfilingConfig
  cac_GRPC :: GRPCConfig

record ConnectionConfig =
  conn_Host :: string
  conn_Port :: string
  conn_User :: string
  conn_Password :: string
  conn_Dbname :: string

record PostgresConfig =
  pg_Connection :: ConnectionConfig

text \<open>\<open>LookoutConfig\<close> and \<open>SchedulerConfig\<close> have the same one field.\<close>

record DatabaseConfig =
  db_Postgres :: PostgresConfig

record PulsarImage =
  pim_Repository :: string
  pim_Tag :: string

record ArmadaInit =
  ai_Enabled :: bool
  ai_Image :: PulsarImage
  ai_BrokerHost :: string
  ai_Protocol :: string
  ai_AdminPort :: int64
  ai_Port :: int64

record PulsarConfig =
  pul_ArmadaInit :: ArmadaInit
  pul_AuthenticationEnabled :: bool
  pul_TlsEnabled :: bool
  pul_AuthenticationSecret :: string
  pul_Cacert :: string

record AppConfig =
  app_Pulsar :: PulsarConfig

record MetricConfiguration =
  met_Port :: uint16

record ExecutorConfig =
  exc_Metric :: MetricConfiguration

section \<open>External functions\<close>

text \<open>
  \<open>yaml.Unmarshal\<close> takes the value it decodes into: for \<open>CommonApplicationConfig\<close> that value holds
  defaults, in every other call it is the zero value and is left out. \<open>SetOwnerReference\<close> gets
  the owner's kind (which it looks up in the scheme by Go type) and metadata, and the metadata
  of the object it changes.
\<close>

record externs =
  JSONToYAML :: "bytes \<Rightarrow> bytes result"
  UnmarshalCommon :: "bytes \<Rightarrow> CommonApplicationConfig \<Rightarrow> CommonApplicationConfig result"
  UnmarshalApp :: "bytes \<Rightarrow> AppConfig result"
  UnmarshalDatabase :: "bytes \<Rightarrow> DatabaseConfig result"
  UnmarshalExecutor :: "bytes \<Rightarrow> ExecutorConfig result"
  SetOwner :: "string \<Rightarrow> ObjectMeta \<Rightarrow> ObjectMeta \<Rightarrow> ObjectMeta result"
  QuantityValue :: "Quantity \<Rightarrow> int64"
  ShortHumanDuration :: "int64 \<Rightarrow> string"
  SetStatusCondition :: "Condition list \<Rightarrow> Condition \<Rightarrow> Condition list \<times> bool"
  ContainsFinalizer :: "ObjectMeta \<Rightarrow> string \<Rightarrow> bool"
  AddFinalizer :: "ObjectMeta \<Rightarrow> string \<Rightarrow> ObjectMeta"
  RemoveFinalizer :: "ObjectMeta \<Rightarrow> string \<Rightarrow> ObjectMeta"

text \<open>
  \<open>resources.Limits.Memory().Value()\<close>: the accessor never returns nil and yields the zero quantity
  when the list has no memory entry.
\<close>

definition memoryValue :: "externs \<Rightarrow> ResourceList \<Rightarrow> int64" where
  "memoryValue x rl = (case rl ''memory'' of None \<Rightarrow> 0 | Some q \<Rightarrow> QuantityValue x q)"

section \<open>What the code relies on\<close>

text \<open>
  \<open>SetOwnerReference\<close> changes the list of owner references and nothing else, and the list then
  holds a reference to the owner.
\<close>

definition ownerLaw :: "externs \<Rightarrow> bool" where
  "ownerLaw x \<longleftrightarrow> (\<forall>kind owner m m'. SetOwner x kind owner m = Inr m' \<longrightarrow>
     (\<exists>refs. m' = m\<lparr>om_OwnerReferences := refs\<rparr> \<and>
        (\<exists>r \<in> set refs. or_Kind r = kind \<and> or_Name r = om_Name owner \<and> or_UID r = om_UID owner)))"

lemma ownerLawD:
  assumes "ownerLaw x" "SetOwner x kind owner m = Inr m'"
  shows "om_Name m' = om_Name m" "om_Namespace m' = om_Namespace m" "om_Labels m' = om_Labels m"
    "om_Annotations m' = om_Annotations m" "om_Finalizers m' = om_Finalizers m"
    "\<exists>r \<in> set (om_OwnerReferences m'). or_Kind r = kind \<and> or_Name r = om_Name owner \<and> or_UID r = om_UID owner"
  using assms unfolding ownerLaw_def by fastforce+

text \<open>
  The finalizer functions read and write the list of finalizers as a set, and nothing else.
\<close>

definition finalizerLaw :: "externs \<Rightarrow> bool" where
  "finalizerLaw x \<longleftrightarrow> (\<forall>m f.
     (ContainsFinalizer x m f \<longleftrightarrow> f \<in> set (om_Finalizers m)) \<and>
     (\<exists>fs. AddFinalizer x m f = m\<lparr>om_Finalizers := fs\<rparr> \<and> set fs = insert f (set (om_Finalizers m))) \<and>
     (\<exists>fs. RemoveFinalizer x m f = m\<lparr>om_Finalizers := fs\<rparr> \<and> set fs = set (om_Finalizers m) - {f}))"

lemma finalizerLawD:
  assumes "finalizerLaw x"
  shows "ContainsFinalizer x m f \<longleftrightarrow> f \<in> set (om_Finalizers m)"
    "set (om_Finalizers (AddFinalizer x m f)) = insert f (set (om_Finalizers m))"
    "set (om_Finalizers (RemoveFinalizer x m f)) = set (om_Finalizers m) - {f}"
    "om_DeletionTimestamp (AddFinalizer x m f) = om_DeletionTimestamp m"
proof -
  have law: "(ContainsFinalizer x m f \<longleftrightarrow> f \<in> set (om_Finalizers m)) \<and>
     (\<exists>fs. AddFinalizer x m f = m\<lparr>om_Finalizers := fs\<rparr> \<and> set fs = insert f (set (om_Finalizers m))) \<and>
     (\<exists>fs. RemoveFinalizer x m f = m\<lparr>om_Finalizers := fs\<rparr> \<and> set fs = set (om_Finalizers m) - {f})"
    using assms unfolding finalizerLaw_def by blast
  then show "ContainsFinalizer x m f \<longleftrightarrow> f \<in> set (om_Finalizers m)" by blast
  from law obtain fs where "AddFinalizer x m f = m\<lparr>om_Finalizers := fs\<rparr>"
    "set fs = insert f (set (om_Finalizers m))" by blast
  then show "set (om_Finalizers (AddFinalizer x m f)) = insert f (set (om_Finalizers m))"
    "om_DeletionTimestamp (AddFinalizer x m f) = om_DeletionTimestamp m" by simp_all
  from law obtain gs where "RemoveFinalizer x m f = m\<lparr>om_Finalizers := gs\<rparr>"
    "set gs = set (om_Finalizers m) - {f}" by blast
  then show "set (om_Finalizers (RemoveFinalizer x m f)) = set (om_Finalizers m) - {f}" by simp
qed

section \<open>A reference instance\<close>

text \<open>
  Functions that satisfy the laws and can be computed, for the witnesses: YAML conversion keeps the
  text and rejects the empty one, the decoders return fixed values, the owner reference is
  appended.
\<close>

definition refAppConfig :: AppConfig where
  "refAppConfig = \<lparr>app_Pulsar =
     \<lparr>pul_ArmadaInit = \<lparr>ai_Enabled = True, ai_Image = \<lparr>pim_Repository = ''pulsar'', pim_Tag = ''2.10''\<rparr>,
        ai_BrokerHost = ''pulsar-broker'', ai_Protocol = ''http'', ai_AdminPort = 8080, ai_Port = 6650\<rparr>,
      pul_AuthenticationEnabled = True, pul_TlsEnabled = True, pul_AuthenticationSecret = '''',
      pul_Cacert = ''ca''\<rparr>\<rparr>"

definition refDatabaseConfig :: DatabaseConfig where
  "refDatabaseConfig = \<lparr>db_Postgres = \<lparr>pg_Connection =
     \<lparr>conn_Host = ''postgres'', conn_Port = ''5432'', conn_User = ''armada'', conn_Password = ''psw'',
      conn_Dbname = ''lookout''\<rparr>\<rparr>\<rparr>"

definition refOwner :: "string \<Rightarrow> ObjectMeta \<Rightarrow> ObjectMeta \<Rightarrow> ObjectMeta result" where
  "refOwner kind owner m = Inr (m\<lparr>om_OwnerReferences :=
     om_OwnerReferences m @ [\<lparr>or_Kind = kind, or_Name = om_Name owner, or_UID = om_UID owner\<rparr>]\<rparr>)"

definition refExterns :: externs where
  "refExterns = \<lparr>
     JSONToYAML = (\<lambda>raw. if raw = [] then Inl (DecodeError ''empty'') else Inr raw),
     UnmarshalCommon = (\<lambda>_ defaults. Inr defaults),
     UnmarshalApp = (\<lambda>_. Inr refAppConfig),
     UnmarshalDatabase = (\<lambda>_. Inr refDatabaseConfig),
     UnmarshalExecutor = (\<lambda>_. Inr \<lparr>exc_Metric = \<lparr>met_Port = 9001\<rparr>\<rparr>),
     SetOwner = refOwner,
     QuantityValue = (\<lambda>_. 1073741824),
     ShortHumanDuration = (\<lambda>_. ''10s''),
     SetStatusCondition = (\<lambda>cs c. (c # filter (\<lambda>d. cond_Type d \<noteq> cond_Type c) cs, c \<notin> set cs)),
     ContainsFinalizer = (\<lambda>m f. f \<in> set (om_Finalizers m)),
     AddFinalizer = (\<lambda>m f. m\<lparr>om_Finalizers := om_Finalizers m @ [f]\<rparr>),
     RemoveFinalizer = (\<lambda>m f. m\<lparr>om_Finalizers := filter (\<lambda>g. g \<noteq> f) (om_Finalizers m)\<rparr>)\<rparr>"

lemma refExterns_simps [simp]:
  "JSONToYAML refExterns raw = (if raw = [] then Inl (DecodeError ''empty'') else Inr raw)"
  "UnmarshalCommon refExterns raw d = Inr d"
  "UnmarshalApp refExterns raw = Inr refAppConfig"
  "UnmarshalDatabase refExterns raw = Inr refDatabaseConfig"
  "UnmarshalExecutor refExterns raw = Inr \<lparr>exc_Metric = \<lparr>met_Port = 9001\<rparr>\<rparr>"
  "SetOwner refExterns = refOwner"
  "QuantityValue refExterns q = 1073741824"
  "ShortHumanDuration refExterns dur = ''10s''"
  "ContainsFinalizer refExterns m f \<longleftrightarrow> f \<in> set (om_Finalizers m)"
  "AddFinalizer refExterns m f = m\<lparr>om_Finalizers := om_Finalizers m @ [f]\<rparr>"
  "RemoveFinalizer refExterns m f = m\<lparr>om_Finalizers := filter (\<lambda>g. g \<noteq> f) (om_Finalizers m)\<rparr>"
  by (simp_all add: refExterns_def)

lemma ownerLaw_refExterns [simp]: "ownerLaw refExterns"
  by (auto simp: ownerLaw_def refOwner_def)

lemma finalizerLaw_refExterns [simp]: "finalizerLaw refExterns"
  by (auto simp: finalizerLaw_def)

end
