(* ===== verification/Builders.thy ===== *)
theory Builders
  imports Externs
begin

text \<open>
  The package \<open>internal/controller/builders\<close>: parsing of the common application configuration and
  constructors of the Secret, the ServiceAccount, the Service, the Ingress and a ClusterRole.
  The lemmas give, for every branch of each builder, exactly when it fails and what it returns.
\<close>

section \<open>config.go\<close>

definition ConvertRawExtensionToYaml :: "externs \<Rightarrow> bytes \<Rightarrow> string result" where
  "ConvertRawExtensionToYaml x raw = JSONToYAML x raw"

definition defaultCommonConfig :: CommonApplicationConfig where
  "defaultCommonConfig =
     \<lparr>cac_HTTPPort = 8080, cac_HTTPNodePort = 0, cac_GRPCPort = 50051, cac_GRPCNodePort = 0,
      cac_MetricsPort = 9000, cac_Profiling = \<lparr>prof_Port = 1337\<rparr>,
      cac_GRPC = \<lparr>grpc_Enabled = False, grpc_TLS = \<lparr>tlsc_Enabled = False\<rparr>\<rparr>\<rparr>"

definition ParseCommonApplicationConfig :: "externs \<Rightarrow> bytes \<Rightarrow> CommonApplicationConfig result" where
  "ParseCommonApplicationConfig x raw =
     andThen (ConvertRawExtensionToYaml x raw) (\<lambda>appConfig.
     UnmarshalCommon x appConfig defaultCommonConfig)"

section \<open>secret.go, service_account.go\<close>

definition CreateSecret :: "externs \<Rightarrow> bytes \<Rightarrow> string \<Rightarrow> string \<Rightarrow> string \<Rightarrow> Secret result" where
  "CreateSecret x appConfig secretName secretNamespace filename =
     andThen (ConvertRawExtensionToYaml x appConfig) (\<lambda>armadaConfig.
     Inr \<lparr>sec_Meta = newMeta secretName secretNamespace Map.empty Map.empty,
          sec_Data = [filename \<mapsto> armadaConfig]\<rparr>)"

definition ServiceAccount :: "string \<Rightarrow> string \<Rightarrow> strmap \<Rightarrow> ServiceAccountConfig option \<Rightarrow> ServiceAccount" where
  "ServiceAccount name namespace labels config =
     (let sa = \<lparr>sa_Meta = newMeta name namespace labels Map.empty, sa_Secrets = [],
                sa_ImagePullSecrets = [], sa_AutomountServiceAccountToken = None\<rparr>
      in case config of
           None \<Rightarrow> sa
         | Some c \<Rightarrow> sa\<lparr>sa_AutomountServiceAccountToken := sac_AutomountServiceAccountToken c,
                        sa_Secrets := sac_Secrets c,
                        sa_ImagePullSecrets := sac_ImagePullSecrets c\<rparr>)"

section \<open>service.go\<close>

record PortConfig =
  ExposeHTTP :: bool
  ExposeGRPC :: bool
  ExposeMetrics :: bool
  ExposeProfiling :: bool

definition ServiceEnableApplicationPortsOnly :: PortConfig where
  "ServiceEnableApplicationPortsOnly =
     \<lparr>ExposeHTTP = True, ExposeGRPC = True, ExposeMetrics = True, ExposeProfiling = False\<rparr>"

definition ServiceEnableHTTPWithMetrics :: PortConfig where
  "ServiceEnableHTTPWithMetrics =
     \<lparr>ExposeHTTP = True, ExposeGRPC = False, ExposeMetrics = True, ExposeProfiling = False\<rparr>"

definition ServiceEnableGRPCWithMetrics :: PortConfig where
  "ServiceEnableGRPCWithMetrics =
     \<lparr>ExposeHTTP = False, ExposeGRPC = True, ExposeMetrics = True, ExposeProfiling = False\<rparr>"

definition ServiceEnableProfilingPortOnly :: PortConfig where
  "ServiceEnableProfilingPortOnly =
     \<lparr>ExposeHTTP = False, ExposeGRPC = False, ExposeMetrics = False, ExposeProfiling = True\<rparr>"

definition ServiceEnableMetricsPortOnly :: PortConfig where
  "ServiceEnableMetricsPortOnly =
     \<lparr>ExposeHTTP = False, ExposeGRPC = False, ExposeMetrics = True, ExposeProfiling = False\<rparr>"

definition Service ::
  "string \<Rightarrow> string \<Rightarrow> strmap \<Rightarrow> strmap \<Rightarrow> CommonApplicationConfig \<Rightarrow> PortConfig \<Rightarrow> Service" where
  "Service name namespace labels identityLabel appConfig portConfig =
     (let ports =
        (if ExposeHTTP portConfig then
           [\<lparr>sp_Name = ''web'', sp_Port = cac_HTTPPort appConfig,
             sp_NodePort = cac_HTTPNodePort appConfig, sp_Protocol = ''TCP''\<rparr>] else []) @
        (if ExposeGRPC portConfig then
           [\<lparr>sp_Name = ''grpc'', sp_Port = cac_GRPCPort appConfig,
             sp_NodePort = cac_GRPCNodePort appConfig, sp_Protocol = ''TCP''\<rparr>] else []) @
        (if ExposeMetrics portConfig then
           [\<lparr>sp_Name = ''metrics'', sp_Port = cac_MetricsPort appConfig,
             sp_NodePort = 0, sp_Protocol = ''TCP''\<rparr>] else []) @
        (if ExposeProfiling portConfig then
           [\<lparr>sp_Name = ''profiling'', sp_Port = prof_Port (cac_Profiling appConfig),
             sp_NodePort = 0, sp_Protocol = ''TCP''\<rparr>] else []);
      service = \<lparr>svc_Meta = newMeta name namespace labels Map.empty,
                 svc_Spec = \<lparr>ss_Selector = identityLabel, ss_Ports = ports,
                             ss_Type = ServiceTypeClusterIP\<rparr>\<rparr>
      in if positive (cac_HTTPNodePort appConfig) \<or> positive (cac_GRPCNodePort appConfig)
         then service\<lparr>svc_Spec := (svc_Spec service)\<lparr>ss_Type := ServiceTypeNodePort\<rparr>\<rparr>
         else service)"

section \<open>ingress.go\<close>

fun ingressRulesFrom :: "string \<Rightarrow> string \<Rightarrow> int32 \<Rightarrow> string list \<Rightarrow> IngressRule list" where
  "ingressRulesFrom serviceName path servicePort [] = []"
| "ingressRulesFrom serviceName path servicePort (val # hostnames) =
     \<lparr>ir_Host = val,
      ir_Paths = [\<lparr>hp_Path = path, hp_PathType = ''Prefix'', hp_ServiceName = serviceName,
                   hp_ServicePort = servicePort\<rparr>]\<rparr>
     # ingressRulesFrom serviceName path servicePort hostnames"

definition Ingress ::
  "string \<Rightarrow> string \<Rightarrow> strmap \<Rightarrow> strmap \<Rightarrow> string list \<Rightarrow> string \<Rightarrow> string \<Rightarrow> string \<Rightarrow> int32
     \<Rightarrow> Ingress result" where
  "Ingress name namespace labels annotations hostnames serviceName secret path servicePort =
     (if length hostnames = 0 then Inl NoHostnames
      else if \<not> positive servicePort then Inl PortNotPositive
      else Inr \<lparr>ing_Meta = newMeta name namespace labels annotations,
                ing_Spec = \<lparr>is_TLS = [\<lparr>tls_Hosts = hostnames, tls_SecretName = secret\<rparr>],
                            is_Rules = ingressRulesFrom serviceName path servicePort hostnames\<rparr>\<rparr>)"

section \<open>roles.go\<close>

abbreviation policyRule :: "string list \<Rightarrow> string \<Rightarrow> string list \<Rightarrow> PolicyRule" where
  "policyRule verbs apiGroup resources \<equiv>
     \<lparr>rule_Verbs = verbs, rule_APIGroups = [apiGroup], rule_Resources = resources\<rparr>"

definition CreateClusterRole :: "string \<Rightarrow> string \<Rightarrow> ClusterRole" where
  "CreateClusterRole crdName crdNamespace =
     (let podRules = policyRule [''get'', ''list'', ''watch'', ''create'', ''delete'',
            ''deletecollection'', ''patch'', ''update''] '''' [''pods''];
          eventRules = policyRule [''get'', ''list'', ''watch'', ''delete'', ''deletecollection'',
            ''patch''] '''' [''events''];
          serviceRules = policyRule [''get'', ''list'', ''watch'', ''create'', ''delete'',
            ''deletecollection''] '''' [''services''];
          nodeRules = policyRule [''get'', ''list'', ''watch''] '''' [''nodes''];
          nodeProxyRules = policyRule [''get''] '''' [''node/proxy''];
          userRules = policyRule [''impersonate''] '''' [''users'', ''groups''];
          ingressRules = policyRule [''get'', ''list'', ''watch'', ''create'', ''delete'',
            ''deletecollection''] ''networking.k8s.io'' [''ingresses''];
          tokenRules = policyRule [''create''] '''' [''serviceaccounts/token''];
          tokenReviewRules = policyRule [''create''] ''authentication.k8s.io'' [''tokenreviews'']
      in \<lparr>crole_Meta = newMeta crdName crdNamespace Map.empty Map.empty,
          crole_Rules = [podRules, eventRules, serviceRules, nodeRules, nodeProxyRules, userRules,
            ingressRules, tokenRules, tokenReviewRules]\<rparr>)"

section \<open>Lemmas\<close>

lemma ConvertRawExtensionToYaml_eq [simp]: "ConvertRawExtensionToYaml x raw = JSONToYAML x raw"
  by (simp add: ConvertRawExtensionToYaml_def)

lemma CreateSecret_eq_Inr [go_simps]:
  "CreateSecret x raw n ns f = Inr s \<longleftrightarrow>
     (\<exists>yaml. JSONToYAML x raw = Inr yaml \<and>
        s = \<lparr>sec_Meta = newMeta n ns Map.empty Map.empty, sec_Data = [f \<mapsto> yaml]\<rparr>)"
  by (auto simp: CreateSecret_def go_simps)

lemma ServiceAccount_meta [simp]: "sa_Meta (ServiceAccount n ns l c) = newMeta n ns l Map.empty"
  by (simp add: ServiceAccount_def Let_def split: option.split)

lemma Service_meta [simp]: "svc_Meta (Service n ns l i a p) = newMeta n ns l Map.empty"
  by (simp add: Service_def Let_def)

lemma Service_selector [simp]: "ss_Selector (svc_Spec (Service n ns l i a p)) = i"
  by (simp add: Service_def Let_def)

lemma Service_type:
  "ss_Type (svc_Spec (Service n ns l i a p)) = ServiceTypeNodePort \<longleftrightarrow>
     positive (cac_HTTPNodePort a) \<or> positive (cac_GRPCNodePort a)"
  by (simp add: Service_def Let_def)

lemma Service_port_names:
  "map sp_Name (ss_Ports (svc_Spec (Service n ns l i a p))) =
     (if ExposeHTTP p then [''web''] else []) @ (if ExposeGRPC p then [''grpc''] else []) @
     (if ExposeMetrics p then [''metrics''] else []) @ (if ExposeProfiling p then [''profiling''] else [])"
  by (simp add: Service_def Let_def)

lemma ingressRulesFrom_map:
  "ingressRulesFrom s p port hs = map (\<lambda>h. \<lparr>ir_Host = h, ir_Paths = [\<lparr>hp_Path = p,
     hp_PathType = ''Prefix'', hp_ServiceName = s, hp_ServicePort = port\<rparr>]\<rparr>) hs"
  by (induction hs) simp_all

lemma Ingress_eq_Inr [go_simps]:
  "Ingress n ns l a hs s sec p port = Inr ing \<longleftrightarrow> hs \<noteq> [] \<and> positive port \<and>
     ing = \<lparr>ing_Meta = newMeta n ns l a,
            ing_Spec = \<lparr>is_TLS = [\<lparr>tls_Hosts = hs, tls_SecretName = sec\<rparr>],
                        is_Rules = ingressRulesFrom s p port hs\<rparr>\<rparr>"
  by (auto simp: Ingress_def)

lemma Ingress_eq_Inl [go_simps]:
  "Ingress n ns l a hs s sec p port = Inl e \<longleftrightarrow>
     (hs = [] \<and> e = NoHostnames) \<or> (hs \<noteq> [] \<and> \<not> positive port \<and> e = PortNotPositive)"
  by (auto simp: Ingress_def)

end
