(* ===== verification/GoStdlib.thy ===== *)
theory GoStdlib
  imports Prelude
begin

text \<open>
  What the operator uses of Go's standard library: \<open>sha256.Sum256\<close> and \<open>hex.EncodeToString\<close>
  for the configuration checksum, and the \<open>%d\<close> verb of \<open>fmt.Sprintf\<close>. The lemmas show that
  the two encodings lose nothing and that a checksum always has 64 lower-case digits.
\<close>

section \<open>Decimal printing\<close>

definition digitChar :: "nat \<Rightarrow> char" where
  "digitChar d = char_of (48 + d)"

fun showNat :: "nat \<Rightarrow> string" where
  "showNat n = (if n < 10 then [digitChar n] else showNat (n div 10) @ [digitChar (n mod 10)])"

declare showNat.simps [simp del]

definition showInt :: "int \<Rightarrow> string" where
  "showInt i = (if i < 0 then CHR ''-'' # showNat (nat (- i)) else showNat (nat i))"

text \<open>The reader that inverts it, used only to state that printing is injective.\<close>

definition digitVal :: "char \<Rightarrow> nat" where
  "digitVal c = of_char c - 48"

definition readNat :: "string \<Rightarrow> nat" where
  "readNat s = foldl (\<lambda>acc c. 10 * acc + digitVal c) 0 s"

lemma digitVal_digitChar [simp]: "d < 10 \<Longrightarrow> digitVal (digitChar d) = d"
  by (simp add: digitVal_def digitChar_def of_char_of)

lemma readNat_snoc [simp]: "readNat (s @ [c]) = 10 * readNat s + digitVal c"
  by (simp add: readNat_def)

lemma readNat_showNat: "readNat (showNat n) = n"
proof (induction n rule: showNat.induct)
  case (1 n)
  show ?case
  proof (cases "n < 10")
    case True
    then show ?thesis by (subst showNat.simps) (simp add: readNat_def)
  next
    case False
    with 1 have "readNat (showNat (n div 10)) = n div 10" by simp
    with False show ?thesis by (subst showNat.simps) simp
  qed
qed

lemma showNat_digits: "c \<in> set (showNat n) \<Longrightarrow> \<exists>d<10. c = digitChar d"
proof (induction n rule: showNat.induct)
  case (1 n)
  show ?case
  proof (cases "n < 10")
    case True
    with 1 show ?thesis by (auto simp: showNat.simps [of n])
  next
    case False
    then have "showNat n = showNat (n div 10) @ [digitChar (n mod 10)]"
      by (simp add: showNat.simps [of n])
    with 1 False have "c \<in> set (showNat (n div 10)) \<or> c = digitChar (n mod 10)" by auto
    moreover have "n mod 10 < 10" by simp
    ultimately show ?thesis using 1 False by blast
  qed
qed

lemma of_char_digitChar: "d < 10 \<Longrightarrow> (of_char (digitChar d) :: nat) = 48 + d"
  by (simp add: digitChar_def of_char_of)

lemma digitChar_not_minus:
  assumes "d < 10"
  shows "digitChar d \<noteq> CHR ''-''"
proof
  assume "digitChar d = CHR ''-''"
  then have "(of_char (digitChar d) :: nat) = of_char CHR ''-''" by simp
  with of_char_digitChar [OF assms] show False by simp
qed

lemma showNat_nonempty: "showNat n \<noteq> []"
  by (subst showNat.simps) simp

lemma showNat_not_minus: "showNat n \<noteq> CHR ''-'' # s"
proof
  assume "showNat n = CHR ''-'' # s"
  then have "CHR ''-'' \<in> set (showNat n)" by simp
  then show False using showNat_digits digitChar_not_minus by metis
qed

lemma showInt_inject: "showInt i = showInt j \<longleftrightarrow> i = j"
proof
  assume eq: "showInt i = showInt j"
  have "nat \<bar>i\<bar> = nat \<bar>j\<bar> \<and> (i < 0 \<longleftrightarrow> j < 0)"
    using eq showNat_not_minus [symmetric] showNat_not_minus
    by (auto simp: showInt_def split: if_splits)
      (metis readNat_showNat abs_of_neg abs_of_nonneg linorder_not_less)+
  then show "i = j" by auto
qed simp

section \<open>SHA-256\<close>

unbundle bit_operations_syntax

text \<open>
  The constants are the first 32 bits of the fractional parts of square and cube roots of primes.
  \<open>rootBits r n b 0\<close> is the greatest \<open>b\<close>-bit number whose \<open>r\<close>-th power is at most \<open>n\<close>.
\<close>

fun rootBits :: "nat \<Rightarrow> nat \<Rightarrow> nat \<Rightarrow> nat \<Rightarrow> nat" where
  "rootBits r n 0 root = root"
| "rootBits r n (Suc b) root =
     rootBits r n b (if (root + 2 ^ b) ^ r \<le> n then root + 2 ^ b else root)"

lemma rootBits_root:
  "root ^ r \<le> n \<Longrightarrow> n < (root + 2 ^ b) ^ r \<Longrightarrow> rootBits r n b root ^ r \<le> n \<and> n < Suc (rootBits r n b root) ^ r"
proof (induction b arbitrary: root)
  case (Suc b)
  then show ?case using Suc.IH [of root] Suc.IH [of "root + 2 ^ b"] by (simp add: mult_2 add.assoc)
qed simp

definition rootFraction :: "nat \<Rightarrow> nat \<Rightarrow> 32 word" where
  "rootFraction r prime = word_of_nat (rootBits r (prime * 2 ^ (32 * r)) 37 0)"

definition sha256Primes :: "nat list" where
  "sha256Primes = [
   2, 3, 5, 7, 11, 13, 17, 19, 23, 29, 31, 37, 41, 43, 47, 53,
   59, 61, 67, 71, 73, 79, 83, 89, 97, 101, 103, 107, 109, 113, 127, 131,
   137, 139, 149, 151, 157, 163, 167, 173, 179, 181, 191, 193, 197, 199, 211, 223,
   227, 229, 233, 239, 241, 251, 257, 263, 269, 271, 277, 281, 283, 293, 307, 311]"

definition sha256K :: "32 word list" where
  "sha256K = map (rootFraction 3) sha256Primes"

type_synonym shaState =
  "32 word \<times> 32 word \<times> 32 word \<times> 32 word \<times> 32 word \<times> 32 word \<times> 32 word \<times> 32 word"

definition sha256Init :: shaState where
  "sha256Init = (rootFraction 2 2, rootFraction 2 3, rootFraction 2 5, rootFraction 2 7,
     rootFraction 2 11, rootFraction 2 13, rootFraction 2 17, rootFraction 2 19)"

definition rotr :: "nat \<Rightarrow> 32 word \<Rightarrow> 32 word" where
  "rotr n x = drop_bit n x OR push_bit (32 - n) x"

fun shaRound :: "shaState \<Rightarrow> 32 word \<Rightarrow> 32 word \<Rightarrow> shaState" where
  "shaRound (a, b, c, d, e, f, g, h) k w =
     (let t1 = h + (rotr 6 e XOR rotr 11 e XOR rotr 25 e) + ((e AND f) XOR (NOT e AND g)) + k + w;
          t2 = (rotr 2 a XOR rotr 13 a XOR rotr 22 a) + ((a AND b) XOR (a AND c) XOR (b AND c))
      in (t1 + t2, a, b, c, d + t1, e, f, g))"

fun shaRounds :: "32 word list \<Rightarrow> 32 word list \<Rightarrow> shaState \<Rightarrow> shaState" where
  "shaRounds (k # ks) (w # ws) s = shaRounds ks ws (shaRound s k w)"
| "shaRounds _ _ s = s"

text \<open>The message schedule, extended one word at a time from the last sixteen.\<close>

fun shaSchedule :: "nat \<Rightarrow> 32 word list \<Rightarrow> 32 word list" where
  "shaSchedule 0 w = w"
| "shaSchedule (Suc n) w =
     (let t = length w; w2 = w ! (t - 2); w15 = w ! (t - 15)
      in shaSchedule n (w @ [(rotr 17 w2 XOR rotr 19 w2 XOR drop_bit 10 w2) + w ! (t - 7)
                             + (rotr 7 w15 XOR rotr 18 w15 XOR drop_bit 3 w15) + w ! (t - 16)]))"

fun shaAdd :: "shaState \<Rightarrow> shaState \<Rightarrow> shaState" where
  "shaAdd (a, b, c, d, e, f, g, h) (a', b', c', d', e', f', g', h') =
     (a + a', b + b', c + c', d + d', e + e', f + f', g + g', h + h')"

definition shaBlock :: "shaState \<Rightarrow> 32 word list \<Rightarrow> shaState" where
  "shaBlock s block = shaAdd s (shaRounds sha256K (shaSchedule 48 block) s)"

fun beWords :: "bytes \<Rightarrow> 32 word list" where
  "beWords (a # b # c # d # bs) =
     (push_bit 24 (of_char a) OR push_bit 16 (of_char b) OR push_bit 8 (of_char c) OR of_char d) # beWords bs"
| "beWords _ = []"

fun shaBlocks :: "nat \<Rightarrow> 32 word list \<Rightarrow> shaState \<Rightarrow> shaState" where
  "shaBlocks 0 ws s = s"
| "shaBlocks (Suc n) ws s = shaBlocks n (drop 16 ws) (shaBlock s (take 16 ws))"

definition beBytes :: "nat \<Rightarrow> nat \<Rightarrow> bytes" where
  "beBytes n v = map (\<lambda>i. char_of (v div 256 ^ (n - 1 - i))) [0..<n]"

text \<open>One bit 1, zeros up to eight bytes short of a block, the length in bits.\<close>

definition shaPad :: "bytes \<Rightarrow> bytes" where
  "shaPad m = m @ [CHR 0x80] @ replicate ((119 - length m mod 64) mod 64) (CHR 0x00) @ beBytes 8 (8 * length m)"

fun shaOutput :: "shaState \<Rightarrow> bytes" where
  "shaOutput (a, b, c, d, e, f, g, h) = concat (map (\<lambda>w. beBytes 4 (unat w)) [a, b, c, d, e, f, g, h])"

definition Sum256 :: "bytes \<Rightarrow> bytes" where
  "Sum256 m = (let p = shaPad m in shaOutput (shaBlocks (length p div 64) (beWords p) sha256Init))"

lemma length_beBytes [simp]: "length (beBytes n v) = n"
  by (simp add: beBytes_def)

lemma length_shaPad: "length (shaPad m) mod 64 = 0"
proof -
  define n r q where "n = length m" and "r = n mod 64" and "q = n div 64"
  have r: "r < 64" and n: "n = 64 * q + r" by (simp_all add: r_def q_def)
  have "(119 - r) mod 64 = (if r \<le> 55 then 55 - r else 119 - r)"
    using r by (auto simp: mod_if)
  then have "n + (9 + (119 - r) mod 64) = 64 * (q + (if r \<le> 55 then 1 else 2))"
    using r n by simp
  moreover have "length (shaPad m) = n + (9 + (119 - r) mod 64)"
    by (simp add: shaPad_def n_def r_def)
  ultimately show ?thesis by simp
qed

lemma length_shaOutput [simp]: "length (shaOutput s) = 32"
  by (cases s rule: shaOutput.cases) simp

lemma length_Sum256 [simp]: "length (Sum256 m) = 32"
  by (simp add: Sum256_def Let_def)

section \<open>Hexadecimal encoding\<close>

definition hexChar :: "nat \<Rightarrow> char" where
  "hexChar d = (if d < 10 then char_of (48 + d) else char_of (87 + d))"

definition hexVal :: "char \<Rightarrow> nat" where
  "hexVal c = (let v = of_char c in if v < 58 then v - 48 else v - 87)"

definition hexEncode :: "bytes \<Rightarrow> string" where
  "hexEncode bs = concat (map (\<lambda>b. [hexChar (of_char b div 16), hexChar (of_char b mod 16)]) bs)"

fun hexDecode :: "string \<Rightarrow> bytes" where
  "hexDecode (a # b # s) = char_of (16 * hexVal a + hexVal b) # hexDecode s"
| "hexDecode _ = []"

lemma hexVal_hexChar [simp]: "d < 16 \<Longrightarrow> hexVal (hexChar d) = d"
  by (auto simp: hexVal_def hexChar_def of_char_of Let_def)

lemma of_char_div_16: "(of_char c :: nat) div 16 < 16"
proof -
  have "(of_char c :: nat) < 16 * 16" using nat_of_char_less_256 [of c] by linarith
  then show ?thesis by (rule less_mult_imp_div_less)
qed

lemma hexDecode_hexEncode: "hexDecode (hexEncode bs) = bs"
proof (induction bs)
  case Nil
  show ?case by (simp add: hexEncode_def)
next
  case (Cons b bs)
  have "16 * hexVal (hexChar (of_char b div 16)) + hexVal (hexChar (of_char b mod 16)) = (of_char b :: nat)"
    by (simp add: of_char_div_16)
  with Cons show ?case by (simp add: hexEncode_def)
qed

lemma length_hexEncode [simp]: "length (hexEncode bs) = 2 * length bs"
  by (induction bs) (simp_all add: hexEncode_def)

end
