(* ===== verification/CommonHelpers.thy ===== *)
theory CommonHelpers
  imports Builders GoStdlib
begin

text \<open>
  The pure part of \<open>internal/controller/install/common_helpers.go\<close> and \<open>constants.go\<close>: names,
  labels, checksums, environments, volumes, probes, ports, annotations, profiling objects and the
  reading of a Job's conditions. The lemmas say which entry of a merged map or label set wins, which
  volumes and mounts a configuration asks for, and that the two ways of reading a Job's conditions
  agree.
\<close>

section \<open>Constants\<close>

definition volumeConfigKey :: string where
  "volumeConfigKey = ''user-config''"

definition operatorFinalizer :: string where
  "operatorFinalizer = ''install.armadaproject.io/finalizer''"

text \<open>Durations are in nanoseconds, as \<open>time.Duration\<close> is.\<close>

definition jobTimeout :: int64 where
  "jobTimeout = 120000000000"

definition jobPollInterval :: int64 where
  "jobPollInterval = 5000000000"

definition defaultPrometheusInterval :: int64 where
  "defaultPrometheusInterval = 1000000000"

definition appConfigFlag :: string where
  "appConfigFlag = ''--config''"

definition appConfigFilepath :: string where
  "appConfigFilepath = ''/config/application_config.yaml''"

section \<open>Names, labels, checksums\<close>

definition ImageString :: "Image \<Rightarrow> string" where
  "ImageString img = im_Repository img @ '':'' @ im_Tag img"

definition MergeMaps :: "('k \<rightharpoonup> 'v) list \<Rightarrow> ('k \<rightharpoonup> 'v)" where
  "MergeMaps src = foldl (\<lambda>merged m. merged ++ m) Map.empty src"

definition GetConfigName :: "string \<Rightarrow> string" where
  "GetConfigName name = name @ ''-config''"

definition GetConfigFilename :: "string \<Rightarrow> string" where
  "GetConfigFilename name = GetConfigName name @ ''.yaml''"

definition GenerateChecksumConfig :: "bytes \<Rightarrow> string" where
  "GenerateChecksumConfig raw = hexEncode (Sum256 raw)"

definition IdentityLabel :: "string \<Rightarrow> strmap" where
  "IdentityLabel name = [''app'' \<mapsto> name]"

definition AdditionalLabels :: "strmap \<Rightarrow> strmap" where
  "AdditionalLabels label = Map.empty ++ label"

definition AllLabels :: "string \<Rightarrow> strmap list \<Rightarrow> strmap" where
  "AllLabels name labelMaps =
     (let baseLabels = foldl (\<lambda>base labels. MergeMaps [base, AdditionalLabels labels])
                         [''release'' \<mapsto> name] labelMaps
      in MergeMaps [baseLabels, IdentityLabel name])"

section \<open>Scanned configuration\<close>

definition ExtractPulsarConfig :: "externs \<Rightarrow> bytes \<Rightarrow> PulsarConfig result" where
  "ExtractPulsarConfig x config =
     andThen (ConvertRawExtensionToYaml x config) (\<lambda>appConfig.
     andThen (UnmarshalApp x appConfig) (\<lambda>asConfig.
     Inr (app_Pulsar asConfig)))"

definition GetServerScheme :: "TLSConfig \<Rightarrow> URIScheme" where
  "GetServerScheme tlsConfig = (if tlsc_Enabled tlsConfig then URISchemeHTTPS else URISchemeHTTP)"

section \<open>Jobs\<close>

fun anyFinished :: "JobCondition list \<Rightarrow> bool" where
  "anyFinished [] = False"
| "anyFinished (c # cs) =
     (if (jc_Type c = JobComplete \<or> jc_Type c = JobFailed) \<and> jc_Status c = ConditionTrue
      then True else anyFinished cs)"

definition isJobFinished :: "Job \<Rightarrow> bool" where
  "isJobFinished job = anyFinished (job_Conditions job)"

fun firstTrueCondition :: "JobCondition list \<Rightarrow> JobConditionType \<Rightarrow> JobCondition option" where
  "firstTrueCondition [] t = None"
| "firstTrueCondition (c # cs) t =
     (if jc_Type c = t \<and> jc_Status c = ConditionTrue then Some c else firstTrueCondition cs t)"

definition getTrueJobCondition :: "Job \<Rightarrow> JobConditionType \<Rightarrow> JobCondition option" where
  "getTrueJobCondition job conditionType = firstTrueCondition (job_Conditions job) conditionType"

section \<open>Environment, probes, volumes\<close>

definition createEnv :: "EnvVar list \<Rightarrow> EnvVar list" where
  "createEnv crdEnv =
     [envFieldRef ''SERVICE_ACCOUNT'' ''spec.serviceAccountName'',
      envFieldRef ''POD_NAMESPACE'' ''metadata.namespace''] @ crdEnv"

definition CreateProbesWithScheme :: "URIScheme \<Rightarrow> Probe \<times> Probe" where
  "CreateProbesWithScheme scheme =
     (\<lparr>pr_Path = ''/health'', pr_Port = FromString ''http'', pr_Scheme = scheme,
       pr_InitialDelaySeconds = 5, pr_TimeoutSeconds = 5, pr_FailureThreshold = 2\<rparr>,
      \<lparr>pr_Path = ''/health'', pr_Port = FromString ''http'', pr_Scheme = scheme,
       pr_InitialDelaySeconds = 10, pr_TimeoutSeconds = 10, pr_FailureThreshold = 3\<rparr>)"

definition createVolumes :: "string \<Rightarrow> Volume list \<Rightarrow> Volume list" where
  "createVolumes configVolumeSecretName crdVolumes =
     [\<lparr>vol_Name = volumeConfigKey, vol_Source = SecretVolumeSource configVolumeSecretName []\<rparr>]
     @ crdVolumes"

definition createVolumeMounts :: "string \<Rightarrow> VolumeMount list \<Rightarrow> VolumeMount list" where
  "createVolumeMounts configVolumeSecretName crdVolumeMounts =
     [\<lparr>vm_Name = volumeConfigKey, vm_ReadOnly = True,
       vm_MountPath = ''/config/application_config.yaml'', vm_SubPath = configVolumeSecretName\<rparr>]
     @ crdVolumeMounts"

definition createPulsarVolumeMounts :: "PulsarConfig \<Rightarrow> VolumeMount list" where
  "createPulsarVolumeMounts pulsarConfig =
     (if pul_AuthenticationEnabled pulsarConfig then
        [\<lparr>vm_Name = ''pulsar-token'', vm_ReadOnly = True, vm_MountPath = ''/pulsar/tokens'',
          vm_SubPath = ''''\<rparr>] else []) @
     (if pul_TlsEnabled pulsarConfig then
        [\<lparr>vm_Name = ''pulsar-ca'', vm_ReadOnly = True, vm_MountPath = ''/pulsar/ca'',
          vm_SubPath = ''''\<rparr>] else [])"

definition createPulsarVolumes :: "PulsarConfig \<Rightarrow> Volume list" where
  "createPulsarVolumes pulsarConfig =
     (if pul_AuthenticationEnabled pulsarConfig then
        [\<lparr>vol_Name = ''pulsar-token'',
          vol_Source = SecretVolumeSource
            (if pul_AuthenticationSecret pulsarConfig \<noteq> '''' then pul_AuthenticationSecret pulsarConfig
             else ''armada-pulsar-token-armada-admin'')
            [\<lparr>ktp_Key = ''TOKEN'', ktp_Path = ''pulsar-token''\<rparr>]\<rparr>] else []) @
     (if pul_TlsEnabled pulsarConfig then
        [\<lparr>vol_Name = ''pulsar-ca'',
          vol_Source = SecretVolumeSource
            (if pul_Cacert pulsarConfig \<noteq> '''' then pul_Cacert pulsarConfig
             else ''armada-pulsar-ca-tls'')
            [\<lparr>ktp_Key = ''ca.crt'', ktp_Path = ''ca.crt''\<rparr>]\<rparr>] else [])"

definition addGoMemLimit :: "externs \<Rightarrow> EnvVar list \<Rightarrow> ResourceRequirements \<Rightarrow> EnvVar list" where
  "addGoMemLimit x env resources =
     (let val = memoryValue x (rr_Limits resources)
      in if val \<noteq> 0 then env @ [envValue ''GOMEMLIMIT'' (showInt (sint val) @ ''B'')] else env)"

section \<open>Ingress annotations\<close>

datatype BackendProtocol = BackendProtocolGRPC | BackendProtocolHTTP

fun protocolString :: "BackendProtocol \<Rightarrow> string" where
  "protocolString BackendProtocolGRPC = ''GRPC''"
| "protocolString BackendProtocolHTTP = ''HTTP''"

definition buildIngressAnnotations ::
  "IngressConfig \<Rightarrow> strmap \<Rightarrow> BackendProtocol \<Rightarrow> bool \<Rightarrow> strmap" where
  "buildIngressAnnotations ingressConfig baseAnnotations protocol useTLS =
     (let a0 = [''kubernetes.io/ingress.class'' \<mapsto> ic_IngressClass ingressConfig];
          a1 = (if useTLS then a0
                  (''nginx.ingress.kubernetes.io/backend-protocol'' \<mapsto> protocolString protocol @ ''S'',
                   ''nginx.ingress.kubernetes.io/ssl-passthrough'' \<mapsto> ''true'')
                else a0(''nginx.ingress.kubernetes.io/backend-protocol'' \<mapsto> protocolString protocol));
          a2 = a1 ++ baseAnnotations;
          a3 = (if ic_ClusterIssuer ingressConfig \<noteq> '''' then a2
                  (''certmanager.k8s.io/cluster-issuer'' \<mapsto> ic_ClusterIssuer ingressConfig,
                   ''cert-manager.io/cluster-issuer'' \<mapsto> ic_ClusterIssuer ingressConfig)
                else a2)
      in a3 ++ ic_Annotations ingressConfig)"

section \<open>Ports, affinity, strategy, images\<close>

definition newContainerPortGRPC :: "CommonApplicationConfig \<Rightarrow> ContainerPort" where
  "newContainerPortGRPC config =
     \<lparr>cp_Name = ''grpc'', cp_ContainerPort = cac_GRPCPort config, cp_Protocol = ''TCP''\<rparr>"

definition newContainerPortHTTP :: "CommonApplicationConfig \<Rightarrow> ContainerPort" where
  "newContainerPortHTTP config =
     \<lparr>cp_Name = ''http'', cp_ContainerPort = cac_HTTPPort config, cp_Protocol = ''TCP''\<rparr>"

definition newContainerPortMetrics :: "CommonApplicationConfig \<Rightarrow> ContainerPort" where
  "newContainerPortMetrics config =
     \<lparr>cp_Name = ''metrics'', cp_ContainerPort = cac_MetricsPort config, cp_Protocol = ''TCP''\<rparr>"

definition newContainerPortProfiling :: "CommonApplicationConfig \<Rightarrow> ContainerPort" where
  "newContainerPortProfiling config =
     \<lparr>cp_Name = ''profiling'', cp_ContainerPort = prof_Port (cac_Profiling config),
      cp_Protocol = ''TCP''\<rparr>"

definition newContainerPortsAll :: "CommonApplicationConfig \<Rightarrow> ContainerPort list" where
  "newContainerPortsAll config =
     [newContainerPortGRPC config, newContainerPortHTTP config, newContainerPortMetrics config] @
     (if positive (prof_Port (cac_Profiling config)) then [newContainerPortProfiling config] else [])"

definition newContainerPortsHTTPWithMetrics :: "CommonApplicationConfig \<Rightarrow> ContainerPort list" where
  "newContainerPortsHTTPWithMetrics config =
     [newContainerPortHTTP config, newContainerPortMetrics config] @
     (if positive (prof_Port (cac_Profiling config)) then [newContainerPortProfiling config] else [])"

definition newContainerPortsMetrics :: "CommonApplicationConfig \<Rightarrow> ContainerPort list" where
  "newContainerPortsMetrics config =
     [newContainerPortMetrics config] @
     (if positive (prof_Port (cac_Profiling config)) then [newContainerPortProfiling config] else [])"

definition defaultAffinity :: "string \<Rightarrow> string \<Rightarrow> int32 \<Rightarrow> Affinity" where
  "defaultAffinity topologyKey app weight =
     \<lparr>aff_PreferredPodAffinity = [\<lparr>wpat_Weight = weight, wpat_TopologyKey = topologyKey,
        wpat_MatchExpressions =
          [\<lparr>lsr_Key = ''app'', lsr_Operator = ''In'', lsr_Values = [app]\<rparr>]\<rparr>]\<rparr>"

definition defaultDeploymentStrategy :: "int32 \<Rightarrow> DeploymentStrategy" where
  "defaultDeploymentStrategy maxUnavailable =
     \<lparr>ds_Type = ''RollingUpdate'', ds_MaxUnavailable = Some (IntValLiteral maxUnavailable)\<rparr>"

definition defaultAlpineImage :: string where
  "defaultAlpineImage = ''alpine:3.20''"

definition migrationDbWaitImageString :: "Image option \<Rightarrow> string" where
  "migrationDbWaitImageString img =
     (case img of Some i \<Rightarrow> ImageString i | None \<Rightarrow> ''postgres:15.2-alpine'')"

section \<open>Owner references and profiling objects\<close>

text \<open>
  \<open>controllerutil.SetOwnerReference(owner, object, scheme)\<close> on a non-nil object: the external
  function works on the object's metadata, reached through the record's selector and update.
\<close>

definition SetOwnerReference ::
  "externs \<Rightarrow> string \<Rightarrow> ObjectMeta \<Rightarrow> ('a \<Rightarrow> ObjectMeta) \<Rightarrow> ((ObjectMeta \<Rightarrow> ObjectMeta) \<Rightarrow> 'a \<Rightarrow> 'a)
     \<Rightarrow> 'a \<Rightarrow> 'a result" where
  "SetOwnerReference x ownerKind owner getMeta updateMeta object =
     andThen (SetOwner x ownerKind owner (getMeta object)) (\<lambda>m. Inr (updateMeta (\<lambda>_. m) object))"

definition newProfilingService ::
  "externs \<Rightarrow> string \<Rightarrow> ObjectMeta \<Rightarrow> CommonApplicationConfig \<Rightarrow> Service result" where
  "newProfilingService x ownerKind object commonConfig =
     (let profilingService = Service (om_Name object @ ''-profiling'') (om_Namespace object)
            (AllLabels (om_Name object) [om_Labels object]) (IdentityLabel (om_Name object))
            commonConfig ServiceEnableProfilingPortOnly
      in SetOwnerReference x ownerKind object svc_Meta svc_Meta_update profilingService)"

definition newProfilingIngress ::
  "externs \<Rightarrow> string \<Rightarrow> ObjectMeta \<Rightarrow> CommonApplicationConfig \<Rightarrow> IngressConfig option
     \<Rightarrow> Ingress option result" where
  "newProfilingIngress x ownerKind object commonConfig ingressConfig =
     (case ingressConfig of
        None \<Rightarrow> Inr None
      | Some ic \<Rightarrow>
          let baseAnnotations = [''nginx.ingress.kubernetes.io/ssl-redirect'' \<mapsto> ''true''];
              annotations = buildIngressAnnotations ic baseAnnotations BackendProtocolHTTP False
          in andThen (Ingress (om_Name object @ ''-profiling'') (om_Namespace object)
                 (AllLabels (om_Name object) [om_Labels object, ic_Labels ic]) annotations
                 (ic_Hostnames ic) (om_Name object @ ''-profiling'') (om_Name object @ ''-service-tls'')
                 ''/debug/pprof/'' (prof_Port (cac_Profiling commonConfig)))
               (\<lambda>profilingIngress.
             andThen (SetOwnerReference x ownerKind object ing_Meta ing_Meta_update profilingIngress)
               (\<lambda>owned. Inr (Some owned))))"

definition newProfilingComponents ::
  "externs \<Rightarrow> string \<Rightarrow> ObjectMeta \<Rightarrow> CommonApplicationConfig \<Rightarrow> IngressConfig option
     \<Rightarrow> (Service \<times> Ingress option) result" where
  "newProfilingComponents x ownerKind object commonConfig ingressConfig =
     andThen (wrapf ''error creating profiling service''
       (newProfilingService x ownerKind object commonConfig)) (\<lambda>profilingService.
     andThen (wrapf ''error creating profiling ingress''
       (newProfilingIngress x ownerKind object commonConfig ingressConfig)) (\<lambda>profilingIngress.
     Inr (profilingService, profilingIngress)))"

section \<open>Merged maps and labels\<close>

lemma MergeMaps_Nil [simp]: "MergeMaps [] = Map.empty"
  by (simp add: MergeMaps_def)

lemma MergeMaps_snoc [simp]: "MergeMaps (src @ [m]) = MergeMaps src ++ m"
  by (simp add: MergeMaps_def)

lemma MergeMaps_pair [simp]: "MergeMaps [a, b] = a ++ b"
  by (simp add: MergeMaps_def)

text \<open>The value of a key is the one of the last source map that has it.\<close>

lemma MergeMaps_last: "m k = Some v \<Longrightarrow> MergeMaps (src @ [m]) k = Some v"
  by simp

lemma MergeMaps_skip: "m k = None \<Longrightarrow> MergeMaps (src @ [m]) k = MergeMaps src k"
  by (simp add: map_add_def)

lemma MergeMaps_skips:
  "(\<forall>m \<in> set after. m k = None) \<Longrightarrow> MergeMaps (src @ after) k = MergeMaps src k"
proof (induction after rule: rev_induct)
  case (snoc m after)
  then show ?case using MergeMaps_skip [of m k "src @ after"] by simp
qed simp

lemma MergeMaps_None: "MergeMaps src k = None \<longleftrightarrow> (\<forall>m \<in> set src. m k = None)"
  by (induction src rule: rev_induct) (auto simp: map_add_None)

lemma MergeMaps_Some:
  "MergeMaps src k = Some v \<longleftrightarrow>
     (\<exists>before m after. src = before @ m # after \<and> m k = Some v \<and> (\<forall>m' \<in> set after. m' k = None))"
  (is "?L \<longleftrightarrow> ?R")
proof
  assume ?R
  then obtain before m after where *: "src = (before @ [m]) @ after" "m k = Some v"
    "\<forall>m' \<in> set after. m' k = None" by auto
  then show ?L using MergeMaps_skips [of after k "before @ [m]"] by simp
next
  assume L: ?L
  then have "\<exists>m \<in> set src. m k \<noteq> None" using MergeMaps_None [of src k] by auto
  then obtain before m after where *: "src = before @ m # after" "m k \<noteq> None"
    "\<forall>m' \<in> set after. \<not> m' k \<noteq> None"
    using split_list_last_prop [of src "\<lambda>m. m k \<noteq> None"] by blast
  then have "MergeMaps src k = m k" using MergeMaps_skips [of after k "before @ [m]"] by auto
  with L * show ?R by auto
qed

lemma AdditionalLabels_eq [simp]: "AdditionalLabels m = m"
  by (simp add: AdditionalLabels_def)

lemma AllLabels_MergeMaps:
  "AllLabels n ls = [''release'' \<mapsto> n] ++ MergeMaps ls ++ IdentityLabel n"
proof -
  have "foldl (\<lambda>base m. base ++ m) b ls = b ++ MergeMaps ls" for b :: strmap
    by (induction ls rule: rev_induct) (simp_all add: map_add_assoc)
  then show ?thesis by (simp add: AllLabels_def map_add_assoc)
qed

lemma AllLabels_app [simp]: "AllLabels n ls ''app'' = Some n"
  by (simp add: AllLabels_MergeMaps IdentityLabel_def)

lemma AllLabels_other:
  "k \<noteq> ''app'' \<Longrightarrow> AllLabels n ls k =
     (case MergeMaps ls k of Some v \<Rightarrow> Some v | None \<Rightarrow> if k = ''release'' then Some n else None)"
  by (simp add: AllLabels_MergeMaps IdentityLabel_def map_add_def split: option.split)

text \<open>The selector that Deployments, Services and ServiceMonitors use matches the labels.\<close>

lemma IdentityLabel_le_AllLabels [simp]: "IdentityLabel n \<subseteq>\<^sub>m AllLabels n' ls \<longleftrightarrow> n = n'"
  by (auto simp: map_le_def IdentityLabel_def)

lemma length_GenerateChecksumConfig: "length (GenerateChecksumConfig raw) = 64"
  by (simp add: GenerateChecksumConfig_def)

section \<open>Conditions of a Job\<close>

lemma anyFinished_iff:
  "anyFinished cs \<longleftrightarrow>
     (\<exists>c \<in> set cs. (jc_Type c = JobComplete \<or> jc_Type c = JobFailed) \<and> jc_Status c = ConditionTrue)"
  by (induction cs) auto

lemma firstTrueCondition_Some:
  "firstTrueCondition cs t = Some c \<Longrightarrow> c \<in> set cs \<and> jc_Type c = t \<and> jc_Status c = ConditionTrue"
  by (induction cs) (auto split: if_splits)

lemma firstTrueCondition_None:
  "firstTrueCondition cs t = None \<longleftrightarrow> (\<forall>c \<in> set cs. jc_Type c = t \<longrightarrow> jc_Status c \<noteq> ConditionTrue)"
  by (induction cs) auto

lemma isJobFinished_conditions:
  "isJobFinished job \<longleftrightarrow>
     getTrueJobCondition job JobComplete \<noteq> None \<or> getTrueJobCondition job JobFailed \<noteq> None"
proof -
  have ne: "\<And>t. firstTrueCondition (job_Conditions job) t \<noteq> None \<longleftrightarrow>
      (\<exists>c \<in> set (job_Conditions job). jc_Type c = t \<and> jc_Status c = ConditionTrue)"
    by (simp only: firstTrueCondition_None) blast
  show ?thesis unfolding isJobFinished_def getTrueJobCondition_def anyFinished_iff ne by blast
qed

section \<open>Volumes and their mounts\<close>

text \<open>Every mount names a volume of the pod.\<close>

definition mountsCovered :: "VolumeMount list \<Rightarrow> Volume list \<Rightarrow> bool" where
  "mountsCovered mounts volumes \<longleftrightarrow> set (map vm_Name mounts) \<subseteq> set (map vol_Name volumes)"

lemma pulsar_volume_names:
  "map vm_Name (createPulsarVolumeMounts p) = map vol_Name (createPulsarVolumes p)"
  by (simp add: createPulsarVolumeMounts_def createPulsarVolumes_def)

lemma mountsCovered_created:
  "mountsCovered ms vs \<Longrightarrow> mountsCovered (createVolumeMounts f ms) (createVolumes s vs)"
  by (auto simp: mountsCovered_def createVolumeMounts_def createVolumes_def)

lemma mountsCovered_append:
  "mountsCovered ms vs \<Longrightarrow> mountsCovered ms' vs' \<Longrightarrow> mountsCovered (ms @ ms') (vs @ vs')"
  by (auto simp: mountsCovered_def)

lemma mountsCovered_pulsar: "mountsCovered (createPulsarVolumeMounts p) (createPulsarVolumes p)"
  by (simp add: mountsCovered_def pulsar_volume_names del: set_map)

lemmas mountsCovered_intros = mountsCovered_created mountsCovered_append mountsCovered_pulsar

text \<open>
  The configuration a container reads: a mount puts one key of a volume at the path given to
  \<open>--config\<close>, the key is one of the Secret's data, and the volume is that Secret.
\<close>

definition mountsConfigOf :: "Secret \<Rightarrow> VolumeMount list \<Rightarrow> Volume list \<Rightarrow> bool" where
  "mountsConfigOf secret mounts volumes \<longleftrightarrow>
     (\<exists>m \<in> set mounts. vm_MountPath m = appConfigFilepath \<and> sec_Data secret (vm_SubPath m) \<noteq> None \<and>
        (\<exists>v \<in> set volumes. vol_Name v = vm_Name m \<and>
           vol_Source v = SecretVolumeSource (om_Name (sec_Meta secret)) []))"

lemma mountsConfigOf_created:
  assumes "om_Name (sec_Meta secret) = n" "sec_Data secret (GetConfigFilename n) \<noteq> None"
  shows "mountsConfigOf secret (createVolumeMounts (GetConfigFilename n) ms) (createVolumes n vs)"
  using assms by (simp add: mountsConfigOf_def createVolumeMounts_def createVolumes_def appConfigFilepath_def)

lemma mountsConfigOf_append:
  "mountsConfigOf secret ms vs \<Longrightarrow> mountsConfigOf secret (ms @ ms') (vs @ vs')"
  by (auto simp: mountsConfigOf_def)

section \<open>Ingress annotations\<close>

text \<open>User annotations win over everything, then the issuer, the base annotations and the protocol.\<close>

lemma buildIngressAnnotations_user:
  "ic_Annotations ic k = Some v \<Longrightarrow> buildIngressAnnotations ic base p tls k = Some v"
  by (simp add: buildIngressAnnotations_def Let_def map_add_def)

lemma buildIngressAnnotations_issuer:
  assumes "ic_Annotations ic k = None" "ic_ClusterIssuer ic \<noteq> ''''"
    "k = ''certmanager.k8s.io/cluster-issuer'' \<or> k = ''cert-manager.io/cluster-issuer''"
  shows "buildIngressAnnotations ic base p tls k = Some (ic_ClusterIssuer ic)"
  using assms by (auto simp: buildIngressAnnotations_def Let_def map_add_def)

lemma buildIngressAnnotations_base:
  assumes "ic_Annotations ic k = None" "base k = Some v"
    "ic_ClusterIssuer ic = '''' \<or>
       k \<notin> {''certmanager.k8s.io/cluster-issuer'', ''cert-manager.io/cluster-issuer''}"
  shows "buildIngressAnnotations ic base p tls k = Some v"
  using assms by (auto simp: buildIngressAnnotations_def Let_def map_add_def)

lemma buildIngressAnnotations_protocol:
  assumes "ic_Annotations ic ''nginx.ingress.kubernetes.io/backend-protocol'' = None"
    "base ''nginx.ingress.kubernetes.io/backend-protocol'' = None"
  shows "buildIngressAnnotations ic base p tls ''nginx.ingress.kubernetes.io/backend-protocol'' =
     Some (protocolString p @ (if tls then ''S'' else ''''))"
  using assms by (auto simp: buildIngressAnnotations_def Let_def map_add_def)

section \<open>Owner references and profiling objects\<close>

lemma SetOwnerReference_eq_Inr [go_simps]:
  "SetOwnerReference x kind owner g u obj = Inr obj' \<longleftrightarrow>
     (\<exists>m. SetOwner x kind owner (g obj) = Inr m \<and> obj' = u (\<lambda>_. m) obj)"
  by (auto simp: SetOwnerReference_def go_simps)

definition ownedBy :: "string \<Rightarrow> ObjectMeta \<Rightarrow> ObjectMeta \<Rightarrow> bool" where
  "ownedBy kind owner m \<longleftrightarrow>
     (\<exists>r \<in> set (om_OwnerReferences m). or_Kind r = kind \<and> or_Name r = om_Name owner \<and> or_UID r = om_UID owner)"

lemma SetOwner_ownedBy:
  "ownerLaw x \<Longrightarrow> SetOwner x kind owner m = Inr m' \<Longrightarrow> ownedBy kind owner m'"
  using ownerLawD(6) by (simp add: ownedBy_def)

lemma newProfilingService_eq_Inr [go_simps]:
  "newProfilingService x kind obj cfg = Inr svc \<longleftrightarrow>
     (\<exists>m. SetOwner x kind obj (newMeta (om_Name obj @ ''-profiling'') (om_Namespace obj)
            (AllLabels (om_Name obj) [om_Labels obj]) Map.empty) = Inr m \<and>
        svc = (Service (om_Name obj @ ''-profiling'') (om_Namespace obj)
            (AllLabels (om_Name obj) [om_Labels obj]) (IdentityLabel (om_Name obj))
            cfg ServiceEnableProfilingPortOnly)\<lparr>svc_Meta := m\<rparr>)"
  by (simp add: newProfilingService_def Let_def go_simps)

lemma newProfilingComponents_eq_Inr [go_simps]:
  "newProfilingComponents x kind obj cfg ic = Inr (svc, ing) \<longleftrightarrow>
     newProfilingService x kind obj cfg = Inr svc \<and> newProfilingIngress x kind obj cfg ic = Inr ing"
  by (auto simp: newProfilingComponents_def go_simps)

text \<open>
  The profiling Ingress exists exactly when it is configured, and a configuration without
  hostnames or with a profiling port of zero or less is an error.
\<close>

lemma newProfilingIngress_None [simp]: "newProfilingIngress x kind obj cfg None = Inr None"
  by (simp add: newProfilingIngress_def)

lemma newProfilingIngress_Some:
  "newProfilingIngress x kind obj cfg (Some ic) = Inr ing \<Longrightarrow>
     ic_Hostnames ic \<noteq> [] \<and> positive (prof_Port (cac_Profiling cfg)) \<and> ing \<noteq> None"
  by (auto simp: newProfilingIngress_def Let_def go_simps)

end
