(* ===== verification/Components.thy ===== *)
theory Components
  imports CommonHelpers
begin

text \<open>
  \<open>CommonComponents\<close> of \<open>common_helpers.go\<close>, the objects of one installation, with \<open>DeepCopy\<close> and
  \<open>ReconcileComponents\<close>. The fields are pointers that the client writes through while a
  reconciliation runs, so the record is also the operator's heap: a \<open>slot\<close> is the address of one
  object in it, with \<open>derefSlot\<close> and \<open>storeSlot\<close>. The lemmas show when \<open>ReconcileComponents\<close>
  panics, which fields of which objects it restores, and that it is idempotent.
\<close>

section \<open>The components\<close>

record CommonComponents =
  cc_Deployment :: "Deployment option"
  cc_IngressGrpc :: "Ingress option"
  cc_IngressHttp :: "Ingress option"
  cc_IngressProfiling :: "Ingress option"
  cc_Service :: "Service option"
  cc_ServiceProfiling :: "Service option"
  cc_ServiceAccount :: "ServiceAccount option"
  cc_Secret :: "Secret option"
  cc_ClusterRole :: "ClusterRole option"
  cc_ClusterRoleBindings :: "ClusterRoleBinding list"
  cc_PrometheusRule :: "PrometheusRule option"
  cc_ServiceMonitor :: "ServiceMonitor option"
  cc_PodDisruptionBudget :: "PodDisruptionBudget option"
  cc_Jobs :: "Job list"
  cc_CronJob :: "CronJob option"

text \<open>\<open>CommonComponents{}\<close>.\<close>

definition noComponents :: CommonComponents where
  "noComponents =
     \<lparr>cc_Deployment = None, cc_IngressGrpc = None, cc_IngressHttp = None, cc_IngressProfiling = None,
      cc_Service = None, cc_ServiceProfiling = None, cc_ServiceAccount = None, cc_Secret = None,
      cc_ClusterRole = None, cc_ClusterRoleBindings = [], cc_PrometheusRule = None,
      cc_ServiceMonitor = None, cc_PodDisruptionBudget = None, cc_Jobs = [], cc_CronJob = None\<rparr>"

text \<open>
  A deep copy of every field. Values of this model are never shared, so copying one object gives
  the object; what the function must get right is that no field is forgotten.
\<close>

definition DeepCopy :: "CommonComponents \<Rightarrow> CommonComponents" where
  "DeepCopy cc =
     (let clusterRoleBindings = foldl (\<lambda>acc crb. acc @ [crb]) [] (cc_ClusterRoleBindings cc);
          jobs = foldl (\<lambda>acc job. acc @ [job]) [] (cc_Jobs cc)
      in \<lparr>cc_Deployment = cc_Deployment cc,
          cc_IngressGrpc = cc_IngressGrpc cc,
          cc_IngressHttp = cc_IngressHttp cc,
          cc_IngressProfiling = cc_IngressProfiling cc,
          cc_Service = cc_Service cc,
          cc_ServiceProfiling = cc_ServiceProfiling cc,
          cc_ServiceAccount = cc_ServiceAccount cc,
          cc_Secret = cc_Secret cc,
          cc_ClusterRole = cc_ClusterRole cc,
          cc_ClusterRoleBindings = clusterRoleBindings,
          cc_PrometheusRule = cc_PrometheusRule cc,
          cc_ServiceMonitor = cc_ServiceMonitor cc,
          cc_PodDisruptionBudget = cc_PodDisruptionBudget cc,
          cc_Jobs = jobs,
          cc_CronJob = cc_CronJob cc\<rparr>)"

lemma DeepCopy_eq: "DeepCopy cc = cc"
proof -
  have "foldl (\<lambda>acc crb. acc @ [crb]) acc ys = acc @ ys" for acc ys :: "ClusterRoleBinding list"
    by (induction ys arbitrary: acc) simp_all
  moreover have "foldl (\<lambda>acc job. acc @ [job]) acc ys = acc @ ys" for acc ys :: "Job list"
    by (induction ys arbitrary: acc) simp_all
  ultimately show ?thesis by (simp add: DeepCopy_def)
qed

section \<open>ReconcileComponents\<close>

text \<open>\<open>cc.X.Labels = new.X.Labels; cc.X.Annotations = new.X.Annotations\<close>.\<close>

definition copyLabels :: "ObjectMeta \<Rightarrow> ObjectMeta \<Rightarrow> ObjectMeta" where
  "copyLabels new cc = cc\<lparr>om_Labels := om_Labels new, om_Annotations := om_Annotations new\<rparr>"

definition copySecret :: "Secret \<Rightarrow> Secret \<Rightarrow> Secret" where
  "copySecret new cc = cc\<lparr>sec_Data := sec_Data new, sec_Meta := copyLabels (sec_Meta new) (sec_Meta cc)\<rparr>"

definition copyDeployment :: "Deployment \<Rightarrow> Deployment \<Rightarrow> Deployment" where
  "copyDeployment new cc = cc\<lparr>dep_Spec := dep_Spec new, dep_Meta := copyLabels (dep_Meta new) (dep_Meta cc)\<rparr>"

definition copyService :: "Service \<Rightarrow> Service \<Rightarrow> Service" where
  "copyService new cc = cc\<lparr>svc_Spec := svc_Spec new, svc_Meta := copyLabels (svc_Meta new) (svc_Meta cc)\<rparr>"

definition copyServiceAccount :: "ServiceAccount \<Rightarrow> ServiceAccount \<Rightarrow> ServiceAccount" where
  "copyServiceAccount new cc =
     cc\<lparr>sa_Meta := copyLabels (sa_Meta new) (sa_Meta cc), sa_ImagePullSecrets := sa_ImagePullSecrets new,
        sa_Secrets := sa_Secrets new,
        sa_AutomountServiceAccountToken := sa_AutomountServiceAccountToken new\<rparr>"

definition copyClusterRole :: "ClusterRole \<Rightarrow> ClusterRole \<Rightarrow> ClusterRole" where
  "copyClusterRole new cc =
     cc\<lparr>crole_Rules := crole_Rules new, crole_Meta := copyLabels (crole_Meta new) (crole_Meta cc)\<rparr>"

definition copyIngress :: "Ingress \<Rightarrow> Ingress \<Rightarrow> Ingress" where
  "copyIngress new cc = cc\<lparr>ing_Spec := ing_Spec new, ing_Meta := copyLabels (ing_Meta new) (ing_Meta cc)\<rparr>"

definition copyPodDisruptionBudget ::
  "PodDisruptionBudget \<Rightarrow> PodDisruptionBudget \<Rightarrow> PodDisruptionBudget" where
  "copyPodDisruptionBudget new cc =
     cc\<lparr>pdb_Spec := pdb_Spec new, pdb_Meta := copyLabels (pdb_Meta new) (pdb_Meta cc)\<rparr>"

definition copyClusterRoleBinding ::
  "ClusterRoleBinding \<Rightarrow> ClusterRoleBinding \<Rightarrow> ClusterRoleBinding" where
  "copyClusterRoleBinding new cc =
     cc\<lparr>crb_RoleRef := crb_RoleRef new, crb_Subjects := crb_Subjects new,
        crb_Meta := copyLabels (crb_Meta new) (crb_Meta cc)\<rparr>"

definition copyCronJob :: "CronJob \<Rightarrow> CronJob \<Rightarrow> CronJob" where
  "copyCronJob new cc = cc\<lparr>cj_Spec := cj_Spec new, cj_Meta := copyLabels (cj_Meta new) (cj_Meta cc)\<rparr>"

text \<open>
  A required object: both pointers are dereferenced without a check. An optional one:
  \<open>if new.X != nil { cc.X.F = new.X.F } else { cc.X = nil }\<close>, where \<open>cc.X\<close> is dereferenced unchecked.
\<close>

definition copyRequired ::
  "string \<Rightarrow> ('a \<Rightarrow> 'a \<Rightarrow> 'a) \<Rightarrow> 'a option \<Rightarrow> 'a option \<Rightarrow> 'a option result" where
  "copyRequired what copy new cc =
     andThen (deref what new) (\<lambda>n. andThen (deref what cc) (\<lambda>c. Inr (Some (copy n c))))"

definition copyOptional ::
  "string \<Rightarrow> ('a \<Rightarrow> 'a \<Rightarrow> 'a) \<Rightarrow> 'a option \<Rightarrow> 'a option \<Rightarrow> 'a option result" where
  "copyOptional what copy new cc =
     (case new of
        None \<Rightarrow> Inr None
      | Some n \<Rightarrow> andThen (deref what cc) (\<lambda>c. Inr (Some (copy n c))))"

text \<open>\<open>for i := range cc.ClusterRoleBindings\<close>, indexing the new list with \<open>i\<close>.\<close>

fun copyBindings :: "ClusterRoleBinding list \<Rightarrow> ClusterRoleBinding list \<Rightarrow> ClusterRoleBinding list result" where
  "copyBindings new [] = Inr []"
| "copyBindings [] (c # cs) = Inl (Panic (IndexOutOfRange ''ClusterRoleBindings''))"
| "copyBindings (n # ns) (c # cs) =
     andThen (copyBindings ns cs) (\<lambda>rest. Inr (copyClusterRoleBinding n c # rest))"

definition ReconcileComponents :: "CommonComponents \<Rightarrow> CommonComponents \<Rightarrow> CommonComponents result" where
  "ReconcileComponents cc new =
     andThen (copyRequired ''Secret'' copySecret (cc_Secret new) (cc_Secret cc)) (\<lambda>secret.
     andThen (copyRequired ''Deployment'' copyDeployment (cc_Deployment new) (cc_Deployment cc)) (\<lambda>deployment.
     andThen (copyOptional ''Service'' copyService (cc_Service new) (cc_Service cc)) (\<lambda>service.
     andThen (copyOptional ''ServiceProfiling'' copyService
       (cc_ServiceProfiling new) (cc_ServiceProfiling cc)) (\<lambda>serviceProfiling.
     andThen (copyOptional ''ServiceAccount'' copyServiceAccount
       (cc_ServiceAccount new) (cc_ServiceAccount cc)) (\<lambda>serviceAccount.
     andThen (copyOptional ''ClusterRole'' copyClusterRole (cc_ClusterRole new) (cc_ClusterRole cc)) (\<lambda>clusterRole.
     andThen (copyOptional ''IngressGrpc'' copyIngress (cc_IngressGrpc new) (cc_IngressGrpc cc)) (\<lambda>ingressGrpc.
     andThen (copyOptional ''IngressHttp'' copyIngress (cc_IngressHttp new) (cc_IngressHttp cc)) (\<lambda>ingressHttp.
     andThen (copyOptional ''IngressProfiling'' copyIngress
       (cc_IngressProfiling new) (cc_IngressProfiling cc)) (\<lambda>ingressProfiling.
     andThen (copyOptional ''PodDisruptionBudget'' copyPodDisruptionBudget
       (cc_PodDisruptionBudget new) (cc_PodDisruptionBudget cc)) (\<lambda>pdb.
     andThen (copyBindings (cc_ClusterRoleBindings new) (cc_ClusterRoleBindings cc)) (\<lambda>bindings.
     andThen (copyOptional ''CronJob'' copyCronJob (cc_CronJob new) (cc_CronJob cc)) (\<lambda>cronJob.
     Inr (cc\<lparr>cc_Secret := secret, cc_Deployment := deployment, cc_Service := service,
             cc_ServiceProfiling := serviceProfiling, cc_ServiceAccount := serviceAccount,
             cc_ClusterRole := clusterRole, cc_IngressGrpc := ingressGrpc, cc_IngressHttp := ingressHttp,
             cc_IngressProfiling := ingressProfiling, cc_PodDisruptionBudget := pdb,
             cc_ClusterRoleBindings := bindings, cc_CronJob := cronJob\<rparr>)))))))))))))"

section \<open>Slots\<close>

text \<open>The addresses of the objects: one per field, and an index into the two lists.\<close>

datatype slot =
    SDeployment | SIngressGrpc | SIngressHttp | SIngressProfiling | SService | SServiceProfiling
  | SServiceAccount | SSecret | SClusterRole | SClusterRoleBinding nat | SPrometheusRule
  | SServiceMonitor | SPodDisruptionBudget | SJob nat | SCronJob

fun derefSlot :: "CommonComponents \<Rightarrow> slot \<Rightarrow> kobj option" where
  "derefSlot cc SDeployment = map_option KDeployment (cc_Deployment cc)"
| "derefSlot cc SIngressGrpc = map_option KIngress (cc_IngressGrpc cc)"
| "derefSlot cc SIngressHttp = map_option KIngress (cc_IngressHttp cc)"
| "derefSlot cc SIngressProfiling = map_option KIngress (cc_IngressProfiling cc)"
| "derefSlot cc SService = map_option KService (cc_Service cc)"
| "derefSlot cc SServiceProfiling = map_option KService (cc_ServiceProfiling cc)"
| "derefSlot cc SServiceAccount = map_option KServiceAccount (cc_ServiceAccount cc)"
| "derefSlot cc SSecret = map_option KSecret (cc_Secret cc)"
| "derefSlot cc SClusterRole = map_option KClusterRole (cc_ClusterRole cc)"
| "derefSlot cc (SClusterRoleBinding i) =
     (if i < length (cc_ClusterRoleBindings cc)
      then Some (KClusterRoleBinding (cc_ClusterRoleBindings cc ! i)) else None)"
| "derefSlot cc SPrometheusRule = map_option KPrometheusRule (cc_PrometheusRule cc)"
| "derefSlot cc SServiceMonitor = map_option KServiceMonitor (cc_ServiceMonitor cc)"
| "derefSlot cc SPodDisruptionBudget = map_option KPodDisruptionBudget (cc_PodDisruptionBudget cc)"
| "derefSlot cc (SJob i) = (if i < length (cc_Jobs cc) then Some (KJob (cc_Jobs cc ! i)) else None)"
| "derefSlot cc SCronJob = map_option KCronJob (cc_CronJob cc)"

text \<open>
  A write through the pointer in a slot. It changes the object, never whether there is one, and a
  slot holds objects of one kind only.
\<close>

primrec storeSlot :: "slot \<Rightarrow> kobj \<Rightarrow> CommonComponents \<Rightarrow> CommonComponents" where
  "storeSlot SDeployment x cc =
     (case x of KDeployment y \<Rightarrow> cc\<lparr>cc_Deployment := map_option (\<lambda>_. y) (cc_Deployment cc)\<rparr> | _ \<Rightarrow> cc)"
| "storeSlot SIngressGrpc x cc =
     (case x of KIngress y \<Rightarrow> cc\<lparr>cc_IngressGrpc := map_option (\<lambda>_. y) (cc_IngressGrpc cc)\<rparr> | _ \<Rightarrow> cc)"
| "storeSlot SIngressHttp x cc =
     (case x of KIngress y \<Rightarrow> cc\<lparr>cc_IngressHttp := map_option (\<lambda>_. y) (cc_IngressHttp cc)\<rparr> | _ \<Rightarrow> cc)"
| "storeSlot SIngressProfiling x cc =
     (case x of KIngress y \<Rightarrow> cc\<lparr>cc_IngressProfiling := map_option (\<lambda>_. y) (cc_IngressProfiling cc)\<rparr> | _ \<Rightarrow> cc)"
| "storeSlot SService x cc =
     (case x of KService y \<Rightarrow> cc\<lparr>cc_Service := map_option (\<lambda>_. y) (cc_Service cc)\<rparr> | _ \<Rightarrow> cc)"
| "storeSlot SServiceProfiling x cc =
     (case x of KService y \<Rightarrow> cc\<lparr>cc_ServiceProfiling := map_option (\<lambda>_. y) (cc_ServiceProfiling cc)\<rparr> | _ \<Rightarrow> cc)"
| "storeSlot SServiceAccount x cc =
     (case x of KServiceAccount y \<Rightarrow> cc\<lparr>cc_ServiceAccount := map_option (\<lambda>_. y) (cc_ServiceAccount cc)\<rparr> | _ \<Rightarrow> cc)"
| "storeSlot SSecret x cc =
     (case x of KSecret y \<Rightarrow> cc\<lparr>cc_Secret := map_option (\<lambda>_. y) (cc_Secret cc)\<rparr> | _ \<Rightarrow> cc)"
| "storeSlot SClusterRole x cc =
     (case x of KClusterRole y \<Rightarrow> cc\<lparr>cc_ClusterRole := map_option (\<lambda>_. y) (cc_ClusterRole cc)\<rparr> | _ \<Rightarrow> cc)"
| "storeSlot (SClusterRoleBinding i) x cc =
     (case x of KClusterRoleBinding y \<Rightarrow> cc\<lparr>cc_ClusterRoleBindings := (cc_ClusterRoleBindings cc)[i := y]\<rparr> | _ \<Rightarrow> cc)"
| "storeSlot SPrometheusRule x cc =
     (case x of KPrometheusRule y \<Rightarrow> cc\<lparr>cc_PrometheusRule := map_option (\<lambda>_. y) (cc_PrometheusRule cc)\<rparr> | _ \<Rightarrow> cc)"
| "storeSlot SServiceMonitor x cc =
     (case x of KServiceMonitor y \<Rightarrow> cc\<lparr>cc_ServiceMonitor := map_option (\<lambda>_. y) (cc_ServiceMonitor cc)\<rparr> | _ \<Rightarrow> cc)"
| "storeSlot SPodDisruptionBudget x cc =
     (case x of KPodDisruptionBudget y \<Rightarrow> cc\<lparr>cc_PodDisruptionBudget := map_option (\<lambda>_. y) (cc_PodDisruptionBudget cc)\<rparr> | _ \<Rightarrow> cc)"
| "storeSlot (SJob i) x cc =
     (case x of KJob y \<Rightarrow> cc\<lparr>cc_Jobs := (cc_Jobs cc)[i := y]\<rparr> | _ \<Rightarrow> cc)"
| "storeSlot SCronJob x cc =
     (case x of KCronJob y \<Rightarrow> cc\<lparr>cc_CronJob := map_option (\<lambda>_. y) (cc_CronJob cc)\<rparr> | _ \<Rightarrow> cc)"

fun slotKind :: "slot \<Rightarrow> kind" where
  "slotKind SDeployment = DeploymentKind"
| "slotKind SIngressGrpc = IngressKind"
| "slotKind SIngressHttp = IngressKind"
| "slotKind SIngressProfiling = IngressKind"
| "slotKind SService = ServiceKind"
| "slotKind SServiceProfiling = ServiceKind"
| "slotKind SServiceAccount = ServiceAccountKind"
| "slotKind SSecret = SecretKind"
| "slotKind SClusterRole = ClusterRoleKind"
| "slotKind (SClusterRoleBinding _) = ClusterRoleBindingKind"
| "slotKind SPrometheusRule = PrometheusRuleKind"
| "slotKind SServiceMonitor = ServiceMonitorKind"
| "slotKind SPodDisruptionBudget = PodDisruptionBudgetKind"
| "slotKind (SJob _) = JobKind"
| "slotKind SCronJob = CronJobKind"

section \<open>Reading and writing slots\<close>

lemma derefSlot_kind: "derefSlot cc s = Some ob \<Longrightarrow> kindOf ob = slotKind s"
  by (cases s) (auto split: if_splits)

lemma derefSlot_storeSlot:
  assumes "kindOf ob = slotKind s"
  shows "derefSlot (storeSlot s ob cc) t =
           (if t = s then map_option (\<lambda>_. ob) (derefSlot cc s) else derefSlot cc t)"
  using assms by (cases s; cases ob; cases t) (auto simp: option.map_comp o_def)

lemma derefSlot_storeSlot_same:
  "kindOf ob = slotKind s \<Longrightarrow> derefSlot cc s \<noteq> None \<Longrightarrow> derefSlot (storeSlot s ob cc) s = Some ob"
  by (auto simp: derefSlot_storeSlot)

section \<open>What ReconcileComponents does, slot by slot\<close>

text \<open>
  The specification: a managed slot that the new components fill gets the new object's managed
  fields, one that they leave empty is emptied, and the other slots (Jobs, ServiceMonitor,
  PrometheusRule) are left alone.
\<close>

fun managed :: "slot \<Rightarrow> bool" where
  "managed (SJob _) = False"
| "managed SServiceMonitor = False"
| "managed SPrometheusRule = False"
| "managed _ = True"

definition copyObject :: "kobj \<Rightarrow> kobj \<Rightarrow> kobj" where
  "copyObject new cc = (case (new, cc) of
     (KSecret n, KSecret c) \<Rightarrow> KSecret (copySecret n c)
   | (KDeployment n, KDeployment c) \<Rightarrow> KDeployment (copyDeployment n c)
   | (KService n, KService c) \<Rightarrow> KService (copyService n c)
   | (KServiceAccount n, KServiceAccount c) \<Rightarrow> KServiceAccount (copyServiceAccount n c)
   | (KClusterRole n, KClusterRole c) \<Rightarrow> KClusterRole (copyClusterRole n c)
   | (KIngress n, KIngress c) \<Rightarrow> KIngress (copyIngress n c)
   | (KPodDisruptionBudget n, KPodDisruptionBudget c) \<Rightarrow> KPodDisruptionBudget (copyPodDisruptionBudget n c)
   | (KClusterRoleBinding n, KClusterRoleBinding c) \<Rightarrow> KClusterRoleBinding (copyClusterRoleBinding n c)
   | (KCronJob n, KCronJob c) \<Rightarrow> KCronJob (copyCronJob n c)
   | _ \<Rightarrow> cc)"

definition reconcileSlot :: "CommonComponents \<Rightarrow> CommonComponents \<Rightarrow> slot \<Rightarrow> kobj option" where
  "reconcileSlot cc new s =
     (if managed s then
        (case derefSlot new s of
           None \<Rightarrow> None
         | Some n \<Rightarrow> map_option (copyObject n) (derefSlot cc s))
      else derefSlot cc s)"

text \<open>The shape that the unchecked dereferences need.\<close>

definition reconcilable :: "CommonComponents \<Rightarrow> CommonComponents \<Rightarrow> bool" where
  "reconcilable cc new \<longleftrightarrow>
     cc_Secret cc \<noteq> None \<and> cc_Secret new \<noteq> None \<and>
     cc_Deployment cc \<noteq> None \<and> cc_Deployment new \<noteq> None \<and>
     (cc_Service new \<noteq> None \<longrightarrow> cc_Service cc \<noteq> None) \<and>
     (cc_ServiceProfiling new \<noteq> None \<longrightarrow> cc_ServiceProfiling cc \<noteq> None) \<and>
     (cc_ServiceAccount new \<noteq> None \<longrightarrow> cc_ServiceAccount cc \<noteq> None) \<and>
     (cc_ClusterRole new \<noteq> None \<longrightarrow> cc_ClusterRole cc \<noteq> None) \<and>
     (cc_IngressGrpc new \<noteq> None \<longrightarrow> cc_IngressGrpc cc \<noteq> None) \<and>
     (cc_IngressHttp new \<noteq> None \<longrightarrow> cc_IngressHttp cc \<noteq> None) \<and>
     (cc_IngressProfiling new \<noteq> None \<longrightarrow> cc_IngressProfiling cc \<noteq> None) \<and>
     (cc_PodDisruptionBudget new \<noteq> None \<longrightarrow> cc_PodDisruptionBudget cc \<noteq> None) \<and>
     (cc_CronJob new \<noteq> None \<longrightarrow> cc_CronJob cc \<noteq> None) \<and>
     length (cc_ClusterRoleBindings cc) \<le> length (cc_ClusterRoleBindings new)"

lemma copyRequired_eq_Inr:
  "copyRequired what copy new cc = Inr r \<longleftrightarrow>
     (\<exists>n c. new = Some n \<and> cc = Some c \<and> r = Some (copy n c))"
  by (auto simp: copyRequired_def go_simps)

lemma copyOptional_eq_Inr:
  "copyOptional what copy new cc = Inr r \<longleftrightarrow>
     (new \<noteq> None \<longrightarrow> cc \<noteq> None) \<and>
     r = (case new of None \<Rightarrow> None | Some n \<Rightarrow> map_option (copy n) cc)"
  by (cases new; cases cc) (auto simp: copyOptional_def)

lemma copyBindings_eq_Inr:
  "copyBindings new cc = Inr r \<longleftrightarrow>
     length cc \<le> length new \<and> r = map2 copyClusterRoleBinding new cc"
  by (induction new cc arbitrary: r rule: copyBindings.induct) (auto simp: go_simps)

lemmas copy_eq_Inr = copyRequired_eq_Inr copyOptional_eq_Inr copyBindings_eq_Inr

lemma ex_andThen: "(\<exists>y. andThen m f = Inr y) \<longleftrightarrow> (\<exists>x. m = Inr x \<and> (\<exists>y. f x = Inr y))"
  by (auto simp: go_simps)

lemma copy_returns:
  "(\<exists>r. copyRequired what copy new cc = Inr r) \<longleftrightarrow> cc \<noteq> None \<and> new \<noteq> None"
  "(\<exists>r. copyOptional what copy new cc = Inr r) \<longleftrightarrow> (new \<noteq> None \<longrightarrow> cc \<noteq> None)"
  "(\<exists>r. copyBindings bs bs' = Inr r) \<longleftrightarrow> length bs' \<le> length bs"
  by (auto simp: copy_eq_Inr)

lemma ReconcileComponents_returns:
  "(\<exists>cc'. ReconcileComponents cc new = Inr cc') \<longleftrightarrow> reconcilable cc new"
  unfolding ReconcileComponents_def
  by (simp only: ex_andThen ex_simps simp_thms sum.inject copy_returns) (simp only: reconcilable_def conj_assoc HOL.conj_ac)

text \<open>It never returns an error: what goes wrong is a panic.\<close>

lemma copy_panics:
  "copyRequired what copy new cc = Inl e \<Longrightarrow> isPanic e"
  "copyOptional what copy new cc = Inl e \<Longrightarrow> isPanic e"
  by (auto simp: copyRequired_def copyOptional_def andThen_eq_Inl deref_def split: option.splits)

lemma copyBindings_panics: "copyBindings bs bs' = Inl e \<Longrightarrow> isPanic e"
  by (induction bs bs' rule: copyBindings.induct) (auto simp: go_simps)

lemma ReconcileComponents_panics: "ReconcileComponents cc new = Inl e \<Longrightarrow> isPanic e"
  unfolding ReconcileComponents_def andThen_eq_Inl
  by (elim disjE exE conjE) (auto dest: copy_panics copyBindings_panics)

lemma ReconcileComponents_slot:
  assumes "ReconcileComponents cc new = Inr cc'"
  shows "derefSlot cc' s = reconcileSlot cc new s"
  using assms unfolding ReconcileComponents_def andThen_eq_Inr copy_eq_Inr
  by (cases s) (clarsimp simp: reconcileSlot_def copyObject_def split: option.split)+

section \<open>The contract of ReconcileComponents\<close>

text \<open>
  An object without its identity: only the fields the operator owns. Of the metadata these are
  labels and annotations. And its identity: the metadata without them.
\<close>

definition ownedMeta :: "ObjectMeta \<Rightarrow> ObjectMeta" where
  "ownedMeta m = newMeta '''' '''' (om_Labels m) (om_Annotations m)"

definition identity :: "ObjectMeta \<Rightarrow> ObjectMeta" where
  "identity m = m\<lparr>om_Labels := Map.empty, om_Annotations := Map.empty\<rparr>"

fun mapMeta :: "(ObjectMeta \<Rightarrow> ObjectMeta) \<Rightarrow> kobj \<Rightarrow> kobj" where
  "mapMeta f (KServiceAccount x) = KServiceAccount (x\<lparr>sa_Meta := f (sa_Meta x)\<rparr>)"
| "mapMeta f (KSecret x) = KSecret (x\<lparr>sec_Meta := f (sec_Meta x)\<rparr>)"
| "mapMeta f (KDeployment x) = KDeployment (x\<lparr>dep_Meta := f (dep_Meta x)\<rparr>)"
| "mapMeta f (KService x) = KService (x\<lparr>svc_Meta := f (svc_Meta x)\<rparr>)"
| "mapMeta f (KIngress x) = KIngress (x\<lparr>ing_Meta := f (ing_Meta x)\<rparr>)"
| "mapMeta f (KClusterRole x) = KClusterRole (x\<lparr>crole_Meta := f (crole_Meta x)\<rparr>)"
| "mapMeta f (KClusterRoleBinding x) = KClusterRoleBinding (x\<lparr>crb_Meta := f (crb_Meta x)\<rparr>)"
| "mapMeta f (KPrometheusRule x) = KPrometheusRule (x\<lparr>prom_Meta := f (prom_Meta x)\<rparr>)"
| "mapMeta f (KServiceMonitor x) = KServiceMonitor (x\<lparr>sm_Meta := f (sm_Meta x)\<rparr>)"
| "mapMeta f (KPodDisruptionBudget x) = KPodDisruptionBudget (x\<lparr>pdb_Meta := f (pdb_Meta x)\<rparr>)"
| "mapMeta f (KJob x) = KJob (x\<lparr>job_Meta := f (job_Meta x)\<rparr>)"
| "mapMeta f (KCronJob x) = KCronJob (x\<lparr>cj_Meta := f (cj_Meta x)\<rparr>)"

definition ownedFields :: "kobj \<Rightarrow> kobj" where
  "ownedFields = mapMeta ownedMeta"

lemma kindOf_mapMeta [simp]: "kindOf (mapMeta f ob) = kindOf ob"
  by (cases ob) simp_all

lemma metaOf_mapMeta [simp]: "metaOf (mapMeta f ob) = f (metaOf ob)"
  by (cases ob) simp_all

lemma identity_copyLabels [simp]: "identity (copyLabels n c) = identity c"
  by (simp add: identity_def copyLabels_def)

lemma ownedMeta_copyLabels [simp]: "ownedMeta (copyLabels n c) = ownedMeta n"
  by (simp add: ownedMeta_def copyLabels_def)

lemma identity_eqD: "identity m = identity m' \<Longrightarrow>
    om_Name m = om_Name m' \<and> om_Namespace m = om_Namespace m' \<and> om_UID m = om_UID m' \<and>
    om_OwnerReferences m = om_OwnerReferences m' \<and> om_Finalizers m = om_Finalizers m'"
  by (cases m, cases m') (simp add: identity_def)

lemmas copy_defs = copySecret_def copyDeployment_def copyService_def copyServiceAccount_def
  copyClusterRole_def copyIngress_def copyPodDisruptionBudget_def copyClusterRoleBinding_def
  copyCronJob_def

lemma kindOf_copyObject [simp]: "kindOf (copyObject n c) = kindOf c"
  by (cases c; cases n) (simp_all add: copyObject_def)

lemma identity_copyObject [simp]: "identity (metaOf (copyObject n c)) = identity (metaOf c)"
  by (cases c; cases n) (simp_all add: copyObject_def copy_defs)

lemma ownedFields_copyObject:
  "kindOf n = kindOf c \<Longrightarrow> kindOf c \<notin> {JobKind, ServiceMonitorKind, PrometheusRuleKind} \<Longrightarrow>
     ownedFields (copyObject n c) = ownedFields n"
  by (cases c; cases n) (simp_all add: copyObject_def copy_defs ownedFields_def)

lemma copyObject_copyObject [simp]: "copyObject n (copyObject n c) = copyObject n c"
  by (cases c; cases n) (simp_all add: copyObject_def copy_defs copyLabels_def)

lemma managed_kind: "managed s \<longleftrightarrow> slotKind s \<notin> {JobKind, ServiceMonitorKind, PrometheusRuleKind}"
  by (cases s) simp_all

definition sameShape :: "CommonComponents \<Rightarrow> CommonComponents \<Rightarrow> bool" where
  "sameShape a b \<longleftrightarrow> (\<forall>s. derefSlot a s = None \<longleftrightarrow> derefSlot b s = None)"

lemma length_of_slots:
  assumes "\<And>i. i < length xs \<longleftrightarrow> i < length ys"
  shows "length xs = length ys"
  using assms by (meson linorder_neqE_nat order_less_irrefl)

lemma sameShape_lengths:
  assumes "sameShape a b"
  shows "length (cc_ClusterRoleBindings a) = length (cc_ClusterRoleBindings b)"
    "length (cc_Jobs a) = length (cc_Jobs b)"
proof -
  have "i < length (cc_ClusterRoleBindings a) \<longleftrightarrow> i < length (cc_ClusterRoleBindings b)" for i
    using assms [unfolded sameShape_def, THEN spec, of "SClusterRoleBinding i"] by (simp split: if_splits)
  then show "length (cc_ClusterRoleBindings a) = length (cc_ClusterRoleBindings b)"
    by (rule length_of_slots)
  have "i < length (cc_Jobs a) \<longleftrightarrow> i < length (cc_Jobs b)" for i
    using assms [unfolded sameShape_def, THEN spec, of "SJob i"] by (simp split: if_splits)
  then show "length (cc_Jobs a) = length (cc_Jobs b)"
    by (rule length_of_slots)
qed

lemma sameShape_None:
  assumes "sameShape a b"
  shows "cc_Deployment a = None \<longleftrightarrow> cc_Deployment b = None" "cc_IngressGrpc a = None \<longleftrightarrow> cc_IngressGrpc b = None"
    "cc_IngressHttp a = None \<longleftrightarrow> cc_IngressHttp b = None"
    "cc_IngressProfiling a = None \<longleftrightarrow> cc_IngressProfiling b = None"
    "cc_Service a = None \<longleftrightarrow> cc_Service b = None" "cc_ServiceProfiling a = None \<longleftrightarrow> cc_ServiceProfiling b = None"
    "cc_ServiceAccount a = None \<longleftrightarrow> cc_ServiceAccount b = None" "cc_Secret a = None \<longleftrightarrow> cc_Secret b = None"
    "cc_ClusterRole a = None \<longleftrightarrow> cc_ClusterRole b = None"
    "cc_PodDisruptionBudget a = None \<longleftrightarrow> cc_PodDisruptionBudget b = None"
    "cc_CronJob a = None \<longleftrightarrow> cc_CronJob b = None"
  using assms [unfolded sameShape_def, THEN spec, of SDeployment]
    assms [unfolded sameShape_def, THEN spec, of SIngressGrpc]
    assms [unfolded sameShape_def, THEN spec, of SIngressHttp]
    assms [unfolded sameShape_def, THEN spec, of SIngressProfiling]
    assms [unfolded sameShape_def, THEN spec, of SService]
    assms [unfolded sameShape_def, THEN spec, of SServiceProfiling]
    assms [unfolded sameShape_def, THEN spec, of SServiceAccount]
    assms [unfolded sameShape_def, THEN spec, of SSecret]
    assms [unfolded sameShape_def, THEN spec, of SClusterRole]
    assms [unfolded sameShape_def, THEN spec, of SPodDisruptionBudget]
    assms [unfolded sameShape_def, THEN spec, of SCronJob]
  by simp_all

lemma sameShape_refl [simp]: "sameShape a a"
  by (simp add: sameShape_def)

lemma sameShape_trans: "sameShape a b \<Longrightarrow> sameShape b c \<Longrightarrow> sameShape a c"
  by (simp add: sameShape_def)

lemma sameShape_sym: "sameShape a b \<Longrightarrow> sameShape b a"
  by (simp add: sameShape_def)

lemma sameShape_reconcilable:
  assumes "sameShape cc new" "cc_Secret new \<noteq> None" "cc_Deployment new \<noteq> None"
  shows "reconcilable cc new"
  using assms(2,3) sameShape_None [OF assms(1)] sameShape_lengths [OF assms(1)]
  by (simp add: reconcilable_def)

lemma sameShape_storeSlot:
  "kindOf ob = slotKind s \<Longrightarrow> sameShape (storeSlot s ob cc) cc"
  by (simp add: sameShape_def derefSlot_storeSlot)

lemma ReconcileComponents_sameShape:
  assumes "ReconcileComponents cc new = Inr cc'" "sameShape cc new"
  shows "sameShape cc' cc"
  using assms(2) ReconcileComponents_slot [OF assms(1)]
  by (auto simp: sameShape_def reconcileSlot_def split: option.split)

text \<open>
  With components of the same shape it returns; every managed object then has the fields of the
  new one and its own identity, and every other object is unchanged.
\<close>

lemma ReconcileComponents_contract:
  assumes "sameShape cc new" "cc_Secret new \<noteq> None" "cc_Deployment new \<noteq> None"
  obtains cc' where "ReconcileComponents cc new = Inr cc'" "sameShape cc' cc"
    "\<And>s. derefSlot cc' s = (if managed s
        then (case derefSlot new s of None \<Rightarrow> None | Some n \<Rightarrow> map_option (copyObject n) (derefSlot cc s))
        else derefSlot cc s)"
proof -
  obtain cc' where 1: "ReconcileComponents cc new = Inr cc'"
    using sameShape_reconcilable [OF assms] ReconcileComponents_returns by blast
  from that [OF 1 ReconcileComponents_sameShape [OF 1 assms(1)]] ReconcileComponents_slot [OF 1]
  show thesis by (simp add: reconcileSlot_def)
qed

lemma ReconcileComponents_owned:
  assumes "ReconcileComponents cc new = Inr cc'" "managed s" "derefSlot cc' s = Some ob"
  obtains n c where "derefSlot new s = Some n" "derefSlot cc s = Some c" "ob = copyObject n c"
    "ownedFields ob = ownedFields n" "identity (metaOf ob) = identity (metaOf c)"
proof -
  from assms obtain n c where *: "derefSlot new s = Some n" "derefSlot cc s = Some c" "ob = copyObject n c"
    by (auto simp: ReconcileComponents_slot reconcileSlot_def split: option.splits)
  moreover from * have "kindOf n = kindOf c" "kindOf c = slotKind s" by (simp_all add: derefSlot_kind)
  with assms(2) * have "ownedFields ob = ownedFields n"
    by (simp add: ownedFields_copyObject managed_kind)
  ultimately show thesis using that by simp
qed

text \<open>Once restored, the objects stay as they are.\<close>

lemma copy_again:
  "copySecret n (copySecret n c) = copySecret n c" "copyDeployment n2 (copyDeployment n2 c2) = copyDeployment n2 c2"
  "copyService n3 (copyService n3 c3) = copyService n3 c3"
  "copyServiceAccount n4 (copyServiceAccount n4 c4) = copyServiceAccount n4 c4"
  "copyClusterRole n5 (copyClusterRole n5 c5) = copyClusterRole n5 c5"
  "copyIngress n6 (copyIngress n6 c6) = copyIngress n6 c6"
  "copyPodDisruptionBudget n7 (copyPodDisruptionBudget n7 c7) = copyPodDisruptionBudget n7 c7"
  "copyClusterRoleBinding n8 (copyClusterRoleBinding n8 c8) = copyClusterRoleBinding n8 c8"
  "copyCronJob n9 (copyCronJob n9 c9) = copyCronJob n9 c9"
  by (simp_all add: copy_defs copyLabels_def)

lemma copyRequired_again:
  assumes "\<And>n c. copy n (copy n c) = copy n c" "copyRequired what copy new cc = Inr cc'"
  shows "copyRequired what copy new cc' = Inr cc'"
  using assms by (auto simp: copyRequired_eq_Inr)

lemma copyOptional_again:
  assumes "\<And>n c. copy n (copy n c) = copy n c" "copyOptional what copy new cc = Inr cc'"
  shows "copyOptional what copy new cc' = Inr cc'"
  using assms by (auto simp: copyOptional_eq_Inr split: option.splits)

lemma copyBindings_again: "copyBindings new cc = Inr cc' \<Longrightarrow> copyBindings new cc' = Inr cc'"
  by (induction new cc arbitrary: cc' rule: copyBindings.induct) (auto simp: go_simps copy_again)

lemma ReconcileComponents_again:
  assumes "ReconcileComponents cc new = Inr cc'"
  shows "ReconcileComponents cc' new = Inr cc'"
proof -
  from assms obtain secret deployment service serviceProfiling serviceAccount clusterRole ingressGrpc ingressHttp
      ingressProfiling pdb bindings cronJob
    where r: "copyRequired ''Secret'' copySecret (cc_Secret new) (cc_Secret cc) = Inr secret"
      "copyRequired ''Deployment'' copyDeployment (cc_Deployment new) (cc_Deployment cc) = Inr deployment"
      "copyOptional ''Service'' copyService (cc_Service new) (cc_Service cc) = Inr service"
      "copyOptional ''ServiceProfiling'' copyService (cc_ServiceProfiling new) (cc_ServiceProfiling cc) = Inr serviceProfiling"
      "copyOptional ''ServiceAccount'' copyServiceAccount (cc_ServiceAccount new) (cc_ServiceAccount cc) = Inr serviceAccount"
      "copyOptional ''ClusterRole'' copyClusterRole (cc_ClusterRole new) (cc_ClusterRole cc) = Inr clusterRole"
      "copyOptional ''IngressGrpc'' copyIngress (cc_IngressGrpc new) (cc_IngressGrpc cc) = Inr ingressGrpc"
      "copyOptional ''IngressHttp'' copyIngress (cc_IngressHttp new) (cc_IngressHttp cc) = Inr ingressHttp"
      "copyOptional ''IngressProfiling'' copyIngress (cc_IngressProfiling new) (cc_IngressProfiling cc) = Inr ingressProfiling"
      "copyOptional ''PodDisruptionBudget'' copyPodDisruptionBudget (cc_PodDisruptionBudget new) (cc_PodDisruptionBudget cc) = Inr pdb"
      "copyBindings (cc_ClusterRoleBindings new) (cc_ClusterRoleBindings cc) = Inr bindings"
      "copyOptional ''CronJob'' copyCronJob (cc_CronJob new) (cc_CronJob cc) = Inr cronJob"
    and cc': "cc' = cc\<lparr>cc_Secret := secret, cc_Deployment := deployment, cc_Service := service,
             cc_ServiceProfiling := serviceProfiling, cc_ServiceAccount := serviceAccount,
             cc_ClusterRole := clusterRole, cc_IngressGrpc := ingressGrpc, cc_IngressHttp := ingressHttp,
             cc_IngressProfiling := ingressProfiling, cc_PodDisruptionBudget := pdb,
             cc_ClusterRoleBindings := bindings, cc_CronJob := cronJob\<rparr>"
    unfolding ReconcileComponents_def andThen_eq_Inr by blast
  show ?thesis
    by (simp add: ReconcileComponents_def cc'
        copyRequired_again [OF copy_again(1) r(1)] copyRequired_again [OF copy_again(2) r(2)]
        copyOptional_again [OF copy_again(3) r(3)] copyOptional_again [OF copy_again(3) r(4)]
        copyOptional_again [OF copy_again(4) r(5)] copyOptional_again [OF copy_again(5) r(6)]
        copyOptional_again [OF copy_again(6) r(7)] copyOptional_again [OF copy_again(6) r(8)]
        copyOptional_again [OF copy_again(6) r(9)] copyOptional_again [OF copy_again(7) r(10)]
        copyBindings_again [OF r(11)] copyOptional_again [OF copy_again(9) r(12)])
qed

end
