(* ===== verification/ClientOps.thy ===== *)
theory ClientOps
  imports Components
begin

text \<open>
  The part of \<open>common_helpers.go\<close> that talks to the API server: \<open>getObject\<close>, the finalizer protocol of
  \<open>checkAndHandleObjectDeletion\<close>, \<open>upsertObjectIfNeeded\<close>, \<open>deleteObjectIfNeeded\<close> and \<open>waitForJob\<close>.
  The client and the polling loop are not under \<open>src/\<close>: a record \<open>client\<close> holds them as
  parameters over an opaque server state. The operator's own state is its heap (the components
  under construction, and Lookout's partition Job) and a ghost trace of the calls it makes.
\<close>

section \<open>The world\<close>

datatype addr = InComponents slot | PartitionJob

record heap =
  h_Components :: CommonComponents
  h_PartitionJob :: "Job option"

primrec load :: "addr \<Rightarrow> heap \<Rightarrow> kobj option" where
  "load (InComponents s) h = derefSlot (h_Components h) s"
| "load PartitionJob h = map_option KJob (h_PartitionJob h)"

primrec store :: "addr \<Rightarrow> kobj \<Rightarrow> heap \<Rightarrow> heap" where
  "store (InComponents s) ob h = h\<lparr>h_Components := storeSlot s ob (h_Components h)\<rparr>"
| "store PartitionJob ob h =
     (case ob of KJob j \<Rightarrow> h\<lparr>h_PartitionJob := map_option (\<lambda>_. j) (h_PartitionJob h)\<rparr> | _ \<Rightarrow> h)"

primrec addrKind :: "addr \<Rightarrow> kind" where
  "addrKind (InComponents s) = slotKind s"
| "addrKind PartitionJob = JobKind"

text \<open>
  The calls the operator makes: an update of the custom resource with the finalizers it sends, a
  create-or-update, a read of a Job, a delete, an update of a status.
\<close>

datatype event =
    EvUpdateCR "string list"
  | EvUpsert addr
  | EvGetJob addr
  | EvDelete addr
  | EvStatus "Condition list"

record 's world =
  w_Srv :: 's
  w_Heap :: heap
  w_Trace :: "event list"

text \<open>
  \<open>c_CreateOrUpdate\<close> gets the address of the object and the mutate function, which it calls on the
  heap; \<open>c_Poll interval timeout immediate\<close> is \<open>wait.PollUntilContextTimeout\<close>.
\<close>

record ('spec, 'status, 's) client =
  c_Get :: "string \<times> string \<Rightarrow> ('s, ('spec, 'status) CR) action"
  c_Update :: "('spec, 'status) CR \<Rightarrow> ('s, ('spec, 'status) CR) action"
  c_StatusUpdate :: "('spec, 'status) CR \<Rightarrow> ('s, ('spec, 'status) CR) action"
  c_Delete :: "kobj \<Rightarrow> ('s, unit) action"
  c_GetJob :: "string \<times> string \<Rightarrow> ('s, Job) action"
  c_CreateOrUpdate :: "addr \<Rightarrow> (heap, unit) action \<Rightarrow> (heap \<times> 's, unit) action"
  c_Poll :: "int64 \<Rightarrow> int64 \<Rightarrow> bool \<Rightarrow> ('s world, bool) action \<Rightarrow> ('s world, unit) action"

text \<open>A call that reads or changes only the server, and a record of a call in the trace.\<close>

definition onServer :: "('s, 'a) action \<Rightarrow> ('s world, 'a) action" where
  "onServer m = (\<lambda>w. case m (w_Srv w) of (r, s) \<Rightarrow> (r, w\<lparr>w_Srv := s\<rparr>))"

definition logCall :: "event \<Rightarrow> 's world \<Rightarrow> 's world" where
  "logCall e w = w\<lparr>w_Trace := w_Trace w @ [e]\<rparr>"

section \<open>Fetching\<close>

text \<open>\<open>None\<close> is \<open>miss = true, err = nil\<close>.\<close>

definition getObject ::
  "('spec, 'status, 's) client \<Rightarrow> string \<times> string \<Rightarrow> ('s world, ('spec, 'status) CR option) action" where
  "getObject c namespacedName = (\<lambda>w.
     case onServer (c_Get c namespacedName) w of
       (Inr object, w') \<Rightarrow> (Inr (Some object), w')
     | (Inl err, w') \<Rightarrow> if isNotFound err then (Inr None, w') else (Inl err, w'))"

section \<open>Finalizers\<close>

text \<open>\<open>client.Update\<close> writes the server's answer back into the object, so the new object is returned.\<close>

definition updateCR ::
  "('spec, 'status, 's) client \<Rightarrow> ('spec, 'status) CR \<Rightarrow> ('s world, ('spec, 'status) CR) action" where
  "updateCR c object = (\<lambda>w.
     onServer (c_Update c object) (logCall (EvUpdateCR (om_Finalizers (cr_Meta object))) w))"

definition addFinalizerIfNeeded ::
  "externs \<Rightarrow> ('spec, 'status, 's) client \<Rightarrow> ('spec, 'status) CR \<Rightarrow> string
     \<Rightarrow> ('s world, ('spec, 'status) CR) action" where
  "addFinalizerIfNeeded x c object finalizer =
     (if \<not> ContainsFinalizer x (cr_Meta object) finalizer
      then updateCR c (object\<lparr>cr_Meta := AddFinalizer x (cr_Meta object) finalizer\<rparr>)
      else returnA object)"

text \<open>\<open>finish\<close> is always true here; what differs is whether there is an error.\<close>

definition handleObjectDeletion ::
  "externs \<Rightarrow> ('spec, 'status, 's) client \<Rightarrow> ('spec, 'status) CR \<Rightarrow> string
     \<Rightarrow> ('s world, unit) action option \<Rightarrow> ('s world, bool \<times> ('spec, 'status) CR) action" where
  "handleObjectDeletion x c object finalizer cleanupF =
     (if ContainsFinalizer x (cr_Meta object) finalizer then
        andThenA (case cleanupF of Some f \<Rightarrow> f | None \<Rightarrow> returnA ()) (\<lambda>_.
        andThenA (updateCR c (object\<lparr>cr_Meta := RemoveFinalizer x (cr_Meta object) finalizer\<rparr>)) (\<lambda>object'.
        returnA (True, object')))
      else returnA (True, object))"

definition checkAndHandleObjectDeletion ::
  "externs \<Rightarrow> ('spec, 'status, 's) client \<Rightarrow> ('spec, 'status) CR \<Rightarrow> string
     \<Rightarrow> ('s world, unit) action option \<Rightarrow> ('s world, bool \<times> ('spec, 'status) CR) action" where
  "checkAndHandleObjectDeletion x c object finalizer cleanupF =
     (case om_DeletionTimestamp (cr_Meta object) of
        None \<Rightarrow> andThenA (addFinalizerIfNeeded x c object finalizer) (\<lambda>object'. returnA (False, object'))
      | Some _ \<Rightarrow> handleObjectDeletion x c object finalizer cleanupF)"

section \<open>Upserts and deletes\<close>

definition isNilAt :: "addr \<Rightarrow> 's world \<Rightarrow> bool" where
  "isNilAt a w \<longleftrightarrow> load a (w_Heap w) = None"

definition upsertObjectIfNeeded ::
  "('spec, 'status, 's) client \<Rightarrow> addr \<Rightarrow> (heap, unit) action \<Rightarrow> ('s world, unit) action" where
  "upsertObjectIfNeeded c object mutateFn = (\<lambda>w.
     if isNilAt object w then (Inr (), w)
     else (case c_CreateOrUpdate c object mutateFn (w_Heap w, w_Srv w) of
             (r, (h, s)) \<Rightarrow> (r, (logCall (EvUpsert object) w)\<lparr>w_Heap := h, w_Srv := s\<rparr>)))"

text \<open>\<open>k8sClient.Delete\<close> of a non-nil object; the nil case is the caller's.\<close>

definition deleteObject ::
  "('spec, 'status, 's) client \<Rightarrow> addr \<Rightarrow> ('s world, unit) action" where
  "deleteObject c object = (\<lambda>w.
     case load object (w_Heap w) of
       None \<Rightarrow> (Inl (Panic (NilDereference ''Delete'')), w)
     | Some ob \<Rightarrow> onServer (c_Delete c ob) (logCall (EvDelete object) w))"

definition ignoreNotFound :: "('w, unit) action \<Rightarrow> ('w, unit) action" where
  "ignoreNotFound m = (\<lambda>w. case m w of
     (Inl err, w') \<Rightarrow> if isNotFound err then (Inr (), w') else (Inl err, w')
   | (Inr u, w') \<Rightarrow> (Inr u, w'))"

definition deleteObjectIfNeeded ::
  "('spec, 'status, 's) client \<Rightarrow> addr \<Rightarrow> ('s world, unit) action" where
  "deleteObjectIfNeeded c object = (\<lambda>w.
     if isNilAt object w then (Inr (), w) else ignoreNotFound (deleteObject c object) w)"

section \<open>Waiting for a Job\<close>

definition pollJob :: "('spec, 'status, 's) client \<Rightarrow> addr \<Rightarrow> ('s world, bool) action" where
  "pollJob c object = (\<lambda>w.
     case load object (w_Heap w) of
       Some (KJob job) \<Rightarrow>
         andThenA (onServer (c_GetJob c (om_Namespace (job_Meta job), om_Name (job_Meta job))))
           (\<lambda>job' w'. (Inr (isJobFinished job'), w'\<lparr>w_Heap := store object (KJob job') (w_Heap w')\<rparr>))
           (logCall (EvGetJob object) w)
     | _ \<Rightarrow> (Inl (Panic (NilDereference ''Job'')), w))"

definition waitForJob ::
  "('spec, 'status, 's) client \<Rightarrow> addr \<Rightarrow> int64 \<Rightarrow> int64 \<Rightarrow> ('s world, unit) action" where
  "waitForJob c job pollInterval timeout = c_Poll c pollInterval timeout False (pollJob c job)"

section \<open>Sequences of steps\<close>

text \<open>
  The body of a \<open>Reconcile\<close> after the components are generated is a sequence of calls, each followed
  by \<open>if err != nil { return err }\<close>.
\<close>

datatype step = Upsert addr | WaitJob addr | DeleteObject addr

text \<open>\<open>mutateFn := func() error { components.ReconcileComponents(componentsCopy); return nil }\<close>.\<close>

definition reconcileMutate :: "CommonComponents \<Rightarrow> (heap, unit) action" where
  "reconcileMutate componentsCopy = (\<lambda>h.
     case ReconcileComponents (h_Components h) componentsCopy of
       Inl p \<Rightarrow> (Inl p, h)
     | Inr cc \<Rightarrow> (Inr (), h\<lparr>h_Components := cc\<rparr>))"

primrec runStep ::
  "('spec, 'status, 's) client \<Rightarrow> (heap, unit) action \<Rightarrow> step \<Rightarrow> ('s world, unit) action" where
  "runStep c mutateFn (Upsert a) = upsertObjectIfNeeded c a mutateFn"
| "runStep c mutateFn (WaitJob a) = waitForJob c a jobPollInterval jobTimeout"
| "runStep c mutateFn (DeleteObject a) = deleteObjectIfNeeded c a"

primrec runSteps ::
  "('spec, 'status, 's) client \<Rightarrow> (heap, unit) action \<Rightarrow> step list \<Rightarrow> ('s world, unit) action" where
  "runSteps c mutateFn [] = returnA ()"
| "runSteps c mutateFn (st # sts) = andThenA (runStep c mutateFn st) (\<lambda>_. runSteps c mutateFn sts)"

text \<open>\<open>components\<close> comes into scope.\<close>

definition allocComponents :: "CommonComponents \<Rightarrow> Job option \<Rightarrow> ('s world, unit) action" where
  "allocComponents cc job = (\<lambda>w. (Inr (), w\<lparr>w_Heap := \<lparr>h_Components = cc, h_PartitionJob = job\<rparr>\<rparr>))"

text \<open>The upserts of the objects at some slots, in order.\<close>

abbreviation upserts :: "slot list \<Rightarrow> step list" where
  "upserts ss \<equiv> map (\<lambda>s. Upsert (InComponents s)) ss"

end
