(* ===== verification/Reconciling.thy ===== *)
theory Reconciling
  imports ClientOps "HOL-Library.Sublist"
begin

text \<open>
  What a sequence of reconciliation steps does, for every client that behaves as documented. The
  laws of the client are predicates over a view of the server's state. The lemmas: the operator's
  objects keep their identity through a run; the calls made are a prefix of the plan, all of it
  when the run returns no error; a Job that was waited for is finished; and after a run without
  error the server holds, for every managed object of the plan, the fields that were generated. A
  reference client shows that the laws can hold.
\<close>

section \<open>Laws of the client\<close>

type_synonym 's view = "'s \<Rightarrow> objkey \<Rightarrow> kobj option"

text \<open>At most the object at one address was overwritten, by one with the same key.\<close>

definition touched :: "addr \<Rightarrow> heap \<Rightarrow> heap \<Rightarrow> bool" where
  "touched a h h' \<longleftrightarrow> h' = h \<or>
     (\<exists>ob ob'. load a h = Some ob \<and> keyOf ob' = keyOf ob \<and> h' = store a ob' h)"

text \<open>
  \<open>CreateOrUpdate\<close> reads the object into the address, fails, or calls the mutate function once; it
  passes on the error of the mutate function and otherwise creates or updates, and writes the
  answer back. On success the server holds the fields that were sent: \<open>view\<close> is what clients sent, and
  the defaults that the server itself adds are not part of it. No other object changes. The law is
  relative to a set of keys \<open>K\<close>: where others change the server too, only what no one else writes can be
  relied on to be there.
\<close>

definition upsertLawOn :: "objkey set \<Rightarrow> ('spec, 'status, 's) client \<Rightarrow> 's view \<Rightarrow> bool" where
  "upsertLawOn K c view \<longleftrightarrow> (\<forall>a f h s r h' s' ob.
     load a h = Some ob \<longrightarrow> c_CreateOrUpdate c a f (h, s) = (r, (h', s')) \<longrightarrow>
     (\<forall>k. k \<noteq> keyOf ob \<longrightarrow> view s' k = view s k) \<and>
     (\<exists>h1. touched a h h1 \<and>
        ((\<exists>e. r = Inl e \<and> h' = h1) \<or>
         (\<exists>e. r = Inl e \<and> f h1 = (Inl e, h')) \<or>
         (\<exists>h2. f h1 = (Inr (), h2) \<and> touched a h2 h' \<and>
            (r = Inr () \<longrightarrow> keyOf ob \<in> K \<longrightarrow> (\<exists>sent stored. load a h2 = Some sent \<and>
               view s' (keyOf ob) = Some stored \<and> ownedFields stored = ownedFields sent))))))"

abbreviation upsertLaw :: "('spec, 'status, 's) client \<Rightarrow> 's view \<Rightarrow> bool" where
  "upsertLaw \<equiv> upsertLawOn UNIV"

lemma upsertLaw_eq:
  "upsertLaw c view \<longleftrightarrow> (\<forall>a f h s r h' s' ob.
     load a h = Some ob \<longrightarrow> c_CreateOrUpdate c a f (h, s) = (r, (h', s')) \<longrightarrow>
     (\<forall>k. k \<noteq> keyOf ob \<longrightarrow> view s' k = view s k) \<and>
     (\<exists>h1. touched a h h1 \<and>
        ((\<exists>e. r = Inl e \<and> h' = h1) \<or>
         (\<exists>e. r = Inl e \<and> f h1 = (Inl e, h')) \<or>
         (\<exists>h2. f h1 = (Inr (), h2) \<and> touched a h2 h' \<and>
            (r = Inr () \<longrightarrow> (\<exists>sent stored. load a h2 = Some sent \<and>
               view s' (keyOf ob) = Some stored \<and> ownedFields stored = ownedFields sent))))))"
  by (simp add: upsertLawOn_def)

text \<open>Reading a Job returns the Job of that name and changes nothing.\<close>

definition getJobLaw :: "('spec, 'status, 's) client \<Rightarrow> 's view \<Rightarrow> bool" where
  "getJobLaw c view \<longleftrightarrow> (\<forall>ns n s r s'. c_GetJob c (ns, n) s = (r, s') \<longrightarrow> view s' = view s \<and>
     (\<forall>job. r = Inr job \<longrightarrow> om_Namespace (job_Meta job) = ns \<and> om_Name (job_Meta job) = n))"

definition deleteLaw :: "('spec, 'status, 's) client \<Rightarrow> 's view \<Rightarrow> bool" where
  "deleteLaw c view \<longleftrightarrow> (\<forall>ob s r s'. c_Delete c ob s = (r, s') \<longrightarrow>
     (\<forall>k. k \<noteq> keyOf ob \<longrightarrow> view s' k = view s k))"

text \<open>
  Polling calls the condition at most once per interval until it is true, fails with the
  condition's error, or with a timeout. How often it fits into the timeout depends on how long
  the calls take, so only the bound is known.
\<close>

primrec pollFor :: "nat \<Rightarrow> ('w, bool) action \<Rightarrow> ('w, unit) action" where
  "pollFor 0 cond = failA PollTimeout"
| "pollFor (Suc n) cond = andThenA cond (\<lambda>done. if done then returnA () else pollFor n cond)"

definition pollLaw :: "('spec, 'status, 's) client \<Rightarrow> bool" where
  "pollLaw c \<longleftrightarrow> (\<forall>i t cond w. positive i \<longrightarrow> positive t \<longrightarrow>
     (\<exists>n \<le> unat t div unat i. c_Poll c i t False cond w = pollFor n cond w))"

definition clientLawsOn :: "objkey set \<Rightarrow> ('spec, 'status, 's) client \<Rightarrow> 's view \<Rightarrow> bool" where
  "clientLawsOn K c view \<longleftrightarrow> upsertLawOn K c view \<and> getJobLaw c view \<and> deleteLaw c view \<and> pollLaw c"

abbreviation clientLaws :: "('spec, 'status, 's) client \<Rightarrow> 's view \<Rightarrow> bool" where
  "clientLaws \<equiv> clientLawsOn UNIV"

lemma clientLawsD:
  assumes "clientLawsOn K c view"
  shows "upsertLawOn K c view" "getJobLaw c view" "deleteLaw c view" "pollLaw c"
  using assms by (simp_all add: clientLawsOn_def)

section \<open>The heap\<close>

lemma load_kind: "load a h = Some ob \<Longrightarrow> kindOf ob = addrKind a"
  by (cases a) (auto simp: derefSlot_kind)

lemma load_store:
  assumes "kindOf ob = addrKind a"
  shows "load b (store a ob h) = (if b = a then map_option (\<lambda>_. ob) (load a h) else load b h)"
proof (cases a)
  case (InComponents s)
  with assms show ?thesis by (cases b) (simp_all add: derefSlot_storeSlot)
next
  case PartitionJob
  with assms show ?thesis by (cases b; cases ob) (simp_all add: option.map_comp o_def)
qed

lemma keyOf_kind: "keyOf ob = keyOf ob' \<Longrightarrow> kindOf ob = kindOf ob'"
  by (simp add: keyOf_def)

text \<open>The same addresses are in use, for objects with the same keys.\<close>

definition sameKeys :: "heap \<Rightarrow> heap \<Rightarrow> bool" where
  "sameKeys h h0 \<longleftrightarrow> (\<forall>a. map_option keyOf (load a h) = map_option keyOf (load a h0))"

lemma sameKeys_refl [simp]: "sameKeys h h"
  by (simp add: sameKeys_def)

lemma sameKeys_trans [trans]: "sameKeys a b \<Longrightarrow> sameKeys b c \<Longrightarrow> sameKeys a c"
  by (simp add: sameKeys_def)

lemma sameKeys_Some:
  "sameKeys h h0 \<Longrightarrow> load a h0 = Some n \<Longrightarrow> \<exists>ob. load a h = Some ob \<and> keyOf ob = keyOf n"
  "sameKeys h h0 \<Longrightarrow> load a h = Some ob \<Longrightarrow> \<exists>n. load a h0 = Some n \<and> keyOf ob = keyOf n"
  "sameKeys h h0 \<Longrightarrow> load a h = None \<longleftrightarrow> load a h0 = None"
  unfolding sameKeys_def by (metis map_option_eq_Some option.map_disc_iff)+

lemma sameKeys_sameShape: "sameKeys h h0 \<Longrightarrow> sameShape (h_Components h) (h_Components h0)"
  unfolding sameShape_def using sameKeys_Some(3) [of h h0 "InComponents _"] by simp

lemma load_keyOf_kind: "load a h = Some ob \<Longrightarrow> keyOf ob' = keyOf ob \<Longrightarrow> kindOf ob' = addrKind a"
  by (drule load_kind, drule keyOf_kind, erule trans)

lemma touched_load: "touched a h h' \<Longrightarrow> b \<noteq> a \<Longrightarrow> load b h' = load b h"
  unfolding touched_def by (auto simp: load_store load_keyOf_kind)

lemma touched_sameKeys: "touched a h h' \<Longrightarrow> sameKeys h' h"
  unfolding touched_def sameKeys_def by (auto simp: load_store load_keyOf_kind)

section \<open>The mutate function\<close>

lemma keyOf_copyObject [simp]: "keyOf (copyObject n c) = keyOf c"
proof -
  have "om_Name (metaOf (copyObject n c)) = om_Name (metaOf c)"
    "om_Namespace (metaOf (copyObject n c)) = om_Namespace (metaOf c)"
    using identity_eqD [OF identity_copyObject [of n c]] by simp_all
  then show ?thesis by (simp add: keyOf_def)
qed

text \<open>
  Run on a heap that holds the generated objects, possibly overwritten by what the server had, it
  returns, keeps the keys, gives the managed objects their generated fields and leaves the rest.
\<close>

fun managedAddr :: "addr \<Rightarrow> bool" where
  "managedAddr (InComponents s) = managed s"
| "managedAddr PartitionJob = False"

lemma reconcileMutate_run:
  assumes keys: "sameKeys h h0" and new: "h_Components h0 = new"
    and req: "cc_Secret new \<noteq> None" "cc_Deployment new \<noteq> None"
  obtains h' where "reconcileMutate new h = (Inr (), h')" "sameKeys h' h0"
    "\<And>a ob. load a h' = Some ob \<Longrightarrow> managedAddr a \<Longrightarrow>
       (\<exists>n. load a h0 = Some n \<and> ownedFields ob = ownedFields n)"
    "\<And>a. \<not> managedAddr a \<Longrightarrow> load a h' = load a h"
proof -
  have shape: "sameShape (h_Components h) new" using sameKeys_sameShape [OF keys] new by simp
  obtain cc' where 1: "ReconcileComponents (h_Components h) new = Inr cc'"
    and slots: "\<And>s. derefSlot cc' s = (if managed s then (case derefSlot new s of None \<Rightarrow> None
        | Some n \<Rightarrow> map_option (copyObject n) (derefSlot (h_Components h) s)) else derefSlot (h_Components h) s)"
    using ReconcileComponents_contract [OF shape req] by metis
  let ?h' = "h\<lparr>h_Components := cc'\<rparr>"
  have k1: "map_option keyOf (derefSlot cc' s) = map_option keyOf (derefSlot (h_Components h) s)" for s
    using shape [unfolded sameShape_def, THEN spec, of s]
    by (auto simp: slots option.map_comp o_def split: option.split)
  have "map_option keyOf (load a ?h') = map_option keyOf (load a h)" for a
    using k1 by (cases a) simp_all
  with keys have k2: "sameKeys ?h' h0" unfolding sameKeys_def by simp
  have own: "\<exists>n. load a h0 = Some n \<and> ownedFields ob = ownedFields n"
    if "load a ?h' = Some ob" "managedAddr a" for a ob
  proof (cases a)
    case (InComponents s)
    with that have "derefSlot cc' s = Some ob" "managed s" by simp_all
    with ReconcileComponents_owned [OF 1] obtain n where "derefSlot new s = Some n"
      "ownedFields ob = ownedFields n" by metis
    with InComponents new show ?thesis by simp
  qed (use that in simp)
  have rest: "load a ?h' = load a h" if "\<not> managedAddr a" for a
    using that slots by (cases a) simp_all
  show thesis
    using that [of ?h'] 1 k2 own rest by (simp add: reconcileMutate_def)
qed

section \<open>One step\<close>

text \<open>
  \<open>holds view h0 a w\<close>: the server holds the generated fields of the object that \<open>h0\<close> has at \<open>a\<close>.
  \<open>elsewhere\<close>: the server changed at most at that object's key.
\<close>

definition holds :: "'s view \<Rightarrow> heap \<Rightarrow> addr \<Rightarrow> 's world \<Rightarrow> bool" where
  "holds view h0 a w \<longleftrightarrow> (\<exists>n stored. load a h0 = Some n \<and>
     view (w_Srv w) (keyOf n) = Some stored \<and> ownedFields stored = ownedFields n)"

definition elsewhere :: "'s view \<Rightarrow> heap \<Rightarrow> addr \<Rightarrow> 's world \<Rightarrow> 's world \<Rightarrow> bool" where
  "elsewhere view h0 a w w' \<longleftrightarrow> (\<forall>k. (\<forall>n. load a h0 = Some n \<longrightarrow> k \<noteq> keyOf n) \<longrightarrow>
     view (w_Srv w') k = view (w_Srv w) k)"

lemma logCall_simps [simp]:
  "w_Srv (logCall e w) = w_Srv w" "w_Heap (logCall e w) = w_Heap w"
  "w_Trace (logCall e w) = w_Trace w @ [e]"
  by (simp_all add: logCall_def)

lemma upsert_nil:
  "load a (w_Heap w) = None \<Longrightarrow> upsertObjectIfNeeded c a f w = (Inr (), w)"
  by (simp add: upsertObjectIfNeeded_def isNilAt_def)

lemma upsert_run:
  assumes law: "upsertLawOn K c view" and keys: "sameKeys (w_Heap w) h0" and new: "h_Components h0 = new"
    and req: "cc_Secret new \<noteq> None" "cc_Deployment new \<noteq> None"
    and run: "upsertObjectIfNeeded c a (reconcileMutate new) w = (r, w')"
  shows "sameKeys (w_Heap w') h0"
    and "w_Trace w' = w_Trace w @ (if load a h0 = None then [] else [EvUpsert a])"
    and "\<And>b. \<not> managedAddr b \<Longrightarrow> b \<noteq> a \<Longrightarrow> load b (w_Heap w') = load b (w_Heap w)"
    and "elsewhere view h0 a w w'"
    and "r = Inr () \<Longrightarrow> managedAddr a \<Longrightarrow> load a h0 = Some n \<Longrightarrow> keyOf n \<in> K \<Longrightarrow> holds view h0 a w'"
proof -
  have "sameKeys (w_Heap w') h0
      \<and> w_Trace w' = w_Trace w @ (if load a h0 = None then [] else [EvUpsert a])
      \<and> (\<forall>b. \<not> managedAddr b \<longrightarrow> b \<noteq> a \<longrightarrow> load b (w_Heap w') = load b (w_Heap w))
      \<and> elsewhere view h0 a w w'
      \<and> (\<forall>n. r = Inr () \<longrightarrow> managedAddr a \<longrightarrow> load a h0 = Some n \<longrightarrow> keyOf n \<in> K \<longrightarrow> holds view h0 a w')"
  proof (cases "load a h0")
    case None
    with keys have "load a (w_Heap w) = None" by (simp add: sameKeys_Some(3))
    with run None keys show ?thesis by (simp add: upsert_nil elsewhere_def)
  next
    case (Some n)
    obtain ob where ob: "load a (w_Heap w) = Some ob" "keyOf ob = keyOf n"
      using sameKeys_Some(1) [OF keys Some] by blast
    obtain h' s' where co: "c_CreateOrUpdate c a (reconcileMutate new) (w_Heap w, w_Srv w) = (r, (h', s'))"
      and w': "w' = (logCall (EvUpsert a) w)\<lparr>w_Heap := h', w_Srv := s'\<rparr>"
      using run ob by (auto simp: upsertObjectIfNeeded_def isNilAt_def split: prod.splits)
    from law ob(1) co
    have frame: "\<forall>k. k \<noteq> keyOf ob \<longrightarrow> view s' k = view (w_Srv w) k"
      and "\<exists>h1. touched a (w_Heap w) h1 \<and>
        ((\<exists>e. r = Inl e \<and> h' = h1) \<or> (\<exists>e. r = Inl e \<and> reconcileMutate new h1 = (Inl e, h')) \<or>
         (\<exists>h2. reconcileMutate new h1 = (Inr (), h2) \<and> touched a h2 h' \<and>
            (r = Inr () \<longrightarrow> keyOf ob \<in> K \<longrightarrow> (\<exists>sent stored. load a h2 = Some sent \<and>
               view s' (keyOf ob) = Some stored \<and> ownedFields stored = ownedFields sent))))"
      unfolding upsertLawOn_def by blast+
    then obtain h1 where h1: "touched a (w_Heap w) h1" and cs:
        "(\<exists>e. r = Inl e \<and> h' = h1) \<or> (\<exists>e. r = Inl e \<and> reconcileMutate new h1 = (Inl e, h')) \<or>
         (\<exists>h2. reconcileMutate new h1 = (Inr (), h2) \<and> touched a h2 h' \<and>
            (r = Inr () \<longrightarrow> keyOf ob \<in> K \<longrightarrow> (\<exists>sent stored. load a h2 = Some sent \<and>
               view s' (keyOf ob) = Some stored \<and> ownedFields stored = ownedFields sent)))" by blast
    have k1: "sameKeys h1 h0" using touched_sameKeys [OF h1] keys by (rule sameKeys_trans)
    obtain h2 where h2: "reconcileMutate new h1 = (Inr (), h2)" "sameKeys h2 h0"
      and own: "\<And>b ob. load b h2 = Some ob \<Longrightarrow> managedAddr b \<Longrightarrow>
         (\<exists>n. load b h0 = Some n \<and> ownedFields ob = ownedFields n)"
      and rest: "\<And>b. \<not> managedAddr b \<Longrightarrow> load b h2 = load b h1"
      using reconcileMutate_run [OF k1 new req] by blast
    from cs h2(1) have cs': "(\<exists>e. r = Inl e \<and> h' = h1) \<or> touched a h2 h' \<and>
        (r = Inr () \<longrightarrow> keyOf ob \<in> K \<longrightarrow> (\<exists>sent stored. load a h2 = Some sent \<and>
           view s' (keyOf ob) = Some stored \<and> ownedFields stored = ownedFields sent))" by auto
    have keys': "sameKeys h' h0" using cs' k1 h2(2) touched_sameKeys sameKeys_trans by blast
    have frame': "load b h' = load b (w_Heap w)" if "\<not> managedAddr b" "b \<noteq> a" for b
      using cs' rest [OF that(1)] touched_load [OF _ that(2)] h1 by metis
    have "holds view h0 a w'" if "r = Inr ()" "managedAddr a" "keyOf n \<in> K"
      using cs' own that Some ob(2) w' unfolding holds_def by fastforce
    with keys' frame' frame Some ob(2) w' show ?thesis by (simp add: elsewhere_def)
  qed
  then show "sameKeys (w_Heap w') h0"
    "w_Trace w' = w_Trace w @ (if load a h0 = None then [] else [EvUpsert a])"
    "\<And>b. \<not> managedAddr b \<Longrightarrow> b \<noteq> a \<Longrightarrow> load b (w_Heap w') = load b (w_Heap w)"
    "elsewhere view h0 a w w'"
    "r = Inr () \<Longrightarrow> managedAddr a \<Longrightarrow> load a h0 = Some n \<Longrightarrow> keyOf n \<in> K \<Longrightarrow> holds view h0 a w'"
    by blast+
qed

lemma delete_run:
  assumes law: "deleteLaw c view" and keys: "sameKeys (w_Heap w) h0"
    and run: "deleteObjectIfNeeded c a w = (r, w')"
  shows "w_Heap w' = w_Heap w"
    and "w_Trace w' = w_Trace w @ (if load a h0 = None then [] else [EvDelete a])"
    and "elsewhere view h0 a w w'"
proof -
  have "w_Heap w' = w_Heap w \<and> w_Trace w' = w_Trace w @ (if load a h0 = None then [] else [EvDelete a])
      \<and> elsewhere view h0 a w w'"
  proof (cases "load a (w_Heap w)")
    case None
    moreover from this keys have "load a h0 = None" by (simp add: sameKeys_Some(3))
    ultimately show ?thesis using run
      by (simp add: deleteObjectIfNeeded_def isNilAt_def elsewhere_def)
  next
    case (Some ob)
    obtain n where n: "load a h0 = Some n" "keyOf ob = keyOf n"
      using sameKeys_Some(2) [OF keys Some] by blast
    obtain r' s' where d: "c_Delete c ob (w_Srv w) = (r', s')" by fastforce
    have "w' = (logCall (EvDelete a) w)\<lparr>w_Srv := s'\<rparr>"
      using run Some d by (auto simp: deleteObjectIfNeeded_def isNilAt_def ignoreNotFound_def
          deleteObject_def onServer_def split: sum.splits if_splits)
    moreover have "\<forall>k. k \<noteq> keyOf ob \<longrightarrow> view s' k = view (w_Srv w) k"
      using law d unfolding deleteLaw_def by blast
    ultimately show ?thesis using n by (simp add: elsewhere_def)
  qed
  then show "w_Heap w' = w_Heap w" "elsewhere view h0 a w w'"
    "w_Trace w' = w_Trace w @ (if load a h0 = None then [] else [EvDelete a])" by blast+
qed

section \<open>Waiting\<close>

text \<open>What polling the Job at \<open>a\<close> up to \<open>n\<close> times may change.\<close>

definition polled :: "'s view \<Rightarrow> heap \<Rightarrow> addr \<Rightarrow> nat \<Rightarrow> 's world \<Rightarrow> 's world \<Rightarrow> bool" where
  "polled view h0 a n w w' \<longleftrightarrow> sameKeys (w_Heap w') h0 \<and> view (w_Srv w') = view (w_Srv w) \<and>
     (\<forall>b. b \<noteq> a \<longrightarrow> load b (w_Heap w') = load b (w_Heap w)) \<and>
     (\<exists>m \<le> n. w_Trace w' = w_Trace w @ replicate m (EvGetJob a))"

lemma polled_trans: "polled view h0 a n u v \<Longrightarrow> polled view h0 a m v w \<Longrightarrow> polled view h0 a (n + m) u w"
  unfolding polled_def
  by clarsimp (metis add_le_mono replicate_add)

definition finishedAt :: "addr \<Rightarrow> 's world \<Rightarrow> bool" where
  "finishedAt a w \<longleftrightarrow> (\<exists>job. load a (w_Heap w) = Some (KJob job) \<and> isJobFinished job)"

lemma pollJob_run:
  assumes law: "getJobLaw c view" and keys: "sameKeys (w_Heap w) h0"
    and run: "pollJob c a w = (r, w')"
  shows "polled view h0 a 1 w w'" "r = Inr d \<Longrightarrow> (d \<longleftrightarrow> finishedAt a w')"
proof -
  have "polled view h0 a 1 w w' \<and> (\<forall>d. r = Inr d \<longrightarrow> (d \<longleftrightarrow> finishedAt a w'))"
  proof (cases "\<exists>job. load a (w_Heap w) = Some (KJob job)")
    case False
    then have "r = Inl (Panic (NilDereference ''Job'')) \<and> w' = w"
      using run by (auto simp: pollJob_def split: option.splits kobj.splits)
    with keys show ?thesis by (auto simp: polled_def intro!: exI [of _ 0])
  next
    case True
    then obtain job where job: "load a (w_Heap w) = Some (KJob job)" by blast
    let ?k = "(om_Namespace (job_Meta job), om_Name (job_Meta job))"
    obtain r1 s1 where g: "c_GetJob c ?k (w_Srv w) = (r1, s1)" by fastforce
    from law g have v: "view s1 = view (w_Srv w)" and nm: "\<And>j. r1 = Inr j \<Longrightarrow>
        om_Namespace (job_Meta j) = om_Namespace (job_Meta job) \<and> om_Name (job_Meta j) = om_Name (job_Meta job)"
      unfolding getJobLaw_def by blast+
    show ?thesis
    proof (cases r1)
      case (Inl e)
      with run job g have "r = Inl e" "w' = (logCall (EvGetJob a) w)\<lparr>w_Srv := s1\<rparr>"
        by (simp_all add: pollJob_def onServer_def andThenA_def)
      with v keys show ?thesis by (auto simp: polled_def intro!: exI [of _ 1])
    next
      case (Inr j)
      let ?h = "store a (KJob j) (w_Heap w)"
      from run job g Inr have r: "r = Inr (isJobFinished j)"
        and w': "w' = (logCall (EvGetJob a) w)\<lparr>w_Srv := s1, w_Heap := ?h\<rparr>"
        by (simp_all add: pollJob_def onServer_def andThenA_def)
      have "keyOf (KJob j) = keyOf (KJob job)" using nm [OF Inr] by (simp add: keyOf_def)
      with job have t: "touched a (w_Heap w) ?h" unfolding touched_def by blast
      have k: "kindOf (KJob j) = addrKind a" using load_kind [OF job] by simp
      have "load a ?h = Some (KJob j)" using k job by (simp add: load_store)
      with r w' have "\<forall>d. r = Inr d \<longrightarrow> (d \<longleftrightarrow> finishedAt a w')" by (simp add: finishedAt_def)
      moreover have "polled view h0 a 1 w w'"
        using w' v touched_load [OF t] sameKeys_trans [OF touched_sameKeys [OF t] keys]
        by (auto simp: polled_def intro!: exI [of _ 1])
      ultimately show ?thesis by blast
    qed
  qed
  then show "polled view h0 a 1 w w'" "r = Inr d \<Longrightarrow> (d \<longleftrightarrow> finishedAt a w')" by blast+
qed

lemma pollFor_run:
  assumes law: "getJobLaw c view" and keys: "sameKeys (w_Heap w) h0"
    and run: "pollFor n (pollJob c a) w = (r, w')"
  shows "polled view h0 a n w w' \<and> (r = Inr () \<longrightarrow> finishedAt a w')"
  using keys run
proof (induction n arbitrary: w)
  case 0
  then show ?case by (auto simp: polled_def)
next
  case (Suc n)
  obtain r1 w1 where p: "pollJob c a w = (r1, w1)" by fastforce
  note p1 = pollJob_run [OF law Suc.prems(1) p]
  have mono: "polled view h0 a 1 w w1 \<Longrightarrow> polled view h0 a (Suc n) w w1"
    by (auto simp: polled_def)
  show ?case
  proof (cases r1)
    case (Inl e)
    with Suc.prems(2) p p1(1) mono show ?thesis by (auto simp: andThenA_def)
  next
    case (Inr d)
    show ?thesis
    proof (cases d)
      case True
      with Suc.prems(2) p Inr have "r = Inr ()" "w' = w1" by (simp_all add: andThenA_def)
      with p1(1) p1(2) [OF Inr] True mono show ?thesis by simp
    next
      case False
      with Suc.prems(2) p Inr have rest: "pollFor n (pollJob c a) w1 = (r, w')"
        by (simp add: andThenA_def)
      have "sameKeys (w_Heap w1) h0" using p1(1) by (simp add: polled_def)
      from Suc.IH [OF this rest] polled_trans [OF p1(1)] show ?thesis by fastforce
    qed
  qed
qed

text \<open>\<open>waitForJob\<close> polls at most \<open>120 s / 5 s = 24\<close> times.\<close>

lemma poll_budget: "unat jobTimeout div unat jobPollInterval = 24"
  "positive jobPollInterval" "positive jobTimeout"
  by (simp_all add: jobTimeout_def jobPollInterval_def word_sless_alt)

lemma wait_run:
  assumes law: "getJobLaw c view" "pollLaw c" and keys: "sameKeys (w_Heap w) h0"
    and run: "waitForJob c a jobPollInterval jobTimeout w = (r, w')"
  shows "polled view h0 a 24 w w'" "r = Inr () \<Longrightarrow> finishedAt a w'"
proof -
  obtain n where n: "n \<le> 24" "pollFor n (pollJob c a) w = (r, w')"
    using law(2) run poll_budget unfolding pollLaw_def waitForJob_def by metis
  from pollFor_run [OF law(1) keys n(2)] have p: "polled view h0 a n w w'" "r = Inr () \<longrightarrow> finishedAt a w'"
    by blast+
  from p(1) n(1) show "polled view h0 a 24 w w'" unfolding polled_def by (meson le_trans)
  from p(2) show "r = Inr () \<Longrightarrow> finishedAt a w'" by blast
qed

section \<open>A run of steps\<close>

text \<open>The calls a plan asks for, and the calls of a trace other than the reads of Jobs.\<close>

fun isRead :: "event \<Rightarrow> bool" where
  "isRead (EvGetJob _) = True"
| "isRead _ = False"

definition visible :: "event list \<Rightarrow> event list" where
  "visible es = filter (\<lambda>e. \<not> isRead e) es"

fun stepEvents :: "heap \<Rightarrow> step \<Rightarrow> event list" where
  "stepEvents h0 (Upsert a) = (if load a h0 = None then [] else [EvUpsert a])"
| "stepEvents h0 (DeleteObject a) = (if load a h0 = None then [] else [EvDelete a])"
| "stepEvents h0 (WaitJob a) = []"

definition planned :: "heap \<Rightarrow> step list \<Rightarrow> event list" where
  "planned h0 sts = concat (map (stepEvents h0) sts)"

primrec stepAddr :: "step \<Rightarrow> addr" where
  "stepAddr (Upsert a) = a"
| "stepAddr (DeleteObject a) = a"
| "stepAddr (WaitJob a) = a"

lemma visible_simps [simp]:
  "visible [] = []" "visible (xs @ ys) = visible xs @ visible ys"
  "visible (replicate n (EvGetJob a)) = []"
  "visible [EvUpsert a] = [EvUpsert a]" "visible [EvDelete a] = [EvDelete a]"
  "visible [EvUpdateCR fs] = [EvUpdateCR fs]" "visible [EvStatus cs] = [EvStatus cs]"
  by (simp_all add: visible_def)

lemma visible_set: "\<not> isRead e \<Longrightarrow> e \<in> set (visible es) \<longleftrightarrow> e \<in> set es"
  by (simp add: visible_def)

lemma planned_simps [simp]:
  "planned h0 [] = []" "planned h0 (st # sts) = stepEvents h0 st @ planned h0 sts"
  "planned h0 (sts @ sts') = planned h0 sts @ planned h0 sts'"
  by (simp_all add: planned_def)

definition generated :: "heap \<Rightarrow> CommonComponents \<Rightarrow> bool" where
  "generated h0 new \<longleftrightarrow> h_Components h0 = new \<and> cc_Secret new \<noteq> None \<and> cc_Deployment new \<noteq> None"

lemma runStep_run:
  assumes laws: "clientLawsOn K c view" and keys: "sameKeys (w_Heap w) h0" and gen: "generated h0 new"
    and run: "runStep c (reconcileMutate new) st w = (r, w')"
  shows "sameKeys (w_Heap w') h0"
    and "\<exists>es. w_Trace w' = w_Trace w @ es \<and> visible es = stepEvents h0 st"
    and "\<And>b. \<not> managedAddr b \<Longrightarrow> b \<noteq> stepAddr st \<Longrightarrow> load b (w_Heap w') = load b (w_Heap w)"
    and "elsewhere view h0 (stepAddr st) w w'"
    and "r = Inr () \<Longrightarrow> st = Upsert a \<Longrightarrow> managedAddr a \<Longrightarrow> load a h0 = Some n \<Longrightarrow> keyOf n \<in> K \<Longrightarrow> holds view h0 a w'"
    and "r = Inr () \<Longrightarrow> st = WaitJob a \<Longrightarrow> finishedAt a w'"
proof -
  note l = clientLawsD [OF laws]
  from gen have new: "h_Components h0 = new" "cc_Secret new \<noteq> None" "cc_Deployment new \<noteq> None"
    by (simp_all add: generated_def)
  have "sameKeys (w_Heap w') h0 \<and> (\<exists>es. w_Trace w' = w_Trace w @ es \<and> visible es = stepEvents h0 st)
      \<and> (\<forall>b. \<not> managedAddr b \<longrightarrow> b \<noteq> stepAddr st \<longrightarrow> load b (w_Heap w') = load b (w_Heap w))
      \<and> elsewhere view h0 (stepAddr st) w w'
      \<and> (r = Inr () \<longrightarrow> st = Upsert a \<longrightarrow> managedAddr a \<longrightarrow> load a h0 = Some n \<longrightarrow> keyOf n \<in> K \<longrightarrow> holds view h0 a w')
      \<and> (r = Inr () \<longrightarrow> st = WaitJob a \<longrightarrow> finishedAt a w')"
  proof (cases st)
    case (Upsert b)
    with run have "upsertObjectIfNeeded c b (reconcileMutate new) w = (r, w')" by simp
    note u = upsert_run [OF l(1) keys new this]
    have "\<exists>es. w_Trace w' = w_Trace w @ es \<and> visible es = stepEvents h0 st"
      using u(2) Upsert by auto
    with u(1,3,4,5) Upsert show ?thesis by auto
  next
    case (DeleteObject b)
    with run have "deleteObjectIfNeeded c b w = (r, w')" by simp
    note d = delete_run [OF l(3) keys this]
    have "\<exists>es. w_Trace w' = w_Trace w @ es \<and> visible es = stepEvents h0 st"
      using d(2) DeleteObject by auto
    with d(1,3) keys DeleteObject show ?thesis by simp
  next
    case (WaitJob b)
    with run have "waitForJob c b jobPollInterval jobTimeout w = (r, w')" by simp
    note p = wait_run [OF l(2,4) keys this]
    from p(1) have "\<exists>es. w_Trace w' = w_Trace w @ es \<and> visible es = stepEvents h0 st"
      using WaitJob unfolding polled_def by (metis stepEvents.simps(3) visible_simps(3))
    with p WaitJob show ?thesis by (auto simp: polled_def elsewhere_def)
  qed
  then show "sameKeys (w_Heap w') h0"
    "\<exists>es. w_Trace w' = w_Trace w @ es \<and> visible es = stepEvents h0 st"
    "\<And>b. \<not> managedAddr b \<Longrightarrow> b \<noteq> stepAddr st \<Longrightarrow> load b (w_Heap w') = load b (w_Heap w)"
    "elsewhere view h0 (stepAddr st) w w'"
    "r = Inr () \<Longrightarrow> st = Upsert a \<Longrightarrow> managedAddr a \<Longrightarrow> load a h0 = Some n \<Longrightarrow> keyOf n \<in> K \<Longrightarrow> holds view h0 a w'"
    "r = Inr () \<Longrightarrow> st = WaitJob a \<Longrightarrow> finishedAt a w'"
    by blast+
qed

lemma runSteps_append:
  "runSteps c f (xs @ ys) w = (case runSteps c f xs w of
     (Inl e, w') \<Rightarrow> (Inl e, w') | (Inr _, w') \<Rightarrow> runSteps c f ys w')"
  by (induction xs arbitrary: w) (auto simp: andThenA_def split: prod.splits sum.splits)

text \<open>The calls made are a prefix of the plan, and all of it when there is no error.\<close>

lemma runSteps_trace:
  assumes laws: "clientLawsOn K c view" and keys: "sameKeys (w_Heap w) h0" and gen: "generated h0 new"
    and run: "runSteps c (reconcileMutate new) sts w = (r, w')"
  shows "sameKeys (w_Heap w') h0 \<and>
    (\<exists>es. w_Trace w' = w_Trace w @ es \<and> prefix (visible es) (planned h0 sts) \<and>
       (r = Inr () \<longrightarrow> visible es = planned h0 sts))"
  using keys run
proof (induction sts arbitrary: w)
  case Nil
  then show ?case by simp
next
  case (Cons st sts)
  obtain r1 w1 where st: "runStep c (reconcileMutate new) st w = (r1, w1)" by fastforce
  note s1 = runStep_run [OF laws Cons.prems(1) gen st]
  obtain es1 where es1: "w_Trace w1 = w_Trace w @ es1" "visible es1 = stepEvents h0 st"
    using s1(2) by blast
  show ?case
  proof (cases r1)
    case (Inl e)
    with Cons.prems(2) st have "r = Inl e" "w' = w1" by (simp_all add: andThenA_def)
    with s1(1) es1 show ?thesis by auto
  next
    case (Inr u)
    with Cons.prems(2) st have "runSteps c (reconcileMutate new) sts w1 = (r, w')"
      by (simp add: andThenA_def)
    from Cons.IH [OF s1(1) this] obtain es2 where "sameKeys (w_Heap w') h0"
      "w_Trace w' = w_Trace w1 @ es2" "prefix (visible es2) (planned h0 sts)"
      "r = Inr () \<longrightarrow> visible es2 = planned h0 sts" by blast
    with es1 show ?thesis by (intro conjI exI [of _ "es1 @ es2"]) auto
  qed
qed

lemma runSteps_unmanaged:
  assumes laws: "clientLawsOn K c view" and keys: "sameKeys (w_Heap w) h0" and gen: "generated h0 new"
    and run: "runSteps c (reconcileMutate new) sts w = (r, w')"
    and b: "\<not> managedAddr b" "b \<notin> stepAddr ` set sts"
  shows "load b (w_Heap w') = load b (w_Heap w)"
  using keys run b(2)
proof (induction sts arbitrary: w)
  case (Cons st sts)
  obtain r1 w1 where st: "runStep c (reconcileMutate new) st w = (r1, w1)" by fastforce
  note s1 = runStep_run [OF laws Cons.prems(1) gen st]
  from Cons.prems(2) st have "(r1 = Inr () \<and> runSteps c (reconcileMutate new) sts w1 = (r, w')) \<or> w' = w1"
    by (auto simp: andThenA_def split: sum.splits)
  with Cons.IH [OF s1(1)] s1(3) [OF b(1)] Cons.prems(3) show ?case by auto
qed simp

definition distinctKeys :: "heap \<Rightarrow> bool" where
  "distinctKeys h \<longleftrightarrow> (\<forall>a b n m. load a h = Some n \<longrightarrow> load b h = Some m \<longrightarrow> keyOf n = keyOf m \<longrightarrow> a = b)"

lemma holds_elsewhere:
  assumes "distinctKeys h0" "holds view h0 a w" "elsewhere view h0 b w w'" "a \<noteq> b"
  shows "holds view h0 a w'"
proof -
  from assms(2) obtain n stored where n: "load a h0 = Some n"
    "view (w_Srv w) (keyOf n) = Some stored" "ownedFields stored = ownedFields n"
    by (auto simp: holds_def)
  have "\<forall>m. load b h0 = Some m \<longrightarrow> keyOf n \<noteq> keyOf m" using assms(1,4) n(1) unfolding distinctKeys_def by blast
  then have "view (w_Srv w') (keyOf n) = view (w_Srv w) (keyOf n)"
    using assms(3) [unfolded elsewhere_def, THEN spec, of "keyOf n"] by blast
  with n(2) have "view (w_Srv w') (keyOf n) = Some stored" by simp
  with n(1,3) show ?thesis unfolding holds_def by blast
qed

lemma runSteps_keepsHolds:
  assumes laws: "clientLawsOn K c view" and keys: "sameKeys (w_Heap w) h0" and gen: "generated h0 new"
    and dist: "distinctKeys h0"
    and run: "runSteps c (reconcileMutate new) sts w = (r, w')"
    and a: "holds view h0 a w" "a \<notin> stepAddr ` set sts"
  shows "holds view h0 a w'"
  using keys run a
proof (induction sts arbitrary: w)
  case (Cons st sts)
  obtain r1 w1 where st: "runStep c (reconcileMutate new) st w = (r1, w1)" by fastforce
  note s1 = runStep_run [OF laws Cons.prems(1) gen st]
  have "holds view h0 a w1" using holds_elsewhere [OF dist Cons.prems(3) s1(4)] Cons.prems(4) by auto
  moreover from Cons.prems(2) st
  have "(r1 = Inr () \<and> runSteps c (reconcileMutate new) sts w1 = (r, w')) \<or> w' = w1"
    by (auto simp: andThenA_def split: sum.splits)
  ultimately show ?case using Cons.IH [OF s1(1)] Cons.prems(4) by auto
qed simp

text \<open>After a run without error the server holds every managed object that was upserted.\<close>

lemma runSteps_holds:
  assumes laws: "clientLawsOn K c view" and keys: "sameKeys (w_Heap w) h0" and gen: "generated h0 new"
    and dist: "distinctKeys h0"
    and run: "runSteps c (reconcileMutate new) sts w = (Inr (), w')"
    and a: "Upsert a \<in> set sts" "distinct (map stepAddr (filter (\<lambda>st. stepAddr st = a) sts))"
      "managedAddr a" "load a h0 = Some n" "keyOf n \<in> K"
  shows "holds view h0 a w'"
proof -
  obtain pre post where sts: "sts = pre @ Upsert a # post" using a(1) split_list by metis
  have notin: "a \<notin> stepAddr ` set post"
  proof
    assume "a \<in> stepAddr ` set post"
    then obtain st where "st \<in> set post" "stepAddr st = a" by auto
    then have "a \<in> set (map stepAddr (filter (\<lambda>st. stepAddr st = a) post))" by force
    with a(2) sts show False by simp
  qed
  obtain w1 where w1: "runSteps c (reconcileMutate new) pre w = (Inr (), w1)"
    "runSteps c (reconcileMutate new) (Upsert a # post) w1 = (Inr (), w')"
    using run sts by (auto simp: runSteps_append split: prod.splits sum.splits)
  then obtain w2 where w2: "runStep c (reconcileMutate new) (Upsert a) w1 = (Inr (), w2)"
    "runSteps c (reconcileMutate new) post w2 = (Inr (), w')"
    by (auto simp: go_simps)
  have k1: "sameKeys (w_Heap w1) h0" using runSteps_trace [OF laws keys gen w1(1)] by blast
  note s = runStep_run [OF laws k1 gen w2(1)]
  have "holds view h0 a w2" using s(5) a(3-5) by blast
  from runSteps_keepsHolds [OF laws s(1) gen dist w2(2) this notin] show ?thesis .
qed

lemma runSteps_holds_distinct:
  assumes "clientLawsOn K c view" "sameKeys (w_Heap w) h0" "generated h0 new" "distinctKeys h0"
    "runSteps c (reconcileMutate new) sts w = (Inr (), w')"
    "Upsert a \<in> set sts" "distinct (map stepAddr (filter (\<lambda>st. managedAddr (stepAddr st)) sts))"
    "managedAddr a" "load a h0 = Some n" "keyOf n \<in> K"
  shows "holds view h0 a w'"
proof -
  have eq: "filter (\<lambda>st. stepAddr st = a) sts =
      filter (\<lambda>st. stepAddr st = a) (filter (\<lambda>st. managedAddr (stepAddr st)) sts)"
    using assms(8) by (auto simp: filter_filter intro: filter_cong)
  have "distinct (map stepAddr (filter (\<lambda>st. stepAddr st = a) sts))"
    unfolding eq using distinct_map_filter [OF assms(7)] .
  from runSteps_holds [OF assms(1-6) this assms(8-10)] show ?thesis .
qed

text \<open>
  A call that the plan makes only after waiting for a Job is made only when that Job was seen
  finished.
\<close>

lemma runSteps_finished:
  assumes laws: "clientLawsOn K c view" and keys: "sameKeys (w_Heap w) h0" and gen: "generated h0 new"
    and run: "runSteps c (reconcileMutate new) (pre @ WaitJob a # post) w = (r, w')"
    and a: "\<not> managedAddr a" "a \<notin> stepAddr ` set post"
    and e: "e \<in> set (w_Trace w')" "e \<notin> set (w_Trace w)" "\<not> isRead e" "e \<notin> set (planned h0 pre)"
  shows "finishedAt a w'"
proof -
  let ?m = "reconcileMutate new"
  obtain r1 w1 where w1: "runSteps c ?m (pre @ [WaitJob a]) w = (r1, w1)" by fastforce
  from runSteps_trace [OF laws keys gen w1] obtain es where k1: "sameKeys (w_Heap w1) h0"
    and es: "w_Trace w1 = w_Trace w @ es" "prefix (visible es) (planned h0 pre)" by auto
  have notin: "e \<notin> set (w_Trace w1)"
    using e(2,3,4) es visible_set set_mono_prefix [OF es(2)] by auto
  have split: "runSteps c ?m ((pre @ [WaitJob a]) @ post) w = (r, w')" using run by simp
  show ?thesis
  proof (cases r1)
    case (Inl x)
    with split w1 have "w' = w1" unfolding runSteps_append by simp
    with e(1) notin show ?thesis by simp
  next
    case (Inr u)
    with split w1 have post: "runSteps c ?m post w1 = (r, w')" unfolding runSteps_append by simp
    obtain w0 where w0: "runSteps c ?m pre w = (Inr (), w0)" "runSteps c ?m [WaitJob a] w0 = (Inr (), w1)"
      using w1 Inr by (auto simp: runSteps_append split: prod.splits sum.splits)
    have "sameKeys (w_Heap w0) h0" using runSteps_trace [OF laws keys gen w0(1)] by blast
    moreover from w0(2) have "runStep c ?m (WaitJob a) w0 = (Inr (), w1)"
      by (simp add: andThenA_def split: prod.splits sum.splits)
    ultimately have "finishedAt a w1" using runStep_run(6) [OF laws _ gen] by blast
    with runSteps_unmanaged [OF laws k1 gen post a] show ?thesis by (simp add: finishedAt_def)
  qed
qed

section \<open>A reference client\<close>

text \<open>
  A server in memory: the objects by key, and the custom resource. \<open>CreateOrUpdate\<close> follows its
  documentation; a Job is complete as soon as it is read.
\<close>

record ('spec, 'status) refServer =
  rs_Objects :: "objkey \<rightharpoonup> kobj"
  rs_CR :: "('spec, 'status) CR option"

abbreviation refView :: "('spec, 'status) refServer view" where
  "refView s \<equiv> rs_Objects s"

definition refUpsert ::
  "addr \<Rightarrow> (heap, unit) action \<Rightarrow> (heap \<times> ('spec, 'status) refServer, unit) action" where
  "refUpsert a f = (\<lambda>(h, s).
     case load a h of
       None \<Rightarrow> (Inl (Panic (NilDereference ''object'')), (h, s))
     | Some ob \<Rightarrow>
         let h1 = (case rs_Objects s (keyOf ob) of
                     Some existing \<Rightarrow> if keyOf existing = keyOf ob then store a existing h else h
                   | None \<Rightarrow> h)
         in (case f h1 of
               (Inl e, h2) \<Rightarrow> (Inl e, (h2, s))
             | (Inr _, h2) \<Rightarrow>
                 (case load a h2 of
                    None \<Rightarrow> (Inl (ApiError ''nil object''), (h2, s))
                  | Some sent \<Rightarrow>
                      if keyOf sent \<noteq> keyOf ob then (Inl (ApiError ''MutateFn cannot mutate object name''), (h2, s))
                      else (Inr (), (h2, s\<lparr>rs_Objects := (rs_Objects s)(keyOf sent \<mapsto> sent)\<rparr>)))))"

definition refGetJob :: "string \<times> string \<Rightarrow> (('spec, 'status) refServer, Job) action" where
  "refGetJob k = (\<lambda>s.
     case rs_Objects s (JobKind, k) of
       Some (KJob job) \<Rightarrow>
         (Inr (job\<lparr>job_Meta := (job_Meta job)\<lparr>om_Namespace := fst k, om_Name := snd k\<rparr>,
           job_Conditions := [\<lparr>jc_Type = JobComplete, jc_Status = ConditionTrue, jc_Message = ''''\<rparr>]\<rparr>), s)
     | _ \<Rightarrow> (Inl (NotFound (snd k)), s))"

definition refClient :: "('spec, 'status, ('spec, 'status) refServer) client" where
  "refClient = \<lparr>
     c_Get = (\<lambda>k s. (case rs_CR s of Some cr \<Rightarrow> if crKey cr = k then Inr cr else Inl (NotFound (snd k))
       | None \<Rightarrow> Inl (NotFound (snd k)), s)),
     c_Update = (\<lambda>cr s. (Inr cr, s\<lparr>rs_CR := Some cr\<rparr>)),
     c_StatusUpdate = (\<lambda>cr s. (Inr cr, s\<lparr>rs_CR := Some cr\<rparr>)),
     c_Delete = (\<lambda>ob s. (case rs_Objects s (keyOf ob) of
         Some _ \<Rightarrow> (Inr (), s\<lparr>rs_Objects := (rs_Objects s)(keyOf ob := None)\<rparr>)
       | None \<Rightarrow> (Inl (NotFound (om_Name (metaOf ob))), s))),
     c_GetJob = refGetJob,
     c_CreateOrUpdate = refUpsert,
     c_Poll = (\<lambda>i t imm cond. pollFor (unat t div unat i) cond)\<rparr>"

lemma refClient_simps [simp]:
  "c_Get refClient k s = (case rs_CR s of Some cr \<Rightarrow> if crKey cr = k then Inr cr else Inl (NotFound (snd k))
       | None \<Rightarrow> Inl (NotFound (snd k)), s)"
  "c_Update refClient cr s = (Inr cr, s\<lparr>rs_CR := Some cr\<rparr>)"
  "c_StatusUpdate refClient cr s = (Inr cr, s\<lparr>rs_CR := Some cr\<rparr>)"
  "c_GetJob refClient = refGetJob" "c_CreateOrUpdate refClient = refUpsert"
  "c_Poll refClient i t imm cond = pollFor (unat t div unat i) cond"
  by (simp_all add: refClient_def)

lemma upsertLaw_refClient: "upsertLaw refClient refView"
  unfolding upsertLaw_eq
proof (intro allI impI)
  fix a f h r h' ob and s s' :: "('spec, 'status) refServer"
  assume ob: "load a h = Some ob"
    and run: "c_CreateOrUpdate (refClient :: ('spec, 'status, _) client) a f (h, s) = (r, (h', s'))"
  define h1 where "h1 = (case rs_Objects s (keyOf ob) of
      Some existing \<Rightarrow> if keyOf existing = keyOf ob then store a existing h else h | None \<Rightarrow> h)"
  have t: "touched a h h1" using ob by (auto simp: touched_def h1_def split: option.split)
  have run': "(case f h1 of (Inl e, h2) \<Rightarrow> (Inl e, (h2, s))
      | (Inr _, h2) \<Rightarrow> (case load a h2 of
           None \<Rightarrow> (Inl (ApiError ''nil object''), (h2, s))
         | Some sent \<Rightarrow> if keyOf sent \<noteq> keyOf ob then (Inl (ApiError ''MutateFn cannot mutate object name''), (h2, s))
             else (Inr (), (h2, s\<lparr>rs_Objects := (rs_Objects s)(keyOf sent \<mapsto> sent)\<rparr>)))) = (r, (h', s'))"
    using run ob by (simp add: refUpsert_def Let_def h1_def)
  obtain r1 h2 where f: "f h1 = (r1, h2)" by fastforce
  show "(\<forall>k. k \<noteq> keyOf ob \<longrightarrow> rs_Objects s' k = rs_Objects s k) \<and>
     (\<exists>h1. touched a h h1 \<and>
        ((\<exists>e. r = Inl e \<and> h' = h1) \<or> (\<exists>e. r = Inl e \<and> f h1 = (Inl e, h')) \<or>
         (\<exists>h2. f h1 = (Inr (), h2) \<and> touched a h2 h' \<and>
            (r = Inr () \<longrightarrow> (\<exists>sent stored. load a h2 = Some sent \<and>
               rs_Objects s' (keyOf ob) = Some stored \<and> ownedFields stored = ownedFields sent)))))"
    (is "?F \<and> _")
  proof (cases r1)
    case (Inl e)
    with run' f have "r = Inl e" "h' = h2" "s' = s" by simp_all
    with f Inl t show ?thesis by (intro conjI exI [of _ h1]) auto
  next
    case (Inr u)
    with run' f have "h' = h2 \<and> ?F \<and> (r = Inr () \<longrightarrow> (\<exists>sent. load a h2 = Some sent \<and>
        rs_Objects s' (keyOf ob) = Some sent))"
      by (auto split: option.splits if_splits)
    with f Inr t show ?thesis
      by (intro conjI exI [of _ h1]) (auto simp: touched_def)
  qed
qed

lemma clientLaws_refClient [simp]: "clientLaws refClient refView"
proof -
  have "getJobLaw (refClient :: ('spec, 'status, _) client) refView"
    unfolding getJobLaw_def by (auto simp: refGetJob_def split: option.splits kobj.splits)
  moreover have "deleteLaw (refClient :: ('spec, 'status, _) client) refView"
    unfolding deleteLaw_def by (auto simp: refClient_def split: option.splits)
  moreover have "pollLaw (refClient :: ('spec, 'status, _) client)"
    unfolding pollLaw_def by auto
  ultimately show ?thesis using upsertLaw_refClient by (simp add: clientLawsOn_def)
qed

end
