(* ===== verification/Installation.thy ===== *)
theory Installation
  imports Reconciling
begin

text \<open>
  What the eight reconcilers share. Two skeletons order the phases of \<open>Reconcile\<close> (generate the
  components and then look at the deletion timestamp, or the other way round); every controller's
  \<open>Reconcile\<close> is shown to be one of them. \<open>wellFormedInstall\<close> states what a set of generated
  components must satisfy to run, and the locale \<open>installer\<close> is the contract between a generator
  and the reconciliation loop, interpreted by each controller.
\<close>

section \<open>The two skeletons\<close>

definition checkFirst ::
  "externs \<Rightarrow> ('spec, 'status, 's) client \<Rightarrow> string \<times> string
     \<Rightarrow> (('spec, 'status) CR \<Rightarrow> CommonComponents result)
     \<Rightarrow> (('spec, 'status) CR \<Rightarrow> CommonComponents \<Rightarrow> step list) \<Rightarrow> ('s world, unit) action" where
  "checkFirst x c req generate steps =
     andThenA (getObject c req) (\<lambda>fetched.
     case fetched of None \<Rightarrow> returnA () | Some object \<Rightarrow>
     andThenA (checkAndHandleObjectDeletion x c object operatorFinalizer None) (\<lambda>(finish, object).
     if finish then returnA () else
     andThenA (liftA (generate object)) (\<lambda>components.
     andThenA (allocComponents components None) (\<lambda>_.
     runSteps c (reconcileMutate (DeepCopy components)) (steps object components)))))"

definition generateFirst ::
  "externs \<Rightarrow> ('spec, 'status, 's) client \<Rightarrow> string \<times> string
     \<Rightarrow> (('spec, 'status) CR \<Rightarrow> CommonComponents result)
     \<Rightarrow> (CommonComponents \<Rightarrow> ('s world, unit) action option)
     \<Rightarrow> (('spec, 'status) CR \<Rightarrow> CommonComponents \<Rightarrow> step list) \<Rightarrow> ('s world, unit) action" where
  "generateFirst x c req generate cleanup steps =
     andThenA (getObject c req) (\<lambda>fetched.
     case fetched of None \<Rightarrow> returnA () | Some object \<Rightarrow>
     andThenA (liftA (generate object)) (\<lambda>components.
     andThenA (allocComponents components None) (\<lambda>_.
     andThenA (checkAndHandleObjectDeletion x c object operatorFinalizer (cleanup components))
       (\<lambda>(finish, object).
     if finish then returnA () else
     runSteps c (reconcileMutate (DeepCopy components)) (steps object components)))))"

section \<open>The finalizer protocol\<close>

text \<open>
  An object that is not being deleted: reconciliation goes on (\<open>finish\<close> is false) with the finalizer
  in place, which takes one update exactly when it was missing.
\<close>

lemma check_live:
  assumes "om_DeletionTimestamp (cr_Meta cr) = None"
  shows "checkAndHandleObjectDeletion x c cr f cleanup w =
    (if ContainsFinalizer x (cr_Meta cr) f then (Inr (False, cr), w)
     else (case updateCR c (cr\<lparr>cr_Meta := AddFinalizer x (cr_Meta cr) f\<rparr>) w of
             (Inl e, w') \<Rightarrow> (Inl e, w') | (Inr cr', w') \<Rightarrow> (Inr (False, cr'), w')))"
  using assms by (auto simp: checkAndHandleObjectDeletion_def addFinalizerIfNeeded_def andThenA_def
      split: prod.split sum.split)

text \<open>An object that is being deleted: reconciliation ends here, with or without an error.\<close>

lemma check_deleting:
  assumes "om_DeletionTimestamp (cr_Meta cr) \<noteq> None"
    "checkAndHandleObjectDeletion x c cr f cleanup w = (Inr (finish, cr'), w')"
  shows finish
  using assms by (auto simp: checkAndHandleObjectDeletion_def handleObjectDeletion_def go_simps
      split: option.splits if_splits)

lemma check_deleting_run:
  assumes "om_DeletionTimestamp (cr_Meta cr) \<noteq> None" "ContainsFinalizer x (cr_Meta cr) f"
  shows "checkAndHandleObjectDeletion x c cr f cleanup w =
    (case (case cleanup of None \<Rightarrow> (Inr (), w) | Some cl \<Rightarrow> cl w) of
       (Inl e, w1) \<Rightarrow> (Inl e, w1)
     | (Inr _, w1) \<Rightarrow>
         (case updateCR c (cr\<lparr>cr_Meta := RemoveFinalizer x (cr_Meta cr) f\<rparr>) w1 of
            (Inl e, w2) \<Rightarrow> (Inl e, w2) | (Inr cr', w2) \<Rightarrow> (Inr (True, cr'), w2)))"
  using assms by (auto simp: checkAndHandleObjectDeletion_def handleObjectDeletion_def andThenA_def
      split: option.split prod.split sum.split)

text \<open>The calls of a part of a run: a relation between worlds that composes.\<close>

definition callsOnly :: "(event \<Rightarrow> bool) \<Rightarrow> 's world \<Rightarrow> 's world \<Rightarrow> bool" where
  "callsOnly P w w' \<longleftrightarrow> (\<exists>es. w_Trace w' = w_Trace w @ es \<and> list_all P es)"

lemma callsOnly_refl [simp]: "callsOnly P w w"
  by (simp add: callsOnly_def)

lemma callsOnly_trans: "callsOnly P u v \<Longrightarrow> callsOnly P v w \<Longrightarrow> callsOnly P u w"
  unfolding callsOnly_def by fastforce

lemma callsOnly_andThenA:
  "keeps (callsOnly P) m \<Longrightarrow> (\<And>x. keeps (callsOnly P) (f x)) \<Longrightarrow> keeps (callsOnly P) (andThenA m f)"
  by (rule keeps_andThenA) (auto intro: callsOnly_trans)

lemma callsOnly_pure [simp, intro]:
  "keeps (callsOnly P) (returnA y)" "keeps (callsOnly P) (failA e)" "keeps (callsOnly P) (liftA r)"
  by (auto intro: keeps_pure)

lemma callsOnly_Pair [simp, intro]: "keeps (callsOnly P) (Pair r)"
  by (simp add: keeps_def)

lemma callsOnly_onServer: "callsOnly P w (snd (onServer m w))"
  by (auto simp: onServer_def callsOnly_def split: prod.split)

lemma callsOnly_getObject [simp, intro]: "keeps (callsOnly P) (getObject c k)"
  unfolding keeps_def
proof
  fix w
  show "callsOnly P w (snd (getObject c k w))"
    using callsOnly_onServer [of P w "c_Get c k"]
    by (auto simp: getObject_def split: prod.split sum.split)
qed

lemma callsOnly_log: "P e \<Longrightarrow> callsOnly P w (snd (onServer m (logCall e w)))"
  by (auto simp: onServer_def callsOnly_def logCall_def split: prod.split)

lemma callsOnly_updateCR [intro]: "P (EvUpdateCR (om_Finalizers (cr_Meta cr))) \<Longrightarrow> keeps (callsOnly P) (updateCR c cr)"
  by (simp add: keeps_def updateCR_def callsOnly_log)

lemma callsOnly_deleteObject [intro]: "P (EvDelete a) \<Longrightarrow> keeps (callsOnly P) (deleteObject c a)"
  by (auto simp: keeps_def deleteObject_def callsOnly_log split: option.split)

lemma keeps_ignoreNotFound [intro]: "keeps R m \<Longrightarrow> keeps R (ignoreNotFound m)"
  unfolding keeps_def ignoreNotFound_def by (auto split: prod.split sum.split) (metis snd_conv)+

lemma keeps_wrapfA [intro]: "keeps R m \<Longrightarrow> keeps R (wrapfA msg m)"
  unfolding keeps_def wrapfA_def by (auto split: prod.split) (metis snd_conv)

lemma callsOnly_deleteIfNeeded [intro]:
  "P (EvDelete a) \<Longrightarrow> keeps (callsOnly P) (deleteObjectIfNeeded c a)"
  using callsOnly_deleteObject [of P a c, THEN keeps_ignoreNotFound]
  by (auto simp: keeps_def deleteObjectIfNeeded_def)

lemma callsOnly_alloc [simp, intro]: "keeps (callsOnly P) (allocComponents cc job)"
  by (simp add: keeps_def allocComponents_def callsOnly_def)

section \<open>Deletion never installs\<close>

definition isUpsert :: "event \<Rightarrow> bool" where
  "isUpsert e \<longleftrightarrow> (\<exists>a. e = EvUpsert a)"

lemma isUpsert_simps [simp]:
  "isUpsert (EvUpsert a)" "\<not> isUpsert (EvDelete a)" "\<not> isUpsert (EvUpdateCR fs)"
  "\<not> isUpsert (EvGetJob a)" "\<not> isUpsert (EvStatus cs)"
  by (simp_all add: isUpsert_def)

lemma callsOnly_check:
  assumes "\<And>cl. cleanup = Some cl \<Longrightarrow> keeps (callsOnly (\<lambda>e. \<not> isUpsert e)) cl"
  shows "keeps (callsOnly (\<lambda>e. \<not> isUpsert e)) (checkAndHandleObjectDeletion x c cr f cleanup)"
  using assms
  by (auto simp: checkAndHandleObjectDeletion_def handleObjectDeletion_def addFinalizerIfNeeded_def
      intro!: callsOnly_andThenA split: option.split)

lemma getObject_fetched:
  "getObject c k w = (Inr (Some cr), w') \<Longrightarrow> c_Get c k (w_Srv w) = (Inr cr, w_Srv w') \<and> w_Trace w' = w_Trace w"
  by (auto simp: getObject_def onServer_def split: prod.splits sum.splits if_splits)

text \<open>The object being reconciled, when the fetch returns one.\<close>

definition fetches :: "('spec, 'status, 's) client \<Rightarrow> string \<times> string \<Rightarrow> 's world \<Rightarrow> ('spec, 'status) CR \<Rightarrow> bool" where
  "fetches c k w cr \<longleftrightarrow> fst (c_Get c k (w_Srv w)) = Inr cr"

lemma fetches_getObject:
  assumes "fetches c k w cr"
  obtains w' where "getObject c k w = (Inr (Some cr), w')" "w_Trace w' = w_Trace w" "w_Heap w' = w_Heap w"
proof -
  obtain s' where "c_Get c k (w_Srv w) = (Inr cr, s')"
    using assms by (metis fetches_def prod.collapse)
  then show thesis using that by (simp add: getObject_def onServer_def)
qed

lemma checkFirst_deleting:
  assumes cr: "fetches c req w cr" and del: "om_DeletionTimestamp (cr_Meta cr) \<noteq> None"
  shows "callsOnly (\<lambda>e. \<not> isUpsert e) w (snd (checkFirst x c req generate steps w))"
proof -
  obtain w1 where w1: "getObject c req w = (Inr (Some cr), w1)" "w_Trace w1 = w_Trace w"
    using fetches_getObject [OF cr] by blast
  let ?check = "checkAndHandleObjectDeletion x c cr operatorFinalizer None"
  obtain r w2 where w2: "?check w1 = (r, w2)" by fastforce
  have "callsOnly (\<lambda>e. \<not> isUpsert e) w1 w2"
    using callsOnly_check [of None x c cr operatorFinalizer] w2 by (metis keepsD option.distinct(1))
  moreover have fin: "finish" if "r = Inr (finish, cr')" for finish cr'
    using check_deleting [OF del] w2 that by blast
  have "snd (checkFirst x c req generate steps w) = w2"
    using w1 w2 by (cases r) (auto simp: checkFirst_def andThenA_def dest: fin)
  ultimately show ?thesis using w1(2) by (simp add: callsOnly_def)
qed

lemma generateFirst_deleting:
  assumes cr: "fetches c req w cr" and del: "om_DeletionTimestamp (cr_Meta cr) \<noteq> None"
    and cleanup: "\<And>cc cl. cleanup cc = Some cl \<Longrightarrow> keeps (callsOnly (\<lambda>e. \<not> isUpsert e)) cl"
  shows "callsOnly (\<lambda>e. \<not> isUpsert e) w (snd (generateFirst x c req generate cleanup steps w))"
proof -
  obtain w1 where w1: "getObject c req w = (Inr (Some cr), w1)" "w_Trace w1 = w_Trace w"
    using fetches_getObject [OF cr] by blast
  show ?thesis
  proof (cases "generate cr")
    case (Inl e)
    with w1 show ?thesis by (simp add: generateFirst_def andThenA_def callsOnly_def)
  next
    case (Inr cc)
    let ?check = "checkAndHandleObjectDeletion x c cr operatorFinalizer (cleanup cc)"
    let ?w1 = "w1\<lparr>w_Heap := \<lparr>h_Components = cc, h_PartitionJob = None\<rparr>\<rparr>"
    obtain r w2 where w2: "?check ?w1 = (r, w2)" by fastforce
    have "callsOnly (\<lambda>e. \<not> isUpsert e) ?w1 w2"
      using callsOnly_check [of "cleanup cc" x c cr operatorFinalizer, OF cleanup] w2 by (metis keepsD)
    moreover have fin: "finish" if "r = Inr (finish, cr')" for finish cr'
      using check_deleting [OF del] w2 that by blast
    have "snd (generateFirst x c req generate cleanup steps w) = w2"
      using w1 w2 Inr
      by (cases r) (auto simp: generateFirst_def andThenA_def allocComponents_def dest: fin)
    ultimately show ?thesis using w1(2) by (simp add: callsOnly_def)
  qed
qed

section \<open>What an installation needs to run\<close>

text \<open>
  The Secret holds the configuration; the one container of the Deployment mounts the Secret's key at
  the path it is told to read, and every mount names a volume (when the user's do); the pods carry
  the labels that the Deployment and the Service select, and the checksum of the configuration;
  they run under the configured service account or under the one that is created; all of it lives
  in the owner's namespace and is owned by it.
\<close>

definition accountOK :: "ObjectMeta \<Rightarrow> 'a CommonSpecBase_scheme \<Rightarrow> CommonComponents \<Rightarrow> string \<Rightarrow> bool" where
  "accountOK owner spec cc account \<longleftrightarrow>
     (if csb_CustomServiceAccount spec = ''''
      then (\<exists>sa. cc_ServiceAccount cc = Some sa \<and> om_Name (sa_Meta sa) = account \<and>
              om_Namespace (sa_Meta sa) = om_Namespace owner)
      else cc_ServiceAccount cc = None \<and> account = csb_CustomServiceAccount spec)"

definition podOK :: "bytes \<Rightarrow> 'a CommonSpecBase_scheme \<Rightarrow> Secret \<Rightarrow> DeploymentSpec \<Rightarrow> bool" where
  "podOK raw spec sec d \<longleftrightarrow>
     (\<exists>ct. ps_Containers (pt_Spec (d_Template d)) = [ct] \<and>
        (\<exists>pre. c_Args ct = pre @ [appConfigFlag, appConfigFilepath]) \<and>
        mountsConfigOf sec (c_VolumeMounts ct) (ps_Volumes (pt_Spec (d_Template d))) \<and>
        (mountsCovered (csb_AdditionalVolumeMounts spec) (csb_AdditionalVolumes spec) \<longrightarrow>
           mountsCovered (c_VolumeMounts ct) (ps_Volumes (pt_Spec (d_Template d))))) \<and>
     d_Selector d \<subseteq>\<^sub>m om_Labels (pt_Meta (d_Template d)) \<and>
     om_Annotations (pt_Meta (d_Template d)) ''checksum/config'' = Some (GenerateChecksumConfig raw)"

definition wellFormedInstall ::
  "externs \<Rightarrow> string \<Rightarrow> ObjectMeta \<Rightarrow> 'a CommonSpecBase_scheme \<Rightarrow> CommonComponents \<Rightarrow> bool" where
  "wellFormedInstall x kind owner spec cc \<longleftrightarrow>
     (\<exists>sec dep yaml. cc_Secret cc = Some sec \<and> cc_Deployment cc = Some dep \<and>
        JSONToYAML x (csb_ApplicationConfig spec) = Inr yaml \<and>
        sec_Data sec = [GetConfigFilename (om_Name owner) \<mapsto> yaml] \<and>
        podOK (csb_ApplicationConfig spec) spec sec (dep_Spec dep) \<and>
        accountOK owner spec cc (ps_ServiceAccountName (pt_Spec (d_Template (dep_Spec dep)))) \<and>
        (\<forall>svc. cc_Service cc = Some svc \<longrightarrow>
           ss_Selector (svc_Spec svc) \<subseteq>\<^sub>m om_Labels (pt_Meta (d_Template (dep_Spec dep)))) \<and>
        (\<forall>ob \<in> {KSecret sec, KDeployment dep}. om_Name (metaOf ob) = om_Name owner \<and>
           om_Namespace (metaOf ob) = om_Namespace owner \<and> ownedBy kind owner (metaOf ob)))"

section \<open>Generators\<close>

text \<open>
  The block that every generator has: the service account to run under is the custom one, or a new
  one that is owned by the custom resource.
\<close>

definition serviceAccountFor ::
  "externs \<Rightarrow> string \<Rightarrow> ObjectMeta \<Rightarrow> 'a CommonSpecBase_scheme \<Rightarrow> (ServiceAccount option \<times> string) result" where
  "serviceAccountFor x kind owner spec =
     (let serviceAccountName = csb_CustomServiceAccount spec in
      if serviceAccountName = [] then
        (let serviceAccount = ServiceAccount (om_Name owner) (om_Namespace owner)
               (AllLabels (om_Name owner) [om_Labels owner]) (csb_ServiceAccount spec)
         in andThen (SetOwnerReference x kind owner sa_Meta sa_Meta_update serviceAccount) (\<lambda>serviceAccount.
            Inr (Some serviceAccount, om_Name (sa_Meta serviceAccount))))
      else Inr (None, serviceAccountName))"

lemma andThenA_liftA_andThen:
  "andThenA (liftA (andThen m f)) g = andThenA (liftA m) (\<lambda>y. andThenA (liftA (f y)) g)"
  by (auto simp: fun_eq_iff andThenA_liftA split: sum.split)

lemma andThenA_liftA_result: "andThenA (liftA m) f w = (case m of Inl e \<Rightarrow> (Inl e, w) | Inr y \<Rightarrow> f y w)"
  by (rule andThenA_liftA)

lemma serviceAccountFor_accountOK:
  assumes "ownerLaw x" "serviceAccountFor x kind owner spec = Inr (sa, account)" "cc_ServiceAccount cc = sa"
  shows "accountOK owner spec cc account"
  using assms(2) unfolding accountOK_def assms(3)
  by (auto simp: serviceAccountFor_def Let_def go_simps ownerLawD(1,2) [OF assms(1)] split: if_splits)

text \<open>What each generator has to show for its Deployment.\<close>

lemma wellFormedInstallI:
  assumes law: "ownerLaw x"
    and sec: "CreateSecret x (csb_ApplicationConfig spec) (om_Name owner) (om_Namespace owner)
        (GetConfigFilename (om_Name owner)) = Inr sec0"
      "SetOwnerReference x kind owner sec_Meta sec_Meta_update sec0 = Inr sec" "cc_Secret cc = Some sec"
    and account: "serviceAccountFor x kind owner spec = Inr (sa, account)" "cc_ServiceAccount cc = sa"
    and dep: "SetOwnerReference x kind owner dep_Meta dep_Meta_update dep0 = Inr dep"
      "cc_Deployment cc = Some dep"
      "dep_Meta dep0 = newMeta (om_Name owner) (om_Namespace owner) ls as"
      "ps_ServiceAccountName (pt_Spec (d_Template (dep_Spec dep0))) = account"
      "\<And>s. om_Name (sec_Meta s) = om_Name owner \<Longrightarrow> sec_Data s (GetConfigFilename (om_Name owner)) \<noteq> None \<Longrightarrow>
         podOK (csb_ApplicationConfig spec) spec s (dep_Spec dep0)"
    and svc: "\<And>svc. cc_Service cc = Some svc \<Longrightarrow>
         ss_Selector (svc_Spec svc) \<subseteq>\<^sub>m om_Labels (pt_Meta (d_Template (dep_Spec dep0)))"
  shows "wellFormedInstall x kind owner spec cc"
proof -
  from sec(1,2) obtain yaml m where yaml: "JSONToYAML x (csb_ApplicationConfig spec) = Inr yaml"
    and m: "SetOwner x kind owner (newMeta (om_Name owner) (om_Namespace owner) Map.empty Map.empty) = Inr m"
    and s: "sec = \<lparr>sec_Meta = m, sec_Data = [GetConfigFilename (om_Name owner) \<mapsto> yaml]\<rparr>"
    by (auto simp: go_simps)
  from dep(1) obtain m' where m': "SetOwner x kind owner (dep_Meta dep0) = Inr m'" and d: "dep = dep0\<lparr>dep_Meta := m'\<rparr>"
    by (auto simp: go_simps)
  have acc: "accountOK owner spec cc account" using serviceAccountFor_accountOK [OF law account] .
  have pod: "podOK (csb_ApplicationConfig spec) spec sec (dep_Spec dep)"
    using dep(5) [of sec] s d ownerLawD(1) [OF law m] by simp
  show ?thesis
    unfolding wellFormedInstall_def
    using yaml s d sec(3) dep(2,4) acc pod svc ownerLawD(1,2) [OF law m] ownerLawD(1,2) [OF law m']
      SetOwner_ownedBy [OF law m] SetOwner_ownedBy [OF law m'] dep(3)
    by (intro exI [of _ sec] exI [of _ dep] exI [of _ yaml]) simp
qed

section \<open>Distinct keys\<close>

definition distinctSlots :: "CommonComponents \<Rightarrow> bool" where
  "distinctSlots cc \<longleftrightarrow> (\<forall>s t n m. derefSlot cc s = Some n \<longrightarrow> derefSlot cc t = Some m \<longrightarrow>
     keyOf n = keyOf m \<longrightarrow> s = t)"

definition metaKey :: "ObjectMeta \<Rightarrow> string \<times> string" where
  "metaKey m = (om_Namespace m, om_Name m)"

lemma planned_upsert: "EvUpsert a \<in> set (planned h sts) \<Longrightarrow> Upsert a \<in> set sts"
proof (induction sts)
  case (Cons st sts)
  then show ?case by (cases st) (auto split: if_splits)
qed simp

text \<open>Only objects of one kind can clash: the Ingresses, the Services, the bindings and the Jobs.\<close>

lemma distinctSlotsI:
  assumes "\<And>a b. cc_IngressGrpc cc = Some a \<Longrightarrow> cc_IngressHttp cc = Some b \<Longrightarrow> metaKey (ing_Meta a) \<noteq> metaKey (ing_Meta b)"
    "\<And>a b. cc_IngressGrpc cc = Some a \<Longrightarrow> cc_IngressProfiling cc = Some b \<Longrightarrow> metaKey (ing_Meta a) \<noteq> metaKey (ing_Meta b)"
    "\<And>a b. cc_IngressHttp cc = Some a \<Longrightarrow> cc_IngressProfiling cc = Some b \<Longrightarrow> metaKey (ing_Meta a) \<noteq> metaKey (ing_Meta b)"
    "\<And>a b. cc_Service cc = Some a \<Longrightarrow> cc_ServiceProfiling cc = Some b \<Longrightarrow> metaKey (svc_Meta a) \<noteq> metaKey (svc_Meta b)"
    "distinct (map (\<lambda>b. metaKey (crb_Meta b)) (cc_ClusterRoleBindings cc))"
    "distinct (map (\<lambda>j. metaKey (job_Meta j)) (cc_Jobs cc))"
  shows "distinctSlots cc"
  unfolding distinctSlots_def
proof (intro allI impI)
  fix s t n m
  assume s: "derefSlot cc s = Some n" and t: "derefSlot cc t = Some m" and k: "keyOf n = keyOf m"
  from k have kind: "slotKind s = slotKind t" and mk: "metaKey (metaOf n) = metaKey (metaOf m)"
    using derefSlot_kind [OF s] derefSlot_kind [OF t] by (auto simp: keyOf_def metaKey_def)
  have crb: "i = j" if "i < length (cc_ClusterRoleBindings cc)" "j < length (cc_ClusterRoleBindings cc)"
    "metaKey (crb_Meta (cc_ClusterRoleBindings cc ! i)) = metaKey (crb_Meta (cc_ClusterRoleBindings cc ! j))" for i j
    using nth_eq_iff_index_eq [OF assms(5), of i j] that by simp
  have jobs: "i = j" if "i < length (cc_Jobs cc)" "j < length (cc_Jobs cc)"
    "metaKey (job_Meta (cc_Jobs cc ! i)) = metaKey (job_Meta (cc_Jobs cc ! j))" for i j
    using nth_eq_iff_index_eq [OF assms(6), of i j] that by simp
  show "s = t"
    using s t kind mk assms(1-4)
    by (cases s; cases t) (auto split: if_splits intro: crb jobs dest: sym)
qed

lemma distinctSlots_keys:
  assumes dist: "distinctSlots cc"
    and job: "\<And>j i n. job = Some j \<Longrightarrow> derefSlot cc (SJob i) = Some n \<Longrightarrow> keyOf n \<noteq> keyOf (KJob j)"
  shows "distinctKeys \<lparr>h_Components = cc, h_PartitionJob = job\<rparr>"
proof -
  have other: False if "derefSlot cc s = Some n" "job = Some j" "keyOf n = keyOf (KJob j)" for s n j
  proof -
    have "slotKind s = JobKind" using derefSlot_kind [OF that(1)] that(3) by (auto simp: keyOf_def)
    then obtain i where "s = SJob i" by (cases s) auto
    with job that show False by blast
  qed
  show ?thesis
    unfolding distinctKeys_def
  proof (intro allI impI)
    fix a b n m
    assume a: "load a \<lparr>h_Components = cc, h_PartitionJob = job\<rparr> = Some n"
      and b: "load b \<lparr>h_Components = cc, h_PartitionJob = job\<rparr> = Some m" and k: "keyOf n = keyOf m"
    show "a = b"
    proof (cases a)
      case (InComponents s)
      note s = this
      show ?thesis
      proof (cases b)
        case (InComponents t)
        with s a b k dist show ?thesis unfolding distinctSlots_def by auto
      next
        case PartitionJob
        with s a b k other show ?thesis by auto
      qed
    next
      case PartitionJob
      with a b k other [OF _ _ sym] show ?thesis by (cases b) auto
    qed
  qed
qed

section \<open>A live object is installed\<close>

text \<open>An object that is not being deleted and that carries the operator's finalizer already.\<close>

definition live :: "externs \<Rightarrow> ('spec, 'status) CR \<Rightarrow> bool" where
  "live x cr \<longleftrightarrow> om_DeletionTimestamp (cr_Meta cr) = None \<and> ContainsFinalizer x (cr_Meta cr) operatorFinalizer"

abbreviation heapOf :: "CommonComponents \<Rightarrow> Job option \<Rightarrow> heap" where
  "heapOf cc job \<equiv> \<lparr>h_Components = cc, h_PartitionJob = job\<rparr>"

text \<open>From \<open>w\<close> on, the action \<open>m\<close> is the run of \<open>sts\<close> over freshly generated components.\<close>

definition startsRun ::
  "('spec, 'status, 's) client \<Rightarrow> CommonComponents \<Rightarrow> Job option \<Rightarrow> step list
     \<Rightarrow> ('s world, unit) action \<Rightarrow> 's world \<Rightarrow> bool" where
  "startsRun c cc job sts m w \<longleftrightarrow> (\<exists>w1. m w = runSteps c (reconcileMutate cc) sts w1 \<and>
     w_Heap w1 = heapOf cc job \<and> w_Trace w1 = w_Trace w)"

lemma checkFirst_starts:
  assumes "fetches c req w cr" "live x cr" "generate cr = Inr cc"
  shows "startsRun c cc None (steps cr cc) (checkFirst x c req generate steps) w"
proof -
  obtain w1 where w1: "getObject c req w = (Inr (Some cr), w1)" "w_Trace w1 = w_Trace w"
    using fetches_getObject [OF assms(1)] by blast
  let ?w1 = "w1\<lparr>w_Heap := heapOf cc None\<rparr>"
  have "checkFirst x c req generate steps w = runSteps c (reconcileMutate cc) (steps cr cc) ?w1"
    using w1 assms(2,3)
    by (simp add: checkFirst_def andThenA_def live_def check_live allocComponents_def DeepCopy_eq)
  with w1(2) show ?thesis unfolding startsRun_def by (intro exI [of _ ?w1]) simp
qed

lemma generateFirst_starts:
  assumes "fetches c req w cr" "live x cr" "generate cr = Inr cc"
  shows "startsRun c cc None (steps cr cc) (generateFirst x c req generate cleanup steps) w"
proof -
  obtain w1 where w1: "getObject c req w = (Inr (Some cr), w1)" "w_Trace w1 = w_Trace w"
    using fetches_getObject [OF assms(1)] by blast
  let ?w1 = "w1\<lparr>w_Heap := heapOf cc None\<rparr>"
  have "generateFirst x c req generate cleanup steps w = runSteps c (reconcileMutate cc) (steps cr cc) ?w1"
    using w1 assms(2,3)
    by (simp add: generateFirst_def andThenA_def live_def check_live allocComponents_def DeepCopy_eq)
  with w1(2) show ?thesis unfolding startsRun_def by (intro exI [of _ ?w1]) simp
qed

text \<open>The server has the generated fields of the object at a slot.\<close>

definition installed :: "'s view \<Rightarrow> CommonComponents \<Rightarrow> slot \<Rightarrow> 's world \<Rightarrow> bool" where
  "installed view cc s w \<longleftrightarrow> (\<exists>n stored. derefSlot cc s = Some n \<and>
     view (w_Srv w) (keyOf n) = Some stored \<and> ownedFields stored = ownedFields n)"

text \<open>The slots that a list of steps upserts.\<close>

definition upsertedSlots :: "step list \<Rightarrow> slot set" where
  "upsertedSlots sts = {s. Upsert (InComponents s) \<in> set sts}"

definition stepsOnce :: "step list \<Rightarrow> bool" where
  "stepsOnce sts \<longleftrightarrow> distinct (map stepAddr (filter (\<lambda>st. managedAddr (stepAddr st)) sts))"

locale installer =
  fixes kind :: string
    and generate :: "externs \<Rightarrow> ('a CommonSpecBase_scheme, 'status) CR \<Rightarrow> CommonComponents result"
    and steps :: "('a CommonSpecBase_scheme, 'status) CR \<Rightarrow> CommonComponents \<Rightarrow> step list"
    and separate :: "('a CommonSpecBase_scheme, 'status) CR \<Rightarrow> bool"
  assumes wellFormed: "ownerLaw x \<Longrightarrow> generate x cr = Inr cc \<Longrightarrow>
      wellFormedInstall x kind (cr_Meta cr) (cr_Spec cr) cc"
    and keys: "ownerLaw x \<Longrightarrow> generate x cr = Inr cc \<Longrightarrow> separate cr \<Longrightarrow> distinctSlots cc"
    and once: "generate x cr = Inr cc \<Longrightarrow> stepsOnce (steps cr cc)"
begin

lemma required: "ownerLaw x \<Longrightarrow> generate x cr = Inr cc \<Longrightarrow> generated (heapOf cc job) cc"
  using wellFormed [of x cr cc] by (auto simp: generated_def wellFormedInstall_def)

lemma run_trace:
  assumes "clientLawsOn K c view" "ownerLaw x" "generate x cr = Inr cc"
    and run: "startsRun c cc job (steps cr cc) m w" "m w = (r, w')"
  shows "\<exists>es. w_Trace w' = w_Trace w @ es \<and> prefix (visible es) (planned (heapOf cc job) (steps cr cc)) \<and>
     (r = Inr () \<longrightarrow> visible es = planned (heapOf cc job) (steps cr cc))"
proof -
  from run obtain w1 where w1: "runSteps c (reconcileMutate cc) (steps cr cc) w1 = (r, w')"
    "w_Heap w1 = heapOf cc job" "w_Trace w1 = w_Trace w" by (auto simp: startsRun_def)
  have "sameKeys (w_Heap w1) (heapOf cc job)" using w1(2) by simp
  from runSteps_trace [OF assms(1) this required [OF assms(2,3)] w1(1)] w1(3)
  show ?thesis by simp
qed

lemma run_installs_on:
  assumes "clientLawsOn K c view" "ownerLaw x" "generate x cr = Inr cc" "separate cr"
    and run: "startsRun c cc job (steps cr cc) m w" "m w = (Inr (), w')"
    and job: "\<And>j i n. job = Some j \<Longrightarrow> derefSlot cc (SJob i) = Some n \<Longrightarrow> keyOf n \<noteq> keyOf (KJob j)"
    and s: "s \<in> upsertedSlots (steps cr cc)" "managed s" "derefSlot cc s = Some n" "keyOf n \<in> K"
  shows "installed view cc s w'"
proof -
  from run obtain w1 where w1: "runSteps c (reconcileMutate cc) (steps cr cc) w1 = (Inr (), w')"
    "w_Heap w1 = heapOf cc job" by (auto simp: startsRun_def)
  have "holds view (heapOf cc job) (InComponents s) w'"
  proof (rule runSteps_holds_distinct [OF assms(1) _ _ _ w1(1)])
    show "sameKeys (w_Heap w1) (heapOf cc job)" using w1(2) by simp
    show "generated (heapOf cc job) cc" using required assms(2,3) by blast
    show "distinctKeys (heapOf cc job)"
      using distinctSlots_keys [OF keys [OF assms(2-4)] job] .
    show "Upsert (InComponents s) \<in> set (steps cr cc)" using s(1) by (simp add: upsertedSlots_def)
    show "distinct (map stepAddr (filter (\<lambda>st. managedAddr (stepAddr st)) (steps cr cc)))"
      using once [OF assms(3)] by (simp add: stepsOnce_def)
  qed (use s in simp_all)
  then show ?thesis by (simp add: holds_def installed_def)
qed

lemma run_installs:
  assumes "clientLaws c view" "ownerLaw x" "generate x cr = Inr cc" "separate cr"
    and run: "startsRun c cc job (steps cr cc) m w" "m w = (Inr (), w')"
    and job: "\<And>j i n. job = Some j \<Longrightarrow> derefSlot cc (SJob i) = Some n \<Longrightarrow> keyOf n \<noteq> keyOf (KJob j)"
    and s: "s \<in> upsertedSlots (steps cr cc)" "managed s" "derefSlot cc s \<noteq> None"
  shows "installed view cc s w'"
  using s(3) run_installs_on [OF assms(1-7) s(1,2)] by auto

end

section \<open>Clean-up\<close>

text \<open>
  The blocks of which \<open>deleteExternalResources\<close> consists: delete an object, skip it when it is already
  gone, wrap any other error and stop.
\<close>

definition deleteExternal ::
  "('spec, 'status, 's) client \<Rightarrow> string \<Rightarrow> CommonComponents \<Rightarrow> slot \<Rightarrow> ('s world, unit) action" where
  "deleteExternal c what components s =
     wrapfA (''error deleting '' @ what @ '' '' @
         (case derefSlot components s of Some ob \<Rightarrow> om_Name (metaOf ob) | None \<Rightarrow> []))
       (ignoreNotFound (deleteObject c (InComponents s)))"

primrec inSequence :: "('w, unit) action list \<Rightarrow> ('w, unit) action" where
  "inSequence [] = returnA ()"
| "inSequence (m # ms) = andThenA m (\<lambda>_. inSequence ms)"

lemma callsOnly_deleteExternal [intro]:
  "P (EvDelete (InComponents s)) \<Longrightarrow> keeps (callsOnly P) (deleteExternal c what cc s)"
  unfolding deleteExternal_def by blast

lemma keeps_inSequence:
  "(\<And>m. m \<in> set ms \<Longrightarrow> keeps (callsOnly P) m) \<Longrightarrow> keeps (callsOnly P) (inSequence ms)"
  by (induction ms) (auto intro!: callsOnly_andThenA)

text \<open>The block that adds the monitoring objects when Prometheus is enabled.\<close>

lemma monitoring_eq:
  "(case p of None \<Rightarrow> Inr cc
      | Some q \<Rightarrow> if b q then andThen (f q) (\<lambda>y. andThen (g q) (\<lambda>z. Inr (h y z))) else Inr cc) = Inr cc'
     \<longleftrightarrow> (\<forall>q. p = Some q \<longrightarrow> \<not> b q) \<and> cc' = cc \<or>
        (\<exists>q y z. p = Some q \<and> b q \<and> f q = Inr y \<and> g q = Inr z \<and> cc' = h y z)"
  by (auto simp: andThen_eq_Inr split: option.split)

text \<open>The profiling objects are named after the owner.\<close>

lemma newProfilingComponents_names:
  assumes "ownerLaw x" "newProfilingComponents x kind owner cfg ic = Inr (svc, ing)"
  shows "metaKey (svc_Meta svc) = (om_Namespace owner, om_Name owner @ ''-profiling'')"
    "ing = Some i \<Longrightarrow> metaKey (ing_Meta i) = (om_Namespace owner, om_Name owner @ ''-profiling'')"
  using assms(2)
  by (auto simp: go_simps newProfilingIngress_def Let_def metaKey_def ownerLawD(1,2) [OF assms(1)]
      split: option.splits)

section \<open>Ingresses and Jobs\<close>

text \<open>\<open>if obj != nil { SetOwnerReference(...) }\<close> on an Ingress.\<close>

definition ownIngress ::
  "externs \<Rightarrow> string \<Rightarrow> ObjectMeta \<Rightarrow> Ingress option \<Rightarrow> Ingress option result" where
  "ownIngress x kind owner ingress =
     (case ingress of
        None \<Rightarrow> Inr None
      | Some i \<Rightarrow> andThen (SetOwnerReference x kind owner ing_Meta ing_Meta_update i) (\<lambda>i. Inr (Some i)))"

primrec ownJobs :: "externs \<Rightarrow> string \<Rightarrow> ObjectMeta \<Rightarrow> Job list \<Rightarrow> Job list result" where
  "ownJobs x kind owner [] = Inr []"
| "ownJobs x kind owner (job # jobs) =
     andThen (SetOwnerReference x kind owner job_Meta job_Meta_update job) (\<lambda>job.
     andThen (ownJobs x kind owner jobs) (\<lambda>jobs. Inr (job # jobs)))"

text \<open>The loop over the Jobs: each is upserted and then waited for.\<close>

definition jobSteps :: "nat \<Rightarrow> step list" where
  "jobSteps n = concat (map (\<lambda>i. [Upsert (InComponents (SJob i)), WaitJob (InComponents (SJob i))]) [0..<n])"

lemma ownIngress_key:
  assumes "ownerLaw x" "ownIngress x kind owner ing = Inr ing'"
  shows "ing' = Some i' \<Longrightarrow> \<exists>i. ing = Some i \<and> metaKey (ing_Meta i') = metaKey (ing_Meta i) \<and>
    ing_Spec i' = ing_Spec i"
  using assms(2) by (auto simp: ownIngress_def go_simps metaKey_def ownerLawD(1,2) [OF assms(1)] split: option.splits)

lemma ownJobs_keys:
  assumes "ownerLaw x"
  shows "ownJobs x kind owner jobs = Inr jobs' \<Longrightarrow>
    map (\<lambda>j. metaKey (job_Meta j)) jobs' = map (\<lambda>j. metaKey (job_Meta j)) jobs"
  by (induction jobs arbitrary: jobs') (auto simp: go_simps metaKey_def ownerLawD(1,2) [OF assms])

lemma filter_jobSteps [simp]: "filter (\<lambda>st. managedAddr (stepAddr st)) (jobSteps n) = []"
  by (auto simp: jobSteps_def filter_empty_conv)

lemma key_of_meta: "ownerLaw x \<Longrightarrow> SetOwner x kind owner m = Inr m' \<Longrightarrow> metaKey m' = metaKey m"
  by (simp add: metaKey_def ownerLawD(1,2))

lemma suffixes_differ:
  "n @ ''-grpc'' \<noteq> n @ ''-rest''" "n @ ''-grpc'' \<noteq> n @ ''-profiling''" "n @ ''-rest'' \<noteq> n @ ''-profiling''"
  "n \<noteq> n @ ''-profiling''"
  by simp_all

end
