(* ===== verification/Tenancy.thy ===== *)
theory Tenancy
  imports Installation
begin

text \<open>
  What a reconciliation may change on the server. The reach of a request is its namespace and the
  cluster-scoped objects named after the resource; the locale \<open>tenantInstaller\<close> adds to \<open>installer\<close> that
  every object a step touches lies in the reach of the resource, and owned by it unless it is
  cluster-scoped. Inside it: whatever comes of a reconciliation, everything out of reach is left alone.
  Each controller interprets the locale in its theory.
\<close>

section \<open>Reach\<close>

definition clusterScoped :: "kind \<Rightarrow> bool" where
  "clusterScoped k \<longleftrightarrow> k = ClusterRoleKind \<or> k = ClusterRoleBindingKind"

fun reach :: "string \<times> string \<Rightarrow> objkey \<Rightarrow> bool" where
  "reach (ns, n) (kind, ns', n') =
     (if clusterScoped kind then n' = n \<or> prefix (n @ ''-'') n' else ns' = ns)"

text \<open>Where an object of the operator belongs, and whose it is.\<close>

definition tenant :: "string \<Rightarrow> ObjectMeta \<Rightarrow> kobj \<Rightarrow> bool" where
  "tenant kind owner ob \<longleftrightarrow>
     (if clusterScoped (kindOf ob)
      then om_Name (metaOf ob) = om_Name owner \<or> prefix (om_Name owner @ ''-'') (om_Name (metaOf ob))
      else om_Namespace (metaOf ob) = om_Namespace owner \<and> ownedBy kind owner (metaOf ob))"

lemma tenant_reach: "tenant kind (cr_Meta cr) ob \<Longrightarrow> reach (crKey cr) (keyOf ob)"
  by (auto simp: tenant_def crKey_def keyOf_def split: if_splits)

definition touchedSlots :: "step list \<Rightarrow> slot set" where
  "touchedSlots sts = {s. InComponents s \<in> stepAddr ` set sts}"

lemma touchedSlots_simps [simp]:
  "touchedSlots [] = {}"
  "touchedSlots (st # sts) = {s. stepAddr st = InComponents s} \<union> touchedSlots sts"
  "touchedSlots (sts @ sts') = touchedSlots sts \<union> touchedSlots sts'"
  by (auto simp: touchedSlots_def)

lemma touchedSlots_upserts [simp]: "touchedSlots (map (\<lambda>i. Upsert (InComponents (f i))) xs) = f ` set xs"
  by (induction xs) auto

lemma touchedSlots_jobSteps [simp]: "touchedSlots (jobSteps n) = SJob ` {..<n}"
  by (force simp: touchedSlots_def jobSteps_def image_iff)

lemma upsertedSlots_touched: "upsertedSlots sts \<subseteq> touchedSlots sts"
  by (force simp: upsertedSlots_def touchedSlots_def)

definition tenants :: "string \<Rightarrow> ObjectMeta \<Rightarrow> CommonComponents \<Rightarrow> slot set \<Rightarrow> bool" where
  "tenants kind owner cc S \<longleftrightarrow> (\<forall>s ob. s \<in> S \<longrightarrow> derefSlot cc s = Some ob \<longrightarrow> tenant kind owner ob)"

text \<open>What an owner reference gives, for the metadata of a namespaced object.\<close>

definition owned :: "string \<Rightarrow> ObjectMeta \<Rightarrow> ObjectMeta \<Rightarrow> bool" where
  "owned kind owner m \<longleftrightarrow> om_Namespace m = om_Namespace owner \<and> ownedBy kind owner m"

lemma SetOwner_owned:
  "ownerLaw x \<Longrightarrow> SetOwner x kind owner m = Inr m' \<Longrightarrow> om_Namespace m = om_Namespace owner \<Longrightarrow> owned kind owner m'"
  by (simp add: owned_def SetOwner_ownedBy ownerLawD(2))

lemma tenantsI:
  assumes "\<And>ob. cc_Deployment cc = Some ob \<Longrightarrow> owned kind owner (dep_Meta ob)"
    "\<And>ob. cc_IngressGrpc cc = Some ob \<Longrightarrow> owned kind owner (ing_Meta ob)"
    "\<And>ob. cc_IngressHttp cc = Some ob \<Longrightarrow> owned kind owner (ing_Meta ob)"
    "\<And>ob. cc_IngressProfiling cc = Some ob \<Longrightarrow> owned kind owner (ing_Meta ob)"
    "\<And>ob. cc_Service cc = Some ob \<Longrightarrow> owned kind owner (svc_Meta ob)"
    "\<And>ob. cc_ServiceProfiling cc = Some ob \<Longrightarrow> owned kind owner (svc_Meta ob)"
    "\<And>ob. cc_ServiceAccount cc = Some ob \<Longrightarrow> owned kind owner (sa_Meta ob)"
    "\<And>ob. cc_Secret cc = Some ob \<Longrightarrow> owned kind owner (sec_Meta ob)"
    "\<And>ob. cc_PrometheusRule cc = Some ob \<Longrightarrow> owned kind owner (prom_Meta ob)"
    "\<And>ob. cc_ServiceMonitor cc = Some ob \<Longrightarrow> owned kind owner (sm_Meta ob)"
    "\<And>ob. cc_PodDisruptionBudget cc = Some ob \<Longrightarrow> owned kind owner (pdb_Meta ob)"
    "\<And>ob. cc_CronJob cc = Some ob \<Longrightarrow> owned kind owner (cj_Meta ob)"
    "\<And>i ob. SJob i \<in> S \<Longrightarrow> ob \<in> set (cc_Jobs cc) \<Longrightarrow> owned kind owner (job_Meta ob)"
    "\<And>ob. cc_ClusterRole cc = Some ob \<Longrightarrow> om_Name (crole_Meta ob) = om_Name owner"
    "\<And>ob. ob \<in> set (cc_ClusterRoleBindings cc) \<Longrightarrow>
       om_Name (crb_Meta ob) = om_Name owner \<or> prefix (om_Name owner @ ''-'') (om_Name (crb_Meta ob))"
  shows "tenants kind owner cc S"
  unfolding tenants_def
proof (intro allI impI)
  fix s ob
  assume s: "s \<in> S" and ob: "derefSlot cc s = Some ob"
  show "tenant kind owner ob"
    using s ob
    by (cases s)
      (auto simp: tenant_def clusterScoped_def split: if_splits
        dest!: assms(1-12) [unfolded owned_def] assms(13) [unfolded owned_def, OF _ nth_mem] assms(14)
          assms(15) [OF nth_mem])
qed

lemma owned_SetOwnerReference:
  assumes "ownerLaw x" "SetOwnerReference x kind owner g u ob = Inr ob'" "om_Namespace (g ob) = om_Namespace owner"
    "\<And>m. g (u (\<lambda>_. m) ob) = m"
  shows "owned kind owner (g ob')"
  using assms by (auto simp: SetOwnerReference_eq_Inr intro: SetOwner_owned)

lemma owned_serviceAccountFor:
  assumes "ownerLaw x" "serviceAccountFor x kind owner spec = Inr (Some sa, account)"
  shows "owned kind owner (sa_Meta sa)"
  using assms(2) by (auto simp: serviceAccountFor_def Let_def go_simps intro: SetOwner_owned [OF assms(1)] split: if_splits)

lemma owned_profiling:
  assumes "ownerLaw x"
  shows "newProfilingComponents x kind owner cfg ic = Inr (svc, ing) \<Longrightarrow> owned kind owner (svc_Meta svc)"
    "newProfilingComponents x kind owner cfg ic = Inr (svc, Some i) \<Longrightarrow> owned kind owner (ing_Meta i)"
  by (auto simp: go_simps newProfilingIngress_def Let_def intro!: SetOwner_owned [OF assms] split: option.splits)

lemma owned_ownIngress:
  assumes "ownerLaw x" "ownIngress x kind owner ing = Inr (Some i')"
    "\<And>i. ing = Some i \<Longrightarrow> om_Namespace (ing_Meta i) = om_Namespace owner"
  shows "owned kind owner (ing_Meta i')"
  using assms(2,3) by (auto simp: ownIngress_def go_simps intro: SetOwner_owned [OF assms(1)] split: option.splits)

lemma owned_ownJobs:
  assumes "ownerLaw x"
  shows "ownJobs x kind owner jobs = Inr jobs' \<Longrightarrow> j \<in> set jobs' \<Longrightarrow>
    (\<And>j. j \<in> set jobs \<Longrightarrow> om_Namespace (job_Meta j) = om_Namespace owner) \<Longrightarrow> owned kind owner (job_Meta j)"
proof (induction jobs arbitrary: jobs')
  case (Cons a jobs)
  from Cons.prems(1) obtain m rest where m: "SetOwner x kind owner (job_Meta a) = Inr m"
    "ownJobs x kind owner jobs = Inr rest" "jobs' = a\<lparr>job_Meta := m\<rparr> # rest"
    by (auto simp: go_simps)
  have "owned kind owner m" using SetOwner_owned [OF assms m(1)] Cons.prems(3) by simp
  with Cons.IH [OF m(2)] Cons.prems(2,3) m(3) show ?case by auto
qed simp

text \<open>The monitoring objects are generated when Prometheus is enabled.\<close>

lemma monitors_eq:
  "(case p of None \<Rightarrow> Inr None | Some q \<Rightarrow> if b q then andThen (f q) (\<lambda>y. Inr (Some y)) else Inr None) = Inr (Some y)
     \<longleftrightarrow> (\<exists>q. p = Some q \<and> b q \<and> f q = Inr y)"
  "(case p of None \<Rightarrow> Inr (None, None)
      | Some q \<Rightarrow> if b q then andThen (f q) (\<lambda>y. andThen (g q) (\<lambda>z. Inr (Some y, Some z))) else Inr (None, None)) =
      Inr (Some y, s)
     \<longleftrightarrow> (\<exists>q z. p = Some q \<and> b q \<and> f q = Inr y \<and> g q = Inr z \<and> s = Some z)"
  "(case p of None \<Rightarrow> Inr (None, None)
      | Some q \<Rightarrow> if b q then andThen (f q) (\<lambda>y. andThen (g q) (\<lambda>z. Inr (Some y, Some z))) else Inr (None, None)) =
      Inr (r, Some z)
     \<longleftrightarrow> (\<exists>q y. p = Some q \<and> b q \<and> f q = Inr y \<and> g q = Inr z \<and> r = Some y)"
  by (auto simp: andThen_eq_Inr split: option.split)

lemma CreateSecret_home: "CreateSecret x raw n ns f = Inr sec \<Longrightarrow> om_Namespace (sec_Meta sec) = ns"
  by (auto simp: go_simps)

lemmas owned_elims = owned_SetOwnerReference owned_serviceAccountFor owned_profiling owned_ownIngress owned_ownJobs

section \<open>Changes confined to some keys\<close>

definition confined :: "'s view \<Rightarrow> (objkey \<Rightarrow> bool) \<Rightarrow> 's world \<Rightarrow> 's world \<Rightarrow> bool" where
  "confined view P w w' \<longleftrightarrow> (\<forall>k. \<not> P k \<longrightarrow> view (w_Srv w') k = view (w_Srv w) k)"

lemma confined_refl [simp, intro]: "confined view P w w"
  by (simp add: confined_def)

lemma confined_trans: "confined view P u v \<Longrightarrow> confined view P v w \<Longrightarrow> confined view P u w"
  by (simp add: confined_def)

lemma confined_same: "view (w_Srv w') = view (w_Srv w) \<Longrightarrow> confined view P w w'"
  by (simp add: confined_def)

text \<open>The keys that the objects at some slots have.\<close>

definition keysWithin :: "CommonComponents \<Rightarrow> slot set \<Rightarrow> (objkey \<Rightarrow> bool) \<Rightarrow> bool" where
  "keysWithin cc S P \<longleftrightarrow> (\<forall>s ob. s \<in> S \<longrightarrow> derefSlot cc s = Some ob \<longrightarrow> P (keyOf ob))"

lemma tenants_keysWithin: "tenants kind (cr_Meta cr) cc S \<Longrightarrow> keysWithin cc S (reach (crKey cr))"
  unfolding tenants_def keysWithin_def using tenant_reach by blast

lemma runSteps_confined:
  assumes laws: "clientLaws c view" and keys: "sameKeys (w_Heap w) h0" and gen: "generated h0 new"
    and run: "runSteps c (reconcileMutate new) sts w = (r, w')"
    and own: "\<And>st n. st \<in> set sts \<Longrightarrow> load (stepAddr st) h0 = Some n \<Longrightarrow> P (keyOf n)"
  shows "confined view P w w'"
  using keys run own
proof (induction sts arbitrary: w)
  case (Cons st sts)
  obtain r1 w1 where st: "runStep c (reconcileMutate new) st w = (r1, w1)" by fastforce
  note s1 = runStep_run [OF laws Cons.prems(1) gen st]
  have "confined view P w w1"
    unfolding confined_def
  proof (intro allI impI)
    fix k
    assume "\<not> P k"
    with Cons.prems(3) [of st] have "\<forall>n. load (stepAddr st) h0 = Some n \<longrightarrow> k \<noteq> keyOf n" by auto
    with s1(4) show "view (w_Srv w1) k = view (w_Srv w) k" unfolding elsewhere_def by blast
  qed
  moreover from Cons.prems(2) st
  have "(r1 = Inr () \<and> runSteps c (reconcileMutate new) sts w1 = (r, w')) \<or> w' = w1"
    by (auto simp: andThenA_def split: sum.splits)
  ultimately show ?case using Cons.IH [OF s1(1)] Cons.prems(3) confined_trans by fastforce
qed simp

text \<open>A clean-up that deletes objects at some slots.\<close>

definition deletesAt :: "'s view \<Rightarrow> CommonComponents \<Rightarrow> slot set \<Rightarrow> ('s world, unit) action \<Rightarrow> bool" where
  "deletesAt view cc S m \<longleftrightarrow> (\<forall>P w. keysWithin cc S P \<longrightarrow> h_Components (w_Heap w) = cc \<longrightarrow>
     w_Heap (snd (m w)) = w_Heap w \<and> confined view P w (snd (m w)))"

lemma deletesAt_returnA [simp, intro]: "deletesAt view cc S (returnA ())"
  by (simp add: deletesAt_def)

lemma deletesAt_andThenA [intro]:
  fixes m :: "('s world, unit) action"
  assumes "deletesAt view cc S m" "\<And>u. deletesAt view cc S (f u)"
  shows "deletesAt view cc S (andThenA m f)"
  unfolding deletesAt_def
proof (intro allI impI)
  fix P and w :: "'s world"
  assume P: "keysWithin cc S P" and w: "h_Components (w_Heap w) = cc"
  obtain r w1 where m: "m w = (r, w1)" by fastforce
  with assms(1) P w have 1: "w_Heap w1 = w_Heap w" "confined view P w w1"
    by (metis deletesAt_def snd_conv)+
  show "w_Heap (snd (andThenA m f w)) = w_Heap w \<and> confined view P w (snd (andThenA m f w))"
  proof (cases r)
    case (Inr u)
    from assms(2) [of u] P w 1 have "w_Heap (snd (f u w1)) = w_Heap w1 \<and> confined view P w1 (snd (f u w1))"
      unfolding deletesAt_def by metis
    with m Inr 1 confined_trans show ?thesis by (fastforce simp: andThenA_def)
  qed (use m 1 in \<open>simp add: andThenA_def\<close>)
qed

lemma deletesAt_inSequence [intro]:
  "(\<And>m. m \<in> set ms \<Longrightarrow> deletesAt view cc S m) \<Longrightarrow> deletesAt view cc S (inSequence ms)"
  by (induction ms) auto

lemma deletesAt_deleteExternal [intro]:
  fixes c :: "('spec, 'status, 's) client"
  assumes law: "deleteLaw c view" and s: "s \<in> S"
  shows "deletesAt view cc S (deleteExternal c what cc s)"
  unfolding deletesAt_def
proof (intro allI impI)
  fix P and w :: "'s world"
  assume P: "keysWithin cc S P" and w: "h_Components (w_Heap w) = cc"
  show "w_Heap (snd (deleteExternal c what cc s w)) = w_Heap w \<and>
    confined view P w (snd (deleteExternal c what cc s w))"
  proof (cases "derefSlot cc s")
    case None
    with w show ?thesis
      by (simp add: deleteExternal_def wrapfA_def ignoreNotFound_def deleteObject_def)
  next
    case (Some ob)
    obtain r s' where d: "c_Delete c ob (w_Srv w) = (r, s')" by fastforce
    let ?w' = "snd (deleteExternal c what cc s w)"
    have w': "?w' = (logCall (EvDelete (InComponents s)) w)\<lparr>w_Srv := s'\<rparr>"
      using w Some d
      by (auto simp: deleteExternal_def wrapfA_def ignoreNotFound_def deleteObject_def onServer_def
          split: sum.splits if_splits)
    have "view s' k = view (w_Srv w) k" if "\<not> P k" for k
      using law d P s Some that unfolding deleteLaw_def keysWithin_def by metis
    with w' show ?thesis by (simp add: confined_def)
  qed
qed

section \<open>The custom resource\<close>

text \<open>
  Reading a resource changes nothing and returns the one that was asked for. Updating it changes none of
  the objects, and the answer is the same resource with the spec that was sent.
\<close>

definition resourceLaw :: "('spec, 'status, 's) client \<Rightarrow> 's view \<Rightarrow> bool" where
  "resourceLaw c view \<longleftrightarrow>
     (\<forall>k s r s'. c_Get c k s = (r, s') \<longrightarrow> view s' = view s \<and> (\<forall>cr. r = Inr cr \<longrightarrow> crKey cr = k)) \<and>
     (\<forall>cr s r s'. c_Update c cr s = (r, s') \<longrightarrow> view s' = view s \<and>
        (\<forall>cr'. r = Inr cr' \<longrightarrow> crKey cr' = crKey cr \<and> cr_Spec cr' = cr_Spec cr))"

lemma resourceLaw_refClient [simp]: "resourceLaw refClient refView"
  by (auto simp: resourceLaw_def split: option.splits if_splits)

lemma getObject_run:
  assumes "resourceLaw c view" "getObject c k w = (r, w')"
  shows "confined view P w w'" "r = Inr (Some cr) \<Longrightarrow> crKey cr = k"
proof -
  obtain r1 s' where g: "c_Get c k (w_Srv w) = (r1, s')" by fastforce
  with assms(1) have v: "view s' = view (w_Srv w)" "\<And>cr. r1 = Inr cr \<Longrightarrow> crKey cr = k"
    unfolding resourceLaw_def by blast+
  have "w_Srv w' = s'" using assms(2) g
    by (auto simp: getObject_def onServer_def split: sum.splits if_splits)
  with v(1) show "confined view P w w'" by (simp add: confined_def)
  show "crKey cr = k" if "r = Inr (Some cr)"
    using assms(2) g v(2) that by (auto simp: getObject_def onServer_def split: sum.splits if_splits)
qed

text \<open>The same resource, up to its finalizers and whatever else the server keeps in the metadata.\<close>

definition sameResource :: "('spec, 'status) CR \<Rightarrow> ('spec, 'status) CR \<Rightarrow> bool" where
  "sameResource cr cr' \<longleftrightarrow> crKey cr' = crKey cr \<and> cr_Spec cr' = cr_Spec cr"

lemma sameResource_refl [simp]: "sameResource cr cr"
  by (simp add: sameResource_def)

lemma updateCR_run:
  assumes "resourceLaw c view" "updateCR c cr w = (r, w')"
  shows "w_Heap w' = w_Heap w" "view (w_Srv w') = view (w_Srv w)" "r = Inr cr' \<Longrightarrow> sameResource cr cr'"
proof -
  obtain r1 s' where u: "c_Update c cr (w_Srv w) = (r1, s')" by fastforce
  with assms(1) have "view s' = view (w_Srv w)" "\<And>cr'. r1 = Inr cr' \<Longrightarrow> sameResource cr cr'"
    unfolding resourceLaw_def sameResource_def by blast+
  with assms(2) u show "w_Heap w' = w_Heap w" "view (w_Srv w') = view (w_Srv w)"
    "r = Inr cr' \<Longrightarrow> sameResource cr cr'"
    by (auto simp: updateCR_def onServer_def)
qed

lemma finalizer_sameResource:
  assumes "finalizerLaw x"
  shows "sameResource (cr\<lparr>cr_Meta := AddFinalizer x (cr_Meta cr) f\<rparr>) cr' \<longleftrightarrow> sameResource cr cr'"
    "sameResource (cr\<lparr>cr_Meta := RemoveFinalizer x (cr_Meta cr) f\<rparr>) cr' \<longleftrightarrow> sameResource cr cr'"
proof -
  have "(\<exists>fs. AddFinalizer x (cr_Meta cr) f = (cr_Meta cr)\<lparr>om_Finalizers := fs\<rparr>) \<and>
      (\<exists>fs. RemoveFinalizer x (cr_Meta cr) f = (cr_Meta cr)\<lparr>om_Finalizers := fs\<rparr>)"
    using assms unfolding finalizerLaw_def by blast
  then show "sameResource (cr\<lparr>cr_Meta := AddFinalizer x (cr_Meta cr) f\<rparr>) cr' \<longleftrightarrow> sameResource cr cr'"
    "sameResource (cr\<lparr>cr_Meta := RemoveFinalizer x (cr_Meta cr) f\<rparr>) cr' \<longleftrightarrow> sameResource cr cr'"
    by (auto simp: sameResource_def crKey_def)
qed

text \<open>Run from \<open>w\<close>, the clean-up (if there is one) keeps the heap and changes only keys with \<open>P\<close>.\<close>

definition cleansWithin ::
  "'s view \<Rightarrow> (objkey \<Rightarrow> bool) \<Rightarrow> 's world \<Rightarrow> ('s world, unit) action option \<Rightarrow> bool" where
  "cleansWithin view P w cleanup \<longleftrightarrow>
     (\<forall>m. cleanup = Some m \<longrightarrow> w_Heap (snd (m w)) = w_Heap w \<and> confined view P w (snd (m w)))"

lemma cleansWithin_None [simp]: "cleansWithin view P w None"
  by (simp add: cleansWithin_def)

lemma check_run:
  assumes laws: "resourceLaw c view" "finalizerLaw x"
    and cl: "cleansWithin view P w cleanup"
    and run: "checkAndHandleObjectDeletion x c cr f cleanup w = (r, w')"
  shows "w_Heap w' = w_Heap w" "confined view P w w'" "\<And>finish cr'. r = Inr (finish, cr') \<Longrightarrow> sameResource cr cr'"
proof -
  have "w_Heap w' = w_Heap w \<and> confined view P w w' \<and> (\<forall>finish cr'. r = Inr (finish, cr') \<longrightarrow> sameResource cr cr')"
  proof (cases "om_DeletionTimestamp (cr_Meta cr)")
    case None
    obtain r1 w1 where u: "updateCR c (cr\<lparr>cr_Meta := AddFinalizer x (cr_Meta cr) f\<rparr>) w = (r1, w1)" by fastforce
    from updateCR_run [OF laws(1) u] run None u show ?thesis
      by (auto simp: check_live confined_def finalizer_sameResource [OF laws(2)] split: if_splits sum.splits)
  next
    case (Some t)
    show ?thesis
    proof (cases "ContainsFinalizer x (cr_Meta cr) f")
      case True
      obtain r1 w1 where m: "(case cleanup of None \<Rightarrow> (Inr (), w) | Some cl \<Rightarrow> cl w) = (r1, w1)" by fastforce
      have 1: "w_Heap w1 = w_Heap w" "confined view P w w1"
        using m cl by (cases cleanup; fastforce simp: cleansWithin_def)+
      obtain r2 w2 where u: "updateCR c (cr\<lparr>cr_Meta := RemoveFinalizer x (cr_Meta cr) f\<rparr>) w1 = (r2, w2)" by fastforce
      from updateCR_run [OF laws(1) u] run Some True m u 1 show ?thesis
        by (auto simp: check_deleting_run confined_def finalizer_sameResource [OF laws(2)] split: sum.splits)
    next
      case False
      with run Some show ?thesis
        by (auto simp: checkAndHandleObjectDeletion_def handleObjectDeletion_def)
    qed
  qed
  then show "w_Heap w' = w_Heap w" "confined view P w w'" "\<And>finish cr'. r = Inr (finish, cr') \<Longrightarrow> sameResource cr cr'"
    by blast+
qed

section \<open>The contract\<close>

locale tenantInstaller = installer kind generate steps separate
  for kind :: string
    and generate :: "externs \<Rightarrow> ('a CommonSpecBase_scheme, 'status) CR \<Rightarrow> CommonComponents result"
    and steps :: "('a CommonSpecBase_scheme, 'status) CR \<Rightarrow> CommonComponents \<Rightarrow> step list"
    and separate :: "('a CommonSpecBase_scheme, 'status) CR \<Rightarrow> bool" +
  assumes housed: "ownerLaw x \<Longrightarrow> generate x cr = Inr cc \<Longrightarrow>
      tenants kind (cr_Meta cr) cc (touchedSlots (steps cr cc))"
    and bySpec: "cr_Spec cr' = cr_Spec cr \<Longrightarrow> steps cr' cc = steps cr cc"
    and inComponents: "stepAddr ` set (steps cr cc) \<subseteq> range InComponents"
begin

lemma steps_within:
  assumes laws: "clientLaws c view" "ownerLaw x" and gen: "generate x cr = Inr cc" and cr': "sameResource cr cr'"
    and keys: "keysWithin cc (touchedSlots (steps cr cc)) P"
    and heap: "w_Heap w = heapOf cc job"
    and run: "runSteps c (reconcileMutate cc) (steps cr' cc) w = (r, w')"
  shows "confined view P w w'"
proof (rule runSteps_confined [OF laws(1) _ required [OF laws(2) gen] run])
  show "sameKeys (w_Heap w) (heapOf cc job)" using heap by simp
  fix st n
  assume st: "st \<in> set (steps cr' cc)" "load (stepAddr st) (heapOf cc job) = Some n"
  have spec: "cr_Spec cr' = cr_Spec cr" using cr' by (simp add: sameResource_def)
  from st(1) have touched: "stepAddr st \<in> stepAddr ` set (steps cr cc)" unfolding bySpec [OF spec] by (rule imageI)
  with inComponents [of cr cc] obtain s where s: "stepAddr st = InComponents s" by blast
  with touched have "s \<in> touchedSlots (steps cr cc)" by (simp add: touchedSlots_def)
  with keys s st(2) show "P (keyOf n)" by (auto simp: keysWithin_def)
qed

text \<open>The generated objects lie in the reach of the resource.\<close>

lemma steps_confined:
  assumes "clientLaws c view" "ownerLaw x" "generate x cr = Inr cc" "w_Heap w = heapOf cc job"
    "runSteps c (reconcileMutate cc) (steps cr cc) w = (r, w')"
  shows "confined view (reach (crKey cr)) w w'"
  using steps_within [OF assms(1-3) sameResource_refl tenants_keysWithin [OF housed [OF assms(2,3)]] assms(4,5)] .

lemma checkFirst_confined:
  assumes laws: "clientLaws c view" "resourceLaw c view" "finalizerLaw x" "ownerLaw x"
    and run: "checkFirst x c req (generate x) steps w = (r, w')"
  shows "confined view (reach req) w w'"
proof -
  obtain r1 w1 where g: "getObject c req w = (r1, w1)" by fastforce
  note g1 = getObject_run [OF laws(2) g]
  show ?thesis
  proof (cases "\<exists>cr. r1 = Inr (Some cr)")
    case False
    with run g g1(1) show ?thesis by (auto simp: checkFirst_def andThenA_def split: sum.splits option.splits)
  next
    case True
    then obtain cr where cr: "r1 = Inr (Some cr)" by blast
    with g1(2) have req: "crKey cr = req" by simp
    obtain r2 w2 where ch: "checkAndHandleObjectDeletion x c cr operatorFinalizer None w1 = (r2, w2)" by fastforce
    note c1 = check_run [OF laws(2,3) cleansWithin_None ch]
    show ?thesis
    proof (cases "\<exists>cr' cc. r2 = Inr (False, cr') \<and> generate x cr' = Inr cc")
      case False
      with run g cr ch have "w' = w2"
        by (auto simp: checkFirst_def andThenA_def liftA_def split: sum.splits if_splits)
      with g1(1) c1(2) show ?thesis using confined_trans by blast
    next
      case True
      then obtain cr' cc where cr': "r2 = Inr (False, cr')" "generate x cr' = Inr cc" by blast
      have "sameResource cr cr'" by (rule c1(3) [OF cr'(1)])
      with req have req': "crKey cr' = req" by (simp add: sameResource_def)
      have "runSteps c (reconcileMutate cc) (steps cr' cc) (w2\<lparr>w_Heap := heapOf cc None\<rparr>) = (r, w')"
        using run g cr ch cr'
        by (simp add: checkFirst_def andThenA_def liftA_def allocComponents_def DeepCopy_eq)
      from steps_confined [OF laws(1,4) cr'(2) _ this] req'
      have "confined view (reach req) w2 w'" by (simp add: confined_def)
      with g1(1) c1(2) show ?thesis using confined_trans by blast
    qed
  qed
qed

lemma generateFirst_within:
  assumes laws: "clientLaws c view" "resourceLaw c view" "finalizerLaw x" "ownerLaw x"
    and cl: "\<And>cr cc m. generate x cr = Inr cc \<Longrightarrow> cleanup cc = Some m \<Longrightarrow> deletesAt view cc (touchedSlots (steps cr cc)) m"
    and keys: "\<And>cr cc. fetches c req w cr \<Longrightarrow> crKey cr = req \<Longrightarrow> generate x cr = Inr cc \<Longrightarrow>
      keysWithin cc (touchedSlots (steps cr cc)) P"
    and run: "generateFirst x c req (generate x) cleanup steps w = (r, w')"
  shows "confined view P w w'"
proof -
  obtain r1 w1 where g: "getObject c req w = (r1, w1)" by fastforce
  note g1 = getObject_run [OF laws(2) g]
  show ?thesis
  proof (cases "\<exists>cr cc. r1 = Inr (Some cr) \<and> generate x cr = Inr cc")
    case False
    with run g g1(1) show ?thesis
      by (auto simp: generateFirst_def andThenA_def liftA_def split: sum.splits option.splits)
  next
    case True
    then obtain cr cc where cr: "r1 = Inr (Some cr)" "generate x cr = Inr cc" by blast
    with g1(2) have req: "crKey cr = req" by simp
    let ?w1 = "w1\<lparr>w_Heap := heapOf cc None\<rparr>"
    have "fetches c req w cr"
      using g cr(1) by (auto simp: fetches_def getObject_def onServer_def split: prod.splits sum.splits if_splits)
    note own = keys [OF this req cr(2)]
    obtain r2 w2 where ch: "checkAndHandleObjectDeletion x c cr operatorFinalizer (cleanup cc) ?w1 = (r2, w2)" by fastforce
    have "cleansWithin view P ?w1 (cleanup cc)"
      using cl [OF cr(2)] own by (simp add: cleansWithin_def deletesAt_def)
    note c1 = check_run [OF laws(2,3) this ch]
    have 12: "confined view P w w2"
      using g1(1) [of P] c1(2) by (simp add: confined_def)
    show ?thesis
    proof (cases "\<exists>cr'. r2 = Inr (False, cr')")
      case False
      with run g cr ch have "w' = w2"
        by (auto simp: generateFirst_def andThenA_def liftA_def allocComponents_def split: sum.splits if_splits)
      with 12 show ?thesis by simp
    next
      case True
      then obtain cr' where cr': "r2 = Inr (False, cr')" by blast
      have "runSteps c (reconcileMutate cc) (steps cr' cc) w2 = (r, w')"
        using run g cr ch cr'
        by (simp add: generateFirst_def andThenA_def liftA_def allocComponents_def DeepCopy_eq)
      from steps_within [OF laws(1,4) cr(2) c1(3) [OF cr'] own _ this] c1(1)
      have "confined view P w2 w'" by simp
      with 12 show ?thesis by (rule confined_trans)
    qed
  qed
qed

lemma generateFirst_confined:
  assumes laws: "clientLaws c view" "resourceLaw c view" "finalizerLaw x" "ownerLaw x"
    and cl: "\<And>cr cc m. generate x cr = Inr cc \<Longrightarrow> cleanup cc = Some m \<Longrightarrow> deletesAt view cc (touchedSlots (steps cr cc)) m"
    and run: "generateFirst x c req (generate x) cleanup steps w = (r, w')"
  shows "confined view (reach req) w w'"
  by (rule generateFirst_within [OF laws cl _ run]) (use tenants_keysWithin [OF housed [OF laws(4)]] in blast)+

text \<open>What a step touches is the resource's own, or cluster-scoped.\<close>

lemma touched_owned:
  assumes "ownerLaw x" "generate x cr = Inr cc" "s \<in> touchedSlots (steps cr cc)" "derefSlot cc s = Some ob"
    "\<not> clusterScoped (slotKind s)"
  shows "ownedBy kind (cr_Meta cr) (metaOf ob)" "om_Namespace (metaOf ob) = crNamespace cr"
  using housed [OF assms(1,2)] assms(3-5) derefSlot_kind [OF assms(4)] by (auto simp: tenants_def tenant_def)

end

end
