(* ===== verification/LookoutIngester.thy ===== *)
theory LookoutIngester
  imports Tenancy
begin

text \<open>
  \<open>lookoutingester_controller.go\<close>: the components of a LookoutIngester (Secret, ServiceAccount,
  Deployment, and profiling objects that are generated but never upserted) and its reconciliation.
\<close>

definition LookoutIngester_createDeployment ::
  "externs \<Rightarrow> LookoutIngester \<Rightarrow> string \<Rightarrow> CommonApplicationConfig \<Rightarrow> Deployment result" where
  "LookoutIngester_createDeployment x lookoutIngester serviceAccountName config =
     (let spec = cr_Spec lookoutIngester;
          env = createEnv (csb_Environment spec)
      in andThen (ExtractPulsarConfig x (csb_ApplicationConfig spec)) (\<lambda>pulsarConfig.
         let volumes = createVolumes (crName lookoutIngester) (csb_AdditionalVolumes spec)
               @ createPulsarVolumes pulsarConfig;
             volumeMounts = createVolumeMounts (GetConfigFilename (crName lookoutIngester))
               (csb_AdditionalVolumeMounts spec) @ createPulsarVolumeMounts pulsarConfig;
             container = zeroContainer\<lparr>
               c_Name := ''lookoutingester'',
               c_ImagePullPolicy := ''IfNotPresent'',
               c_Image := ImageString (csb_Image spec),
               c_Args := [appConfigFlag, appConfigFilepath],
               c_Ports := newContainerPortsMetrics config,
               c_Env := env,
               c_VolumeMounts := volumeMounts,
               c_SecurityContext := li_SecurityContext spec\<rparr>;
             container = (case csb_Resources spec of
                 None \<Rightarrow> container
               | Some resources \<Rightarrow> container\<lparr>c_Resources := resources,
                   c_Env := addGoMemLimit x (c_Env container) resources\<rparr>)
         in Inr \<lparr>dep_Meta = newMeta (crName lookoutIngester) (crNamespace lookoutIngester)
                   (AllLabels (crName lookoutIngester) [crLabels lookoutIngester]) Map.empty,
                 dep_Spec = \<lparr>
                   d_Replicas = li_Replicas spec,
                   d_Selector = IdentityLabel (crName lookoutIngester),
                   d_Template = \<lparr>
                     pt_Meta = newMeta (crName lookoutIngester) (crNamespace lookoutIngester)
                       (AllLabels (crName lookoutIngester) [crLabels lookoutIngester])
                       [''checksum/config'' \<mapsto> GenerateChecksumConfig (csb_ApplicationConfig spec)],
                     pt_Spec = zeroPodSpec\<lparr>
                       ps_ServiceAccountName := serviceAccountName,
                       ps_TerminationGracePeriodSeconds := csb_TerminationGracePeriodSeconds spec,
                       ps_SecurityContext := li_PodSecurityContext spec,
                       ps_Containers := [container],
                       ps_Tolerations := csb_Tolerations spec,
                       ps_Volumes := volumes\<rparr>\<rparr>,
                   d_Strategy = zeroDeploymentStrategy\<rparr>\<rparr>))"

definition LookoutIngester_generateInstallComponents ::
  "externs \<Rightarrow> LookoutIngester \<Rightarrow> CommonApplicationConfig \<Rightarrow> CommonComponents result" where
  "LookoutIngester_generateInstallComponents x lookoutIngester config =
     (let spec = cr_Spec lookoutIngester; owner = cr_Meta lookoutIngester in
      andThen (CreateSecret x (csb_ApplicationConfig spec) (crName lookoutIngester)
        (crNamespace lookoutIngester) (GetConfigFilename (crName lookoutIngester))) (\<lambda>secret.
      andThen (SetOwnerReference x ''LookoutIngester'' owner sec_Meta sec_Meta_update secret) (\<lambda>secret.
      andThen (serviceAccountFor x ''LookoutIngester'' owner spec) (\<lambda>(serviceAccount, serviceAccountName).
      andThen (LookoutIngester_createDeployment x lookoutIngester serviceAccountName config) (\<lambda>deployment.
      andThen (SetOwnerReference x ''LookoutIngester'' owner dep_Meta dep_Meta_update deployment) (\<lambda>deployment.
      andThen (newProfilingComponents x ''LookoutIngester'' owner config (li_ProfilingIngressConfig spec))
        (\<lambda>(profilingService, profilingIngress).
      Inr (noComponents\<lparr>
        cc_Deployment := Some deployment,
        cc_ServiceAccount := serviceAccount,
        cc_Secret := Some secret,
        cc_ServiceProfiling := Some profilingService,
        cc_IngressProfiling := profilingIngress\<rparr>))))))))"

definition LookoutIngester_steps :: "LookoutIngester \<Rightarrow> CommonComponents \<Rightarrow> step list" where
  "LookoutIngester_steps lookoutIngester components = upserts [SSecret, SServiceAccount, SDeployment]"

definition LookoutIngester_Reconcile ::
  "externs \<Rightarrow> (LookoutIngesterSpec, unit, 's) client \<Rightarrow> string \<times> string \<Rightarrow> ('s world, unit) action" where
  "LookoutIngester_Reconcile x c req =
     andThenA (getObject c req) (\<lambda>fetched.
     case fetched of None \<Rightarrow> returnA () | Some lookoutIngester \<Rightarrow>
     andThenA (checkAndHandleObjectDeletion x c lookoutIngester operatorFinalizer None)
       (\<lambda>(finish, lookoutIngester).
     if finish then returnA () else
     andThenA (liftA (ParseCommonApplicationConfig x (csb_ApplicationConfig (cr_Spec lookoutIngester))))
       (\<lambda>commonConfig.
     andThenA (liftA (LookoutIngester_generateInstallComponents x lookoutIngester commonConfig))
       (\<lambda>components.
     andThenA (allocComponents components None) (\<lambda>_.
     let mutateFn = reconcileMutate (DeepCopy components)
     in runSteps c mutateFn (LookoutIngester_steps lookoutIngester components))))))"

section \<open>Lemmas\<close>

definition LookoutIngester_generate :: "externs \<Rightarrow> LookoutIngester \<Rightarrow> CommonComponents result" where
  "LookoutIngester_generate x cr =
     andThen (ParseCommonApplicationConfig x (csb_ApplicationConfig (cr_Spec cr)))
       (LookoutIngester_generateInstallComponents x cr)"

lemma LookoutIngester_Reconcile_skeleton:
  "LookoutIngester_Reconcile x c req =
     checkFirst x c req (LookoutIngester_generate x) LookoutIngester_steps"
  unfolding LookoutIngester_Reconcile_def checkFirst_def LookoutIngester_generate_def
    andThenA_liftA_andThen Let_def ..

lemma LookoutIngester_deployment:
  assumes "LookoutIngester_createDeployment x cr account cfg = Inr dep"
  shows "ps_ServiceAccountName (pt_Spec (d_Template (dep_Spec dep))) = account"
    "om_Labels (pt_Meta (d_Template (dep_Spec dep))) = AllLabels (crName cr) [crLabels cr]"
    "dep_Meta dep = newMeta (crName cr) (crNamespace cr) (AllLabels (crName cr) [crLabels cr]) Map.empty"
  using assms by (auto simp: LookoutIngester_createDeployment_def Let_def go_simps)

lemma LookoutIngester_pod:
  assumes "LookoutIngester_createDeployment x cr account cfg = Inr dep"
    "om_Name (sec_Meta sec) = crName cr" "sec_Data sec (GetConfigFilename (crName cr)) \<noteq> None"
  shows "podOK (csb_ApplicationConfig (cr_Spec cr)) (cr_Spec cr) sec (dep_Spec dep)"
  using assms
  by (auto simp: LookoutIngester_createDeployment_def Let_def go_simps podOK_def zeroContainer_def zeroPodSpec_def
      intro!: mountsConfigOf_append mountsConfigOf_created mountsCovered_intros split: option.splits)

lemma LookoutIngester_generate_Inr:
  assumes "LookoutIngester_generate x cr = Inr cc"
  obtains cfg sec0 sec sa account dep0 dep psvc ping where
    "CreateSecret x (csb_ApplicationConfig (cr_Spec cr)) (crName cr) (crNamespace cr) (GetConfigFilename (crName cr)) = Inr sec0"
    "SetOwnerReference x ''LookoutIngester'' (cr_Meta cr) sec_Meta sec_Meta_update sec0 = Inr sec"
    "serviceAccountFor x ''LookoutIngester'' (cr_Meta cr) (cr_Spec cr) = Inr (sa, account)"
    "LookoutIngester_createDeployment x cr account cfg = Inr dep0"
    "SetOwnerReference x ''LookoutIngester'' (cr_Meta cr) dep_Meta dep_Meta_update dep0 = Inr dep"
    "cc = noComponents\<lparr>cc_Deployment := Some dep, cc_ServiceAccount := sa, cc_Secret := Some sec,
        cc_ServiceProfiling := Some psvc, cc_IngressProfiling := ping\<rparr>"
  using assms unfolding LookoutIngester_generate_def LookoutIngester_generateInstallComponents_def Let_def andThen_eq_Inr
  by (auto simp: andThen_eq_Inr split: prod.splits)

interpretation lookoutIngester: installer "''LookoutIngester''" LookoutIngester_generate LookoutIngester_steps "\<lambda>_. True"
proof
  fix x cc and cr :: LookoutIngester
  assume law: "ownerLaw x" and gen: "LookoutIngester_generate x cr = Inr cc"
  from gen show "wellFormedInstall x ''LookoutIngester'' (cr_Meta cr) (cr_Spec cr) cc"
  proof (rule LookoutIngester_generate_Inr, goal_cases)
    case (1 cfg sec0 sec sa account dep0 dep psvc ping)
    note d = LookoutIngester_deployment [OF 1(4)]
    show ?case
      by (rule wellFormedInstallI [OF law 1(1,2) _ 1(3) _ 1(5) _ d(3,1) LookoutIngester_pod [OF 1(4)]])
        (simp_all add: 1(6) noComponents_def)
  qed
  from gen show "distinctSlots cc"
    by (rule LookoutIngester_generate_Inr) (auto intro!: distinctSlotsI simp: noComponents_def)
qed (simp add: LookoutIngester_steps_def stepsOnce_def)

section \<open>What a reconciliation may change\<close>

interpretation lookoutIngesterTenant: tenantInstaller "''LookoutIngester''" LookoutIngester_generate LookoutIngester_steps "\<lambda>_. True"
proof
  fix x cc and cr :: LookoutIngester
  assume law: "ownerLaw x" and gen: "LookoutIngester_generate x cr = Inr cc"
  from gen show "tenants ''LookoutIngester'' (cr_Meta cr) cc (touchedSlots (LookoutIngester_steps cr cc))"
    unfolding LookoutIngester_generate_def LookoutIngester_generateInstallComponents_def Let_def
    by (clarsimp simp: andThen_eq_Inr noComponents_def split: prod.splits, intro tenantsI)
      (auto simp: CreateSecret_home LookoutIngester_deployment(3) elim!: owned_elims [OF law] split: if_splits)
qed (auto simp: LookoutIngester_steps_def jobSteps_def)

lemma LookoutIngester_confined:
  assumes laws: "clientLaws c view" "resourceLaw c view" "finalizerLaw x" "ownerLaw x"
    and run: "LookoutIngester_Reconcile x c req w = (r, w')"
  shows "confined view (reach req) w w'"
  by (rule lookoutIngesterTenant.checkFirst_confined [OF laws run [unfolded LookoutIngester_Reconcile_skeleton]])

end
