(* ===== verification/SchedulerIngester.thy ===== *)
theory SchedulerIngester
  imports Tenancy
begin

text \<open>
  \<open>scheduleringester_controller.go\<close>: the components of a SchedulerIngester (Secret, ServiceAccount,
  Deployment, and profiling objects that are generated but never upserted) and its reconciliation.
\<close>

definition SchedulerIngester_createDeployment ::
  "externs \<Rightarrow> SchedulerIngester \<Rightarrow> string \<Rightarrow> CommonApplicationConfig \<Rightarrow> Deployment result" where
  "SchedulerIngester_createDeployment x schedulerIngester serviceAccountName config =
     (let spec = cr_Spec schedulerIngester;
          env = createEnv (csb_Environment spec)
      in andThen (ExtractPulsarConfig x (csb_ApplicationConfig spec)) (\<lambda>pulsarConfig.
         let volumes = createVolumes (crName schedulerIngester) (csb_AdditionalVolumes spec)
               @ createPulsarVolumes pulsarConfig;
             volumeMounts = createVolumeMounts (GetConfigFilename (crName schedulerIngester))
               (csb_AdditionalVolumeMounts spec) @ createPulsarVolumeMounts pulsarConfig;
             container = zeroContainer\<lparr>
               c_Name := ''scheduleringester'',
               c_ImagePullPolicy := ''IfNotPresent'',
               c_Image := ImageString (csb_Image spec),
               c_Args := [appConfigFlag, appConfigFilepath],
               c_Ports := newContainerPortsMetrics config,
               c_Env := env,
               c_VolumeMounts := volumeMounts,
               c_SecurityContext := si_SecurityContext spec\<rparr>;
             container = (case csb_Resources spec of
                 None \<Rightarrow> container
               | Some resources \<Rightarrow> container\<lparr>c_Resources := resources,
                   c_Env := addGoMemLimit x (c_Env container) resources\<rparr>)
         in Inr \<lparr>dep_Meta = newMeta (crName schedulerIngester) (crNamespace schedulerIngester)
                   (AllLabels (crName schedulerIngester) [crLabels schedulerIngester]) Map.empty,
                 dep_Spec = \<lparr>
                   d_Replicas = si_Replicas spec,
                   d_Selector = IdentityLabel (crName schedulerIngester),
                   d_Template = \<lparr>
                     pt_Meta = newMeta (crName schedulerIngester) (crNamespace schedulerIngester)
                       (AllLabels (crName schedulerIngester) [crLabels schedulerIngester])
                       [''checksum/config'' \<mapsto> GenerateChecksumConfig (csb_ApplicationConfig spec)],
                     pt_Spec = zeroPodSpec\<lparr>
                       ps_ServiceAccountName := serviceAccountName,
                       ps_TerminationGracePeriodSeconds := csb_TerminationGracePeriodSeconds spec,
                       ps_SecurityContext := si_PodSecurityContext spec,
                       ps_Affinity := Some (defaultAffinity (csb_TopologyKey spec) (crName schedulerIngester) 100),
                       ps_Containers := [container],
                       ps_Tolerations := csb_Tolerations spec,
                       ps_Volumes := volumes\<rparr>\<rparr>,
                   d_Strategy = defaultDeploymentStrategy 1\<rparr>\<rparr>))"

definition SchedulerIngester_generateSchedulerIngesterComponents ::
  "externs \<Rightarrow> SchedulerIngester \<Rightarrow> CommonApplicationConfig \<Rightarrow> CommonComponents result" where
  "SchedulerIngester_generateSchedulerIngesterComponents x schedulerIngester config =
     (let spec = cr_Spec schedulerIngester; owner = cr_Meta schedulerIngester in
      andThen (CreateSecret x (csb_ApplicationConfig spec) (crName schedulerIngester)
        (crNamespace schedulerIngester) (GetConfigFilename (crName schedulerIngester))) (\<lambda>secret.
      andThen (SetOwnerReference x ''SchedulerIngester'' owner sec_Meta sec_Meta_update secret) (\<lambda>secret.
      andThen (serviceAccountFor x ''SchedulerIngester'' owner spec) (\<lambda>(serviceAccount, serviceAccountName).
      andThen (SchedulerIngester_createDeployment x schedulerIngester serviceAccountName config) (\<lambda>deployment.
      andThen (SetOwnerReference x ''SchedulerIngester'' owner dep_Meta dep_Meta_update deployment) (\<lambda>deployment.
      andThen (newProfilingComponents x ''SchedulerIngester'' owner config (si_ProfilingIngressConfig spec))
        (\<lambda>(profilingService, profilingIngress).
      Inr (noComponents\<lparr>
        cc_Deployment := Some deployment,
        cc_ServiceAccount := serviceAccount,
        cc_Secret := Some secret,
        cc_ServiceProfiling := Some profilingService,
        cc_IngressProfiling := profilingIngress\<rparr>))))))))"

definition SchedulerIngester_steps :: "SchedulerIngester \<Rightarrow> CommonComponents \<Rightarrow> step list" where
  "SchedulerIngester_steps schedulerIngester components = upserts [SServiceAccount, SSecret, SDeployment]"

definition SchedulerIngester_Reconcile ::
  "externs \<Rightarrow> (SchedulerIngesterSpec, unit, 's) client \<Rightarrow> string \<times> string \<Rightarrow> ('s world, unit) action" where
  "SchedulerIngester_Reconcile x c req =
     andThenA (getObject c req) (\<lambda>fetched.
     case fetched of None \<Rightarrow> returnA () | Some schedulerIngester \<Rightarrow>
     andThenA (checkAndHandleObjectDeletion x c schedulerIngester operatorFinalizer None)
       (\<lambda>(finish, schedulerIngester).
     if finish then returnA () else
     andThenA (liftA (ParseCommonApplicationConfig x (csb_ApplicationConfig (cr_Spec schedulerIngester))))
       (\<lambda>commonConfig.
     andThenA (liftA (SchedulerIngester_generateSchedulerIngesterComponents x schedulerIngester commonConfig))
       (\<lambda>components.
     andThenA (allocComponents components None) (\<lambda>_.
     let mutateFn = reconcileMutate (DeepCopy components)
     in runSteps c mutateFn (SchedulerIngester_steps schedulerIngester components))))))"

section \<open>Lemmas\<close>

definition SchedulerIngester_generate :: "externs \<Rightarrow> SchedulerIngester \<Rightarrow> CommonComponents result" where
  "SchedulerIngester_generate x cr =
     andThen (ParseCommonApplicationConfig x (csb_ApplicationConfig (cr_Spec cr)))
       (SchedulerIngester_generateSchedulerIngesterComponents x cr)"

lemma SchedulerIngester_Reconcile_skeleton:
  "SchedulerIngester_Reconcile x c req =
     checkFirst x c req (SchedulerIngester_generate x) SchedulerIngester_steps"
  unfolding SchedulerIngester_Reconcile_def checkFirst_def SchedulerIngester_generate_def
    andThenA_liftA_andThen Let_def ..

lemma SchedulerIngester_deployment:
  assumes "SchedulerIngester_createDeployment x cr account cfg = Inr dep"
  shows "ps_ServiceAccountName (pt_Spec (d_Template (dep_Spec dep))) = account"
    "om_Labels (pt_Meta (d_Template (dep_Spec dep))) = AllLabels (crName cr) [crLabels cr]"
    "dep_Meta dep = newMeta (crName cr) (crNamespace cr) (AllLabels (crName cr) [crLabels cr]) Map.empty"
  using assms by (auto simp: SchedulerIngester_createDeployment_def Let_def go_simps)

lemma SchedulerIngester_pod:
  assumes "SchedulerIngester_createDeployment x cr account cfg = Inr dep"
    "om_Name (sec_Meta sec) = crName cr" "sec_Data sec (GetConfigFilename (crName cr)) \<noteq> None"
  shows "podOK (csb_ApplicationConfig (cr_Spec cr)) (cr_Spec cr) sec (dep_Spec dep)"
  using assms
  by (auto simp: SchedulerIngester_createDeployment_def Let_def go_simps podOK_def zeroContainer_def zeroPodSpec_def
      intro!: mountsConfigOf_append mountsConfigOf_created mountsCovered_intros split: option.splits)

lemma SchedulerIngester_generate_Inr:
  assumes "SchedulerIngester_generate x cr = Inr cc"
  obtains cfg sec0 sec sa account dep0 dep psvc ping where
    "CreateSecret x (csb_ApplicationConfig (cr_Spec cr)) (crName cr) (crNamespace cr) (GetConfigFilename (crName cr)) = Inr sec0"
    "SetOwnerReference x ''SchedulerIngester'' (cr_Meta cr) sec_Meta sec_Meta_update sec0 = Inr sec"
    "serviceAccountFor x ''SchedulerIngester'' (cr_Meta cr) (cr_Spec cr) = Inr (sa, account)"
    "SchedulerIngester_createDeployment x cr account cfg = Inr dep0"
    "SetOwnerReference x ''SchedulerIngester'' (cr_Meta cr) dep_Meta dep_Meta_update dep0 = Inr dep"
    "cc = noComponents\<lparr>cc_Deployment := Some dep, cc_ServiceAccount := sa, cc_Secret := Some sec,
        cc_ServiceProfiling := Some psvc, cc_IngressProfiling := ping\<rparr>"
  using assms unfolding SchedulerIngester_generate_def SchedulerIngester_generateSchedulerIngesterComponents_def Let_def andThen_eq_Inr
  by (auto simp: andThen_eq_Inr split: prod.splits)

interpretation schedulerIngester: installer "''SchedulerIngester''" SchedulerIngester_generate SchedulerIngester_steps "\<lambda>_. True"
proof
  fix x cc and cr :: SchedulerIngester
  assume law: "ownerLaw x" and gen: "SchedulerIngester_generate x cr = Inr cc"
  from gen show "wellFormedInstall x ''SchedulerIngester'' (cr_Meta cr) (cr_Spec cr) cc"
  proof (rule SchedulerIngester_generate_Inr, goal_cases)
    case (1 cfg sec0 sec sa account dep0 dep psvc ping)
    note d = SchedulerIngester_deployment [OF 1(4)]
    show ?case
      by (rule wellFormedInstallI [OF law 1(1,2) _ 1(3) _ 1(5) _ d(3,1) SchedulerIngester_pod [OF 1(4)]])
        (simp_all add: 1(6) noComponents_def)
  qed
  from gen show "distinctSlots cc"
    by (rule SchedulerIngester_generate_Inr) (auto intro!: distinctSlotsI simp: noComponents_def)
qed (simp add: SchedulerIngester_steps_def stepsOnce_def)

section \<open>What a reconciliation may change\<close>

interpretation schedulerIngesterTenant: tenantInstaller "''SchedulerIngester''" SchedulerIngester_generate SchedulerIngester_steps "\<lambda>_. True"
proof
  fix x cc and cr :: SchedulerIngester
  assume law: "ownerLaw x" and gen: "SchedulerIngester_generate x cr = Inr cc"
  from gen show "tenants ''SchedulerIngester'' (cr_Meta cr) cc (touchedSlots (SchedulerIngester_steps cr cc))"
    unfolding SchedulerIngester_generate_def SchedulerIngester_generateSchedulerIngesterComponents_def Let_def
    by (clarsimp simp: andThen_eq_Inr noComponents_def split: prod.splits, intro tenantsI)
      (auto simp: CreateSecret_home SchedulerIngester_deployment(3) elim!: owned_elims [OF law] split: if_splits)
qed (auto simp: SchedulerIngester_steps_def jobSteps_def)

lemma SchedulerIngester_confined:
  assumes laws: "clientLaws c view" "resourceLaw c view" "finalizerLaw x" "ownerLaw x"
    and run: "SchedulerIngester_Reconcile x c req w = (r, w')"
  shows "confined view (reach req) w w'"
  by (rule schedulerIngesterTenant.checkFirst_confined [OF laws run [unfolded SchedulerIngester_Reconcile_skeleton]])

end
