(* ===== verification/EventIngester.thy ===== *)
theory EventIngester
  imports Tenancy
begin

text \<open>
  \<open>eventingester_controller.go\<close>: the components of an EventIngester (Secret, ServiceAccount,
  Deployment, and profiling objects that are generated but never upserted) and its reconciliation.
\<close>

definition EventIngester_createDeployment ::
  "externs \<Rightarrow> EventIngester \<Rightarrow> string \<Rightarrow> CommonApplicationConfig \<Rightarrow> Deployment result" where
  "EventIngester_createDeployment x eventIngester serviceAccountName config =
     (let spec = cr_Spec eventIngester;
          env = createEnv (csb_Environment spec)
      in andThen (ExtractPulsarConfig x (csb_ApplicationConfig spec)) (\<lambda>pulsarConfig.
         let volumes = createVolumes (crName eventIngester) (csb_AdditionalVolumes spec)
               @ createPulsarVolumes pulsarConfig;
             volumeMounts = createVolumeMounts (GetConfigFilename (crName eventIngester))
               (csb_AdditionalVolumeMounts spec) @ createPulsarVolumeMounts pulsarConfig;
             container = zeroContainer\<lparr>
               c_Name := ''eventingester'',
               c_ImagePullPolicy := ''IfNotPresent'',
               c_Image := ImageString (csb_Image spec),
               c_Args := [appConfigFlag, appConfigFilepath],
               c_Ports := newContainerPortsMetrics config,
               c_Env := env,
               c_VolumeMounts := volumeMounts,
               c_SecurityContext := ei_SecurityContext spec\<rparr>;
             container = (case csb_Resources spec of
                 None \<Rightarrow> container
               | Some resources \<Rightarrow> container\<lparr>c_Resources := resources,
                   c_Env := addGoMemLimit x (c_Env container) resources\<rparr>)
         in Inr \<lparr>dep_Meta = newMeta (crName eventIngester) (crNamespace eventIngester)
                   (AllLabels (crName eventIngester) [crLabels eventIngester]) Map.empty,
                 dep_Spec = \<lparr>
                   d_Replicas = ei_Replicas spec,
                   d_Selector = IdentityLabel (crName eventIngester),
                   d_Template = \<lparr>
                     pt_Meta = newMeta (crName eventIngester) (crNamespace eventIngester)
                       (AllLabels (crName eventIngester) [crLabels eventIngester])
                       [''checksum/config'' \<mapsto> GenerateChecksumConfig (csb_ApplicationConfig spec)],
                     pt_Spec = zeroPodSpec\<lparr>
                       ps_ServiceAccountName := serviceAccountName,
                       ps_TerminationGracePeriodSeconds := csb_TerminationGracePeriodSeconds spec,
                       ps_SecurityContext := ei_PodSecurityContext spec,
                       ps_Affinity := Some (defaultAffinity (csb_TopologyKey spec) (crName eventIngester) 100),
                       ps_NodeSelector := ei_NodeSelector spec,
                       ps_Containers := [container],
                       ps_Tolerations := csb_Tolerations spec,
                       ps_Volumes := volumes\<rparr>\<rparr>,
                   d_Strategy = defaultDeploymentStrategy 1\<rparr>\<rparr>))"

definition EventIngester_generateEventIngesterComponents ::
  "externs \<Rightarrow> EventIngester \<Rightarrow> CommonApplicationConfig \<Rightarrow> CommonComponents result" where
  "EventIngester_generateEventIngesterComponents x eventIngester config =
     (let spec = cr_Spec eventIngester; owner = cr_Meta eventIngester in
      andThen (CreateSecret x (csb_ApplicationConfig spec) (crName eventIngester)
        (crNamespace eventIngester) (GetConfigFilename (crName eventIngester))) (\<lambda>secret.
      andThen (SetOwnerReference x ''EventIngester'' owner sec_Meta sec_Meta_update secret) (\<lambda>secret.
      andThen (serviceAccountFor x ''EventIngester'' owner spec) (\<lambda>(serviceAccount, serviceAccountName).
      andThen (EventIngester_createDeployment x eventIngester serviceAccountName config) (\<lambda>deployment.
      andThen (SetOwnerReference x ''EventIngester'' owner dep_Meta dep_Meta_update deployment) (\<lambda>deployment.
      andThen (newProfilingComponents x ''EventIngester'' owner config (ei_ProfilingIngressConfig spec))
        (\<lambda>(profilingService, profilingIngress).
      Inr (noComponents\<lparr>
        cc_Deployment := Some deployment,
        cc_ServiceAccount := serviceAccount,
        cc_Secret := Some secret,
        cc_ServiceProfiling := Some profilingService,
        cc_IngressProfiling := profilingIngress\<rparr>))))))))"

definition EventIngester_steps :: "EventIngester \<Rightarrow> CommonComponents \<Rightarrow> step list" where
  "EventIngester_steps eventIngester components = upserts [SServiceAccount, SSecret, SDeployment]"

definition EventIngester_Reconcile ::
  "externs \<Rightarrow> (EventIngesterSpec, unit, 's) client \<Rightarrow> string \<times> string \<Rightarrow> ('s world, unit) action" where
  "EventIngester_Reconcile x c req =
     andThenA (getObject c req) (\<lambda>fetched.
     case fetched of None \<Rightarrow> returnA () | Some eventIngester \<Rightarrow>
     andThenA (liftA (ParseCommonApplicationConfig x (csb_ApplicationConfig (cr_Spec eventIngester))))
       (\<lambda>commonConfig.
     andThenA (liftA (EventIngester_generateEventIngesterComponents x eventIngester commonConfig))
       (\<lambda>components.
     andThenA (allocComponents components None) (\<lambda>_.
     andThenA (checkAndHandleObjectDeletion x c eventIngester operatorFinalizer None)
       (\<lambda>(finish, eventIngester).
     if finish then returnA () else
     let mutateFn = reconcileMutate (DeepCopy components)
     in runSteps c mutateFn (EventIngester_steps eventIngester components))))))"

section \<open>Lemmas\<close>

definition EventIngester_generate :: "externs \<Rightarrow> EventIngester \<Rightarrow> CommonComponents result" where
  "EventIngester_generate x cr =
     andThen (ParseCommonApplicationConfig x (csb_ApplicationConfig (cr_Spec cr)))
       (EventIngester_generateEventIngesterComponents x cr)"

lemma EventIngester_Reconcile_skeleton:
  "EventIngester_Reconcile x c req =
     generateFirst x c req (EventIngester_generate x) (\<lambda>_. None) EventIngester_steps"
  unfolding EventIngester_Reconcile_def generateFirst_def EventIngester_generate_def
    andThenA_liftA_andThen Let_def ..

lemma EventIngester_deployment:
  assumes "EventIngester_createDeployment x cr account cfg = Inr dep"
  shows "ps_ServiceAccountName (pt_Spec (d_Template (dep_Spec dep))) = account"
    "om_Labels (pt_Meta (d_Template (dep_Spec dep))) = AllLabels (crName cr) [crLabels cr]"
    "dep_Meta dep = newMeta (crName cr) (crNamespace cr) (AllLabels (crName cr) [crLabels cr]) Map.empty"
  using assms by (auto simp: EventIngester_createDeployment_def Let_def go_simps)

lemma EventIngester_pod:
  assumes "EventIngester_createDeployment x cr account cfg = Inr dep"
    "om_Name (sec_Meta sec) = crName cr" "sec_Data sec (GetConfigFilename (crName cr)) \<noteq> None"
  shows "podOK (csb_ApplicationConfig (cr_Spec cr)) (cr_Spec cr) sec (dep_Spec dep)"
  using assms
  by (auto simp: EventIngester_createDeployment_def Let_def go_simps podOK_def zeroContainer_def zeroPodSpec_def
      intro!: mountsConfigOf_append mountsConfigOf_created mountsCovered_intros split: option.splits)

lemma EventIngester_generate_Inr:
  assumes "EventIngester_generate x cr = Inr cc"
  obtains cfg sec0 sec sa account dep0 dep psvc ping where
    "CreateSecret x (csb_ApplicationConfig (cr_Spec cr)) (crName cr) (crNamespace cr) (GetConfigFilename (crName cr)) = Inr sec0"
    "SetOwnerReference x ''EventIngester'' (cr_Meta cr) sec_Meta sec_Meta_update sec0 = Inr sec"
    "serviceAccountFor x ''EventIngester'' (cr_Meta cr) (cr_Spec cr) = Inr (sa, account)"
    "EventIngester_createDeployment x cr account cfg = Inr dep0"
    "SetOwnerReference x ''EventIngester'' (cr_Meta cr) dep_Meta dep_Meta_update dep0 = Inr dep"
    "cc = noComponents\<lparr>cc_Deployment := Some dep, cc_ServiceAccount := sa, cc_Secret := Some sec,
        cc_ServiceProfiling := Some psvc, cc_IngressProfiling := ping\<rparr>"
  using assms unfolding EventIngester_generate_def EventIngester_generateEventIngesterComponents_def Let_def andThen_eq_Inr
  by (auto simp: andThen_eq_Inr split: prod.splits)

interpretation eventIngester: installer "''EventIngester''" EventIngester_generate EventIngester_steps "\<lambda>_. True"
proof
  fix x cc and cr :: EventIngester
  assume law: "ownerLaw x" and gen: "EventIngester_generate x cr = Inr cc"
  from gen show "wellFormedInstall x ''EventIngester'' (cr_Meta cr) (cr_Spec cr) cc"
  proof (rule EventIngester_generate_Inr, goal_cases)
    case (1 cfg sec0 sec sa account dep0 dep psvc ping)
    note d = EventIngester_deployment [OF 1(4)]
    show ?case
      by (rule wellFormedInstallI [OF law 1(1,2) _ 1(3) _ 1(5) _ d(3,1) EventIngester_pod [OF 1(4)]])
        (simp_all add: 1(6) noComponents_def)
  qed
  from gen show "distinctSlots cc"
    by (rule EventIngester_generate_Inr) (auto intro!: distinctSlotsI simp: noComponents_def)
qed (simp add: EventIngester_steps_def stepsOnce_def)

section \<open>What a reconciliation may change\<close>

interpretation eventIngesterTenant: tenantInstaller "''EventIngester''" EventIngester_generate EventIngester_steps "\<lambda>_. True"
proof
  fix x cc and cr :: EventIngester
  assume law: "ownerLaw x" and gen: "EventIngester_generate x cr = Inr cc"
  from gen show "tenants ''EventIngester'' (cr_Meta cr) cc (touchedSlots (EventIngester_steps cr cc))"
    unfolding EventIngester_generate_def EventIngester_generateEventIngesterComponents_def Let_def
    by (clarsimp simp: andThen_eq_Inr noComponents_def split: prod.splits, intro tenantsI)
      (auto simp: CreateSecret_home EventIngester_deployment(3) elim!: owned_elims [OF law] split: if_splits)
qed (auto simp: EventIngester_steps_def jobSteps_def)

lemma EventIngester_confined:
  assumes laws: "clientLaws c view" "resourceLaw c view" "finalizerLaw x" "ownerLaw x"
    and run: "EventIngester_Reconcile x c req w = (r, w')"
  shows "confined view (reach req) w w'"
  by (rule eventIngesterTenant.generateFirst_confined [OF laws _ run [unfolded EventIngester_Reconcile_skeleton]]) simp

end
