(* ===== verification/Executor.thy ===== *)
theory Executor
  imports Tenancy
begin

text \<open>
  \<open>executor_controller.go\<close>: the components of an Executor, among them cluster-scoped objects that an
  owner reference cannot clean up, its reconciliation, and the clean-up that runs before the
  finalizer is removed.
\<close>

section \<open>Objects\<close>

definition extractExecutorConfig :: "externs \<Rightarrow> bytes \<Rightarrow> ExecutorConfig result" where
  "extractExecutorConfig x config =
     andThen (ConvertRawExtensionToYaml x config) (\<lambda>appConfig. UnmarshalExecutor x appConfig)"

text \<open>\<open>int32(executorConfig.Metric.Port)\<close> widens a \<open>uint16\<close>.\<close>

definition metricPort :: "ExecutorConfig \<Rightarrow> int32" where
  "metricPort executorConfig = ucast (met_Port (exc_Metric executorConfig))"

definition createExecutorDeployment ::
  "externs \<Rightarrow> Executor \<Rightarrow> string \<Rightarrow> CommonApplicationConfig \<Rightarrow> Deployment result" where
  "createExecutorDeployment x executor serviceAccountName config =
     (let spec = cr_Spec executor;
          replicas = (case ex_Replicas spec of None \<Rightarrow> 1 | Some n \<Rightarrow> signedMin 1 n)
      in andThen (extractExecutorConfig x (csb_ApplicationConfig spec)) (\<lambda>executorConfig.
         let volumes = createVolumes (crName executor) (csb_AdditionalVolumes spec);
             volumeMounts = createVolumeMounts (GetConfigFilename (crName executor))
               (csb_AdditionalVolumeMounts spec);
             (readinessProbe, livenessProbe) = CreateProbesWithScheme URISchemeHTTP;
             ports = [newContainerPortHTTP config] @
               (if positive (prof_Port (cac_Profiling config)) then [newContainerPortProfiling config] else []) @
               [\<lparr>cp_Name = ''metrics'', cp_ContainerPort = metricPort executorConfig, cp_Protocol = ''TCP''\<rparr>];
             env = [envFieldRef ''SERVICE_ACCOUNT'' ''spec.serviceAccountName'',
                    envFieldRef ''POD_NAMESPACE'' ''metadata.namespace''] @ csb_Environment spec;
             container = zeroContainer\<lparr>
               c_Name := ''executor'',
               c_ImagePullPolicy := ''IfNotPresent'',
               c_Image := ImageString (csb_Image spec),
               c_Args := [appConfigFlag, appConfigFilepath],
               c_Ports := ports,
               c_Env := env,
               c_VolumeMounts := volumeMounts,
               c_SecurityContext := ex_SecurityContext spec,
               c_ReadinessProbe := Some readinessProbe,
               c_LivenessProbe := Some livenessProbe\<rparr>;
             container = (case csb_Resources spec of
                 None \<Rightarrow> container
               | Some resources \<Rightarrow> container\<lparr>c_Resources := resources,
                   c_Env := addGoMemLimit x (c_Env container) resources\<rparr>)
         in Inr \<lparr>dep_Meta = newMeta (crName executor) (crNamespace executor)
                   (AllLabels (crName executor) [crLabels executor]) Map.empty,
                 dep_Spec = \<lparr>
                   d_Replicas = Some replicas,
                   d_Selector = IdentityLabel (crName executor),
                   d_Template = \<lparr>
                     pt_Meta = newMeta (crName executor) (crNamespace executor)
                       (AllLabels (crName executor) [crLabels executor])
                       [''checksum/config'' \<mapsto> GenerateChecksumConfig (csb_ApplicationConfig spec)],
                     pt_Spec = zeroPodSpec\<lparr>
                       ps_ServiceAccountName := serviceAccountName,
                       ps_TerminationGracePeriodSeconds := csb_TerminationGracePeriodSeconds spec,
                       ps_SecurityContext := ex_PodSecurityContext spec,
                       ps_Containers := [container],
                       ps_NodeSelector := ex_NodeSelector spec,
                       ps_Tolerations := csb_Tolerations spec,
                       ps_Volumes := volumes\<rparr>\<rparr>,
                   d_Strategy = zeroDeploymentStrategy\<rparr>\<rparr>))"

definition Executor_createClusterRole :: "Executor \<Rightarrow> ClusterRole" where
  "Executor_createClusterRole executor =
     (let podRules = policyRule [''get'', ''list'', ''watch'', ''create'', ''delete'',
            ''deletecollection'', ''patch'', ''update''] '''' [''pods''];
          eventRules = policyRule [''get'', ''list'', ''watch'', ''delete'', ''deletecollection'',
            ''patch''] '''' [''events''];
          serviceRules = policyRule [''get'', ''list'', ''watch'', ''create'', ''delete'',
            ''deletecollection''] '''' [''services''];
          endpointSliceRules = policyRule [''get'', ''list'', ''watch''] ''discovery.k8s.io''
            [''endpointslices''];
          ingressRules = policyRule [''get'', ''list'', ''watch'', ''create'', ''delete'',
            ''deletecollection''] ''networking.k8s.io'' [''ingresses''];
          nodeRules = policyRule [''get'', ''list'', ''watch''] '''' [''nodes''];
          nodeProxyRules = policyRule [''get''] '''' [''nodes/proxy''];
          userRules = policyRule [''impersonate''] '''' [''users'', ''groups''];
          tokenRules = policyRule [''create''] '''' [''serviceaccounts/token''];
          tokenReviewRules = policyRule [''create''] ''authentication.k8s.io'' [''tokenreviews'']
      in \<lparr>crole_Meta = newMeta (crName executor) ''''
            (AllLabels (crName executor) [crLabels executor]) Map.empty,
          crole_Rules = [podRules, eventRules, serviceRules, endpointSliceRules, nodeRules,
            nodeProxyRules, userRules, ingressRules, tokenRules, tokenReviewRules]\<rparr>)"

definition Executor_createClusterRoleBinding :: "Executor \<Rightarrow> ClusterRole \<Rightarrow> string \<Rightarrow> ClusterRoleBinding" where
  "Executor_createClusterRoleBinding executor clusterRole serviceAccountName =
     \<lparr>crb_Meta = newMeta (crName executor) ''''
        (AllLabels (crName executor) [crLabels executor]) Map.empty,
      crb_Subjects = [\<lparr>sub_Kind = ''ServiceAccount'', sub_Name = serviceAccountName,
                       sub_Namespace = crNamespace executor\<rparr>],
      crb_RoleRef = \<lparr>rref_Kind = ''ClusterRole'', rref_APIGroup = ''rbac.authorization.k8s.io'',
                     rref_Name = om_Name (crole_Meta clusterRole)\<rparr>\<rparr>"

definition additionalBinding :: "Executor \<Rightarrow> string \<Rightarrow> AdditionalClusterRoleBinding \<Rightarrow> ClusterRoleBinding" where
  "additionalBinding executor serviceAccountName b =
     \<lparr>crb_Meta = newMeta (crName executor @ ''-'' @ acrb_NameSuffix b) ''''
        (AllLabels (crName executor) [crLabels executor]) Map.empty,
      crb_Subjects = [\<lparr>sub_Kind = ''ServiceAccount'', sub_Name = serviceAccountName,
                       sub_Namespace = crNamespace executor\<rparr>],
      crb_RoleRef = \<lparr>rref_Kind = ''ClusterRole'', rref_APIGroup = ''rbac.authorization.k8s.io'',
                     rref_Name = acrb_ClusterRoleName b\<rparr>\<rparr>"

definition createAdditionalClusterRoleBindings :: "Executor \<Rightarrow> string \<Rightarrow> ClusterRoleBinding list" where
  "createAdditionalClusterRoleBindings executor serviceAccountName =
     map (additionalBinding executor serviceAccountName) (ex_AdditionalClusterRoleBindings (cr_Spec executor))"

definition createExecutorService :: "externs \<Rightarrow> Executor \<Rightarrow> Service result" where
  "createExecutorService x executor =
     andThen (extractExecutorConfig x (csb_ApplicationConfig (cr_Spec executor))) (\<lambda>executorConfig.
     Inr \<lparr>svc_Meta = newMeta (crName executor) (crNamespace executor)
            (AllLabels (crName executor) [crLabels executor]) Map.empty,
          svc_Spec = \<lparr>ss_Selector = IdentityLabel (crName executor),
            ss_Ports = [\<lparr>sp_Name = ''metrics'', sp_Port = metricPort executorConfig, sp_NodePort = 0,
                         sp_Protocol = ''TCP''\<rparr>],
            ss_Type = ServiceTypeClusterIP\<rparr>\<rparr>)"

text \<open>\<open>executor.Spec.Prometheus\<close> is dereferenced; the caller has checked that it is not nil.\<close>

definition Executor_createServiceMonitor :: "externs \<Rightarrow> Executor \<Rightarrow> PrometheusConfig \<Rightarrow> ServiceMonitor" where
  "Executor_createServiceMonitor x executor prometheus =
     (let interval = (case pc_ScrapeInterval prometheus of
            None \<Rightarrow> ''15s'' | Some d \<Rightarrow> ShortHumanDuration x d)
      in \<lparr>sm_Meta = newMeta (crName executor) (crNamespace executor)
            (AllLabels (crName executor) [csb_Labels (cr_Spec executor), pc_Labels prometheus]) Map.empty,
          sm_Selector = IdentityLabel (crName executor),
          sm_AttachMetadataNode = Some False,
          sm_Endpoints = [\<lparr>ep_Port = ''metrics'', ep_Interval = interval\<rparr>]\<rparr>)"

definition createExecutorPrometheusRule :: "externs \<Rightarrow> Executor \<Rightarrow> PrometheusConfig \<Rightarrow> PrometheusRule" where
  "createExecutorPrometheusRule x executor prometheus =
     (let restRequestHistogram = ''histogram_quantile(0.95, '' @
            ''sum(rate(rest_client_request_duration_seconds_bucket{service=\"'' @ crName executor @
            ''\"}[2m])) by (endpoint, verb, url, le))'';
          logRate = ''sum(rate(log_messages[2m])) by (level)'';
          scrapeInterval = (case pc_ScrapeInterval prometheus of
            None \<Rightarrow> defaultPrometheusInterval | Some interval \<Rightarrow> interval);
          durationString = ShortHumanDuration x scrapeInterval;
          objectMetaName = ''armada-'' @ crName executor @ ''-metrics''
      in \<lparr>prom_Meta = newMeta (crName executor) (crNamespace executor)
            (AllLabels (crName executor) [crLabels executor, pc_Labels prometheus]) Map.empty,
          prom_Groups = [\<lparr>rg_Name = objectMetaName, rg_Interval = Some durationString,
            rg_Rules =
              [\<lparr>prule_Record = ''armada:executor:rest:request:histogram95'',
                prule_Expr = StrValLiteral restRequestHistogram\<rparr>,
               \<lparr>prule_Record = ''armada:executor:log:rate'', prule_Expr = StrValLiteral logRate\<rparr>]\<rparr>]\<rparr>)"

section \<open>Components\<close>

definition generateExecutorInstallComponents ::
  "externs \<Rightarrow> Executor \<Rightarrow> CommonApplicationConfig \<Rightarrow> CommonComponents result" where
  "generateExecutorInstallComponents x executor config =
     (let spec = cr_Spec executor; owner = cr_Meta executor in
      andThen (CreateSecret x (csb_ApplicationConfig spec) (crName executor) (crNamespace executor)
        (GetConfigFilename (crName executor))) (\<lambda>secret.
      andThen (SetOwnerReference x ''Executor'' owner sec_Meta sec_Meta_update secret) (\<lambda>secret.
      andThen (serviceAccountFor x ''Executor'' owner spec) (\<lambda>(serviceAccount, serviceAccountName).
      andThen (createExecutorDeployment x executor serviceAccountName config) (\<lambda>deployment.
      andThen (SetOwnerReference x ''Executor'' owner dep_Meta dep_Meta_update deployment) (\<lambda>deployment.
      andThen (createExecutorService x executor) (\<lambda>service.
      andThen (SetOwnerReference x ''Executor'' owner svc_Meta svc_Meta_update service) (\<lambda>service.
      let clusterRole = Executor_createClusterRole executor;
          clusterRoleBindings = (if serviceAccountName \<noteq> [] then
              [Executor_createClusterRoleBinding executor clusterRole serviceAccountName] @
              createAdditionalClusterRoleBindings executor serviceAccountName
            else []) in
      andThen (newProfilingComponents x ''Executor'' owner config (ex_ProfilingIngressConfig spec))
        (\<lambda>(profilingService, profilingIngress).
      let components = noComponents\<lparr>
            cc_Deployment := Some deployment,
            cc_Service := Some service,
            cc_ServiceAccount := serviceAccount,
            cc_Secret := Some secret,
            cc_ClusterRoleBindings := clusterRoleBindings,
            cc_ClusterRole := Some clusterRole,
            cc_ServiceProfiling := Some profilingService,
            cc_IngressProfiling := profilingIngress\<rparr> in
      case csb_Prometheus spec of
        None \<Rightarrow> Inr components
      | Some prometheus \<Rightarrow>
          if pc_Enabled prometheus then
            andThen (SetOwnerReference x ''Executor'' owner sm_Meta sm_Meta_update
              (Executor_createServiceMonitor x executor prometheus)) (\<lambda>serviceMonitor.
            andThen (SetOwnerReference x ''Executor'' owner prom_Meta prom_Meta_update
              (createExecutorPrometheusRule x executor prometheus)) (\<lambda>prometheusRule.
            Inr (components\<lparr>cc_ServiceMonitor := Some serviceMonitor,
                            cc_PrometheusRule := Some prometheusRule\<rparr>)))
          else Inr components)))))))))"

section \<open>Reconciliation\<close>

definition Executor_deleteExternalResources ::
  "(ExecutorSpec, unit, 's) client \<Rightarrow> CommonComponents \<Rightarrow> ('s world, unit) action" where
  "Executor_deleteExternalResources c components =
     andThenA (deleteExternal c ''ClusterRole'' components SClusterRole) (\<lambda>_.
     andThenA (if cc_PrometheusRule components \<noteq> None
               then deleteExternal c ''PrometheusRule'' components SPrometheusRule
               else returnA ()) (\<lambda>_.
     inSequence (map (\<lambda>i. deleteExternal c ''ClusterRoleBinding'' components (SClusterRoleBinding i))
       [0..<length (cc_ClusterRoleBindings components)])))"

definition Executor_steps :: "Executor \<Rightarrow> CommonComponents \<Rightarrow> step list" where
  "Executor_steps executor components =
     upserts [SServiceAccount, SClusterRole] @
     upserts (map SClusterRoleBinding [0..<length (cc_ClusterRoleBindings components)]) @
     upserts [SSecret, SDeployment, SService, SPrometheusRule, SServiceMonitor]"

definition Executor_Reconcile ::
  "externs \<Rightarrow> (ExecutorSpec, unit, 's) client \<Rightarrow> string \<times> string \<Rightarrow> ('s world, unit) action" where
  "Executor_Reconcile x c req =
     andThenA (getObject c req) (\<lambda>fetched.
     case fetched of None \<Rightarrow> returnA () | Some executor \<Rightarrow>
     andThenA (liftA (ParseCommonApplicationConfig x (csb_ApplicationConfig (cr_Spec executor))))
       (\<lambda>commonConfig.
     andThenA (liftA (generateExecutorInstallComponents x executor commonConfig)) (\<lambda>components.
     andThenA (allocComponents components None) (\<lambda>_.
     let cleanupF = Executor_deleteExternalResources c components in
     andThenA (checkAndHandleObjectDeletion x c executor operatorFinalizer (Some cleanupF))
       (\<lambda>(finish, executor).
     if finish then returnA () else
     let mutateFn = reconcileMutate (DeepCopy components)
     in runSteps c mutateFn (Executor_steps executor components))))))"

section \<open>Lemmas\<close>

definition Executor_generate :: "externs \<Rightarrow> Executor \<Rightarrow> CommonComponents result" where
  "Executor_generate x cr =
     andThen (ParseCommonApplicationConfig x (csb_ApplicationConfig (cr_Spec cr)))
       (generateExecutorInstallComponents x cr)"

lemma Executor_Reconcile_skeleton:
  "Executor_Reconcile x c req = generateFirst x c req (Executor_generate x)
     (\<lambda>components. Some (Executor_deleteExternalResources c components)) Executor_steps"
  unfolding Executor_Reconcile_def generateFirst_def Executor_generate_def andThenA_liftA_andThen Let_def ..

lemma Executor_deployment:
  assumes "createExecutorDeployment x cr account cfg = Inr dep"
  shows "ps_ServiceAccountName (pt_Spec (d_Template (dep_Spec dep))) = account"
    "om_Labels (pt_Meta (d_Template (dep_Spec dep))) = AllLabels (crName cr) [crLabels cr]"
    "dep_Meta dep = newMeta (crName cr) (crNamespace cr) (AllLabels (crName cr) [crLabels cr]) Map.empty"
    "d_Replicas (dep_Spec dep) = Some (case ex_Replicas (cr_Spec cr) of None \<Rightarrow> 1 | Some n \<Rightarrow> signedMin 1 n)"
  using assms by (auto simp: createExecutorDeployment_def CreateProbesWithScheme_def Let_def go_simps)

lemma Executor_pod:
  assumes "createExecutorDeployment x cr account cfg = Inr dep"
    "om_Name (sec_Meta sec) = crName cr" "sec_Data sec (GetConfigFilename (crName cr)) \<noteq> None"
  shows "podOK (csb_ApplicationConfig (cr_Spec cr)) (cr_Spec cr) sec (dep_Spec dep)"
  using assms
  by (auto simp: createExecutorDeployment_def CreateProbesWithScheme_def Let_def go_simps podOK_def
      zeroContainer_def zeroPodSpec_def
      intro!: mountsConfigOf_append mountsConfigOf_created mountsCovered_intros split: option.splits)

lemma Executor_deleteExternalResources_calls:
  "keeps (callsOnly (\<lambda>e. \<not> isUpsert e)) (Executor_deleteExternalResources c components)"
  unfolding Executor_deleteExternalResources_def
  by (auto intro!: callsOnly_andThenA keeps_inSequence callsOnly_deleteExternal)

lemma Executor_generate_Inr:
  assumes "Executor_generate x cr = Inr cc"
  obtains cfg sec0 sec sa account dep0 dep svc0 svc psvc ping where
    "CreateSecret x (csb_ApplicationConfig (cr_Spec cr)) (crName cr) (crNamespace cr) (GetConfigFilename (crName cr)) = Inr sec0"
    "SetOwnerReference x ''Executor'' (cr_Meta cr) sec_Meta sec_Meta_update sec0 = Inr sec"
    "serviceAccountFor x ''Executor'' (cr_Meta cr) (cr_Spec cr) = Inr (sa, account)"
    "createExecutorDeployment x cr account cfg = Inr dep0"
    "SetOwnerReference x ''Executor'' (cr_Meta cr) dep_Meta dep_Meta_update dep0 = Inr dep"
    "createExecutorService x cr = Inr svc0"
    "SetOwnerReference x ''Executor'' (cr_Meta cr) svc_Meta svc_Meta_update svc0 = Inr svc"
    "newProfilingComponents x ''Executor'' (cr_Meta cr) cfg (ex_ProfilingIngressConfig (cr_Spec cr)) = Inr (psvc, ping)"
    "cc_Secret cc = Some sec" "cc_ServiceAccount cc = sa" "cc_Deployment cc = Some dep" "cc_Service cc = Some svc"
    "cc_ServiceProfiling cc = Some psvc" "cc_IngressProfiling cc = ping" "cc_IngressGrpc cc = None"
    "cc_IngressHttp cc = None" "cc_Jobs cc = []"
    "cc_ClusterRoleBindings cc = (if account \<noteq> [] then
       [Executor_createClusterRoleBinding cr (Executor_createClusterRole cr) account] @
       createAdditionalClusterRoleBindings cr account else [])"
    "cc_ClusterRole cc = Some (Executor_createClusterRole cr)"
  using assms unfolding Executor_generate_def generateExecutorInstallComponents_def Let_def andThen_eq_Inr
  apply (clarsimp simp: andThen_eq_Inr monitoring_eq split: prod.splits)
  apply (elim disjE; clarsimp; rule that, assumption+, simp_all add: noComponents_def)
  done

definition Executor_separate :: "Executor \<Rightarrow> bool" where
  "Executor_separate cr \<longleftrightarrow> distinct (map acrb_NameSuffix (ex_AdditionalClusterRoleBindings (cr_Spec cr)))"

lemma Executor_bindings_distinct:
  assumes "Executor_separate cr"
  shows "distinct (map (\<lambda>b. metaKey (crb_Meta b))
    (Executor_createClusterRoleBinding cr role account # createAdditionalClusterRoleBindings cr account))"
  using assms
  by (auto simp: Executor_separate_def createAdditionalClusterRoleBindings_def additionalBinding_def
      Executor_createClusterRoleBinding_def metaKey_def distinct_map inj_on_def)

interpretation executor: installer "''Executor''" Executor_generate Executor_steps Executor_separate
proof
  fix x cc and cr :: Executor
  assume law: "ownerLaw x" and gen: "Executor_generate x cr = Inr cc"
  from gen show "wellFormedInstall x ''Executor'' (cr_Meta cr) (cr_Spec cr) cc"
  proof (rule Executor_generate_Inr, goal_cases)
    case (1 cfg sec0 sec sa account dep0 dep svc0 svc psvc ping)
    note d = Executor_deployment [OF 1(4)]
    have "ss_Selector (svc_Spec svc) = IdentityLabel (crName cr)"
      using 1(6,7) by (auto simp: createExecutorService_def go_simps)
    then show ?case
      by (intro wellFormedInstallI [OF law 1(1,2,9,3,10,5,11) d(3,1) Executor_pod [OF 1(4)]])
        (simp_all add: 1(12) d(2))
  qed
  assume sep: "Executor_separate cr"
  from gen show "distinctSlots cc"
  proof (rule Executor_generate_Inr, goal_cases)
    case (1 cfg sec0 sec sa account dep0 dep svc0 svc psvc ping)
    have "metaKey (svc_Meta svc) = (crNamespace cr, crName cr)"
      using 1(6,7) by (auto simp: createExecutorService_def go_simps metaKey_def ownerLawD(1,2) [OF law])
    with newProfilingComponents_names [OF law 1(8)] Executor_bindings_distinct [OF sep]
    show ?case by (intro distinctSlotsI) (auto simp: 1(12-18))
  qed
next
  fix x cc and cr :: Executor
  show "stepsOnce (Executor_steps cr cc)"
    by (auto simp: Executor_steps_def stepsOnce_def distinct_map inj_on_def comp_def filter_map)
qed

section \<open>What a reconciliation may change\<close>

lemma Executor_home:
  "createExecutorService x cr = Inr svc \<Longrightarrow> om_Namespace (svc_Meta svc) = crNamespace cr"
  "om_Namespace (sm_Meta (Executor_createServiceMonitor x cr p)) = crNamespace cr"
  "om_Namespace (prom_Meta (createExecutorPrometheusRule x cr p)) = crNamespace cr"
  "om_Name (crole_Meta (Executor_createClusterRole cr)) = crName cr"
  "om_Name (crb_Meta (Executor_createClusterRoleBinding cr role account)) = crName cr"
  "b \<in> set (createAdditionalClusterRoleBindings cr account) \<Longrightarrow> prefix (crName cr @ ''-'') (om_Name (crb_Meta b))"
  by (auto simp: createExecutorService_def go_simps Executor_createServiceMonitor_def Let_def
      createExecutorPrometheusRule_def Executor_createClusterRole_def Executor_createClusterRoleBinding_def
      createAdditionalClusterRoleBindings_def additionalBinding_def)

interpretation executorTenant: tenantInstaller "''Executor''" Executor_generate Executor_steps Executor_separate
proof
  fix x cc and cr :: Executor
  assume law: "ownerLaw x" and gen: "Executor_generate x cr = Inr cc"
  from gen show "tenants ''Executor'' (cr_Meta cr) cc (touchedSlots (Executor_steps cr cc))"
    unfolding Executor_generate_def generateExecutorInstallComponents_def Let_def
    by (clarsimp simp: andThen_eq_Inr noComponents_def monitoring_eq split: prod.splits, intro tenantsI)
      (auto simp: CreateSecret_home Executor_deployment(3) Executor_home elim!: owned_elims [OF law] split: if_splits)
qed (auto simp: Executor_steps_def jobSteps_def)

lemma Executor_cleanup_deletes:
  assumes "deleteLaw c view"
  shows "deletesAt view cc (touchedSlots (Executor_steps cr cc)) (Executor_deleteExternalResources c cc)"
  unfolding Executor_deleteExternalResources_def
  by (auto simp: Executor_steps_def comp_def intro!: deletesAt_andThenA deletesAt_inSequence
      deletesAt_deleteExternal [OF assms])

lemma Executor_confined:
  assumes laws: "clientLaws c view" "resourceLaw c view" "finalizerLaw x" "ownerLaw x"
    and run: "Executor_Reconcile x c req w = (r, w')"
  shows "confined view (reach req) w w'"
  by (rule executorTenant.generateFirst_confined [OF laws _ run [unfolded Executor_Reconcile_skeleton]])
    (auto intro: Executor_cleanup_deletes clientLawsD(3) [OF laws(1)])

section \<open>The cluster-scoped objects\<close>

text \<open>The bindings are named after the Executor, the additional ones with their suffixes.\<close>

lemma Executor_binding_names:
  assumes "Executor_generate x cr = Inr cc" "b \<in> set (cc_ClusterRoleBindings cc)"
  shows "om_Name (crb_Meta b) = crName cr \<or>
     (\<exists>a \<in> set (ex_AdditionalClusterRoleBindings (cr_Spec cr)). om_Name (crb_Meta b) = crName cr @ ''-'' @ acrb_NameSuffix a)"
  using assms(1)
  by (rule Executor_generate_Inr)
    (use assms(2) in \<open>auto simp: Executor_createClusterRoleBinding_def createAdditionalClusterRoleBindings_def
      additionalBinding_def split: if_splits\<close>)

text \<open>The first binding: its key and its one subject.\<close>

lemma Executor_first_binding:
  assumes "ownerLaw x" "Executor_generate x cr = Inr cc" "crName cr \<noteq> []"
  obtains b where "derefSlot cc (SClusterRoleBinding 0) = Some (KClusterRoleBinding b)"
    "keyOf (KClusterRoleBinding b) = (ClusterRoleBindingKind, '''', crName cr)"
    "length (crb_Subjects b) = 1" "\<forall>sub \<in> set (crb_Subjects b). sub_Namespace sub = crNamespace cr"
    "SClusterRoleBinding 0 \<in> upsertedSlots (Executor_steps cr cc)"
  using assms(2)
proof (rule Executor_generate_Inr, goal_cases)
  case (1 cfg sec0 sec sa account dep0 dep svc0 svc psvc ping)
  have "account \<noteq> []"
    using 1(4) assms(3) by (auto simp: serviceAccountFor_def Let_def go_simps ownerLawD(1) [OF assms(1)] split: if_splits)
  then have "cc_ClusterRoleBindings cc = Executor_createClusterRoleBinding cr (Executor_createClusterRole cr) account
      # createAdditionalClusterRoleBindings cr account"
    using 1(19) by simp
  then show ?case
    by (intro 1(1) [of "Executor_createClusterRoleBinding cr (Executor_createClusterRole cr) account"])
      (auto simp: Executor_createClusterRoleBinding_def keyOf_def upsertedSlots_def Executor_steps_def)
qed

text \<open>No object that a step touches has the name of an additional binding that the spec does not list.\<close>

lemma Executor_unlisted_binding:
  assumes "Executor_generate x cr = Inr cc"
    "nameSuffix \<notin> acrb_NameSuffix ` set (ex_AdditionalClusterRoleBindings (cr_Spec cr))"
  shows "keysWithin cc S (\<lambda>k. k \<noteq> (ClusterRoleBindingKind, ns, crName cr @ ''-'' @ nameSuffix))"
  unfolding keysWithin_def
proof (intro allI impI notI)
  fix s ob
  assume ob: "derefSlot cc s = Some ob" and k: "keyOf ob = (ClusterRoleBindingKind, ns, crName cr @ ''-'' @ nameSuffix)"
  from ob k derefSlot_kind [OF ob] obtain b where "b \<in> set (cc_ClusterRoleBindings cc)" "ob = KClusterRoleBinding b"
    by (cases s) (auto simp: keyOf_def intro: nth_mem split: if_splits)
  with Executor_binding_names [OF assms(1), of b] assms(2) k show False by (auto simp: keyOf_def)
qed

end
