(* ===== verification/ArmadaServer.thy ===== *)
theory ArmadaServer
  imports Tenancy
begin

text \<open>
  \<open>armadaserver_controller.go\<close>: the components of an ArmadaServer, with the two Jobs that prepare
  Pulsar, and its reconciliation. When \<open>PulsarInit\<close> is not set the list of Jobs holds one empty
  Job that is never upserted, as in the code.
\<close>

section \<open>Pulsar jobs\<close>

definition waitForPulsarScript :: string where
  "waitForPulsarScript = ''echo \"Waiting for Pulsar... ($PULSARHOST:$PULSARPORT)\"
							while ! nc -z $PULSARHOST $PULSARPORT; do sleep 1; done
              echo \"Pulsar started!\"''"

definition initPulsarScript :: string where
  "initPulsarScript = ''echo -e \"Initializing pulsar $PULSARADMINURL\"
              bin/pulsar-admin --admin-url $PULSARADMINURL tenants create armada
              bin/pulsar-admin --admin-url $PULSARADMINURL namespaces create armada/armada
              bin/pulsar-admin --admin-url $PULSARADMINURL topics delete-partitioned-topic persistent://armada/armada/events -f || true
              bin/pulsar-admin --admin-url $PULSARADMINURL topics create-partitioned-topic persistent://armada/armada/events -p 2

              # Disable topic auto-creation to ensure an error is thrown on using the wrong topic
              # (Pulsar automatically created the public tenant and default namespace).
              bin/pulsar-admin --admin-url $PULSARADMINURL namespaces set-auto-topic-creation public/default --disable
              bin/pulsar-admin --admin-url $PULSARADMINURL namespaces set-auto-topic-creation armada/armada --disable''"

definition ArmadaServer_configMounts :: "ArmadaServer \<Rightarrow> VolumeMount list" where
  "ArmadaServer_configMounts as =
     [\<lparr>vm_Name = volumeConfigKey, vm_ReadOnly = True, vm_MountPath = ''/config/application_config.yaml'',
       vm_SubPath = crName as\<rparr>]"

definition ArmadaServer_configVolumes :: "ArmadaServer \<Rightarrow> Volume list" where
  "ArmadaServer_configVolumes as =
     [\<lparr>vol_Name = volumeConfigKey, vol_Source = SecretVolumeSource (crName as) []\<rparr>]"

definition pulsarWaitJob :: "ArmadaServer \<Rightarrow> AppConfig \<Rightarrow> CommonApplicationConfig \<Rightarrow> Job" where
  "pulsarWaitJob as asConfig commonConfig =
     (let spec = cr_Spec as; armadaInit = pul_ArmadaInit (app_Pulsar asConfig) in
      \<lparr>job_Meta = newMeta ''wait-for-pulsar'' (crNamespace as) (AllLabels (crName as) [crLabels as])
         [''checksum/config'' \<mapsto> GenerateChecksumConfig (csb_ApplicationConfig spec)],
       job_Spec = \<lparr>
         js_Parallelism = Some 1, js_Completions = Some 1, js_BackoffLimit = Some 0,
         js_ActiveDeadlineSeconds = None,
         js_Template = \<lparr>
           pt_Meta = newMeta ''wait-for-pulsar'' (crNamespace as) (AllLabels (crName as) [crLabels as]) Map.empty,
           pt_Spec = zeroPodSpec\<lparr>
             ps_RestartPolicy := ''Never'',
             ps_TerminationGracePeriodSeconds := csb_TerminationGracePeriodSeconds spec,
             ps_SecurityContext := as_PodSecurityContext spec,
             ps_Containers := [zeroContainer\<lparr>
               c_Name := ''wait-for-pulsar'',
               c_ImagePullPolicy := ''IfNotPresent'',
               c_Image := defaultAlpineImage,
               c_Args := [''/bin/sh'', ''-c'', waitForPulsarScript],
               c_Ports := [\<lparr>cp_Name = ''metrics'', cp_ContainerPort = cac_MetricsPort commonConfig,
                            cp_Protocol = ''TCP''\<rparr>],
               c_Env := [envValue ''PULSARHOST'' (ai_BrokerHost armadaInit),
                         envValue ''PULSARPORT'' (showInt (sint (ai_Port armadaInit)))],
               c_VolumeMounts := ArmadaServer_configMounts as,
               c_SecurityContext := as_SecurityContext spec\<rparr>],
             ps_NodeSelector := as_NodeSelector spec,
             ps_Tolerations := csb_Tolerations spec,
             ps_Volumes := ArmadaServer_configVolumes as\<rparr>\<rparr>\<rparr>,
       job_Conditions = []\<rparr>)"

definition initPulsarJob :: "ArmadaServer \<Rightarrow> AppConfig \<Rightarrow> Job" where
  "initPulsarJob as asConfig =
     (let spec = cr_Spec as; armadaInit = pul_ArmadaInit (app_Pulsar asConfig) in
      \<lparr>job_Meta = newMeta ''init-pulsar'' (crNamespace as) (AllLabels (crName as) [crLabels as])
         [''checksum/config'' \<mapsto> GenerateChecksumConfig (csb_ApplicationConfig spec)],
       job_Spec = \<lparr>
         js_Parallelism = Some 1, js_Completions = Some 1, js_BackoffLimit = Some 0,
         js_ActiveDeadlineSeconds = None,
         js_Template = \<lparr>
           pt_Meta = newMeta ''init-pulsar'' (crNamespace as) (AllLabels (crName as) [crLabels as]) Map.empty,
           pt_Spec = zeroPodSpec\<lparr>
             ps_RestartPolicy := ''Never'',
             ps_TerminationGracePeriodSeconds := csb_TerminationGracePeriodSeconds spec,
             ps_SecurityContext := Some \<lparr>psc_RunAsUser = None, psc_RunAsGroup = None\<rparr>,
             ps_Containers := [zeroContainer\<lparr>
               c_Name := ''init-pulsar'',
               c_ImagePullPolicy := ''IfNotPresent'',
               c_Image := pim_Repository (ai_Image armadaInit) @ '':'' @ pim_Tag (ai_Image armadaInit),
               c_Args := [''/bin/sh'', ''-c'', initPulsarScript],
               c_Env := [envValue ''PULSARADMINURL'' (ai_Protocol armadaInit @ ''://'' @
                           ai_BrokerHost armadaInit @ '':'' @ showInt (sint (ai_AdminPort armadaInit)))],
               c_VolumeMounts := ArmadaServer_configMounts as,
               c_SecurityContext := as_SecurityContext spec\<rparr>],
             ps_NodeSelector := as_NodeSelector spec,
             ps_Tolerations := csb_Tolerations spec,
             ps_Volumes := ArmadaServer_configVolumes as\<rparr>\<rparr>\<rparr>,
       job_Conditions = []\<rparr>)"

definition createArmadaServerMigrationJobs ::
  "externs \<Rightarrow> ArmadaServer \<Rightarrow> CommonApplicationConfig \<Rightarrow> Job list result" where
  "createArmadaServerMigrationJobs x as commonConfig =
     andThen (ConvertRawExtensionToYaml x (csb_ApplicationConfig (cr_Spec as))) (\<lambda>appConfig.
     andThen (UnmarshalApp x appConfig) (\<lambda>asConfig.
     Inr [pulsarWaitJob as asConfig commonConfig, initPulsarJob as asConfig]))"

section \<open>Objects\<close>

definition createArmadaServerDeployment ::
  "externs \<Rightarrow> ArmadaServer \<Rightarrow> string \<Rightarrow> CommonApplicationConfig \<Rightarrow> Deployment result" where
  "createArmadaServerDeployment x as serviceAccountName commonConfig =
     (let spec = cr_Spec as;
          env = createEnv (csb_Environment spec)
      in andThen (ExtractPulsarConfig x (csb_ApplicationConfig spec)) (\<lambda>pulsarConfig.
         let volumes = createVolumes (crName as) (csb_AdditionalVolumes spec)
               @ createPulsarVolumes pulsarConfig;
             volumeMounts = createVolumeMounts (GetConfigFilename (crName as))
               (csb_AdditionalVolumeMounts spec) @ createPulsarVolumeMounts pulsarConfig;
             (readinessProbe, livenessProbe) =
               CreateProbesWithScheme (GetServerScheme (grpc_TLS (cac_GRPC commonConfig)));
             container = zeroContainer\<lparr>
               c_Name := ''armadaserver'',
               c_ImagePullPolicy := ''IfNotPresent'',
               c_Image := ImageString (csb_Image spec),
               c_Args := [appConfigFlag, appConfigFilepath],
               c_Ports := newContainerPortsAll commonConfig,
               c_Env := env,
               c_VolumeMounts := volumeMounts,
               c_SecurityContext := as_SecurityContext spec,
               c_ReadinessProbe := Some readinessProbe,
               c_LivenessProbe := Some livenessProbe\<rparr>;
             container = (case csb_Resources spec of
                 None \<Rightarrow> container
               | Some resources \<Rightarrow> container\<lparr>c_Resources := resources,
                   c_Env := addGoMemLimit x (c_Env container) resources\<rparr>)
         in Inr \<lparr>dep_Meta = newMeta (crName as) (crNamespace as) (AllLabels (crName as) [crLabels as]) Map.empty,
                 dep_Spec = \<lparr>
                   d_Replicas = as_Replicas spec,
                   d_Selector = IdentityLabel (crName as),
                   d_Template = \<lparr>
                     pt_Meta = newMeta (crName as) (crNamespace as) (AllLabels (crName as) [crLabels as])
                       [''checksum/config'' \<mapsto> GenerateChecksumConfig (csb_ApplicationConfig spec)],
                     pt_Spec = zeroPodSpec\<lparr>
                       ps_ServiceAccountName := serviceAccountName,
                       ps_TerminationGracePeriodSeconds := om_DeletionGracePeriodSeconds (cr_Meta as),
                       ps_SecurityContext := as_PodSecurityContext spec,
                       ps_Affinity := Some (defaultAffinity (csb_TopologyKey spec) (crName as) 100),
                       ps_NodeSelector := as_NodeSelector spec,
                       ps_Containers := [container],
                       ps_Volumes := volumes\<rparr>\<rparr>,
                   d_Strategy = defaultDeploymentStrategy 1\<rparr>\<rparr>))"

text \<open>\<open>as.Spec.Ingress\<close> is dereferenced without a check once there is a hostname.\<close>

definition createServerIngressGRPC ::
  "externs \<Rightarrow> ArmadaServer \<Rightarrow> CommonApplicationConfig \<Rightarrow> Ingress option result" where
  "createServerIngressGRPC x as config =
     (let spec = cr_Spec as in
      if length (as_HostNames spec) = 0 then Inr None
      else andThen (deref ''Spec.Ingress'' (as_Ingress spec)) (\<lambda>ic.
        let labels = AllLabels (crName as) [csb_Labels spec, ic_Labels ic];
            baseAnnotations = [''nginx.ingress.kubernetes.io/ssl-redirect'' \<mapsto> ''true''];
            annotations = buildIngressAnnotations ic baseAnnotations BackendProtocolGRPC
              (grpc_Enabled (cac_GRPC config))
        in andThen (Ingress (crName as @ ''-grpc'') (crNamespace as) labels annotations (as_HostNames spec)
             (crName as) (crName as @ ''-service-tls'') ''/'' (cac_GRPCPort config)) (\<lambda>ingress.
           Inr (Some ingress))))"

definition createServerIngressHTTP ::
  "externs \<Rightarrow> ArmadaServer \<Rightarrow> CommonApplicationConfig \<Rightarrow> Ingress option result" where
  "createServerIngressHTTP x as config =
     (let spec = cr_Spec as in
      if length (as_HostNames spec) = 0 then Inr None
      else andThen (deref ''Spec.Ingress'' (as_Ingress spec)) (\<lambda>ic.
        let labels = AllLabels (crName as) [csb_Labels spec, ic_Labels ic];
            baseAnnotations = [''nginx.ingress.kubernetes.io/rewrite-target'' \<mapsto> ''/$2'',
                               ''nginx.ingress.kubernetes.io/ssl-redirect'' \<mapsto> ''true''];
            annotations = buildIngressAnnotations ic baseAnnotations BackendProtocolHTTP
              (grpc_Enabled (cac_GRPC config))
        in andThen (Ingress (crName as @ ''-rest'') (crNamespace as) labels annotations (as_HostNames spec)
             (crName as) (crName as @ ''-service-tls'') ''/api(/|$)(.*)'' (cac_HTTPPort config)) (\<lambda>ingress.
           Inr (Some ingress))))"

definition createServerPodDisruptionBudget :: "ArmadaServer \<Rightarrow> PodDisruptionBudget" where
  "createServerPodDisruptionBudget as =
     \<lparr>pdb_Meta = newMeta (crName as) (crNamespace as) Map.empty Map.empty,
      pdb_Spec = \<lparr>pdbs_MinAvailable = None, pdbs_MaxUnavailable = None, pdbs_Selector = None\<rparr>\<rparr>"

definition createServerServiceMonitor :: "ArmadaServer \<Rightarrow> ServiceMonitor" where
  "createServerServiceMonitor as =
     (let prometheusLabels = (case csb_Prometheus (cr_Spec as) of
            Some prometheus \<Rightarrow> pc_Labels prometheus | None \<Rightarrow> Map.empty)
      in \<lparr>sm_Meta = newMeta (crName as) (crNamespace as)
            (AllLabels (crName as) [csb_Labels (cr_Spec as), prometheusLabels]) Map.empty,
          sm_Selector = Map.empty,
          sm_AttachMetadataNode = None,
          sm_Endpoints = [\<lparr>ep_Port = ''metrics'', ep_Interval = ''15s''\<rparr>]\<rparr>)"

definition createServerPrometheusRule :: "externs \<Rightarrow> ArmadaServer \<Rightarrow> PrometheusConfig \<Rightarrow> PrometheusRule" where
  "createServerPrometheusRule x server prometheus =
     (let queueSize = ''max(sum(armada_queue_size) by (queueName, pod)) by (queueName) > 0'';
          queuePriority = ''avg(sum(armada_queue_priority) by (pool, queueName, pod)) by (pool, queueName)'';
          queueIdeal = ''(sum(armada:queue:resource:queued{resourceType=\"cpu\"} > bool 0) by (queueName, pool) * (1 / armada:queue:priority))
               / ignoring(queueName) group_left sum(sum(armada:queue:resource:queued{resourceType=\"cpu\"} > bool 0) by (queueName, pool) * (1 / armada:queue:priority)) by (pool) * 100'';
          queueResourceQueued = ''max(sum(armada_queue_resource_queued) by (pod, pool, queueName, resourceType)) by (pool, queueName, resourceType)'';
          queueResourceAllocated = ''max(sum(armada_queue_resource_allocated) by (pod, pool, cluster, queueName, resourceType, nodeType)) by (pool, cluster, queueName, resourceType, nodeType)'';
          queueResourceUsed = ''max(sum(armada_queue_resource_used) by (pod, pool, cluster, queueName, resourceType, nodeType)) by (pool, cluster, queueName, resourceType, nodeType)'';
          serverHist = ''histogram_quantile(0.95, sum(rate(grpc_server_handling_seconds_bucket{grpc_type!=\"server_stream\"}[2m])) by (grpc_method,grpc_service, le))'';
          serverRequestRate = ''sum(rate(grpc_server_handled_total[2m])) by (grpc_method,grpc_service)'';
          logRate = ''sum(rate(log_messages[2m])) by (level)'';
          availableCapacity = ''avg(armada_cluster_available_capacity) by (pool, cluster, resourceType, nodeType)'';
          resourceCapacity = ''avg(armada_cluster_capacity) by (pool, cluster, resourceType, nodeType)'';
          queuePodPhaseCount = ''max(armada_queue_leased_pod_count) by (pool, cluster, queueName, phase, nodeType)'';
          scrapeInterval = (case pc_ScrapeInterval prometheus of
            None \<Rightarrow> defaultPrometheusInterval | Some interval \<Rightarrow> interval);
          durationString = ShortHumanDuration x scrapeInterval;
          objectMetaName = ''armada-'' @ crName server @ ''-metrics''
      in \<lparr>prom_Meta = newMeta (crName server) (crNamespace server)
            (AllLabels (crName server) [crLabels server, pc_Labels prometheus]) Map.empty,
          prom_Groups = [\<lparr>rg_Name = objectMetaName, rg_Interval = Some durationString,
            rg_Rules =
            [\<lparr>prule_Record = ''armada:queue:size'', prule_Expr = StrValLiteral queueSize\<rparr>,
             \<lparr>prule_Record = ''armada:queue:priority'', prule_Expr = StrValLiteral queuePriority\<rparr>,
             \<lparr>prule_Record = ''armada:queue:ideal_current_share'', prule_Expr = StrValLiteral queueIdeal\<rparr>,
             \<lparr>prule_Record = ''armada:queue:resource:queued'', prule_Expr = StrValLiteral queueResourceQueued\<rparr>,
             \<lparr>prule_Record = ''armada:queue:resource:allocated'', prule_Expr = StrValLiteral queueResourceAllocated\<rparr>,
             \<lparr>prule_Record = ''armada:queue:resource:used'', prule_Expr = StrValLiteral queueResourceUsed\<rparr>,
             \<lparr>prule_Record = ''armada:grpc:server:histogram95'', prule_Expr = StrValLiteral serverHist\<rparr>,
             \<lparr>prule_Record = ''armada:grpc:server:requestrate'', prule_Expr = StrValLiteral serverRequestRate\<rparr>,
             \<lparr>prule_Record = ''armada:log:rate'', prule_Expr = StrValLiteral logRate\<rparr>,
             \<lparr>prule_Record = ''armada:resource:available_capacity'', prule_Expr = StrValLiteral availableCapacity\<rparr>,
             \<lparr>prule_Record = ''armada:resource:capacity'', prule_Expr = StrValLiteral resourceCapacity\<rparr>,
             \<lparr>prule_Record = ''armada:queue:pod_phase:count'', prule_Expr = StrValLiteral queuePodPhaseCount\<rparr>]\<rparr>]\<rparr>)"

section \<open>Components\<close>

definition generateArmadaServerInstallComponents ::
  "externs \<Rightarrow> ArmadaServer \<Rightarrow> CommonApplicationConfig \<Rightarrow> CommonComponents result" where
  "generateArmadaServerInstallComponents x as config =
     (let spec = cr_Spec as; owner = cr_Meta as in
      andThen (CreateSecret x (csb_ApplicationConfig spec) (crName as) (crNamespace as)
        (GetConfigFilename (crName as))) (\<lambda>secret.
      andThen (SetOwnerReference x ''ArmadaServer'' owner sec_Meta sec_Meta_update secret) (\<lambda>secret.
      andThen (serviceAccountFor x ''ArmadaServer'' owner spec) (\<lambda>(serviceAccount, serviceAccountName).
      andThen (createArmadaServerDeployment x as serviceAccountName config) (\<lambda>deployment.
      andThen (SetOwnerReference x ''ArmadaServer'' owner dep_Meta dep_Meta_update deployment) (\<lambda>deployment.
      andThen (createServerIngressGRPC x as config) (\<lambda>ingressGrpc.
      andThen (ownIngress x ''ArmadaServer'' owner ingressGrpc) (\<lambda>ingressGrpc.
      andThen (createServerIngressHTTP x as config) (\<lambda>ingressHttp.
      andThen (ownIngress x ''ArmadaServer'' owner ingressHttp) (\<lambda>ingressHttp.
      let service = Service (crName as) (crNamespace as) (AllLabels (crName as) [crLabels as])
            (IdentityLabel (crName as)) config ServiceEnableApplicationPortsOnly in
      andThen (SetOwnerReference x ''ArmadaServer'' owner svc_Meta svc_Meta_update service) (\<lambda>service.
      andThen (newProfilingComponents x ''ArmadaServer'' owner config (as_ProfilingIngressConfig spec))
        (\<lambda>(profilingService, profilingIngress).
      let pdb = createServerPodDisruptionBudget as in
      andThen (SetOwnerReference x ''ArmadaServer'' owner pdb_Meta pdb_Meta_update pdb) (\<lambda>pdb.
      andThen (case csb_Prometheus spec of
          None \<Rightarrow> Inr (None, None)
        | Some prometheus \<Rightarrow>
            if pc_Enabled prometheus then
              andThen (SetOwnerReference x ''ArmadaServer'' owner prom_Meta prom_Meta_update
                (createServerPrometheusRule x as prometheus)) (\<lambda>prometheusRule.
              andThen (SetOwnerReference x ''ArmadaServer'' owner sm_Meta sm_Meta_update
                (createServerServiceMonitor as)) (\<lambda>serviceMonitor.
              Inr (Some prometheusRule, Some serviceMonitor)))
            else Inr (None, None)) (\<lambda>(prometheusRule, serviceMonitor).
      andThen (if as_PulsarInit spec then
          andThen (createArmadaServerMigrationJobs x as config) (\<lambda>jobs.
          ownJobs x ''ArmadaServer'' owner jobs)
        else Inr [zeroJob]) (\<lambda>jobs.
      Inr \<lparr>cc_Deployment = Some deployment,
           cc_IngressGrpc = ingressGrpc,
           cc_IngressHttp = ingressHttp,
           cc_IngressProfiling = profilingIngress,
           cc_Service = Some service,
           cc_ServiceProfiling = Some profilingService,
           cc_ServiceAccount = serviceAccount,
           cc_Secret = Some secret,
           cc_ClusterRole = None,
           cc_ClusterRoleBindings = [],
           cc_PrometheusRule = prometheusRule,
           cc_ServiceMonitor = serviceMonitor,
           cc_PodDisruptionBudget = Some pdb,
           cc_Jobs = jobs,
           cc_CronJob = None\<rparr>)))))))))))))))"

section \<open>Reconciliation\<close>

definition ArmadaServer_deleteExternalResources ::
  "(ArmadaServerSpec, unit, 's) client \<Rightarrow> CommonComponents \<Rightarrow> ('s world, unit) action" where
  "ArmadaServer_deleteExternalResources c components =
     (if cc_PrometheusRule components \<noteq> None
      then deleteExternal c ''PrometheusRule'' components SPrometheusRule
      else returnA ())"

definition ArmadaServer_steps :: "ArmadaServer \<Rightarrow> CommonComponents \<Rightarrow> step list" where
  "ArmadaServer_steps server components =
     upserts [SServiceAccount, SSecret] @
     (if as_PulsarInit (cr_Spec server) then jobSteps (length (cc_Jobs components)) else []) @
     upserts [SDeployment, SService, SIngressGrpc, SIngressHttp, SPodDisruptionBudget, SPrometheusRule,
       SServiceMonitor]"

definition ArmadaServer_Reconcile ::
  "externs \<Rightarrow> (ArmadaServerSpec, unit, 's) client \<Rightarrow> string \<times> string \<Rightarrow> ('s world, unit) action" where
  "ArmadaServer_Reconcile x c req =
     andThenA (getObject c req) (\<lambda>fetched.
     case fetched of None \<Rightarrow> returnA () | Some server \<Rightarrow>
     andThenA (liftA (ParseCommonApplicationConfig x (csb_ApplicationConfig (cr_Spec server))))
       (\<lambda>commonConfig.
     andThenA (liftA (generateArmadaServerInstallComponents x server commonConfig)) (\<lambda>components.
     andThenA (allocComponents components None) (\<lambda>_.
     let cleanupF = ArmadaServer_deleteExternalResources c components in
     andThenA (checkAndHandleObjectDeletion x c server operatorFinalizer (Some cleanupF))
       (\<lambda>(finish, server).
     if finish then returnA () else
     let mutateFn = reconcileMutate (DeepCopy components)
     in runSteps c mutateFn (ArmadaServer_steps server components))))))"

section \<open>Lemmas\<close>

definition ArmadaServer_generate :: "externs \<Rightarrow> ArmadaServer \<Rightarrow> CommonComponents result" where
  "ArmadaServer_generate x cr =
     andThen (ParseCommonApplicationConfig x (csb_ApplicationConfig (cr_Spec cr)))
       (generateArmadaServerInstallComponents x cr)"

lemma ArmadaServer_Reconcile_skeleton:
  "ArmadaServer_Reconcile x c req = generateFirst x c req (ArmadaServer_generate x)
     (\<lambda>components. Some (ArmadaServer_deleteExternalResources c components)) ArmadaServer_steps"
  unfolding ArmadaServer_Reconcile_def generateFirst_def ArmadaServer_generate_def
    andThenA_liftA_andThen Let_def ..

lemma ArmadaServer_deleteExternalResources_calls:
  "keeps (callsOnly (\<lambda>e. \<not> isUpsert e)) (ArmadaServer_deleteExternalResources c components)"
  unfolding ArmadaServer_deleteExternalResources_def by (auto intro!: callsOnly_deleteExternal)

lemma ArmadaServer_deployment:
  assumes "createArmadaServerDeployment x cr account cfg = Inr dep"
  shows "ps_ServiceAccountName (pt_Spec (d_Template (dep_Spec dep))) = account"
    "om_Labels (pt_Meta (d_Template (dep_Spec dep))) = AllLabels (crName cr) [crLabels cr]"
    "dep_Meta dep = newMeta (crName cr) (crNamespace cr) (AllLabels (crName cr) [crLabels cr]) Map.empty"
  using assms by (auto simp: createArmadaServerDeployment_def CreateProbesWithScheme_def Let_def go_simps)

lemma ArmadaServer_pod:
  assumes "createArmadaServerDeployment x cr account cfg = Inr dep"
    "om_Name (sec_Meta sec) = crName cr" "sec_Data sec (GetConfigFilename (crName cr)) \<noteq> None"
  shows "podOK (csb_ApplicationConfig (cr_Spec cr)) (cr_Spec cr) sec (dep_Spec dep)"
  using assms
  by (auto simp: createArmadaServerDeployment_def CreateProbesWithScheme_def Let_def go_simps podOK_def
      zeroContainer_def zeroPodSpec_def
      intro!: mountsConfigOf_append mountsConfigOf_created mountsCovered_intros split: option.splits)

lemma ArmadaServer_ingress_keys:
  "createServerIngressGRPC x cr cfg = Inr (Some i) \<Longrightarrow> metaKey (ing_Meta i) = (crNamespace cr, crName cr @ ''-grpc'')"
  "createServerIngressHTTP x cr cfg = Inr (Some i) \<Longrightarrow> metaKey (ing_Meta i) = (crNamespace cr, crName cr @ ''-rest'')"
  by (auto simp: createServerIngressGRPC_def createServerIngressHTTP_def Let_def go_simps metaKey_def
      split: if_splits)

lemma ArmadaServer_jobs:
  assumes "createArmadaServerMigrationJobs x cr cfg = Inr jobs"
  obtains app where "jobs = [pulsarWaitJob cr app cfg, initPulsarJob cr app]"
  using assms by (auto simp: createArmadaServerMigrationJobs_def go_simps)

lemma ArmadaServer_generate_Inr:
  assumes "ArmadaServer_generate x cr = Inr cc"
  obtains cfg sec0 sec sa account dep0 dep grpc0 http0 svc psvc ping where
    "CreateSecret x (csb_ApplicationConfig (cr_Spec cr)) (crName cr) (crNamespace cr) (GetConfigFilename (crName cr)) = Inr sec0"
    "SetOwnerReference x ''ArmadaServer'' (cr_Meta cr) sec_Meta sec_Meta_update sec0 = Inr sec"
    "serviceAccountFor x ''ArmadaServer'' (cr_Meta cr) (cr_Spec cr) = Inr (sa, account)"
    "createArmadaServerDeployment x cr account cfg = Inr dep0"
    "SetOwnerReference x ''ArmadaServer'' (cr_Meta cr) dep_Meta dep_Meta_update dep0 = Inr dep"
    "createServerIngressGRPC x cr cfg = Inr grpc0"
    "ownIngress x ''ArmadaServer'' (cr_Meta cr) grpc0 = Inr (cc_IngressGrpc cc)"
    "createServerIngressHTTP x cr cfg = Inr http0"
    "ownIngress x ''ArmadaServer'' (cr_Meta cr) http0 = Inr (cc_IngressHttp cc)"
    "SetOwnerReference x ''ArmadaServer'' (cr_Meta cr) svc_Meta svc_Meta_update
       (Service (crName cr) (crNamespace cr) (AllLabels (crName cr) [crLabels cr])
         (IdentityLabel (crName cr)) cfg ServiceEnableApplicationPortsOnly) = Inr svc"
    "newProfilingComponents x ''ArmadaServer'' (cr_Meta cr) cfg (as_ProfilingIngressConfig (cr_Spec cr)) = Inr (psvc, ping)"
    "(if as_PulsarInit (cr_Spec cr) then
          andThen (createArmadaServerMigrationJobs x cr cfg) (ownJobs x ''ArmadaServer'' (cr_Meta cr))
        else Inr [zeroJob]) = Inr (cc_Jobs cc)"
    "cc_Secret cc = Some sec" "cc_ServiceAccount cc = sa" "cc_Deployment cc = Some dep" "cc_Service cc = Some svc"
    "cc_ServiceProfiling cc = Some psvc" "cc_IngressProfiling cc = ping" "cc_ClusterRoleBindings cc = []"
  using assms unfolding ArmadaServer_generate_def generateArmadaServerInstallComponents_def Let_def andThen_eq_Inr
  by (clarsimp simp: andThen_eq_Inr split: prod.splits)

lemma ArmadaServer_jobs_distinct:
  assumes "ownerLaw x"
    "(if as_PulsarInit (cr_Spec cr) then
          andThen (createArmadaServerMigrationJobs x cr cfg) (ownJobs x ''ArmadaServer'' (cr_Meta cr))
        else Inr [zeroJob]) = Inr jobs"
  shows "distinct (map (\<lambda>j. metaKey (job_Meta j)) jobs)"
proof (cases "as_PulsarInit (cr_Spec cr)")
  case True
  with assms(2) obtain jobs0 where j: "createArmadaServerMigrationJobs x cr cfg = Inr jobs0"
    "ownJobs x ''ArmadaServer'' (cr_Meta cr) jobs0 = Inr jobs" by (auto simp: go_simps)
  from j(1) obtain app where "jobs0 = [pulsarWaitJob cr app cfg, initPulsarJob cr app]"
    by (rule ArmadaServer_jobs)
  with ownJobs_keys [OF assms(1) j(2)] show ?thesis
    by (simp add: pulsarWaitJob_def initPulsarJob_def Let_def metaKey_def)
qed (use assms(2) in auto)

interpretation armadaServer: installer "''ArmadaServer''" ArmadaServer_generate ArmadaServer_steps "\<lambda>_. True"
proof
  fix x cc and cr :: ArmadaServer
  assume law: "ownerLaw x" and gen: "ArmadaServer_generate x cr = Inr cc"
  from gen show "wellFormedInstall x ''ArmadaServer'' (cr_Meta cr) (cr_Spec cr) cc"
  proof (rule ArmadaServer_generate_Inr, goal_cases)
    case (1 cfg sec0 sec sa account dep0 dep grpc0 http0 svc psvc ping)
    note d = ArmadaServer_deployment [OF 1(4)]
    have "ss_Selector (svc_Spec svc) = IdentityLabel (crName cr)"
      using 1(10) by (auto simp: go_simps)
    then show ?case
      by (intro wellFormedInstallI [OF law 1(1,2,13,3,14,5,15) d(3,1) ArmadaServer_pod [OF 1(4)]])
        (simp_all add: 1(16) d(2))
  qed
  from gen show "distinctSlots cc"
  proof (rule ArmadaServer_generate_Inr, goal_cases)
    case (1 cfg sec0 sec sa account dep0 dep grpc0 http0 svc psvc ping)
    have svc: "metaKey (svc_Meta svc) = (crNamespace cr, crName cr)"
      using 1(10) by (auto simp: go_simps key_of_meta [OF law] metaKey_def ownerLawD(1,2) [OF law])
    have grpc: "metaKey (ing_Meta i) = (crNamespace cr, crName cr @ ''-grpc'')" if "cc_IngressGrpc cc = Some i" for i
      using ownIngress_key [OF law 1(7) that] ArmadaServer_ingress_keys(1) 1(6) by auto
    have http: "metaKey (ing_Meta i) = (crNamespace cr, crName cr @ ''-rest'')" if "cc_IngressHttp cc = Some i" for i
      using ownIngress_key [OF law 1(9) that] ArmadaServer_ingress_keys(2) 1(8) by auto
    show ?case
      by (intro distinctSlotsI ArmadaServer_jobs_distinct [OF law 1(12)])
        (auto simp: 1(16-19) svc dest!: grpc http newProfilingComponents_names(2) [OF law 1(11)]
          simp: newProfilingComponents_names(1) [OF law 1(11)])
  qed
next
  fix x cc and cr :: ArmadaServer
  show "stepsOnce (ArmadaServer_steps cr cc)"
    by (cases "as_PulsarInit (cr_Spec cr)") (simp_all add: ArmadaServer_steps_def stepsOnce_def)
qed

section \<open>What a reconciliation may change\<close>

lemma ArmadaServer_home:
  "createServerIngressGRPC x cr cfg = Inr (Some i) \<Longrightarrow> om_Namespace (ing_Meta i) = crNamespace cr"
  "createServerIngressHTTP x cr cfg = Inr (Some i) \<Longrightarrow> om_Namespace (ing_Meta i) = crNamespace cr"
  "om_Namespace (pdb_Meta (createServerPodDisruptionBudget cr)) = crNamespace cr"
  "om_Namespace (prom_Meta (createServerPrometheusRule x cr p)) = crNamespace cr"
  "om_Namespace (sm_Meta (createServerServiceMonitor cr)) = crNamespace cr"
  "createArmadaServerMigrationJobs x cr cfg = Inr jobs \<Longrightarrow> j \<in> set jobs \<Longrightarrow> om_Namespace (job_Meta j) = crNamespace cr"
  using ArmadaServer_ingress_keys [of x cr cfg i]
  by (auto simp: metaKey_def createServerPodDisruptionBudget_def createServerPrometheusRule_def Let_def
      createServerServiceMonitor_def pulsarWaitJob_def initPulsarJob_def elim!: ArmadaServer_jobs)

interpretation armadaServerTenant: tenantInstaller "''ArmadaServer''" ArmadaServer_generate ArmadaServer_steps "\<lambda>_. True"
proof
  fix x cc and cr :: ArmadaServer
  assume law: "ownerLaw x" and gen: "ArmadaServer_generate x cr = Inr cc"
  from gen show "tenants ''ArmadaServer'' (cr_Meta cr) cc (touchedSlots (ArmadaServer_steps cr cc))"
    unfolding ArmadaServer_generate_def generateArmadaServerInstallComponents_def Let_def
    by (clarsimp simp: andThen_eq_Inr noComponents_def split: prod.splits, intro tenantsI)
      (auto simp: CreateSecret_home ArmadaServer_deployment(3) ArmadaServer_home touchedSlots_def ArmadaServer_steps_def andThen_eq_Inr monitors_eq elim!: owned_elims [OF law] split: if_splits)
qed (auto simp: ArmadaServer_steps_def jobSteps_def)

lemma ArmadaServer_cleanup_deletes:
  assumes "deleteLaw c view"
  shows "deletesAt view cc (touchedSlots (ArmadaServer_steps cr cc)) (ArmadaServer_deleteExternalResources c cc)"
  unfolding ArmadaServer_deleteExternalResources_def
  by (auto simp: ArmadaServer_steps_def intro!: deletesAt_deleteExternal [OF assms])

lemma ArmadaServer_confined:
  assumes laws: "clientLaws c view" "resourceLaw c view" "finalizerLaw x" "ownerLaw x"
    and run: "ArmadaServer_Reconcile x c req w = (r, w')"
  shows "confined view (reach req) w w'"
  by (rule armadaServerTenant.generateFirst_confined [OF laws _ run [unfolded ArmadaServer_Reconcile_skeleton]])
    (auto intro: ArmadaServer_cleanup_deletes clientLawsD(3) [OF laws(1)])

text \<open>All of it is in the namespace of the resource.\<close>

lemma ArmadaServer_namespaced: "s \<in> touchedSlots (ArmadaServer_steps cr cc) \<Longrightarrow> \<not> clusterScoped (slotKind s)"
  by (auto simp: ArmadaServer_steps_def clusterScoped_def split: if_splits)

end
