(* ===== verification/Lookout.thy ===== *)
theory Lookout
  imports Tenancy
begin

text \<open>
  \<open>lookout_controller.go\<close>: the components of a Lookout, with the migration Job, the pruning CronJob and
  the opt-in Job that partitions the job table, the status condition that reports on that Job, and
  the reconciliation.
\<close>

section \<open>Database jobs\<close>

definition defaultPartitionJobTableActiveDeadlineSeconds :: int64 where
  "defaultPartitionJobTableActiveDeadlineSeconds = 86400"

definition extractLookoutConfig :: "externs \<Rightarrow> bytes \<Rightarrow> DatabaseConfig result" where
  "extractLookoutConfig x config =
     andThen (ConvertRawExtensionToYaml x config) (\<lambda>appConfig. UnmarshalDatabase x appConfig)"

definition lookoutDbWaitScript :: string where
  "lookoutDbWaitScript = ''echo \"Waiting for Postgres...\"
                                                         while ! nc -z $PGHOST $PGPORT; do
                                                           sleep 1
                                                         done
                                                         echo \"Postgres started!\"
							 echo \"Creating DB $PGDB if needed...\"
							 psql -v ON_ERROR_STOP=1 --username \"$PGUSER\" -c \"CREATE DATABASE $PGDB\"
							 psql -v ON_ERROR_STOP=1 --username \"$PGUSER\" -c \"GRANT ALL PRIVILEGES ON DATABASE $PGDB TO $PGUSER\"
							 echo \"DB $PGDB created\"''"

definition lookoutPrunerWaitScript :: string where
  "lookoutPrunerWaitScript = ''echo \"Waiting for Postgres...\"
                                                         while ! nc -z $PGHOST $PGPORT; do
                                                           sleep 1
                                                         done
                                                         echo \"Postgres started!\"''"

definition createLookoutDatabaseJob ::
  "externs \<Rightarrow> Lookout \<Rightarrow> string \<Rightarrow> string \<Rightarrow> string list \<Rightarrow> Job result" where
  "createLookoutDatabaseJob x lookout serviceAccountName nameSuffix args =
     (let spec = cr_Spec lookout;
          name = crName lookout @ nameSuffix;
          containerName = ''lookout'' @ nameSuffix;
          terminationGracePeriodSeconds = (case csb_TerminationGracePeriodSeconds spec of
            Some s \<Rightarrow> s | None \<Rightarrow> 0);
          env = csb_Environment spec;
          volumes = createVolumes (crName lookout) (csb_AdditionalVolumes spec);
          volumeMounts = createVolumeMounts (GetConfigFilename (crName lookout)) (csb_AdditionalVolumeMounts spec)
      in andThen (ConvertRawExtensionToYaml x (csb_ApplicationConfig spec)) (\<lambda>appConfig.
         andThen (UnmarshalDatabase x appConfig) (\<lambda>lookoutConfig.
         let connection = pg_Connection (db_Postgres lookoutConfig) in
         Inr \<lparr>job_Meta = newMeta name (crNamespace lookout) (AllLabels (crName lookout) [crLabels lookout])
                [''checksum/config'' \<mapsto> GenerateChecksumConfig (csb_ApplicationConfig spec)],
              job_Spec = \<lparr>
                js_Parallelism = Some 1, js_Completions = Some 1, js_BackoffLimit = Some 0,
                js_ActiveDeadlineSeconds = None,
                js_Template = \<lparr>
                  pt_Meta = newMeta name (crNamespace lookout)
                    (AllLabels (crName lookout) [crLabels lookout]) Map.empty,
                  pt_Spec = zeroPodSpec\<lparr>
                    ps_ServiceAccountName := serviceAccountName,
                    ps_RestartPolicy := ''Never'',
                    ps_TerminationGracePeriodSeconds := Some terminationGracePeriodSeconds,
                    ps_SecurityContext := lk_PodSecurityContext spec,
                    ps_InitContainers := [zeroContainer\<lparr>
                      c_Name := containerName @ ''-db-wait'',
                      c_Image := migrationDbWaitImageString (lk_MigrationDbWaitImage spec),
                      c_Command := [''/bin/sh'', ''-c'', lookoutDbWaitScript],
                      c_Env := [envValue ''PGHOST'' (conn_Host connection),
                                envValue ''PGPORT'' (conn_Port connection),
                                envValue ''PGUSER'' (conn_User connection),
                                envValue ''PGPASSWORD'' (conn_Password connection),
                                envValue ''PGDB'' (conn_Dbname connection)]\<rparr>],
                    ps_Containers := [zeroContainer\<lparr>
                      c_Name := containerName,
                      c_ImagePullPolicy := ''IfNotPresent'',
                      c_Image := ImageString (csb_Image spec),
                      c_Args := args @ [appConfigFlag, appConfigFilepath],
                      c_Env := env,
                      c_VolumeMounts := volumeMounts,
                      c_SecurityContext := lk_SecurityContext spec\<rparr>],
                    ps_NodeSelector := lk_NodeSelector spec,
                    ps_Tolerations := csb_Tolerations spec,
                    ps_Volumes := volumes\<rparr>\<rparr>\<rparr>,
              job_Conditions = []\<rparr>)))"

definition createLookoutMigrationJob :: "externs \<Rightarrow> Lookout \<Rightarrow> string \<Rightarrow> Job result" where
  "createLookoutMigrationJob x lookout serviceAccountName =
     createLookoutDatabaseJob x lookout serviceAccountName ''-migration'' [''--migrateDatabase'']"

definition createLookoutPartitionJobTableJob :: "externs \<Rightarrow> Lookout \<Rightarrow> string \<Rightarrow> Job result" where
  "createLookoutPartitionJobTableJob x lookout serviceAccountName =
     andThen (createLookoutDatabaseJob x lookout serviceAccountName ''-partition-job-table''
       [''--partitionJobTable'', ''--execute'', ''--yes'']) (\<lambda>job.
     let labels = AllLabels (om_Name (job_Meta job)) [crLabels lookout];
         activeDeadlineSeconds = (case lk_PartitionJobTable (cr_Spec lookout) of
           Some p \<Rightarrow> (case pjt_ActiveDeadlineSeconds p of
               Some s \<Rightarrow> s | None \<Rightarrow> defaultPartitionJobTableActiveDeadlineSeconds)
         | None \<Rightarrow> defaultPartitionJobTableActiveDeadlineSeconds);
         template = js_Template (job_Spec job)
     in Inr (job\<lparr>job_Meta := (job_Meta job)\<lparr>om_Labels := labels\<rparr>,
                 job_Spec := (job_Spec job)\<lparr>
                   js_Template := template\<lparr>pt_Meta := (pt_Meta template)\<lparr>om_Labels := labels\<rparr>\<rparr>,
                   js_ActiveDeadlineSeconds := Some activeDeadlineSeconds\<rparr>\<rparr>))"

definition newJobTablePartitionedCondition :: "Lookout \<Rightarrow> Job \<Rightarrow> Condition" where
  "newJobTablePartitionedCondition lookout job =
     (let condition = \<lparr>cond_Type = ConditionTypeJobTablePartitioned, cond_Status = ConditionFalse,
            cond_ObservedGeneration = om_Generation (cr_Meta lookout),
            cond_Reason = ReasonPartitionJobTableRunning,
            cond_Message = ''Job '' @ om_Name (job_Meta job) @ '' is running''\<rparr>
      in if getTrueJobCondition job JobComplete \<noteq> None then
           condition\<lparr>cond_Status := ConditionTrue, cond_Reason := ReasonPartitionJobTableSucceeded,
             cond_Message := ''Job '' @ om_Name (job_Meta job) @ '' succeeded''\<rparr>
         else (case getTrueJobCondition job JobFailed of
             Some failed \<Rightarrow> condition\<lparr>cond_Reason := ReasonPartitionJobTableFailed,
               cond_Message := ''Job '' @ om_Name (job_Meta job) @ '' failed: '' @ jc_Message failed\<rparr>
           | None \<Rightarrow> condition))"

definition createLookoutCronJob :: "externs \<Rightarrow> Lookout \<Rightarrow> string \<Rightarrow> CronJob result" where
  "createLookoutCronJob x lookout serviceAccountName =
     (let spec = cr_Spec lookout;
          terminationGracePeriodSeconds = (case csb_TerminationGracePeriodSeconds spec of
            Some s \<Rightarrow> s | None \<Rightarrow> 0);
          env = csb_Environment spec;
          volumes = createVolumes (crName lookout) (csb_AdditionalVolumes spec);
          volumeMounts = createVolumeMounts (GetConfigFilename (crName lookout)) (csb_AdditionalVolumeMounts spec);
          dbPruningSchedule = (case lk_DbPruningSchedule spec of Some s \<Rightarrow> s | None \<Rightarrow> ''@hourly'')
      in andThen (extractLookoutConfig x (csb_ApplicationConfig spec)) (\<lambda>lookoutConfig.
         let connection = pg_Connection (db_Postgres lookoutConfig);
             name = crName lookout @ ''-db-pruner''
         in Inr \<lparr>cj_Meta = newMeta name (crNamespace lookout) (AllLabels name [crLabels lookout])
                   [''checksum/config'' \<mapsto> GenerateChecksumConfig (csb_ApplicationConfig spec)],
                 cj_Spec = \<lparr>
                   cjs_Schedule = dbPruningSchedule,
                   cjs_ConcurrencyPolicy = ''Forbid'',
                   cjs_JobTemplateMeta = newMeta name (crNamespace lookout)
                     (AllLabels name [crLabels lookout]) Map.empty,
                   cjs_JobTemplateSpec = \<lparr>
                     js_Parallelism = Some 1, js_Completions = Some 1, js_BackoffLimit = Some 0,
                     js_ActiveDeadlineSeconds = None,
                     js_Template = \<lparr>
                       pt_Meta = newMeta name (crNamespace lookout)
                         (AllLabels name [crLabels lookout]) Map.empty,
                       pt_Spec = zeroPodSpec\<lparr>
                         ps_ServiceAccountName := serviceAccountName,
                         ps_RestartPolicy := ''Never'',
                         ps_TerminationGracePeriodSeconds := Some terminationGracePeriodSeconds,
                         ps_SecurityContext := lk_PodSecurityContext spec,
                         ps_InitContainers := [zeroContainer\<lparr>
                           c_Name := ''lookout-db-pruner-db-wait'',
                           c_Image := defaultAlpineImage,
                           c_Command := [''/bin/sh'', ''-c'', lookoutPrunerWaitScript],
                           c_Env := [envValue ''PGHOST'' (conn_Host connection),
                                     envValue ''PGPORT'' (conn_Port connection)]\<rparr>],
                         ps_Containers := [zeroContainer\<lparr>
                           c_Name := name,
                           c_ImagePullPolicy := ''IfNotPresent'',
                           c_Image := ImageString (csb_Image spec),
                           c_Args := [''--pruneDatabase'', appConfigFlag, appConfigFilepath],
                           c_Env := env,
                           c_VolumeMounts := volumeMounts,
                           c_SecurityContext := lk_SecurityContext spec\<rparr>],
                         ps_NodeSelector := lk_NodeSelector spec,
                         ps_Tolerations := csb_Tolerations spec,
                         ps_Volumes := volumes\<rparr>\<rparr>\<rparr>\<rparr>\<rparr>))"

section \<open>Other objects\<close>

definition createLookoutServiceMonitor :: "Lookout \<Rightarrow> PrometheusConfig \<Rightarrow> ServiceMonitor" where
  "createLookoutServiceMonitor lookout prometheus =
     \<lparr>sm_Meta = newMeta (crName lookout) (crNamespace lookout)
        (AllLabels (crName lookout) [csb_Labels (cr_Spec lookout), pc_Labels prometheus]) Map.empty,
      sm_Selector = Map.empty,
      sm_AttachMetadataNode = None,
      sm_Endpoints = [\<lparr>ep_Port = ''metrics'', ep_Interval = ''15s''\<rparr>]\<rparr>"

definition createLookoutDeployment ::
  "externs \<Rightarrow> Lookout \<Rightarrow> string \<Rightarrow> CommonApplicationConfig \<Rightarrow> Deployment result" where
  "createLookoutDeployment x lookout serviceAccountName config =
     (let spec = cr_Spec lookout;
          env = createEnv (csb_Environment spec);
          volumes = createVolumes (crName lookout) (csb_AdditionalVolumes spec);
          volumeMounts = createVolumeMounts (GetConfigFilename (crName lookout)) (csb_AdditionalVolumeMounts spec);
          (readinessProbe, livenessProbe) =
            CreateProbesWithScheme (GetServerScheme (grpc_TLS (cac_GRPC config)));
          container = zeroContainer\<lparr>
            c_Name := ''lookout'',
            c_ImagePullPolicy := ''IfNotPresent'',
            c_Image := ImageString (csb_Image spec),
            c_Args := [appConfigFlag, appConfigFilepath],
            c_Ports := newContainerPortsHTTPWithMetrics config,
            c_Env := env,
            c_VolumeMounts := volumeMounts,
            c_SecurityContext := lk_SecurityContext spec,
            c_ReadinessProbe := Some readinessProbe,
            c_LivenessProbe := Some livenessProbe\<rparr>;
          container = (case csb_Resources spec of
              None \<Rightarrow> container
            | Some resources \<Rightarrow> container\<lparr>c_Resources := resources,
                c_Env := addGoMemLimit x (c_Env container) resources\<rparr>)
      in Inr \<lparr>dep_Meta = newMeta (crName lookout) (crNamespace lookout)
                (AllLabels (crName lookout) [crLabels lookout]) Map.empty,
              dep_Spec = \<lparr>
                d_Replicas = lk_Replicas spec,
                d_Selector = IdentityLabel (crName lookout),
                d_Template = \<lparr>
                  pt_Meta = newMeta (crName lookout) (crNamespace lookout)
                    (AllLabels (crName lookout) [crLabels lookout])
                    [''checksum/config'' \<mapsto> GenerateChecksumConfig (csb_ApplicationConfig spec)],
                  pt_Spec = zeroPodSpec\<lparr>
                    ps_ServiceAccountName := serviceAccountName,
                    ps_TerminationGracePeriodSeconds := om_DeletionGracePeriodSeconds (cr_Meta lookout),
                    ps_SecurityContext := lk_PodSecurityContext spec,
                    ps_Affinity := Some (defaultAffinity (csb_TopologyKey spec) (crName lookout) 100),
                    ps_Containers := [container],
                    ps_Volumes := volumes\<rparr>\<rparr>,
                d_Strategy = zeroDeploymentStrategy\<rparr>\<rparr>)"

definition createLookoutIngressHttp ::
  "externs \<Rightarrow> Lookout \<Rightarrow> CommonApplicationConfig \<Rightarrow> Ingress option result" where
  "createLookoutIngressHttp x lookout config =
     (let spec = cr_Spec lookout in
      if length (lk_HostNames spec) = 0 then Inr None
      else andThen (deref ''Spec.Ingress'' (lk_Ingress spec)) (\<lambda>ic.
        let labels = AllLabels (crName lookout) [csb_Labels spec, ic_Labels ic];
            baseAnnotations = [''nginx.ingress.kubernetes.io/ssl-redirect'' \<mapsto> ''true''];
            annotations = buildIngressAnnotations ic baseAnnotations BackendProtocolHTTP
              (grpc_Enabled (cac_GRPC config))
        in andThen (Ingress (crName lookout @ ''-rest'') (crNamespace lookout) labels annotations
             (lk_HostNames spec) (crName lookout) (crName lookout @ ''-service-tls'') ''/''
             (cac_HTTPPort config)) (\<lambda>ingress.
           Inr (Some ingress))))"

section \<open>Components\<close>

definition generateLookoutInstallComponents ::
  "externs \<Rightarrow> Lookout \<Rightarrow> CommonApplicationConfig \<Rightarrow> (CommonComponents \<times> Job option) result" where
  "generateLookoutInstallComponents x lookout config =
     (let spec = cr_Spec lookout; owner = cr_Meta lookout in
      andThen (CreateSecret x (csb_ApplicationConfig spec) (crName lookout) (crNamespace lookout)
        (GetConfigFilename (crName lookout))) (\<lambda>secret.
      andThen (SetOwnerReference x ''Lookout'' owner sec_Meta sec_Meta_update secret) (\<lambda>secret.
      andThen (serviceAccountFor x ''Lookout'' owner spec) (\<lambda>(serviceAccount, serviceAccountName).
      andThen (createLookoutDeployment x lookout serviceAccountName config) (\<lambda>deployment.
      andThen (SetOwnerReference x ''Lookout'' owner dep_Meta dep_Meta_update deployment) (\<lambda>deployment.
      let service = Service (crName lookout) (crNamespace lookout) (AllLabels (crName lookout) [crLabels lookout])
            (IdentityLabel (crName lookout)) config ServiceEnableHTTPWithMetrics in
      andThen (SetOwnerReference x ''Lookout'' owner svc_Meta svc_Meta_update service) (\<lambda>service.
      andThen (newProfilingComponents x ''Lookout'' owner config (lk_ProfilingIngressConfig spec))
        (\<lambda>(profilingService, profilingIngress).
      andThen (case csb_Prometheus spec of
          None \<Rightarrow> Inr None
        | Some prometheus \<Rightarrow>
            if pc_Enabled prometheus then
              andThen (SetOwnerReference x ''Lookout'' owner sm_Meta sm_Meta_update
                (createLookoutServiceMonitor lookout prometheus)) (\<lambda>serviceMonitor. Inr (Some serviceMonitor))
            else Inr None) (\<lambda>serviceMonitor.
      andThen (createLookoutMigrationJob x lookout serviceAccountName) (\<lambda>job.
      andThen (SetOwnerReference x ''Lookout'' owner job_Meta job_Meta_update job) (\<lambda>job.
      andThen (case lk_PartitionJobTable spec of
          None \<Rightarrow> Inr None
        | Some partitionConfig \<Rightarrow>
            if pjt_Enabled partitionConfig then
              andThen (createLookoutPartitionJobTableJob x lookout serviceAccountName) (\<lambda>partitionJob.
              andThen (SetOwnerReference x ''Lookout'' owner job_Meta job_Meta_update partitionJob)
                (\<lambda>partitionJob. Inr (Some partitionJob)))
            else Inr None) (\<lambda>partitionJobTableJob.
      andThen (createLookoutCronJob x lookout serviceAccountName) (\<lambda>cronJob.
      andThen (SetOwnerReference x ''Lookout'' owner cj_Meta cj_Meta_update cronJob) (\<lambda>cronJob.
      andThen (createLookoutIngressHttp x lookout config) (\<lambda>ingressHTTP.
      andThen (ownIngress x ''Lookout'' owner ingressHTTP) (\<lambda>ingressHTTP.
      Inr (noComponents\<lparr>
             cc_Deployment := Some deployment,
             cc_Service := Some service,
             cc_ServiceProfiling := Some profilingService,
             cc_ServiceAccount := serviceAccount,
             cc_Secret := Some secret,
             cc_IngressHttp := ingressHTTP,
             cc_IngressProfiling := profilingIngress,
             cc_Jobs := [job],
             cc_ServiceMonitor := serviceMonitor,
             cc_CronJob := Some cronJob\<rparr>, partitionJobTableJob)))))))))))))))))"

section \<open>Reconciliation\<close>

definition Lookout_steps :: "Lookout \<Rightarrow> CommonComponents \<Rightarrow> step list" where
  "Lookout_steps lookout components =
     upserts [SServiceAccount, SSecret] @ jobSteps (length (cc_Jobs components)) @
     upserts [SDeployment, SService, SIngressHttp] @
     (case lk_DbPruningEnabled (cr_Spec lookout) of
        Some True \<Rightarrow> [Upsert (InComponents SCronJob)]
      | _ \<Rightarrow> [DeleteObject (InComponents SCronJob)]) @
     upserts [SServiceMonitor]"

text \<open>\<open>leaveExistingJob\<close> does not change an existing Job.\<close>

definition leaveExistingJob :: "(heap, unit) action" where
  "leaveExistingJob = returnA ()"

definition Lookout_updateStatus ::
  "externs \<Rightarrow> (LookoutSpec, LookoutStatus, 's) client \<Rightarrow> Lookout \<Rightarrow> ('s world, unit) action" where
  "Lookout_updateStatus x c lookout = (\<lambda>w.
     case load PartitionJob (w_Heap w) of
       Some (KJob job) \<Rightarrow>
         (let (conditions, changed) = SetStatusCondition x (lst_Conditions (cr_Status lookout))
                (newJobTablePartitionedCondition lookout job);
              lookout' = lookout\<lparr>cr_Status := \<lparr>lst_Conditions = conditions\<rparr>\<rparr>
          in if changed then
               andThenA (onServer (c_StatusUpdate c lookout')) (\<lambda>_. returnA ()) (logCall (EvStatus conditions) w)
             else (Inr (), w))
     | _ \<Rightarrow> (Inl (Panic (NilDereference ''partitionJobTableJob'')), w))"

text \<open>The end of \<open>Reconcile\<close>, from \<open>migrationJob := components.Jobs[0]\<close> on.\<close>

definition Lookout_partitionJobTable ::
  "externs \<Rightarrow> (LookoutSpec, LookoutStatus, 's) client \<Rightarrow> Lookout \<Rightarrow> ('s world, unit) action" where
  "Lookout_partitionJobTable x c lookout = (\<lambda>w.
     case load (InComponents (SJob 0)) (w_Heap w) of
       Some (KJob migrationJob) \<Rightarrow>
         if load PartitionJob (w_Heap w) \<noteq> None \<and> getTrueJobCondition migrationJob JobComplete \<noteq> None
         then andThenA (upsertObjectIfNeeded c PartitionJob leaveExistingJob) (\<lambda>_.
              Lookout_updateStatus x c lookout) w
         else (Inr (), w)
     | _ \<Rightarrow> (Inl (Panic (IndexOutOfRange ''components.Jobs'')), w))"

definition Lookout_Reconcile ::
  "externs \<Rightarrow> (LookoutSpec, LookoutStatus, 's) client \<Rightarrow> string \<times> string \<Rightarrow> ('s world, unit) action" where
  "Lookout_Reconcile x c req =
     andThenA (getObject c req) (\<lambda>fetched.
     case fetched of None \<Rightarrow> returnA () | Some lookout \<Rightarrow>
     andThenA (checkAndHandleObjectDeletion x c lookout operatorFinalizer None) (\<lambda>(finish, lookout).
     if finish then returnA () else
     andThenA (liftA (ParseCommonApplicationConfig x (csb_ApplicationConfig (cr_Spec lookout))))
       (\<lambda>commonConfig.
     andThenA (liftA (generateLookoutInstallComponents x lookout commonConfig))
       (\<lambda>(components, partitionJobTableJob).
     andThenA (allocComponents components partitionJobTableJob) (\<lambda>_.
     let mutateFn = reconcileMutate (DeepCopy components) in
     andThenA (runSteps c mutateFn (Lookout_steps lookout components)) (\<lambda>_.
     Lookout_partitionJobTable x c lookout))))))"

section \<open>Lemmas\<close>

definition Lookout_generateAll :: "externs \<Rightarrow> Lookout \<Rightarrow> (CommonComponents \<times> Job option) result" where
  "Lookout_generateAll x cr =
     andThen (ParseCommonApplicationConfig x (csb_ApplicationConfig (cr_Spec cr)))
       (generateLookoutInstallComponents x cr)"

definition Lookout_generate :: "externs \<Rightarrow> Lookout \<Rightarrow> CommonComponents result" where
  "Lookout_generate x cr = andThen (Lookout_generateAll x cr) (\<lambda>(components, _). Inr components)"

lemma Lookout_deployment:
  assumes "createLookoutDeployment x cr account cfg = Inr dep"
  shows "ps_ServiceAccountName (pt_Spec (d_Template (dep_Spec dep))) = account"
    "om_Labels (pt_Meta (d_Template (dep_Spec dep))) = AllLabels (crName cr) [crLabels cr]"
    "dep_Meta dep = newMeta (crName cr) (crNamespace cr) (AllLabels (crName cr) [crLabels cr]) Map.empty"
  using assms by (auto simp: createLookoutDeployment_def CreateProbesWithScheme_def Let_def go_simps)

lemma Lookout_pod:
  assumes "createLookoutDeployment x cr account cfg = Inr dep"
    "om_Name (sec_Meta sec) = crName cr" "sec_Data sec (GetConfigFilename (crName cr)) \<noteq> None"
  shows "podOK (csb_ApplicationConfig (cr_Spec cr)) (cr_Spec cr) sec (dep_Spec dep)"
  using assms
  by (auto simp: createLookoutDeployment_def CreateProbesWithScheme_def Let_def go_simps podOK_def
      zeroContainer_def zeroPodSpec_def
      intro!: mountsConfigOf_append mountsConfigOf_created mountsCovered_intros split: option.splits)

lemma Lookout_ingress_key:
  "createLookoutIngressHttp x cr cfg = Inr (Some i) \<Longrightarrow> metaKey (ing_Meta i) = (crNamespace cr, crName cr @ ''-rest'')"
  by (auto simp: createLookoutIngressHttp_def Let_def go_simps metaKey_def split: if_splits)

lemma Lookout_generateAll_Inr:
  assumes "Lookout_generateAll x cr = Inr (cc, job)"
  obtains cfg sec0 sec sa account dep0 dep http0 svc psvc ping mig0 mig where
    "CreateSecret x (csb_ApplicationConfig (cr_Spec cr)) (crName cr) (crNamespace cr) (GetConfigFilename (crName cr)) = Inr sec0"
    "SetOwnerReference x ''Lookout'' (cr_Meta cr) sec_Meta sec_Meta_update sec0 = Inr sec"
    "serviceAccountFor x ''Lookout'' (cr_Meta cr) (cr_Spec cr) = Inr (sa, account)"
    "createLookoutDeployment x cr account cfg = Inr dep0"
    "SetOwnerReference x ''Lookout'' (cr_Meta cr) dep_Meta dep_Meta_update dep0 = Inr dep"
    "createLookoutIngressHttp x cr cfg = Inr http0"
    "ownIngress x ''Lookout'' (cr_Meta cr) http0 = Inr (cc_IngressHttp cc)"
    "SetOwnerReference x ''Lookout'' (cr_Meta cr) svc_Meta svc_Meta_update
       (Service (crName cr) (crNamespace cr) (AllLabels (crName cr) [crLabels cr])
         (IdentityLabel (crName cr)) cfg ServiceEnableHTTPWithMetrics) = Inr svc"
    "newProfilingComponents x ''Lookout'' (cr_Meta cr) cfg (lk_ProfilingIngressConfig (cr_Spec cr)) = Inr (psvc, ping)"
    "createLookoutMigrationJob x cr account = Inr mig0"
    "SetOwnerReference x ''Lookout'' (cr_Meta cr) job_Meta job_Meta_update mig0 = Inr mig"
    "(case lk_PartitionJobTable (cr_Spec cr) of None \<Rightarrow> Inr None
       | Some p \<Rightarrow> if pjt_Enabled p then
           andThen (createLookoutPartitionJobTableJob x cr account) (\<lambda>j.
           andThen (SetOwnerReference x ''Lookout'' (cr_Meta cr) job_Meta job_Meta_update j) (\<lambda>j. Inr (Some j)))
         else Inr None) = Inr job"
    "cc_Secret cc = Some sec" "cc_ServiceAccount cc = sa" "cc_Deployment cc = Some dep" "cc_Service cc = Some svc"
    "cc_ServiceProfiling cc = Some psvc" "cc_IngressProfiling cc = ping" "cc_ClusterRoleBindings cc = []"
    "cc_IngressGrpc cc = None" "cc_Jobs cc = [mig]"
  using assms unfolding Lookout_generateAll_def generateLookoutInstallComponents_def Let_def andThen_eq_Inr
  by (clarsimp simp: andThen_eq_Inr noComponents_def split: prod.splits)

lemma Lookout_generate_eq_Inr: "Lookout_generate x cr = Inr cc \<longleftrightarrow> (\<exists>job. Lookout_generateAll x cr = Inr (cc, job))"
  by (auto simp: Lookout_generate_def andThen_eq_Inr)

interpretation lookout: installer "''Lookout''" Lookout_generate Lookout_steps "\<lambda>_. True"
proof
  fix x cc and cr :: Lookout
  assume law: "ownerLaw x" and "Lookout_generate x cr = Inr cc"
  then obtain job where gen: "Lookout_generateAll x cr = Inr (cc, job)" by (auto simp: Lookout_generate_eq_Inr)
  from gen show "wellFormedInstall x ''Lookout'' (cr_Meta cr) (cr_Spec cr) cc"
  proof (rule Lookout_generateAll_Inr, goal_cases)
    case (1 cfg sec0 sec sa account dep0 dep http0 svc psvc ping mig0 mig)
    note d = Lookout_deployment [OF 1(4)]
    have "ss_Selector (svc_Spec svc) = IdentityLabel (crName cr)"
      using 1(8) by (auto simp: go_simps)
    then show ?case
      by (intro wellFormedInstallI [OF law 1(1,2,13,3,14,5,15) d(3,1) Lookout_pod [OF 1(4)]])
        (simp_all add: 1(16) d(2))
  qed
  from gen show "distinctSlots cc"
  proof (rule Lookout_generateAll_Inr, goal_cases)
    case (1 cfg sec0 sec sa account dep0 dep http0 svc psvc ping mig0 mig)
    have svc: "metaKey (svc_Meta svc) = (crNamespace cr, crName cr)"
      using 1(8) by (auto simp: go_simps key_of_meta [OF law] metaKey_def ownerLawD(1,2) [OF law])
    have http: "metaKey (ing_Meta i) = (crNamespace cr, crName cr @ ''-rest'')" if "cc_IngressHttp cc = Some i" for i
      using ownIngress_key [OF law 1(7) that] Lookout_ingress_key 1(6) by auto
    show ?case
      by (intro distinctSlotsI)
        (auto simp: 1(16-21) svc dest!: http newProfilingComponents_names(2) [OF law 1(9)]
          simp: newProfilingComponents_names(1) [OF law 1(9)])
  qed
next
  fix x cc and cr :: Lookout
  show "stepsOnce (Lookout_steps cr cc)"
    by (simp add: Lookout_steps_def stepsOnce_def split: option.split bool.split)
qed

section \<open>The database Jobs\<close>

lemma createLookoutDatabaseJob_Inr:
  assumes "createLookoutDatabaseJob x cr account nameSuffix args = Inr job"
  shows "metaKey (job_Meta job) = (crNamespace cr, crName cr @ nameSuffix)" "om_Name (job_Meta job) = crName cr @ nameSuffix"
    "om_Labels (pt_Meta (js_Template (job_Spec job))) = AllLabels (crName cr) [crLabels cr]"
    "ps_ServiceAccountName (pt_Spec (js_Template (job_Spec job))) = account"
  using assms by (auto simp: createLookoutDatabaseJob_def Let_def go_simps metaKey_def)

lemma createLookoutPartitionJobTableJob_Inr:
  assumes "createLookoutPartitionJobTableJob x cr account = Inr job"
  shows "metaKey (job_Meta job) = (crNamespace cr, crName cr @ ''-partition-job-table'')"
    "om_Labels (pt_Meta (js_Template (job_Spec job))) = AllLabels (crName cr @ ''-partition-job-table'') [crLabels cr]"
    "js_ActiveDeadlineSeconds (job_Spec job) \<noteq> None"
  using assms createLookoutDatabaseJob_Inr(1,2) [of x cr account "''-partition-job-table''"]
  by (auto simp: createLookoutPartitionJobTableJob_def Let_def go_simps metaKey_def)

lemma Lookout_partition_Some:
  assumes "Lookout_generateAll x cr = Inr (cc, Some job)"
  obtains account job0 where "createLookoutPartitionJobTableJob x cr account = Inr job0"
    "SetOwnerReference x ''Lookout'' (cr_Meta cr) job_Meta job_Meta_update job0 = Inr job"
  using assms
  by (rule Lookout_generateAll_Inr) (auto simp: andThen_eq_Inr split: option.splits if_splits)

lemma Lookout_migration:
  assumes "Lookout_generateAll x cr = Inr (cc, job)"
  obtains account mig0 mig where "createLookoutMigrationJob x cr account = Inr mig0"
    "SetOwnerReference x ''Lookout'' (cr_Meta cr) job_Meta job_Meta_update mig0 = Inr mig" "cc_Jobs cc = [mig]"
  using assms by (rule Lookout_generateAll_Inr) blast

text \<open>The migration Job and the partition Job are two objects.\<close>

lemma Lookout_jobs_separate:
  assumes law: "ownerLaw x" and gen: "Lookout_generateAll x cr = Inr (cc, job)"
    and j: "job = Some j" "derefSlot cc (SJob i) = Some n"
  shows "keyOf n \<noteq> keyOf (KJob j)"
proof -
  obtain account mig0 mig where m: "createLookoutMigrationJob x cr account = Inr mig0"
    "SetOwnerReference x ''Lookout'' (cr_Meta cr) job_Meta job_Meta_update mig0 = Inr mig" "cc_Jobs cc = [mig]"
    using Lookout_migration [OF gen] .
  obtain account' job0 where p: "createLookoutPartitionJobTableJob x cr account' = Inr job0"
    "SetOwnerReference x ''Lookout'' (cr_Meta cr) job_Meta job_Meta_update job0 = Inr j"
    using Lookout_partition_Some [OF gen [unfolded j(1)]] .
  have "metaKey (job_Meta mig) = (crNamespace cr, crName cr @ ''-migration'')"
    using m(1,2) createLookoutDatabaseJob_Inr(1) [of x cr account "''-migration''"]
    by (auto simp: createLookoutMigrationJob_def go_simps key_of_meta [OF law])
  moreover have "metaKey (job_Meta j) = (crNamespace cr, crName cr @ ''-partition-job-table'')"
    using p(2) createLookoutPartitionJobTableJob_Inr(1) [OF p(1)] by (auto simp: go_simps key_of_meta [OF law])
  moreover from j(2) m(3) have "n = KJob mig" by (auto split: if_splits)
  ultimately show ?thesis by (auto simp: keyOf_def metaKey_def)
qed

section \<open>Reconciliation\<close>

text \<open>What a status update may do to the server: change no object that the operator manages.\<close>

definition statusLaw :: "('spec, 'status, 's) client \<Rightarrow> 's view \<Rightarrow> bool" where
  "statusLaw c view \<longleftrightarrow> (\<forall>cr s. view (snd (c_StatusUpdate c cr s)) = view s)"

lemma statusLaw_refClient [simp]: "statusLaw refClient refView"
  by (simp add: statusLaw_def)

lemma Lookout_Reconcile_live:
  assumes "fetches c req w cr" "live x cr" "Lookout_generateAll x cr = Inr (cc, job)"
  obtains w1 where "Lookout_Reconcile x c req w =
      andThenA (runSteps c (reconcileMutate cc) (Lookout_steps cr cc)) (\<lambda>_. Lookout_partitionJobTable x c cr) w1"
    "w_Heap w1 = heapOf cc job" "w_Trace w1 = w_Trace w"
proof -
  obtain w1 where w1: "getObject c req w = (Inr (Some cr), w1)" "w_Trace w1 = w_Trace w"
    using fetches_getObject [OF assms(1)] by blast
  obtain cfg where cfg: "ParseCommonApplicationConfig x (csb_ApplicationConfig (cr_Spec cr)) = Inr cfg"
    "generateLookoutInstallComponents x cr cfg = Inr (cc, job)"
    using assms(3) by (auto simp: Lookout_generateAll_def andThen_eq_Inr)
  let ?w1 = "w1\<lparr>w_Heap := heapOf cc job\<rparr>"
  have "checkAndHandleObjectDeletion x c cr operatorFinalizer None w1 = (Inr (False, cr), w1)"
    using assms(2) by (simp add: live_def check_live)
  then have "Lookout_Reconcile x c req w =
      andThenA (runSteps c (reconcileMutate cc) (Lookout_steps cr cc)) (\<lambda>_. Lookout_partitionJobTable x c cr) ?w1"
    using w1(1) cfg by (simp add: Lookout_Reconcile_def andThenA_Inr andThenA_liftA allocComponents_def DeepCopy_eq)
  then show thesis using that [of ?w1] w1(2) by simp
qed

lemma leaveExistingJob_run:
  assumes law: "upsertLaw c view" and job: "load PartitionJob (w_Heap w) = Some ob"
    and run: "upsertObjectIfNeeded c PartitionJob leaveExistingJob w = (r, w')"
  shows "w_Trace w' = w_Trace w @ [EvUpsert PartitionJob]"
    "b \<noteq> PartitionJob \<Longrightarrow> load b (w_Heap w') = load b (w_Heap w)"
    "k \<noteq> keyOf ob \<Longrightarrow> view (w_Srv w') k = view (w_Srv w) k"
proof -
  obtain h' s' where co: "c_CreateOrUpdate c PartitionJob leaveExistingJob (w_Heap w, w_Srv w) = (r, (h', s'))"
    and w': "w' = (logCall (EvUpsert PartitionJob) w)\<lparr>w_Heap := h', w_Srv := s'\<rparr>"
    using run job by (auto simp: upsertObjectIfNeeded_def isNilAt_def split: prod.splits)
  from law job co have frame: "\<forall>k. k \<noteq> keyOf ob \<longrightarrow> view s' k = view (w_Srv w) k"
    and "\<exists>h1. touched PartitionJob (w_Heap w) h1 \<and>
        ((\<exists>e. r = Inl e \<and> h' = h1) \<or> (\<exists>e. r = Inl e \<and> leaveExistingJob h1 = (Inl e, h')) \<or>
         (\<exists>h2. leaveExistingJob h1 = (Inr (), h2) \<and> touched PartitionJob h2 h'))"
    unfolding upsertLaw_eq by blast+
  then obtain h1 where "touched PartitionJob (w_Heap w) h1" "h' = h1 \<or> touched PartitionJob h1 h'"
    by (auto simp: leaveExistingJob_def)
  then have "load b h' = load b (w_Heap w)" if "b \<noteq> PartitionJob" for b
    using touched_load [OF _ that] by metis
  with frame [rule_format, of k] w' show "w_Trace w' = w_Trace w @ [EvUpsert PartitionJob]"
    "b \<noteq> PartitionJob \<Longrightarrow> load b (w_Heap w') = load b (w_Heap w)"
    "k \<noteq> keyOf ob \<Longrightarrow> view (w_Srv w') k = view (w_Srv w) k" by simp_all
qed

lemma leaveExistingJob_keys:
  assumes law: "upsertLaw c view" and job: "load PartitionJob (w_Heap w) = Some ob"
    and run: "upsertObjectIfNeeded c PartitionJob leaveExistingJob w = (r, w')"
  shows "sameKeys (w_Heap w') (w_Heap w)"
proof -
  obtain h' s' where co: "c_CreateOrUpdate c PartitionJob leaveExistingJob (w_Heap w, w_Srv w) = (r, (h', s'))"
    and w': "w' = (logCall (EvUpsert PartitionJob) w)\<lparr>w_Heap := h', w_Srv := s'\<rparr>"
    using run job by (auto simp: upsertObjectIfNeeded_def isNilAt_def split: prod.splits)
  from law job co have "\<exists>h1. touched PartitionJob (w_Heap w) h1 \<and>
      ((\<exists>e. r = Inl e \<and> h' = h1) \<or> (\<exists>e. r = Inl e \<and> leaveExistingJob h1 = (Inl e, h')) \<or>
       (\<exists>h2. leaveExistingJob h1 = (Inr (), h2) \<and> touched PartitionJob h2 h'))"
    unfolding upsertLaw_eq by blast
  then obtain h1 where "touched PartitionJob (w_Heap w) h1" "h' = h1 \<or> touched PartitionJob h1 h'"
    by (auto simp: leaveExistingJob_def)
  then show ?thesis using w' touched_sameKeys sameKeys_trans by fastforce
qed

lemma Lookout_updateStatus_run:
  assumes "statusLaw c view" "Lookout_updateStatus x c cr w = (r, w')"
  shows "w_Heap w' = w_Heap w" "view (w_Srv w') = view (w_Srv w)"
    "\<exists>es. w_Trace w' = w_Trace w @ es \<and> EvUpsert PartitionJob \<notin> set es"
proof -
  have "w_Heap w' = w_Heap w \<and> view (w_Srv w') = view (w_Srv w) \<and>
      (\<exists>es. w_Trace w' = w_Trace w @ es \<and> EvUpsert PartitionJob \<notin> set es)"
    using assms(2) assms(1) [unfolded statusLaw_def]
    by (auto simp: Lookout_updateStatus_def onServer_def andThenA_def Let_def
        split: option.splits kobj.splits prod.splits if_splits sum.splits) (metis snd_conv)+
  then show "w_Heap w' = w_Heap w" "view (w_Srv w') = view (w_Srv w)"
    "\<exists>es. w_Trace w' = w_Trace w @ es \<and> EvUpsert PartitionJob \<notin> set es" by blast+
qed

text \<open>
  The tail of \<open>Reconcile\<close>: it leaves the components and every other object alone, and it touches the
  partition Job only when the migration Job is complete.
\<close>

definition migrationComplete :: "'s world \<Rightarrow> bool" where
  "migrationComplete w \<longleftrightarrow> (\<exists>job. load (InComponents (SJob 0)) (w_Heap w) = Some (KJob job) \<and>
     getTrueJobCondition job JobComplete \<noteq> None)"

lemma Lookout_partitionJobTable_run:
  assumes laws: "upsertLaw c view" "statusLaw c view" and run: "Lookout_partitionJobTable x c cr w = (r, w')"
  shows "b \<noteq> PartitionJob \<Longrightarrow> load b (w_Heap w') = load b (w_Heap w)"
    "(\<And>ob. load PartitionJob (w_Heap w) = Some ob \<Longrightarrow> k \<noteq> keyOf ob) \<Longrightarrow> view (w_Srv w') k = view (w_Srv w) k"
    "\<exists>es. w_Trace w' = w_Trace w @ es \<and> (EvUpsert PartitionJob \<in> set es \<longrightarrow> migrationComplete w)"
proof -
  show "b \<noteq> PartitionJob \<Longrightarrow> load b (w_Heap w') = load b (w_Heap w)"
    "(\<And>ob. load PartitionJob (w_Heap w) = Some ob \<Longrightarrow> k \<noteq> keyOf ob) \<Longrightarrow> view (w_Srv w') k = view (w_Srv w) k"
    "\<exists>es. w_Trace w' = w_Trace w @ es \<and> (EvUpsert PartitionJob \<in> set es \<longrightarrow> migrationComplete w)"
  proof (atomize (full), cases "migrationComplete w \<and> load PartitionJob (w_Heap w) \<noteq> None")
    case False
    then have "w' = w" using run
      by (auto simp: Lookout_partitionJobTable_def migrationComplete_def split: option.splits kobj.splits)
    then show "(b \<noteq> PartitionJob \<longrightarrow> load b (w_Heap w') = load b (w_Heap w)) \<and>
      ((\<forall>ob. load PartitionJob (w_Heap w) = Some ob \<longrightarrow> k \<noteq> keyOf ob) \<longrightarrow> view (w_Srv w') k = view (w_Srv w) k) \<and>
      (\<exists>es. w_Trace w' = w_Trace w @ es \<and> (EvUpsert PartitionJob \<in> set es \<longrightarrow> migrationComplete w))" by auto
  next
    case True
    then obtain ob where ob: "load PartitionJob (w_Heap w) = Some ob" by blast
    obtain r1 w1 where up: "upsertObjectIfNeeded c PartitionJob leaveExistingJob w = (r1, w1)" by fastforce
    note u = leaveExistingJob_run [OF laws(1) ob up]
    have run': "(case r1 of Inl e \<Rightarrow> (Inl e, w1) | Inr _ \<Rightarrow> Lookout_updateStatus x c cr w1) = (r, w')"
      using run True up by (auto simp: Lookout_partitionJobTable_def migrationComplete_def andThenA_def)
    have "w' = w1 \<or> (\<exists>r. Lookout_updateStatus x c cr w1 = (r, w'))"
      using run' by (cases r1) auto
    then have "w_Heap w' = w_Heap w1" "view (w_Srv w') = view (w_Srv w1)"
      "\<exists>es. w_Trace w' = w_Trace w1 @ es"
      using Lookout_updateStatus_run [OF laws(2)] by (blast, blast, metis append_Nil2)
    with u True ob show "(b \<noteq> PartitionJob \<longrightarrow> load b (w_Heap w') = load b (w_Heap w)) \<and>
      ((\<forall>ob. load PartitionJob (w_Heap w) = Some ob \<longrightarrow> k \<noteq> keyOf ob) \<longrightarrow> view (w_Srv w') k = view (w_Srv w) k) \<and>
      (\<exists>es. w_Trace w' = w_Trace w @ es \<and> (EvUpsert PartitionJob \<in> set es \<longrightarrow> migrationComplete w))" by auto
  qed
qed

text \<open>The tail upserts nothing but the partition Job.\<close>

lemma Lookout_tail_upserts:
  assumes "upsertLaw c view" "statusLaw c view" "Lookout_partitionJobTable x c cr w = (r, w')"
    "EvUpsert (InComponents s) \<in> set (w_Trace w')"
  shows "EvUpsert (InComponents s) \<in> set (w_Trace w)"
proof (cases "w' = w")
  case False
  with assms(3) obtain ob where ob: "load PartitionJob (w_Heap w) = Some ob"
    by (auto simp: Lookout_partitionJobTable_def split: option.splits kobj.splits if_splits)
  obtain r1 w1 where up: "upsertObjectIfNeeded c PartitionJob leaveExistingJob w = (r1, w1)" by fastforce
  have "w' = w1 \<or> (\<exists>r. Lookout_updateStatus x c cr w1 = (r, w'))"
    using assms(3) False up
    by (auto simp: Lookout_partitionJobTable_def andThenA_def split: option.splits kobj.splits if_splits sum.splits)
  then have "\<exists>cs. w_Trace w' = w_Trace w1 @ cs \<and> (\<forall>e \<in> set cs. \<not> isUpsert e)"
    by (auto simp: Lookout_updateStatus_def onServer_def andThenA_def Let_def isUpsert_def
        split: option.splits kobj.splits prod.splits if_splits sum.splits)
  with leaveExistingJob_run(1) [OF assms(1) ob up] assms(4) show ?thesis by (auto simp: isUpsert_def)
qed (use assms(4) in simp)

lemma Lookout_Reconcile_run:
  assumes laws: "clientLaws c view" "statusLaw c view" "ownerLaw x"
    and start: "fetches c req w cr" "live x cr" "Lookout_generateAll x cr = Inr (cc, job)"
    and run: "Lookout_Reconcile x c req w = (r, w')"
  obtains r2 w2 where "startsRun c cc job (Lookout_steps cr cc) (\<lambda>_. (r2, w2)) w"
    "sameKeys (w_Heap w2) (heapOf cc job)"
    "r2 = Inr () \<and> Lookout_partitionJobTable x c cr w2 = (r, w') \<or> r2 = r \<and> w' = w2"
proof -
  obtain w1 where w1: "Lookout_Reconcile x c req w =
      andThenA (runSteps c (reconcileMutate cc) (Lookout_steps cr cc)) (\<lambda>_. Lookout_partitionJobTable x c cr) w1"
    "w_Heap w1 = heapOf cc job" "w_Trace w1 = w_Trace w"
    using Lookout_Reconcile_live [OF start] .
  obtain r2 w2 where w2: "runSteps c (reconcileMutate cc) (Lookout_steps cr cc) w1 = (r2, w2)" by fastforce
  have "generated (heapOf cc job) cc"
    using lookout.required [OF laws(3)] start(3) by (auto simp: Lookout_generate_eq_Inr)
  from runSteps_trace [OF laws(1) _ this w2] w1(2) have k: "sameKeys (w_Heap w2) (heapOf cc job)" by simp
  show thesis
  proof (rule that [OF _ k])
    show "startsRun c cc job (Lookout_steps cr cc) (\<lambda>_. (r2, w2)) w"
      unfolding startsRun_def using w1(2,3) w2 by metis
    show "r2 = Inr () \<and> Lookout_partitionJobTable x c cr w2 = (r, w') \<or> r2 = r \<and> w' = w2"
      using run w1(1) w2 by (cases r2) (auto simp: andThenA_def)
  qed
qed

text \<open>An upsert of the partition Job is preceded by the completion of the migration Job.\<close>

lemma partitionJob_not_planned: "EvUpsert PartitionJob \<notin> set (planned h (Lookout_steps cr cc))"
proof
  assume "EvUpsert PartitionJob \<in> set (planned h (Lookout_steps cr cc))"
  then have "Upsert PartitionJob \<in> set (Lookout_steps cr cc)" by (rule planned_upsert)
  then show False by (simp add: Lookout_steps_def jobSteps_def split: option.splits bool.splits)
qed

lemma Lookout_partition_upsert:
  assumes laws: "clientLaws c view" "statusLaw c view" "ownerLaw x"
    and start: "fetches c req w cr" "live x cr" "Lookout_generateAll x cr = Inr (cc, job)"
    and run: "Lookout_Reconcile x c req w = (r, w')"
    and ev: "EvUpsert PartitionJob \<in> set (w_Trace w')" "EvUpsert PartitionJob \<notin> set (w_Trace w)"
  shows "migrationComplete w'"
proof -
  obtain r2 w2 where s: "startsRun c cc job (Lookout_steps cr cc) (\<lambda>_. (r2, w2)) w"
    and tail: "r2 = Inr () \<and> Lookout_partitionJobTable x c cr w2 = (r, w') \<or> r2 = r \<and> w' = w2"
    using Lookout_Reconcile_run [OF laws start run] by blast
  have "Lookout_generate x cr = Inr cc" using start(3) by (auto simp: Lookout_generate_eq_Inr)
  from lookout.run_trace [OF laws(1,3) this s refl] obtain es where "w_Trace w2 = w_Trace w @ es"
    "prefix (visible es) (planned (heapOf cc job) (Lookout_steps cr cc))" by blast
  moreover from this(2) partitionJob_not_planned [of "heapOf cc job" cr cc]
  have "EvUpsert PartitionJob \<notin> set es"
    using visible_set [of "EvUpsert PartitionJob" es] by (auto dest: set_mono_prefix)
  ultimately have no: "EvUpsert PartitionJob \<notin> set (w_Trace w2)" using ev(2) by simp
  with ev(1) tail have t: "Lookout_partitionJobTable x c cr w2 = (r, w')" by auto
  note p = Lookout_partitionJobTable_run [OF clientLawsD(1) [OF laws(1)] laws(2) t]
  from p(3) no ev(1) have "migrationComplete w2" by auto
  with p(1) [of "InComponents (SJob 0)"] show ?thesis by (simp add: migrationComplete_def)
qed

lemma Lookout_installs:
  assumes laws: "clientLaws c view" "statusLaw c view" "ownerLaw x"
    and start: "fetches c req w cr" "live x cr" "Lookout_generateAll x cr = Inr (cc, job)"
    and run: "Lookout_Reconcile x c req w = (Inr (), w')"
    and s: "s \<in> upsertedSlots (Lookout_steps cr cc)" "managed s" "derefSlot cc s \<noteq> None"
  shows "installed view cc s w'"
proof -
  obtain r2 w2 where st: "startsRun c cc job (Lookout_steps cr cc) (\<lambda>_. (r2, w2)) w"
    and k: "sameKeys (w_Heap w2) (heapOf cc job)"
    and tail: "r2 = Inr () \<and> Lookout_partitionJobTable x c cr w2 = (Inr (), w') \<or> r2 = Inr () \<and> w' = w2"
    using Lookout_Reconcile_run [OF laws start run] by metis
  have gen: "Lookout_generate x cr = Inr cc" using start(3) by (auto simp: Lookout_generate_eq_Inr)
  from tail have "r2 = Inr ()" by blast
  then have i: "installed view cc s w2"
    using lookout.run_installs [OF laws(1,3) gen TrueI st _ Lookout_jobs_separate [OF laws(3) start(3)] s] by simp
  then obtain n stored where n: "derefSlot cc s = Some n" "view (w_Srv w2) (keyOf n) = Some stored"
    "ownedFields stored = ownedFields n" by (auto simp: installed_def)
  have "view (w_Srv w') (keyOf n) = view (w_Srv w2) (keyOf n)"
  proof (cases "Lookout_partitionJobTable x c cr w2 = (Inr (), w')")
    case True
    have "keyOf n \<noteq> keyOf ob" if ob: "load PartitionJob (w_Heap w2) = Some ob" for ob
    proof -
      obtain j where j: "job = Some j" "keyOf ob = keyOf (KJob j)"
        using sameKeys_Some(2) [OF k ob] by auto
      have "slotKind s \<noteq> JobKind" using s(2) by (cases s) auto
      with derefSlot_kind [OF n(1)] j(2) show ?thesis by (auto simp: keyOf_def)
    qed
    with Lookout_partitionJobTable_run(2) [OF clientLawsD(1) [OF laws(1)] laws(2) True] show ?thesis by blast
  qed (use tail in auto)
  with n show ?thesis unfolding installed_def by metis
qed

lemma Lookout_deleting:
  assumes cr: "fetches c req w cr" and del: "om_DeletionTimestamp (cr_Meta cr) \<noteq> None"
  shows "callsOnly (\<lambda>e. \<not> isUpsert e) w (snd (Lookout_Reconcile x c req w))"
proof -
  obtain w1 where w1: "getObject c req w = (Inr (Some cr), w1)" "w_Trace w1 = w_Trace w"
    using fetches_getObject [OF cr] by blast
  let ?check = "checkAndHandleObjectDeletion x c cr operatorFinalizer None"
  obtain r w2 where w2: "?check w1 = (r, w2)" by fastforce
  have "callsOnly (\<lambda>e. \<not> isUpsert e) w1 w2"
    using callsOnly_check [of None x c cr operatorFinalizer] w2 by (metis keepsD option.distinct(1))
  moreover have fin: "finish" if "r = Inr (finish, cr')" for finish cr'
    using check_deleting [OF del] w2 that by blast
  have "snd (Lookout_Reconcile x c req w) = w2"
    using w1 w2 by (cases r) (auto simp: Lookout_Reconcile_def andThenA_def dest: fin)
  ultimately show ?thesis using w1(2) by (simp add: callsOnly_def)
qed

section \<open>What a reconciliation may change\<close>

lemma Lookout_home:
  "createLookoutIngressHttp x cr cfg = Inr (Some i) \<Longrightarrow> om_Namespace (ing_Meta i) = crNamespace cr"
  "createLookoutMigrationJob x cr account = Inr job \<Longrightarrow> om_Namespace (job_Meta job) = crNamespace cr"
  "createLookoutCronJob x cr account = Inr cj \<Longrightarrow> om_Namespace (cj_Meta cj) = crNamespace cr"
  "om_Namespace (sm_Meta (createLookoutServiceMonitor cr p)) = crNamespace cr"
  using Lookout_ingress_key [of x cr cfg i] createLookoutDatabaseJob_Inr(1) [of x cr account]
  by (auto simp: metaKey_def createLookoutMigrationJob_def createLookoutCronJob_def createLookoutServiceMonitor_def
      Let_def go_simps)

interpretation lookoutTenant: tenantInstaller "''Lookout''" Lookout_generate Lookout_steps "\<lambda>_. True"
proof
  fix x cc and cr :: Lookout
  assume law: "ownerLaw x" and gen: "Lookout_generate x cr = Inr cc"
  from gen show "tenants ''Lookout'' (cr_Meta cr) cc (touchedSlots (Lookout_steps cr cc))"
    unfolding Lookout_generate_def Lookout_generateAll_def generateLookoutInstallComponents_def Let_def
    by (clarsimp simp: andThen_eq_Inr noComponents_def split: prod.splits, intro tenantsI)
      (auto simp: CreateSecret_home Lookout_deployment(3) Lookout_home monitors_eq elim!: owned_elims [OF law] split: if_splits)
qed (auto simp: Lookout_steps_def jobSteps_def split: option.splits bool.splits)

text \<open>The tail of Lookout's \<open>Reconcile\<close> changes at most the partition Job.\<close>

lemma Lookout_partition_key:
  assumes "ownerLaw x" "Lookout_generateAll x cr = Inr (cc, Some job)"
  shows "reach (crKey cr) (keyOf (KJob job))"
  using assms(2)
proof (rule Lookout_partition_Some)
  fix account job0
  assume "createLookoutPartitionJobTableJob x cr account = Inr job0"
    "SetOwnerReference x ''Lookout'' (cr_Meta cr) job_Meta job_Meta_update job0 = Inr job"
  with createLookoutPartitionJobTableJob_Inr(1) key_of_meta [OF assms(1)]
  have "metaKey (job_Meta job) = (crNamespace cr, crName cr @ ''-partition-job-table'')"
    by (fastforce simp: SetOwnerReference_eq_Inr)
  then show ?thesis by (simp add: crKey_def keyOf_def metaKey_def clusterScoped_def)
qed

lemma Lookout_tail_confined:
  assumes laws: "upsertLaw c view" "statusLaw c view" "ownerLaw x"
    and gen: "Lookout_generateAll x cr = Inr (cc, job)" and heap: "sameKeys (w_Heap w) (heapOf cc job)"
    and run: "Lookout_partitionJobTable x c cr' w = (r, w')"
  shows "confined view (reach (crKey cr)) w w'"
  unfolding confined_def
proof (intro allI impI)
  fix k
  assume k: "\<not> reach (crKey cr) k"
  show "view (w_Srv w') k = view (w_Srv w) k"
  proof (rule Lookout_partitionJobTable_run(2) [OF laws(1,2) run])
    fix ob
    assume "load PartitionJob (w_Heap w) = Some ob"
    then obtain j where "job = Some j" "keyOf ob = keyOf (KJob j)"
      using sameKeys_Some(2) [OF heap] by fastforce
    with k gen Lookout_partition_key [OF laws(3)] show "k \<noteq> keyOf ob" by auto
  qed
qed

lemma Lookout_confined:
  assumes laws: "clientLaws c view" "statusLaw c view" "resourceLaw c view" "finalizerLaw x" "ownerLaw x"
    and run: "Lookout_Reconcile x c req w = (r, w')"
  shows "confined view (reach req) w w'"
proof -
  obtain r1 w1 where g: "getObject c req w = (r1, w1)" by fastforce
  note g1 = getObject_run [OF laws(3) g]
  show ?thesis
  proof (cases "\<exists>cr. r1 = Inr (Some cr)")
    case False
    with run g g1(1) show ?thesis by (auto simp: Lookout_Reconcile_def andThenA_def split: sum.splits option.splits)
  next
    case True
    then obtain cr where cr: "r1 = Inr (Some cr)" by blast
    obtain r2 w2 where ch: "checkAndHandleObjectDeletion x c cr operatorFinalizer None w1 = (r2, w2)" by fastforce
    note c1 = check_run [OF laws(3,4) cleansWithin_None ch]
    have 12: "confined view (reach req) w w2" using g1(1) c1(2) by (rule confined_trans)
    show ?thesis
    proof (cases "\<exists>cr' cc job. r2 = Inr (False, cr') \<and> Lookout_generateAll x cr' = Inr (cc, job)")
      case False
      with run g cr ch have "w' = w2"
        by (auto simp: Lookout_Reconcile_def Lookout_generateAll_def andThenA_def liftA_def andThen_def
            split: sum.splits if_splits)
      with 12 show ?thesis by simp
    next
      case True
      then obtain cr' cc job where cr': "r2 = Inr (False, cr')" "Lookout_generateAll x cr' = Inr (cc, job)" by blast
      have "sameResource cr cr'" by (rule c1(3) [OF cr'(1)])
      with g1(2) [OF cr] have req: "crKey cr' = req" by (simp add: sameResource_def)
      have gen: "Lookout_generate x cr' = Inr cc" using cr'(2) by (auto simp: Lookout_generate_eq_Inr)
      let ?w2 = "w2\<lparr>w_Heap := heapOf cc job\<rparr>"
      obtain r3 w3 where st: "runSteps c (reconcileMutate cc) (Lookout_steps cr' cc) ?w2 = (r3, w3)" by fastforce
      have 23: "confined view (reach req) w2 w3"
        using lookoutTenant.steps_confined [OF laws(1,5) gen _ st] req by (simp add: confined_def)
      have "sameKeys (w_Heap w3) (heapOf cc job)"
        using runSteps_trace [OF laws(1) _ lookout.required [OF laws(5) gen] st] by simp
      note tail = Lookout_tail_confined [OF clientLawsD(1) [OF laws(1)] laws(2,5) cr'(2) this, unfolded req]
      obtain cfg where "ParseCommonApplicationConfig x (csb_ApplicationConfig (cr_Spec cr')) = Inr cfg"
        "generateLookoutInstallComponents x cr' cfg = Inr (cc, job)"
        using cr'(2) by (auto simp: Lookout_generateAll_def andThen_eq_Inr)
      with run g cr ch cr'(1) st have "w' = w3 \<or> Lookout_partitionJobTable x c cr' w3 = (r, w')"
        by (auto simp: Lookout_Reconcile_def andThenA_def liftA_def allocComponents_def DeepCopy_eq split: sum.splits)
      with 12 23 tail show ?thesis using confined_trans by blast
    qed
  qed
qed

end
