(* ===== verification/Scheduler.thy ===== *)
theory Scheduler
  imports Tenancy
begin

text \<open>
  \<open>scheduler_controller.go\<close>: the components of a Scheduler, with the migration Job and the CronJob that
  prunes the database, and its reconciliation. The CronJob reads \<open>Spec.Pruner.Schedule\<close> without a
  check, so generating the components of a Scheduler without a pruner configuration panics.
\<close>

section \<open>Database jobs\<close>

definition extractSchedulerConfig :: "externs \<Rightarrow> bytes \<Rightarrow> DatabaseConfig result" where
  "extractSchedulerConfig x config =
     andThen (ConvertRawExtensionToYaml x config) (\<lambda>appConfig. UnmarshalDatabase x appConfig)"

definition schedulerDbWaitScript :: string where
  "schedulerDbWaitScript = ''echo \"Waiting for Postgres...\"
                                                         while ! nc -z $PGHOST $PGPORT; do
                                                           sleep 1
                                                         done
                                                         echo \"Postgres started!\"
							 echo \"Creating DB $PGDB if needed...\"
							 psql -v ON_ERROR_STOP=1 --username \"$PGUSER\" -c \"CREATE DATABASE $PGDB\"
							 psql -v ON_ERROR_STOP=1 --username \"$PGUSER\" -c \"GRANT ALL PRIVILEGES ON DATABASE $PGDB TO $PGUSER\"
							 echo \"DB $PGDB created\"''"

definition schedulerPrunerWaitScript :: string where
  "schedulerPrunerWaitScript = ''echo \"Waiting for Postgres...\"
                                                         while ! nc -z $PGHOST $PGPORT; do
                                                           sleep 1
                                                         done
                                                         echo \"Postgres started!\"''"

definition newSchedulerMigrationJob :: "externs \<Rightarrow> Scheduler \<Rightarrow> string \<Rightarrow> Job result" where
  "newSchedulerMigrationJob x scheduler serviceAccountName =
     (let spec = cr_Spec scheduler;
          terminationGracePeriodSeconds = (case csb_TerminationGracePeriodSeconds spec of
            Some s \<Rightarrow> s | None \<Rightarrow> 0);
          env = csb_Environment spec;
          volumes = createVolumes (crName scheduler) (csb_AdditionalVolumes spec);
          volumeMounts = createVolumeMounts (GetConfigFilename (crName scheduler)) (csb_AdditionalVolumeMounts spec)
      in andThen (extractSchedulerConfig x (csb_ApplicationConfig spec)) (\<lambda>schedulerConfig.
         let connection = pg_Connection (db_Postgres schedulerConfig) in
         Inr \<lparr>job_Meta = newMeta (crName scheduler @ ''-migration'') (crNamespace scheduler)
                (AllLabels (crName scheduler) [crLabels scheduler])
                [''checksum/config'' \<mapsto> GenerateChecksumConfig (csb_ApplicationConfig spec)],
              job_Spec = \<lparr>
                js_Parallelism = Some 1, js_Completions = Some 1, js_BackoffLimit = Some 0,
                js_ActiveDeadlineSeconds = None,
                js_Template = \<lparr>
                  pt_Meta = newMeta (crName scheduler @ ''-migration'') (crNamespace scheduler)
                    (AllLabels (crName scheduler) [crLabels scheduler]) Map.empty,
                  pt_Spec = zeroPodSpec\<lparr>
                    ps_ServiceAccountName := serviceAccountName,
                    ps_RestartPolicy := ''Never'',
                    ps_TerminationGracePeriodSeconds := Some terminationGracePeriodSeconds,
                    ps_SecurityContext := sd_PodSecurityContext spec,
                    ps_InitContainers := [zeroContainer\<lparr>
                      c_Name := ''scheduler-migration-db-wait'',
                      c_Image := migrationDbWaitImageString (sd_MigrationDbWaitImage spec),
                      c_Command := [''/bin/sh'', ''-c'', schedulerDbWaitScript],
                      c_Env := [envValue ''PGHOST'' (conn_Host connection),
                                envValue ''PGPORT'' (conn_Port connection),
                                envValue ''PGUSER'' (conn_User connection),
                                envValue ''PGPASSWORD'' (conn_Password connection),
                                envValue ''PGDB'' (conn_Dbname connection)]\<rparr>],
                    ps_Containers := [zeroContainer\<lparr>
                      c_Name := ''scheduler-migration'',
                      c_ImagePullPolicy := ''IfNotPresent'',
                      c_Image := ImageString (csb_Image spec),
                      c_Args := [''migrateDatabase'', appConfigFlag, appConfigFilepath],
                      c_Env := env,
                      c_VolumeMounts := volumeMounts,
                      c_SecurityContext := sd_SecurityContext spec\<rparr>],
                    ps_Tolerations := csb_Tolerations spec,
                    ps_Volumes := volumes\<rparr>\<rparr>\<rparr>,
              job_Conditions = []\<rparr>))"

text \<open>The arguments and resources of the pruner's container.\<close>

definition schedulerPrunerArgs :: "PrunerConfig option \<Rightarrow> string list" where
  "schedulerPrunerArgs pruner =
     [''pruneDatabase'', appConfigFlag, appConfigFilepath] @
     (case pruner of
        None \<Rightarrow> []
      | Some p \<Rightarrow>
          (if pa_Timeout (prn_Args p) \<noteq> '''' then [''--timeout'', pa_Timeout (prn_Args p)] else []) @
          (if positive (pa_Batchsize (prn_Args p))
           then [''--batchsize'', showInt (sint (pa_Batchsize (prn_Args p)))] else []) @
          (if pa_ExpireAfter (prn_Args p) \<noteq> '''' then [''--expireAfter'', pa_ExpireAfter (prn_Args p)] else []))"

definition schedulerPrunerResources :: "PrunerConfig option \<Rightarrow> ResourceRequirements" where
  "schedulerPrunerResources pruner =
     (case pruner of
        Some p \<Rightarrow> (case prn_Resources p of Some resources \<Rightarrow> resources | None \<Rightarrow> noResources)
      | None \<Rightarrow> noResources)"

definition newSchedulerCronJob :: "externs \<Rightarrow> Scheduler \<Rightarrow> string \<Rightarrow> CronJob result" where
  "newSchedulerCronJob x scheduler serviceAccountName =
     (let spec = cr_Spec scheduler;
          terminationGracePeriodSeconds = (case csb_TerminationGracePeriodSeconds spec of
            Some s \<Rightarrow> s | None \<Rightarrow> 0);
          env = csb_Environment spec;
          volumes = createVolumes (crName scheduler) (csb_AdditionalVolumes spec);
          volumeMounts = createVolumeMounts (GetConfigFilename (crName scheduler)) (csb_AdditionalVolumeMounts spec)
      in andThen (ConvertRawExtensionToYaml x (csb_ApplicationConfig spec)) (\<lambda>appConfig.
         andThen (UnmarshalDatabase x appConfig) (\<lambda>schedulerConfig.
         let connection = pg_Connection (db_Postgres schedulerConfig);
             prunerArgs = schedulerPrunerArgs (sd_Pruner spec);
             prunerResources = schedulerPrunerResources (sd_Pruner spec);
             name = crName scheduler @ ''-db-pruner''
         in andThen (deref ''Spec.Pruner'' (sd_Pruner spec)) (\<lambda>pruner.
            Inr \<lparr>cj_Meta = newMeta name (crNamespace scheduler) (AllLabels name [crLabels scheduler])
                   [''checksum/config'' \<mapsto> GenerateChecksumConfig (csb_ApplicationConfig spec)],
                 cj_Spec = \<lparr>
                   cjs_Schedule = prn_Schedule pruner,
                   cjs_ConcurrencyPolicy = ''Forbid'',
                   cjs_JobTemplateMeta = newMeta name (crNamespace scheduler)
                     (AllLabels name [crLabels scheduler]) Map.empty,
                   cjs_JobTemplateSpec = \<lparr>
                     js_Parallelism = Some 1, js_Completions = Some 1, js_BackoffLimit = Some 0,
                     js_ActiveDeadlineSeconds = None,
                     js_Template = \<lparr>
                       pt_Meta = newMeta name (crNamespace scheduler)
                         (AllLabels name [crLabels scheduler]) Map.empty,
                       pt_Spec = zeroPodSpec\<lparr>
                         ps_ServiceAccountName := serviceAccountName,
                         ps_RestartPolicy := ''Never'',
                         ps_TerminationGracePeriodSeconds := Some terminationGracePeriodSeconds,
                         ps_SecurityContext := sd_PodSecurityContext spec,
                         ps_InitContainers := [zeroContainer\<lparr>
                           c_Name := ''scheduler-db-pruner-db-wait'',
                           c_Image := defaultAlpineImage,
                           c_Command := [''/bin/sh'', ''-c'', schedulerPrunerWaitScript],
                           c_Env := [envValue ''PGHOST'' (conn_Host connection),
                                     envValue ''PGPORT'' (conn_Port connection)]\<rparr>],
                         ps_Containers := [zeroContainer\<lparr>
                           c_Name := name,
                           c_ImagePullPolicy := ''IfNotPresent'',
                           c_Image := ImageString (csb_Image spec),
                           c_Args := prunerArgs,
                           c_Env := env,
                           c_VolumeMounts := volumeMounts,
                           c_SecurityContext := sd_SecurityContext spec,
                           c_Resources := prunerResources\<rparr>],
                         ps_Tolerations := csb_Tolerations spec,
                         ps_Volumes := volumes\<rparr>\<rparr>\<rparr>\<rparr>\<rparr>))))"

section \<open>Other objects\<close>

definition newSchedulerServiceMonitor :: "Scheduler \<Rightarrow> PrometheusConfig \<Rightarrow> ServiceMonitor" where
  "newSchedulerServiceMonitor scheduler prometheus =
     \<lparr>sm_Meta = newMeta (crName scheduler) (crNamespace scheduler)
        (AllLabels (crName scheduler) [csb_Labels (cr_Spec scheduler), pc_Labels prometheus]) Map.empty,
      sm_Selector = Map.empty,
      sm_AttachMetadataNode = None,
      sm_Endpoints = [\<lparr>ep_Port = ''metrics'', ep_Interval = ''15s''\<rparr>]\<rparr>"

definition newSchedulerDeployment ::
  "externs \<Rightarrow> Scheduler \<Rightarrow> string \<Rightarrow> CommonApplicationConfig \<Rightarrow> Deployment result" where
  "newSchedulerDeployment x scheduler serviceAccountName config =
     (let spec = cr_Spec scheduler;
          env = createEnv (csb_Environment spec)
      in andThen (ExtractPulsarConfig x (csb_ApplicationConfig spec)) (\<lambda>pulsarConfig.
         let volumes = createVolumes (crName scheduler) (csb_AdditionalVolumes spec)
               @ createPulsarVolumes pulsarConfig;
             volumeMounts = createVolumeMounts (GetConfigFilename (crName scheduler))
               (csb_AdditionalVolumeMounts spec) @ createPulsarVolumeMounts pulsarConfig;
             (readinessProbe, livenessProbe) =
               CreateProbesWithScheme (GetServerScheme (grpc_TLS (cac_GRPC config)));
             container = zeroContainer\<lparr>
               c_Name := ''scheduler'',
               c_ImagePullPolicy := ''IfNotPresent'',
               c_Image := ImageString (csb_Image spec),
               c_Args := [''run'', appConfigFlag, appConfigFilepath],
               c_Ports := newContainerPortsAll config,
               c_Env := env,
               c_VolumeMounts := volumeMounts,
               c_SecurityContext := sd_SecurityContext spec,
               c_ReadinessProbe := Some readinessProbe,
               c_LivenessProbe := Some livenessProbe\<rparr>;
             container = (case csb_Resources spec of
                 None \<Rightarrow> container
               | Some resources \<Rightarrow> container\<lparr>c_Resources := resources,
                   c_Env := addGoMemLimit x (c_Env container) resources\<rparr>)
         in Inr \<lparr>dep_Meta = newMeta (crName scheduler) (crNamespace scheduler)
                   (AllLabels (crName scheduler) [crLabels scheduler]) Map.empty,
                 dep_Spec = \<lparr>
                   d_Replicas = sd_Replicas spec,
                   d_Selector = IdentityLabel (crName scheduler),
                   d_Template = \<lparr>
                     pt_Meta = newMeta (crName scheduler) (crNamespace scheduler)
                       (AllLabels (crName scheduler) [crLabels scheduler])
                       [''checksum/config'' \<mapsto> GenerateChecksumConfig (csb_ApplicationConfig spec)],
                     pt_Spec = zeroPodSpec\<lparr>
                       ps_ServiceAccountName := serviceAccountName,
                       ps_TerminationGracePeriodSeconds := om_DeletionGracePeriodSeconds (cr_Meta scheduler),
                       ps_SecurityContext := sd_PodSecurityContext spec,
                       ps_Affinity := Some (defaultAffinity (csb_TopologyKey spec) (crName scheduler) 100),
                       ps_Containers := [container],
                       ps_Volumes := volumes\<rparr>\<rparr>,
                   d_Strategy = zeroDeploymentStrategy\<rparr>\<rparr>))"

definition newSchedulerIngressGRPC ::
  "externs \<Rightarrow> Scheduler \<Rightarrow> CommonApplicationConfig \<Rightarrow> Ingress option result" where
  "newSchedulerIngressGRPC x scheduler config =
     (let spec = cr_Spec scheduler in
      if length (sd_HostNames spec) = 0 then Inr None
      else andThen (deref ''Spec.Ingress'' (sd_Ingress spec)) (\<lambda>ic.
        let labels = AllLabels (crName scheduler) [csb_Labels spec, ic_Labels ic];
            baseAnnotations = [''nginx.ingress.kubernetes.io/ssl-redirect'' \<mapsto> ''true''];
            annotations = buildIngressAnnotations ic baseAnnotations BackendProtocolGRPC
              (grpc_Enabled (cac_GRPC config))
        in andThen (Ingress (crName scheduler @ ''-grpc'') (crNamespace scheduler) labels annotations
             (sd_HostNames spec) (crName scheduler) (crName scheduler @ ''-service-tls'') ''/''
             (cac_GRPCPort config)) (\<lambda>ingress.
           Inr (Some ingress))))"

definition newSchedulerPrometheusRule :: "externs \<Rightarrow> Scheduler \<Rightarrow> PrometheusConfig \<Rightarrow> PrometheusRule" where
  "newSchedulerPrometheusRule x scheduler prometheus =
     (let rules =
            [\<lparr>prule_Record = ''node:armada_scheduler_failed_jobs'',
              prule_Expr = StrValLiteral ''sum by (node) (armada_scheduler_job_state_counter_by_node{state=\"failed\"})''\<rparr>,
             \<lparr>prule_Record = ''cluster_category_subCategory:armada_scheduler_failed_jobs'',
              prule_Expr = StrValLiteral ''sum by (cluster, category, subCategory) (armada_scheduler_error_classification_by_node)''\<rparr>,
             \<lparr>prule_Record = ''queue_category_subCategory:armada_scheduler_failed_jobs'',
              prule_Expr = StrValLiteral ''sum by (queue, category, subCategory) (armada_scheduler_job_error_classification_by_queue)''\<rparr>,
             \<lparr>prule_Record = ''node:armada_scheduler_succeeded_jobs'',
              prule_Expr = StrValLiteral ''sum by (node) (armada_scheduler_job_state_counter_by_node{state=\"succeeded\"})''\<rparr>,
             \<lparr>prule_Record = ''cluster_category_subCategory:armada_scheduler_succeeded_jobs'',
              prule_Expr = StrValLiteral ''sum by (cluster, category, subCategory) (armada_scheduler_job_state_counter_by_node{state=\"succeeded\"})''\<rparr>,
             \<lparr>prule_Record = ''queue_category_subCategory:armada_scheduler_succeeded_jobs'',
              prule_Expr = StrValLiteral ''sum by (queue) (armada_scheduler_job_state_counter_by_queue{state=\"succeeded\"})''\<rparr>,
             \<lparr>prule_Record = ''node:armada_scheduler_failed_jobs:increase1m'',
              prule_Expr = StrValLiteral ''increase(node:armada_scheduler_job_state_counter_by_queue{state=\"failed\"}[1m:])''\<rparr>,
             \<lparr>prule_Record = ''node:armada_scheduler_failed_jobs:increase10m'',
              prule_Expr = StrValLiteral ''increase(node:armada_scheduler_job_state_counter_by_queue{state=\"failed\"}[10m:])''\<rparr>,
             \<lparr>prule_Record = ''node:armada_scheduler_failed_jobs:increase1h'',
              prule_Expr = StrValLiteral ''increase(node:armada_scheduler_job_state_counter_by_queue{state=\"failed\"}[1h:])''\<rparr>,
             \<lparr>prule_Record = ''cluster_category_subCategory:armada_scheduler_failed_jobs:increase1m'',
              prule_Expr = StrValLiteral ''increase(cluster_category_subCategory:armada_scheduler_failed_jobs[1m:])''\<rparr>,
             \<lparr>prule_Record = ''cluster_category_subCategory:armada_scheduler_failed_jobs:increase10m'',
              prule_Expr = StrValLiteral ''increase(cluster_category_subCategory:armada_scheduler_failed_jobs[10m:])''\<rparr>,
             \<lparr>prule_Record = ''cluster_category_subCategory:armada_scheduler_failed_jobs:increase1h'',
              prule_Expr = StrValLiteral ''increase(cluster_category_subCategory:armada_scheduler_failed_jobs[1h:])''\<rparr>,
             \<lparr>prule_Record = ''queue_category_subCategory:armada_scheduler_failed_jobs:increase1m'',
              prule_Expr = StrValLiteral ''increase(queue_category_subCategory:armada_scheduler_failed_jobs[1m:])''\<rparr>,
             \<lparr>prule_Record = ''queue_category_subCategory:armada_scheduler_failed_jobs:increase10m'',
              prule_Expr = StrValLiteral ''increase(queue_category_subCategory:armada_scheduler_failed_jobs[10m:])''\<rparr>,
             \<lparr>prule_Record = ''queue_category_subCategory:armada_scheduler_failed_jobs:increase1h'',
              prule_Expr = StrValLiteral ''increase(queue_category_subCategory:armada_scheduler_failed_jobs[1h:])''\<rparr>,
             \<lparr>prule_Record = ''node:armada_scheduler_succeeded_jobs:increase1m'',
              prule_Expr = StrValLiteral ''increase(node:armada_scheduler_succeeded_jobs[1m:])''\<rparr>,
             \<lparr>prule_Record = ''node:armada_scheduler_succeeded_jobs:increase10m'',
              prule_Expr = StrValLiteral ''increase(node:armada_scheduler_succeeded_jobs[10m:])''\<rparr>,
             \<lparr>prule_Record = ''node:armada_scheduler_succeeded_jobs:increase1h'',
              prule_Expr = StrValLiteral ''increase(node:armada_scheduler_succeeded_jobs[1h:])''\<rparr>,
             \<lparr>prule_Record = ''cluster_category_subCategory:armada_scheduler_succeeded_jobs:increase1m'',
              prule_Expr = StrValLiteral ''increase(cluster_category_subCategory:armada_scheduler_succeeded_jobs[1m:])''\<rparr>,
             \<lparr>prule_Record = ''cluster_category_subCategory:armada_scheduler_succeeded_jobs:increase10m'',
              prule_Expr = StrValLiteral ''increase(cluster_category_subCategory:armada_scheduler_succeeded_jobs[10m:])''\<rparr>,
             \<lparr>prule_Record = ''cluster_category_subCategory:armada_scheduler_succeeded_jobs:increase1h'',
              prule_Expr = StrValLiteral ''increase(cluster_category_subCategory:armada_scheduler_succeeded_jobs[1h:])''\<rparr>,
             \<lparr>prule_Record = ''queue_category_subCategory:armada_scheduler_succeeded_jobs:increase1m'',
              prule_Expr = StrValLiteral ''increase(queue_category_subCategory:armada_scheduler_succeeded_jobs[1m:])''\<rparr>,
             \<lparr>prule_Record = ''queue_category_subCategory:armada_scheduler_succeeded_jobs:increase10m'',
              prule_Expr = StrValLiteral ''increase(queue_category_subCategory:armada_scheduler_succeeded_jobs[10m:])''\<rparr>,
             \<lparr>prule_Record = ''queue_category_subCategory:armada_scheduler_succeeded_jobs:increase1h'',
              prule_Expr = StrValLiteral ''increase(queue_category_subCategory:armada_scheduler_succeeded_jobs[1h:])''\<rparr>,
             \<lparr>prule_Record = ''node:armada_scheduler_failed_rate_jobs:increase1m'',
              prule_Expr = StrValLiteral ''sum by(node) (node:armada_scheduler_failed_jobs:increase1m) / on(node) group_left() ((sum by(node) (node:armada_scheduler_failed_jobs:increase1m)) + (sum by(node) (node:armada_scheduler_succeeded_jobs:increase1m)))''\<rparr>,
             \<lparr>prule_Record = ''node:armada_scheduler_failed_rate_jobs:increase10m'',
              prule_Expr = StrValLiteral ''sum by(node) (node:armada_scheduler_failed_jobs:increase10m) / on(node) group_left() ((sum by(node) (node:armada_scheduler_failed_jobs:increase10m)) + (sum by(node) (node:armada_scheduler_succeeded_jobs:increase10m)))''\<rparr>,
             \<lparr>prule_Record = ''node:armada_scheduler_failed_rate_jobs:increase1h'',
              prule_Expr = StrValLiteral ''sum by(node) (node:armada_scheduler_failed_jobs:increase1h) / on(node) group_left() ((sum by(node) (node:armada_scheduler_failed_jobs:increase1h)) + (sum by(node) (node:armada_scheduler_succeeded_jobs:increase1h)))''\<rparr>,
             \<lparr>prule_Record = ''cluster_category_subCategory:armada_scheduler_failed_rate_jobs:increase1m'',
              prule_Expr = StrValLiteral ''sum by(cluster, category, subCategory) (cluster_category_subCategory:armada_scheduler_failed_jobs:increase1m) / on(cluster) group_left() ((sum by(cluster) (cluster_category_subCategory:armada_scheduler_failed_jobs:increase1m)) + (sum by(cluster) (cluster_category_subCategory:armada_scheduler_succeeded_jobs:increase1m)))''\<rparr>,
             \<lparr>prule_Record = ''cluster_category_subCategory:armada_scheduler_failed_rate_jobs:increase10m'',
              prule_Expr = StrValLiteral ''sum by(cluster, category, subCategory) (cluster_category_subCategory:armada_scheduler_failed_jobs:increase10m) / on(cluster) group_left() ((sum by(cluster) (cluster_category_subCategory:armada_scheduler_failed_jobs:increase10m)) + (sum by(cluster) (cluster_category_subCategory:armada_scheduler_succeeded_jobs:increase10m)))''\<rparr>,
             \<lparr>prule_Record = ''cluster_category_subCategory:armada_scheduler_failed_rate_jobs:increase1h'',
              prule_Expr = StrValLiteral ''sum by(cluster, category, subCategory) (cluster_category_subCategory:armada_scheduler_failed_jobs:increase1h) / on(cluster) group_left() ((sum by(cluster) (cluster_category_subCategory:armada_scheduler_failed_jobs:increase1h)) + (sum by(cluster) (cluster_category_subCategory:armada_scheduler_succeeded_jobs:increase1h)))''\<rparr>,
             \<lparr>prule_Record = ''queue_category_subCategory:armada_scheduler_failed_rate_jobs:increase1m'',
              prule_Expr = StrValLiteral ''sum by(queue, category, subCategory) (queue_category_subCategory:armada_scheduler_failed_jobs:increase1m) / on(queue) group_left() ((sum by(queue) (queue_category_subCategory:armada_scheduler_failed_jobs:increase1m)) + (sum by(queue) (queue_category_subCategory:armada_scheduler_succeeded_jobs:increase1m)))''\<rparr>,
             \<lparr>prule_Record = ''queue_category_subCategory:armada_scheduler_failed_rate_jobs:increase10m'',
              prule_Expr = StrValLiteral ''sum by(queue, category, subCategory) (queue_category_subCategory:armada_scheduler_failed_jobs:increase10m) / on(queue) group_left() ((sum by(queue) (queue_category_subCategory:armada_scheduler_failed_jobs:increase10m)) + (sum by(queue) (queue_category_subCategory:armada_scheduler_succeeded_jobs:increase10m)))''\<rparr>,
             \<lparr>prule_Record = ''queue_category_subCategory:armada_scheduler_failed_rate_jobs:increase1h'',
              prule_Expr = StrValLiteral ''sum by(queue, category, subCategory) (queue_category_subCategory:armada_scheduler_failed_jobs:increase1h) / on(queue) group_left() ((sum by(queue) (queue_category_subCategory:armada_scheduler_failed_jobs:increase1h)) + (sum by(queue) (queue_category_subCategory:armada_scheduler_succeeded_jobs:increase1h)))''\<rparr>];
          objectMetaName = ''armada-'' @ crName scheduler @ ''-metrics'';
          scrapeInterval = (case pc_ScrapeInterval prometheus of
            None \<Rightarrow> defaultPrometheusInterval | Some interval \<Rightarrow> interval);
          durationString = ShortHumanDuration x scrapeInterval
      in \<lparr>prom_Meta = newMeta (crName scheduler) (crNamespace scheduler)
            (AllLabels (crName scheduler) [csb_Labels (cr_Spec scheduler), pc_Labels prometheus]) Map.empty,
          prom_Groups = [\<lparr>rg_Name = objectMetaName, rg_Interval = Some durationString, rg_Rules = rules\<rparr>]\<rparr>)"

section \<open>Components\<close>

definition generateSchedulerInstallComponents ::
  "externs \<Rightarrow> Scheduler \<Rightarrow> CommonApplicationConfig \<Rightarrow> CommonComponents result" where
  "generateSchedulerInstallComponents x scheduler config =
     (let spec = cr_Spec scheduler; owner = cr_Meta scheduler in
      andThen (CreateSecret x (csb_ApplicationConfig spec) (crName scheduler) (crNamespace scheduler)
        (GetConfigFilename (crName scheduler))) (\<lambda>secret.
      andThen (SetOwnerReference x ''Scheduler'' owner sec_Meta sec_Meta_update secret) (\<lambda>secret.
      andThen (serviceAccountFor x ''Scheduler'' owner spec) (\<lambda>(serviceAccount, serviceAccountName).
      andThen (newSchedulerDeployment x scheduler serviceAccountName config) (\<lambda>deployment.
      andThen (SetOwnerReference x ''Scheduler'' owner dep_Meta dep_Meta_update deployment) (\<lambda>deployment.
      let service = Service (crName scheduler) (crNamespace scheduler)
            (AllLabels (crName scheduler) [crLabels scheduler])
            (IdentityLabel (crName scheduler)) config ServiceEnableApplicationPortsOnly in
      andThen (SetOwnerReference x ''Scheduler'' owner svc_Meta svc_Meta_update service) (\<lambda>service.
      andThen (newProfilingComponents x ''Scheduler'' owner config (sd_ProfilingIngressConfig spec))
        (\<lambda>(profilingService, profilingIngress).
      andThen (case csb_Prometheus spec of
          None \<Rightarrow> Inr (None, None)
        | Some prometheus \<Rightarrow>
            if pc_Enabled prometheus then
              andThen (SetOwnerReference x ''Scheduler'' owner sm_Meta sm_Meta_update
                (newSchedulerServiceMonitor scheduler prometheus)) (\<lambda>serviceMonitor.
              andThen (SetOwnerReference x ''Scheduler'' owner prom_Meta prom_Meta_update
                (newSchedulerPrometheusRule x scheduler prometheus)) (\<lambda>prometheusRule.
              Inr (Some serviceMonitor, Some prometheusRule)))
            else Inr (None, None)) (\<lambda>(serviceMonitor, prometheusRule).
      andThen (newSchedulerMigrationJob x scheduler serviceAccountName) (\<lambda>job.
      andThen (SetOwnerReference x ''Scheduler'' owner job_Meta job_Meta_update job) (\<lambda>job.
      andThen (newSchedulerCronJob x scheduler serviceAccountName) (\<lambda>cronJob.
      andThen (SetOwnerReference x ''Scheduler'' owner cj_Meta cj_Meta_update cronJob) (\<lambda>cronJob.
      andThen (newSchedulerIngressGRPC x scheduler config) (\<lambda>ingressGRPC.
      andThen (ownIngress x ''Scheduler'' owner ingressGRPC) (\<lambda>ingressGRPC.
      Inr (noComponents\<lparr>
             cc_Deployment := Some deployment,
             cc_Service := Some service,
             cc_ServiceProfiling := Some profilingService,
             cc_ServiceAccount := serviceAccount,
             cc_Secret := Some secret,
             cc_IngressGrpc := ingressGRPC,
             cc_IngressProfiling := profilingIngress,
             cc_Jobs := [job],
             cc_ServiceMonitor := serviceMonitor,
             cc_PrometheusRule := prometheusRule,
             cc_CronJob := Some cronJob\<rparr>))))))))))))))))"

section \<open>Reconciliation\<close>

definition Scheduler_steps :: "Scheduler \<Rightarrow> CommonComponents \<Rightarrow> step list" where
  "Scheduler_steps scheduler components =
     upserts [SServiceAccount, SSecret] @
     (if length (cc_Jobs components) > 0
      then [Upsert (InComponents (SJob 0)), WaitJob (InComponents (SJob 0))] else []) @
     upserts [SDeployment, SService, SServiceProfiling, SIngressGrpc, SIngressProfiling, SServiceMonitor,
       SPrometheusRule] @
     (if (case sd_Pruner (cr_Spec scheduler) of None \<Rightarrow> False | Some pruner \<Rightarrow> prn_Enabled pruner)
      then [Upsert (InComponents SCronJob)] else [DeleteObject (InComponents SCronJob)])"

definition Scheduler_Reconcile ::
  "externs \<Rightarrow> (SchedulerSpec, unit, 's) client \<Rightarrow> string \<times> string \<Rightarrow> ('s world, unit) action" where
  "Scheduler_Reconcile x c req =
     andThenA (getObject c req) (\<lambda>fetched.
     case fetched of None \<Rightarrow> returnA () | Some scheduler \<Rightarrow>
     andThenA (checkAndHandleObjectDeletion x c scheduler operatorFinalizer None) (\<lambda>(finish, scheduler).
     if finish then returnA () else
     andThenA (liftA (ParseCommonApplicationConfig x (csb_ApplicationConfig (cr_Spec scheduler))))
       (\<lambda>commonConfig.
     andThenA (liftA (generateSchedulerInstallComponents x scheduler commonConfig)) (\<lambda>components.
     andThenA (allocComponents components None) (\<lambda>_.
     let mutateFn = reconcileMutate (DeepCopy components)
     in runSteps c mutateFn (Scheduler_steps scheduler components))))))"

section \<open>Lemmas\<close>

definition Scheduler_generate :: "externs \<Rightarrow> Scheduler \<Rightarrow> CommonComponents result" where
  "Scheduler_generate x cr =
     andThen (ParseCommonApplicationConfig x (csb_ApplicationConfig (cr_Spec cr)))
       (generateSchedulerInstallComponents x cr)"

lemma Scheduler_Reconcile_skeleton:
  "Scheduler_Reconcile x c req = checkFirst x c req (Scheduler_generate x) Scheduler_steps"
  unfolding Scheduler_Reconcile_def checkFirst_def Scheduler_generate_def
    andThenA_liftA_andThen Let_def ..

lemma Scheduler_deployment:
  assumes "newSchedulerDeployment x cr account cfg = Inr dep"
  shows "ps_ServiceAccountName (pt_Spec (d_Template (dep_Spec dep))) = account"
    "om_Labels (pt_Meta (d_Template (dep_Spec dep))) = AllLabels (crName cr) [crLabels cr]"
    "dep_Meta dep = newMeta (crName cr) (crNamespace cr) (AllLabels (crName cr) [crLabels cr]) Map.empty"
  using assms by (auto simp: newSchedulerDeployment_def CreateProbesWithScheme_def Let_def go_simps)

lemma Scheduler_pod:
  assumes "newSchedulerDeployment x cr account cfg = Inr dep"
    "om_Name (sec_Meta sec) = crName cr" "sec_Data sec (GetConfigFilename (crName cr)) \<noteq> None"
  shows "podOK (csb_ApplicationConfig (cr_Spec cr)) (cr_Spec cr) sec (dep_Spec dep)"
  using assms
  by (auto simp: newSchedulerDeployment_def CreateProbesWithScheme_def Let_def go_simps podOK_def
      zeroContainer_def zeroPodSpec_def
      intro!: mountsConfigOf_append mountsConfigOf_created mountsCovered_intros split: option.splits)

lemma Scheduler_ingress_key:
  "newSchedulerIngressGRPC x cr cfg = Inr (Some i) \<Longrightarrow> metaKey (ing_Meta i) = (crNamespace cr, crName cr @ ''-grpc'')"
  by (auto simp: newSchedulerIngressGRPC_def Let_def go_simps metaKey_def split: if_splits)

lemma Scheduler_generate_Inr:
  assumes "Scheduler_generate x cr = Inr cc"
  obtains cfg sec0 sec sa account dep0 dep grpc0 svc psvc ping mig where
    "CreateSecret x (csb_ApplicationConfig (cr_Spec cr)) (crName cr) (crNamespace cr) (GetConfigFilename (crName cr)) = Inr sec0"
    "SetOwnerReference x ''Scheduler'' (cr_Meta cr) sec_Meta sec_Meta_update sec0 = Inr sec"
    "serviceAccountFor x ''Scheduler'' (cr_Meta cr) (cr_Spec cr) = Inr (sa, account)"
    "newSchedulerDeployment x cr account cfg = Inr dep0"
    "SetOwnerReference x ''Scheduler'' (cr_Meta cr) dep_Meta dep_Meta_update dep0 = Inr dep"
    "newSchedulerIngressGRPC x cr cfg = Inr grpc0"
    "ownIngress x ''Scheduler'' (cr_Meta cr) grpc0 = Inr (cc_IngressGrpc cc)"
    "SetOwnerReference x ''Scheduler'' (cr_Meta cr) svc_Meta svc_Meta_update
       (Service (crName cr) (crNamespace cr) (AllLabels (crName cr) [crLabels cr])
         (IdentityLabel (crName cr)) cfg ServiceEnableApplicationPortsOnly) = Inr svc"
    "newProfilingComponents x ''Scheduler'' (cr_Meta cr) cfg (sd_ProfilingIngressConfig (cr_Spec cr)) = Inr (psvc, ping)"
    "sd_Pruner (cr_Spec cr) \<noteq> None"
    "cc_Secret cc = Some sec" "cc_ServiceAccount cc = sa" "cc_Deployment cc = Some dep" "cc_Service cc = Some svc"
    "cc_ServiceProfiling cc = Some psvc" "cc_IngressProfiling cc = ping" "cc_ClusterRoleBindings cc = []"
    "cc_IngressHttp cc = None" "cc_Jobs cc = [mig]"
  using assms unfolding Scheduler_generate_def generateSchedulerInstallComponents_def Let_def andThen_eq_Inr
  by (clarsimp simp: andThen_eq_Inr noComponents_def newSchedulerCronJob_def deref_eq_Inr Let_def split: prod.splits)

interpretation scheduler: installer "''Scheduler''" Scheduler_generate Scheduler_steps "\<lambda>_. True"
proof
  fix x cc and cr :: Scheduler
  assume law: "ownerLaw x" and gen: "Scheduler_generate x cr = Inr cc"
  from gen show "wellFormedInstall x ''Scheduler'' (cr_Meta cr) (cr_Spec cr) cc"
  proof (rule Scheduler_generate_Inr, goal_cases)
    case (1 cfg sec0 sec sa account dep0 dep grpc0 svc psvc ping mig)
    note d = Scheduler_deployment [OF 1(4)]
    have "ss_Selector (svc_Spec svc) = IdentityLabel (crName cr)"
      using 1(8) by (auto simp: go_simps)
    then show ?case
      by (intro wellFormedInstallI [OF law 1(1,2,11,3,12,5,13) d(3,1) Scheduler_pod [OF 1(4)]])
        (simp_all add: 1(14) d(2))
  qed
  from gen show "distinctSlots cc"
  proof (rule Scheduler_generate_Inr, goal_cases)
    case (1 cfg sec0 sec sa account dep0 dep grpc0 svc psvc ping mig)
    have svc: "metaKey (svc_Meta svc) = (crNamespace cr, crName cr)"
      using 1(8) by (auto simp: go_simps key_of_meta [OF law] metaKey_def ownerLawD(1,2) [OF law])
    have grpc: "metaKey (ing_Meta i) = (crNamespace cr, crName cr @ ''-grpc'')" if "cc_IngressGrpc cc = Some i" for i
      using ownIngress_key [OF law 1(7) that] Scheduler_ingress_key 1(6) by auto
    show ?case
      by (intro distinctSlotsI)
        (auto simp: 1(14-19) svc dest!: grpc newProfilingComponents_names(2) [OF law 1(9)]
          simp: newProfilingComponents_names(1) [OF law 1(9)])
  qed
next
  fix x cc and cr :: Scheduler
  show "stepsOnce (Scheduler_steps cr cc)"
    by (cases "cc_Jobs cc = []") (simp_all add: Scheduler_steps_def stepsOnce_def split: option.split)
qed

text \<open>A Scheduler without a pruner configuration is never installed.\<close>

lemma Scheduler_needs_pruner: "Scheduler_generate x cr = Inr cc \<Longrightarrow> sd_Pruner (cr_Spec cr) \<noteq> None"
  by (rule Scheduler_generate_Inr)

lemma newSchedulerCronJob_panics:
  assumes "JSONToYAML x (csb_ApplicationConfig (cr_Spec cr)) = Inr yaml" "UnmarshalDatabase x yaml = Inr cfg"
    "sd_Pruner (cr_Spec cr) = None"
  shows "newSchedulerCronJob x cr account = Inl (Panic (NilDereference ''Spec.Pruner''))"
  using assms by (simp add: newSchedulerCronJob_def Let_def)

section \<open>What a reconciliation may change\<close>

lemma Scheduler_home:
  "newSchedulerIngressGRPC x cr cfg = Inr (Some i) \<Longrightarrow> om_Namespace (ing_Meta i) = crNamespace cr"
  "newSchedulerMigrationJob x cr account = Inr job \<Longrightarrow> om_Namespace (job_Meta job) = crNamespace cr"
  "newSchedulerCronJob x cr account = Inr cj \<Longrightarrow> om_Namespace (cj_Meta cj) = crNamespace cr"
  "om_Namespace (sm_Meta (newSchedulerServiceMonitor cr p)) = crNamespace cr"
  "om_Namespace (prom_Meta (newSchedulerPrometheusRule x cr p)) = crNamespace cr"
  using Scheduler_ingress_key [of x cr cfg i]
  by (auto simp: metaKey_def newSchedulerMigrationJob_def newSchedulerCronJob_def newSchedulerServiceMonitor_def
      newSchedulerPrometheusRule_def Let_def go_simps)

interpretation schedulerTenant: tenantInstaller "''Scheduler''" Scheduler_generate Scheduler_steps "\<lambda>_. True"
proof
  fix x cc and cr :: Scheduler
  assume law: "ownerLaw x" and gen: "Scheduler_generate x cr = Inr cc"
  from gen show "tenants ''Scheduler'' (cr_Meta cr) cc (touchedSlots (Scheduler_steps cr cc))"
    unfolding Scheduler_generate_def generateSchedulerInstallComponents_def Let_def
    by (clarsimp simp: andThen_eq_Inr noComponents_def split: prod.splits, intro tenantsI)
      (auto simp: CreateSecret_home Scheduler_deployment(3) Scheduler_home monitors_eq elim!: owned_elims [OF law] split: if_splits)
qed (auto simp: Scheduler_steps_def jobSteps_def)

lemma Scheduler_confined:
  assumes laws: "clientLaws c view" "resourceLaw c view" "finalizerLaw x" "ownerLaw x"
    and run: "Scheduler_Reconcile x c req w = (r, w')"
  shows "confined view (reach req) w w'"
  by (rule schedulerTenant.checkFirst_confined [OF laws run [unfolded Scheduler_Reconcile_skeleton]])

end
