(* ===== verification/Binoculars.thy ===== *)
theory Binoculars
  imports Tenancy
begin

text \<open>
  \<open>binoculars_controller.go\<close>: the components of a Binoculars, its reconciliation and the clean-up of its
  cluster-scoped objects. Three pointers are used without a check, and the model panics where the
  code does: the resources, the Ingress configuration once there is a hostname, and both
  Ingresses when there is none.
\<close>

section \<open>Objects\<close>

definition createBinocularsDeployment ::
  "externs \<Rightarrow> Binoculars \<Rightarrow> Secret \<Rightarrow> string \<Rightarrow> CommonApplicationConfig \<Rightarrow> Deployment result" where
  "createBinocularsDeployment x binoculars secret serviceAccountName commonConfig =
     (let spec = cr_Spec binoculars;
          env = createEnv (csb_Environment spec);
          volumes = createVolumes (crName binoculars) (csb_AdditionalVolumes spec);
          volumeMounts = createVolumeMounts (GetConfigFilename (om_Name (sec_Meta secret)))
            (csb_AdditionalVolumeMounts spec);
          (readinessProbe, livenessProbe) =
            CreateProbesWithScheme (GetServerScheme (grpc_TLS (cac_GRPC commonConfig)));
          container = zeroContainer\<lparr>
            c_Name := ''binoculars'',
            c_ImagePullPolicy := ''IfNotPresent'',
            c_Image := ImageString (csb_Image spec),
            c_Args := [appConfigFlag, appConfigFilepath],
            c_Ports := newContainerPortsAll commonConfig,
            c_Env := env,
            c_VolumeMounts := volumeMounts,
            c_SecurityContext := bn_SecurityContext spec,
            c_ReadinessProbe := Some readinessProbe,
            c_LivenessProbe := Some livenessProbe\<rparr>;
          container = (case csb_Resources spec of
              None \<Rightarrow> container | Some resources \<Rightarrow> container\<lparr>c_Resources := resources\<rparr>)
      in andThen (deref ''Spec.Resources'' (csb_Resources spec)) (\<lambda>resources.
         let container = container\<lparr>c_Env := addGoMemLimit x (c_Env container) resources\<rparr>
         in Inr \<lparr>dep_Meta = newMeta (crName binoculars) (crNamespace binoculars)
                (AllLabels (crName binoculars) [crLabels binoculars]) Map.empty,
              dep_Spec = \<lparr>
                d_Replicas = bn_Replicas spec,
                d_Selector = IdentityLabel (crName binoculars),
                d_Template = \<lparr>
                  pt_Meta = newMeta (crName binoculars) (crNamespace binoculars)
                    (AllLabels (crName binoculars) [crLabels binoculars])
                    [''checksum/config'' \<mapsto> GenerateChecksumConfig (csb_ApplicationConfig spec)],
                  pt_Spec = zeroPodSpec\<lparr>
                    ps_ServiceAccountName := serviceAccountName,
                    ps_TerminationGracePeriodSeconds := om_DeletionGracePeriodSeconds (cr_Meta binoculars),
                    ps_SecurityContext := bn_PodSecurityContext spec,
                    ps_Affinity := Some (defaultAffinity (csb_TopologyKey spec) (crName binoculars) 100),
                    ps_Containers := [container],
                    ps_Volumes := volumes\<rparr>\<rparr>,
                d_Strategy = zeroDeploymentStrategy\<rparr>\<rparr>))"

definition createBinocularsClusterRole :: "Binoculars \<Rightarrow> ClusterRole" where
  "createBinocularsClusterRole binoculars =
     (let binocularRules =
            [policyRule [''impersonate''] '''' [''users'', ''groups''],
             policyRule [''get'', ''list'', ''watch'', ''patch''] '''' [''nodes'']]
      in \<lparr>crole_Meta = newMeta (crName binoculars) '''' Map.empty Map.empty,
          crole_Rules = binocularRules\<rparr>)"

definition generateBinocularsClusterRoleBinding :: "Binoculars \<Rightarrow> ClusterRoleBinding" where
  "generateBinocularsClusterRoleBinding binoculars =
     \<lparr>crb_Meta = newMeta (crName binoculars) ''''
        (AllLabels (crName binoculars) [crLabels binoculars]) Map.empty,
      crb_Subjects = [\<lparr>sub_Kind = ''ServiceAccount'', sub_Name = crName binoculars,
                       sub_Namespace = crNamespace binoculars\<rparr>],
      crb_RoleRef = \<lparr>rref_Kind = ''ClusterRole'', rref_APIGroup = ''rbac.authorization.k8s.io'',
                     rref_Name = crName binoculars\<rparr>\<rparr>"

definition createBinocularsIngressGrpc ::
  "externs \<Rightarrow> Binoculars \<Rightarrow> CommonApplicationConfig \<Rightarrow> Ingress option result" where
  "createBinocularsIngressGrpc x binoculars config =
     (let spec = cr_Spec binoculars in
      if length (bn_HostNames spec) = 0 then Inr None
      else andThen (deref ''Spec.Ingress'' (bn_Ingress spec)) (\<lambda>ic.
        let labels = AllLabels (crName binoculars) [csb_Labels spec, ic_Labels ic];
            baseAnnotations = [''nginx.ingress.kubernetes.io/ssl-redirect'' \<mapsto> ''true''];
            annotations = buildIngressAnnotations ic baseAnnotations BackendProtocolGRPC
              (grpc_Enabled (cac_GRPC config))
        in andThen (Ingress (crName binoculars @ ''-grpc'') (crNamespace binoculars) labels annotations
             (bn_HostNames spec) (crName binoculars) (crName binoculars @ ''-service-tls'') ''/''
             (cac_HTTPPort config)) (\<lambda>ingress.
           Inr (Some ingress))))"

definition createBinocularsIngressHttp ::
  "externs \<Rightarrow> Binoculars \<Rightarrow> CommonApplicationConfig \<Rightarrow> Ingress option result" where
  "createBinocularsIngressHttp x binoculars config =
     (let spec = cr_Spec binoculars in
      if length (bn_HostNames spec) = 0 then Inr None
      else andThen (deref ''Spec.Ingress'' (bn_Ingress spec)) (\<lambda>ic.
        let labels = AllLabels (crName binoculars) [csb_Labels spec, ic_Labels ic];
            baseAnnotations = [''nginx.ingress.kubernetes.io/rewrite-target'' \<mapsto> ''/$2'',
                               ''nginx.ingress.kubernetes.io/ssl-redirect'' \<mapsto> ''true''];
            annotations = buildIngressAnnotations ic baseAnnotations BackendProtocolHTTP
              (grpc_Enabled (cac_GRPC config))
        in andThen (Ingress (crName binoculars @ ''-rest'') (crNamespace binoculars) labels annotations
             (bn_HostNames spec) (crName binoculars) (crName binoculars @ ''-service-tls'') ''/api(/|$)(.*)''
             (cac_HTTPPort config)) (\<lambda>ingress.
           Inr (Some ingress))))"

section \<open>Components\<close>

text \<open>\<open>SetOwnerReference\<close> reads the metadata of the Ingress, which is nil when there are no hostnames.\<close>

definition generateBinocularsInstallComponents ::
  "externs \<Rightarrow> Binoculars \<Rightarrow> CommonApplicationConfig \<Rightarrow> CommonComponents result" where
  "generateBinocularsInstallComponents x binoculars config =
     (let spec = cr_Spec binoculars; owner = cr_Meta binoculars in
      andThen (CreateSecret x (csb_ApplicationConfig spec) (crName binoculars) (crNamespace binoculars)
        (GetConfigFilename (crName binoculars))) (\<lambda>secret.
      andThen (SetOwnerReference x ''Binoculars'' owner sec_Meta sec_Meta_update secret) (\<lambda>secret.
      andThen (serviceAccountFor x ''Binoculars'' owner spec) (\<lambda>(serviceAccount, serviceAccountName).
      andThen (createBinocularsDeployment x binoculars secret serviceAccountName config) (\<lambda>deployment.
      andThen (SetOwnerReference x ''Binoculars'' owner dep_Meta dep_Meta_update deployment) (\<lambda>deployment.
      let service = Service (crName binoculars) (crNamespace binoculars)
            (AllLabels (crName binoculars) [crLabels binoculars])
            (IdentityLabel (crName binoculars)) config ServiceEnableApplicationPortsOnly in
      andThen (SetOwnerReference x ''Binoculars'' owner svc_Meta svc_Meta_update service) (\<lambda>service.
      andThen (newProfilingComponents x ''Binoculars'' owner config (bn_ProfilingIngressConfig spec))
        (\<lambda>(profilingService, ingressProfiling).
      andThen (createBinocularsIngressHttp x binoculars config) (\<lambda>ingressHTTP.
      andThen (deref ''ingressHTTP'' ingressHTTP) (\<lambda>ingressHTTP.
      andThen (SetOwnerReference x ''Binoculars'' owner ing_Meta ing_Meta_update ingressHTTP) (\<lambda>ingressHTTP.
      andThen (createBinocularsIngressGrpc x binoculars config) (\<lambda>ingressGRPC.
      andThen (deref ''ingressGRPC'' ingressGRPC) (\<lambda>ingressGRPC.
      andThen (SetOwnerReference x ''Binoculars'' owner ing_Meta ing_Meta_update ingressGRPC) (\<lambda>ingressGRPC.
      let clusterRole = createBinocularsClusterRole binoculars;
          clusterRoleBinding = generateBinocularsClusterRoleBinding binoculars
      in Inr (noComponents\<lparr>
             cc_Deployment := Some deployment,
             cc_Service := Some service,
             cc_ServiceProfiling := Some profilingService,
             cc_ServiceAccount := serviceAccount,
             cc_Secret := Some secret,
             cc_ClusterRole := Some clusterRole,
             cc_ClusterRoleBindings := [clusterRoleBinding],
             cc_IngressGrpc := Some ingressGRPC,
             cc_IngressHttp := Some ingressHTTP,
             cc_IngressProfiling := ingressProfiling\<rparr>)))))))))))))))"

section \<open>Reconciliation\<close>

definition Binoculars_deleteExternalResources ::
  "(BinocularsSpec, unit, 's) client \<Rightarrow> CommonComponents \<Rightarrow> ('s world, unit) action" where
  "Binoculars_deleteExternalResources c components =
     andThenA (deleteExternal c ''ClusterRole'' components SClusterRole) (\<lambda>_.
     deleteExternal c ''ClusterRoleBinding'' components (SClusterRoleBinding 0))"

definition Binoculars_steps :: "Binoculars \<Rightarrow> CommonComponents \<Rightarrow> step list" where
  "Binoculars_steps binoculars components =
     upserts [SServiceAccount, SClusterRole] @
     upserts (map SClusterRoleBinding [0..<length (cc_ClusterRoleBindings components)]) @
     upserts [SSecret, SDeployment, SService, SIngressGrpc, SIngressHttp]"

definition Binoculars_Reconcile ::
  "externs \<Rightarrow> (BinocularsSpec, unit, 's) client \<Rightarrow> string \<times> string \<Rightarrow> ('s world, unit) action" where
  "Binoculars_Reconcile x c req =
     andThenA (getObject c req) (\<lambda>fetched.
     case fetched of None \<Rightarrow> returnA () | Some binoculars \<Rightarrow>
     andThenA (liftA (ParseCommonApplicationConfig x (csb_ApplicationConfig (cr_Spec binoculars))))
       (\<lambda>commonConfig.
     andThenA (liftA (generateBinocularsInstallComponents x binoculars commonConfig)) (\<lambda>components.
     andThenA (allocComponents components None) (\<lambda>_.
     let cleanupF = Binoculars_deleteExternalResources c components in
     andThenA (checkAndHandleObjectDeletion x c binoculars operatorFinalizer (Some cleanupF))
       (\<lambda>(finish, binoculars).
     if finish then returnA () else
     let mutateFn = reconcileMutate (DeepCopy components)
     in runSteps c mutateFn (Binoculars_steps binoculars components))))))"

section \<open>Lemmas\<close>

definition Binoculars_generate :: "externs \<Rightarrow> Binoculars \<Rightarrow> CommonComponents result" where
  "Binoculars_generate x cr =
     andThen (ParseCommonApplicationConfig x (csb_ApplicationConfig (cr_Spec cr)))
       (generateBinocularsInstallComponents x cr)"

lemma Binoculars_Reconcile_skeleton:
  "Binoculars_Reconcile x c req = generateFirst x c req (Binoculars_generate x)
     (\<lambda>components. Some (Binoculars_deleteExternalResources c components)) Binoculars_steps"
  unfolding Binoculars_Reconcile_def generateFirst_def Binoculars_generate_def andThenA_liftA_andThen Let_def ..

lemma Binoculars_deleteExternalResources_calls:
  "keeps (callsOnly (\<lambda>e. \<not> isUpsert e)) (Binoculars_deleteExternalResources c components)"
  unfolding Binoculars_deleteExternalResources_def
  by (auto intro!: callsOnly_andThenA callsOnly_deleteExternal)

lemma Binoculars_deployment:
  assumes "createBinocularsDeployment x cr sec account cfg = Inr dep"
  shows "ps_ServiceAccountName (pt_Spec (d_Template (dep_Spec dep))) = account"
    "om_Labels (pt_Meta (d_Template (dep_Spec dep))) = AllLabels (crName cr) [crLabels cr]"
    "dep_Meta dep = newMeta (crName cr) (crNamespace cr) (AllLabels (crName cr) [crLabels cr]) Map.empty"
    "csb_Resources (cr_Spec cr) \<noteq> None"
  using assms by (auto simp: createBinocularsDeployment_def CreateProbesWithScheme_def Let_def go_simps)

lemma Binoculars_pod:
  assumes "createBinocularsDeployment x cr sec0 account cfg = Inr dep" "om_Name (sec_Meta sec0) = crName cr"
    "om_Name (sec_Meta sec) = crName cr" "sec_Data sec (GetConfigFilename (crName cr)) \<noteq> None"
  shows "podOK (csb_ApplicationConfig (cr_Spec cr)) (cr_Spec cr) sec (dep_Spec dep)"
  using assms
  by (auto simp: createBinocularsDeployment_def CreateProbesWithScheme_def Let_def go_simps podOK_def
      zeroContainer_def zeroPodSpec_def
      intro!: mountsConfigOf_append mountsConfigOf_created mountsCovered_intros split: option.splits)

lemma Binoculars_ingress_keys:
  "createBinocularsIngressGrpc x cr cfg = Inr (Some i) \<Longrightarrow> metaKey (ing_Meta i) = (crNamespace cr, crName cr @ ''-grpc'')"
  "createBinocularsIngressHttp x cr cfg = Inr (Some i) \<Longrightarrow> metaKey (ing_Meta i) = (crNamespace cr, crName cr @ ''-rest'')"
  by (auto simp: createBinocularsIngressGrpc_def createBinocularsIngressHttp_def Let_def go_simps metaKey_def
      split: if_splits)

lemma Binoculars_generate_Inr:
  assumes "Binoculars_generate x cr = Inr cc"
  obtains cfg sec0 sec sa account dep0 dep http0 http grpc0 grpc svc psvc ping where
    "CreateSecret x (csb_ApplicationConfig (cr_Spec cr)) (crName cr) (crNamespace cr) (GetConfigFilename (crName cr)) = Inr sec0"
    "SetOwnerReference x ''Binoculars'' (cr_Meta cr) sec_Meta sec_Meta_update sec0 = Inr sec"
    "serviceAccountFor x ''Binoculars'' (cr_Meta cr) (cr_Spec cr) = Inr (sa, account)"
    "createBinocularsDeployment x cr sec account cfg = Inr dep0"
    "SetOwnerReference x ''Binoculars'' (cr_Meta cr) dep_Meta dep_Meta_update dep0 = Inr dep"
    "createBinocularsIngressHttp x cr cfg = Inr (Some http0)"
    "SetOwnerReference x ''Binoculars'' (cr_Meta cr) ing_Meta ing_Meta_update http0 = Inr http"
    "createBinocularsIngressGrpc x cr cfg = Inr (Some grpc0)"
    "SetOwnerReference x ''Binoculars'' (cr_Meta cr) ing_Meta ing_Meta_update grpc0 = Inr grpc"
    "SetOwnerReference x ''Binoculars'' (cr_Meta cr) svc_Meta svc_Meta_update
       (Service (crName cr) (crNamespace cr) (AllLabels (crName cr) [crLabels cr])
         (IdentityLabel (crName cr)) cfg ServiceEnableApplicationPortsOnly) = Inr svc"
    "newProfilingComponents x ''Binoculars'' (cr_Meta cr) cfg (bn_ProfilingIngressConfig (cr_Spec cr)) = Inr (psvc, ping)"
    "cc_Secret cc = Some sec" "cc_ServiceAccount cc = sa" "cc_Deployment cc = Some dep" "cc_Service cc = Some svc"
    "cc_ServiceProfiling cc = Some psvc" "cc_IngressProfiling cc = ping"
    "cc_ClusterRoleBindings cc = [generateBinocularsClusterRoleBinding cr]"
    "cc_ClusterRole cc = Some (createBinocularsClusterRole cr)"
    "cc_IngressHttp cc = Some http" "cc_IngressGrpc cc = Some grpc" "cc_Jobs cc = []"
  using assms unfolding Binoculars_generate_def generateBinocularsInstallComponents_def Let_def andThen_eq_Inr
  by (clarsimp simp: andThen_eq_Inr deref_eq_Inr noComponents_def split: prod.splits)

interpretation binoculars: installer "''Binoculars''" Binoculars_generate Binoculars_steps "\<lambda>_. True"
proof
  fix x cc and cr :: Binoculars
  assume law: "ownerLaw x" and gen: "Binoculars_generate x cr = Inr cc"
  from gen show "wellFormedInstall x ''Binoculars'' (cr_Meta cr) (cr_Spec cr) cc"
  proof (rule Binoculars_generate_Inr, goal_cases)
    case (1 cfg sec0 sec sa account dep0 dep http0 http grpc0 grpc svc psvc ping)
    note d = Binoculars_deployment [OF 1(4)]
    have sec: "om_Name (sec_Meta sec) = crName cr"
      using 1(1,2) by (auto simp: go_simps ownerLawD(1) [OF law])
    have "ss_Selector (svc_Spec svc) = IdentityLabel (crName cr)"
      using 1(10) by (auto simp: go_simps)
    then show ?case
      by (intro wellFormedInstallI [OF law 1(1,2,12,3,13,5,14) d(3,1) Binoculars_pod [OF 1(4) sec]])
        (simp_all add: 1(15) d(2))
  qed
  from gen show "distinctSlots cc"
  proof (rule Binoculars_generate_Inr, goal_cases)
    case (1 cfg sec0 sec sa account dep0 dep http0 http grpc0 grpc svc psvc ping)
    have svc: "metaKey (svc_Meta svc) = (crNamespace cr, crName cr)"
      using 1(10) by (auto simp: go_simps key_of_meta [OF law] metaKey_def ownerLawD(1,2) [OF law])
    have http: "metaKey (ing_Meta http) = (crNamespace cr, crName cr @ ''-rest'')"
      using 1(7) Binoculars_ingress_keys(2) [OF 1(6)] by (auto simp: go_simps key_of_meta [OF law])
    have grpc: "metaKey (ing_Meta grpc) = (crNamespace cr, crName cr @ ''-grpc'')"
      using 1(9) Binoculars_ingress_keys(1) [OF 1(8)] by (auto simp: go_simps key_of_meta [OF law])
    show ?case
      by (intro distinctSlotsI)
        (auto simp: 1(15-22) svc http grpc dest!: newProfilingComponents_names(2) [OF law 1(11)]
          simp: newProfilingComponents_names(1) [OF law 1(11)])
  qed
next
  fix x cc and cr :: Binoculars
  show "stepsOnce (Binoculars_steps cr cc)"
    by (auto simp: Binoculars_steps_def stepsOnce_def distinct_map inj_on_def comp_def filter_map)
qed

lemma Binoculars_cluster:
  assumes "Binoculars_generate x cr = Inr cc"
  shows "cc_ClusterRole cc = Some (createBinocularsClusterRole cr)"
    "cc_ClusterRoleBindings cc = [generateBinocularsClusterRoleBinding cr]"
  using assms by (auto elim: Binoculars_generate_Inr)

text \<open>What a Binoculars needs to be installed at all: resources, hostnames and an Ingress configuration.\<close>

lemma Binoculars_needs:
  assumes "Binoculars_generate x cr = Inr cc"
  shows "csb_Resources (cr_Spec cr) \<noteq> None" "bn_HostNames (cr_Spec cr) \<noteq> []" "bn_Ingress (cr_Spec cr) \<noteq> None"
  using assms
  by (auto elim!: Binoculars_generate_Inr dest!: Binoculars_deployment(4)
      simp: createBinocularsIngressHttp_def Let_def go_simps split: if_splits)

text \<open>Without hostnames there is no Ingress to own, and the generator dereferences it.\<close>

lemma Binoculars_no_hostnames:
  assumes "JSONToYAML x (csb_ApplicationConfig (cr_Spec cr)) = Inr yaml" "UnmarshalCommon x yaml defaultCommonConfig = Inr cfg"
    and own: "\<forall>kind owner m. \<exists>m'. SetOwner x kind owner m = Inr m'"
    and spec: "csb_Resources (cr_Spec cr) = Some res" "bn_ProfilingIngressConfig (cr_Spec cr) = None"
    "bn_HostNames (cr_Spec cr) = []"
  shows "Binoculars_generate x cr = Inl (Panic (NilDereference ''ingressHTTP''))"
proof -
  obtain f where f: "\<And>kind owner m. SetOwner x kind owner m = Inr (f kind owner m)" using own by metis
  show ?thesis
    using assms(1,2) spec
    by (simp add: Binoculars_generate_def ParseCommonApplicationConfig_def generateBinocularsInstallComponents_def
        CreateSecret_def SetOwnerReference_def serviceAccountFor_def createBinocularsDeployment_def
        CreateProbesWithScheme_def newProfilingComponents_def newProfilingService_def createBinocularsIngressHttp_def
        f Let_def del: SetOwnerReference_eq_Inr)
qed

section \<open>What a reconciliation may change\<close>

lemma Binoculars_home:
  "createBinocularsIngressHttp x cr cfg = Inr (Some i) \<Longrightarrow> om_Namespace (ing_Meta i) = crNamespace cr"
  "createBinocularsIngressGrpc x cr cfg = Inr (Some i) \<Longrightarrow> om_Namespace (ing_Meta i) = crNamespace cr"
  "om_Name (crole_Meta (createBinocularsClusterRole cr)) = crName cr"
  "om_Name (crb_Meta (generateBinocularsClusterRoleBinding cr)) = crName cr"
  using Binoculars_ingress_keys [of x cr cfg i]
  by (auto simp: metaKey_def createBinocularsClusterRole_def generateBinocularsClusterRoleBinding_def Let_def)

interpretation binocularsTenant: tenantInstaller "''Binoculars''" Binoculars_generate Binoculars_steps "\<lambda>_. True"
proof
  fix x cc and cr :: Binoculars
  assume law: "ownerLaw x" and gen: "Binoculars_generate x cr = Inr cc"
  from gen show "tenants ''Binoculars'' (cr_Meta cr) cc (touchedSlots (Binoculars_steps cr cc))"
    unfolding Binoculars_generate_def generateBinocularsInstallComponents_def Let_def
    by (clarsimp simp: andThen_eq_Inr noComponents_def deref_eq_Inr split: prod.splits, intro tenantsI)
      (auto simp: CreateSecret_home Binoculars_deployment(3) Binoculars_home elim!: owned_elims [OF law] split: if_splits)
qed (auto simp: Binoculars_steps_def jobSteps_def)

lemma Binoculars_cleanup_deletes:
  assumes "deleteLaw c view" "Binoculars_generate x cr = Inr cc"
  shows "deletesAt view cc (touchedSlots (Binoculars_steps cr cc)) (Binoculars_deleteExternalResources c cc)"
proof -
  from assms(2) have "length (cc_ClusterRoleBindings cc) = 1" by (rule Binoculars_generate_Inr) simp
  then show ?thesis
    unfolding Binoculars_deleteExternalResources_def
    by (auto simp: Binoculars_steps_def intro!: deletesAt_andThenA deletesAt_deleteExternal [OF assms(1)])
qed

lemma Binoculars_confined:
  assumes laws: "clientLaws c view" "resourceLaw c view" "finalizerLaw x" "ownerLaw x"
    and run: "Binoculars_Reconcile x c req w = (r, w')"
  shows "confined view (reach req) w w'"
  by (rule binocularsTenant.generateFirst_confined [OF laws _ run [unfolded Binoculars_Reconcile_skeleton]])
    (auto intro: Binoculars_cleanup_deletes clientLawsD(3) [OF laws(1)])

end
