(* ===== verification/Healthy.thy ===== *)
theory Healthy
  imports LookoutIngester SchedulerIngester EventIngester Executor ArmadaServer Lookout Scheduler Binoculars
begin

text \<open>
  Progress: on a healthy server, one whose calls succeed and whose Jobs finish, a reconciliation
  whose components can be generated returns without an error. With the lemmas of \<open>Reconciling\<close>,
  which say what holds when it does, this is the liveness half of every controller.
\<close>

section \<open>A healthy server\<close>

text \<open>
  \<open>CreateOrUpdate\<close> succeeds when the mutate function does and keeps the object's key; a delete
  succeeds or finds nothing; a Job that exists can be read and is finished; polling calls its
  condition at least once; a status update succeeds.
\<close>

definition healthyUpsert :: "('spec, 'status, 's) client \<Rightarrow> bool" where
  "healthyUpsert c \<longleftrightarrow> (\<forall>a f h s ob. load a h = Some ob \<longrightarrow>
     (\<forall>h1. touched a h h1 \<longrightarrow> (\<exists>h2 sent. f h1 = (Inr (), h2) \<and> load a h2 = Some sent \<and> keyOf sent = keyOf ob)) \<longrightarrow>
     fst (c_CreateOrUpdate c a f (h, s)) = Inr ())"

definition healthyDelete :: "('spec, 'status, 's) client \<Rightarrow> bool" where
  "healthyDelete c \<longleftrightarrow> (\<forall>ob s e. fst (c_Delete c ob s) = Inl e \<longrightarrow> isNotFound e)"

definition jobsFinish :: "('spec, 'status, 's) client \<Rightarrow> 's view \<Rightarrow> bool" where
  "jobsFinish c view \<longleftrightarrow> (\<forall>ns n s. (\<exists>j. view s (JobKind, ns, n) = Some (KJob j)) \<longrightarrow>
     (\<exists>job. fst (c_GetJob c (ns, n) s) = Inr job \<and> isJobFinished job))"

definition healthyPoll :: "('spec, 'status, 's) client \<Rightarrow> bool" where
  "healthyPoll c \<longleftrightarrow> (\<forall>i t cond w. positive i \<longrightarrow> positive t \<longrightarrow> unat i \<le> unat t \<longrightarrow>
     (\<exists>n. c_Poll c i t False cond w = pollFor (Suc n) cond w))"

definition healthyStatus :: "('spec, 'status, 's) client \<Rightarrow> bool" where
  "healthyStatus c \<longleftrightarrow> (\<forall>cr s. \<exists>cr'. fst (c_StatusUpdate c cr s) = Inr cr')"

definition healthy :: "('spec, 'status, 's) client \<Rightarrow> 's view \<Rightarrow> bool" where
  "healthy c view \<longleftrightarrow> healthyUpsert c \<and> healthyDelete c \<and> jobsFinish c view \<and> healthyPoll c \<and> healthyStatus c"

section \<open>Steps that can run\<close>

text \<open>A Job is waited for right after it was upserted: \<open>prev\<close> is the address of the upsert before.\<close>

fun ready :: "heap \<Rightarrow> addr option \<Rightarrow> step list \<Rightarrow> bool" where
  "ready h prev [] \<longleftrightarrow> True"
| "ready h prev (Upsert a # sts) \<longleftrightarrow> ready h (Some a) sts"
| "ready h prev (DeleteObject a # sts) \<longleftrightarrow> ready h None sts"
| "ready h prev (WaitJob a # sts) \<longleftrightarrow> prev = Some a \<and> (\<exists>j. load a h = Some (KJob j)) \<and> ready h prev sts"

lemma ready_upserts: "(\<And>p. ready h p sts) \<Longrightarrow> ready h prev (upserts ss @ sts)"
  by (induction ss arbitrary: prev) auto

lemma ready_upserts_end: "ready h prev (upserts ss)"
  using ready_upserts [of h "[]" prev ss] by simp

lemma ready_jobSteps:
  assumes "\<And>i. i < n \<Longrightarrow> \<exists>j. load (InComponents (SJob i)) h = Some (KJob j)" "\<And>p. ready h p sts"
  shows "ready h prev (jobSteps n @ sts)"
proof -
  have "ready h prev (concat (map (\<lambda>i. [Upsert (InComponents (SJob i)), WaitJob (InComponents (SJob i))]) is) @ sts)"
    if "set is \<subseteq> {..<n}" for "is" prev
    using that by (induction "is" arbitrary: prev) (use assms in auto)
  from this [of "[0..<n]" prev] show ?thesis by (simp add: jobSteps_def atLeast0LessThan)
qed

section \<open>Each step succeeds\<close>

lemma upsert_stored:
  assumes "upsertLawOn K c view" "keyOf ob \<in> K" "load a (w_Heap w) = Some ob" "upsertObjectIfNeeded c a f w = (Inr (), w')"
  shows "\<exists>stored. view (w_Srv w') (keyOf ob) = Some stored \<and> kindOf stored = addrKind a"
proof -
  obtain h' s' where co: "c_CreateOrUpdate c a f (w_Heap w, w_Srv w) = (Inr (), (h', s'))"
    and w': "w' = (logCall (EvUpsert a) w)\<lparr>w_Heap := h', w_Srv := s'\<rparr>"
    using assms(3,4) by (auto simp: upsertObjectIfNeeded_def isNilAt_def split: prod.splits)
  from assms(1-3) co obtain h2 sent stored where s: "load a h2 = Some sent" "view s' (keyOf ob) = Some stored"
    "ownedFields stored = ownedFields sent"
    unfolding upsertLawOn_def by blast
  have "kindOf stored = addrKind a"
    using arg_cong [OF s(3), of kindOf] load_kind [OF s(1)] by (simp add: ownedFields_def)
  with s(2) w' show ?thesis by simp
qed

lemma upsert_healthy:
  assumes h: "healthyUpsert c" and keys: "sameKeys (w_Heap w) h0" and gen: "generated h0 new"
  shows "fst (upsertObjectIfNeeded c a (reconcileMutate new) w) = Inr ()"
proof (cases "load a (w_Heap w)")
  case None
  then show ?thesis by (simp add: upsert_nil)
next
  case (Some ob)
  from gen have new: "h_Components h0 = new" "cc_Secret new \<noteq> None" "cc_Deployment new \<noteq> None"
    by (simp_all add: generated_def)
  have "\<exists>h2 sent. reconcileMutate new h1 = (Inr (), h2) \<and> load a h2 = Some sent \<and> keyOf sent = keyOf ob"
    if "touched a (w_Heap w) h1" for h1
  proof -
    have "sameKeys h1 h0" using touched_sameKeys [OF that] keys by (rule sameKeys_trans)
    then obtain h2 where h2: "reconcileMutate new h1 = (Inr (), h2)" "sameKeys h2 h0"
      using reconcileMutate_run [OF _ new] by metis
    obtain n where n: "load a h0 = Some n" "keyOf ob = keyOf n" using sameKeys_Some(2) [OF keys Some] by blast
    with sameKeys_Some(1) [OF h2(2) n(1)] h2(1) show ?thesis by metis
  qed
  with h Some have "fst (c_CreateOrUpdate c a (reconcileMutate new) (w_Heap w, w_Srv w)) = Inr ()"
    unfolding healthyUpsert_def by blast
  with Some show ?thesis by (auto simp: upsertObjectIfNeeded_def isNilAt_def split: prod.split)
qed

lemma delete_healthy: "healthyDelete c \<Longrightarrow> fst (deleteObjectIfNeeded c a w) = Inr ()"
  unfolding healthyDelete_def
  by (auto simp: deleteObjectIfNeeded_def isNilAt_def ignoreNotFound_def deleteObject_def onServer_def
      split: prod.split option.split sum.split) (metis fst_conv)+

lemma wait_healthy:
  assumes jobs: "jobsFinish c view" "healthyPoll c"
    and job: "load a (w_Heap w) = Some (KJob job)" "\<exists>j. view (w_Srv w) (keyOf (KJob job)) = Some (KJob j)"
  shows "fst (waitForJob c a jobPollInterval jobTimeout w) = Inr ()"
proof -
  have "unat jobPollInterval \<le> unat jobTimeout" by (simp add: jobTimeout_def jobPollInterval_def)
  then obtain n where n: "waitForJob c a jobPollInterval jobTimeout w = pollFor (Suc n) (pollJob c a) w"
    using jobs(2) poll_budget(2,3) unfolding healthyPoll_def waitForJob_def by blast
  from jobs(1) job(2) obtain j where "fst (c_GetJob c (om_Namespace (job_Meta job), om_Name (job_Meta job)) (w_Srv w)) = Inr j"
    "isJobFinished j" unfolding jobsFinish_def keyOf_def by (metis kindOf.simps(11) metaOf.simps(11))
  then have "fst (pollJob c a w) = Inr True"
    using job(1) by (auto simp: pollJob_def onServer_def andThenA_def split: prod.split)
  then show ?thesis unfolding n by (auto simp: andThenA_def split: prod.split)
qed

text \<open>What the upsert before has left on the server.\<close>

definition storedAt :: "'s view \<Rightarrow> heap \<Rightarrow> addr option \<Rightarrow> 's world \<Rightarrow> bool" where
  "storedAt view h0 prev w \<longleftrightarrow> (\<forall>a n. prev = Some a \<longrightarrow> load a h0 = Some n \<longrightarrow>
     (\<exists>stored. view (w_Srv w) (keyOf n) = Some stored \<and> kindOf stored = addrKind a))"

lemma storedAt_None [simp]: "storedAt view h0 None w"
  by (simp add: storedAt_def)

text \<open>The keys of the objects that a plan upserts.\<close>

definition upsertsWithin :: "objkey set \<Rightarrow> heap \<Rightarrow> step list \<Rightarrow> bool" where
  "upsertsWithin K h0 sts \<longleftrightarrow> (\<forall>a n. Upsert a \<in> set sts \<longrightarrow> load a h0 = Some n \<longrightarrow> keyOf n \<in> K)"

lemma upsertsWithin_UNIV [simp]: "upsertsWithin UNIV h0 sts"
  by (simp add: upsertsWithin_def)

lemma upsertsWithin_Cons: "upsertsWithin K h0 (st # sts) \<Longrightarrow> upsertsWithin K h0 sts"
  by (simp add: upsertsWithin_def)

lemma runSteps_healthy:
  assumes laws: "clientLawsOn K c view" and healthy: "healthy c view" and gen: "generated h0 new"
  shows "sameKeys (w_Heap w) h0 \<Longrightarrow> storedAt view h0 prev w \<Longrightarrow> ready h0 prev sts \<Longrightarrow> upsertsWithin K h0 sts \<Longrightarrow>
    \<exists>w'. runSteps c (reconcileMutate new) sts w = (Inr (), w')"
proof (induction sts arbitrary: w prev)
  case Nil
  then show ?case by simp
next
  case (Cons st sts)
  let ?m = "reconcileMutate new"
  note hd = healthy [unfolded healthy_def]
  obtain r1 w1 where st: "runStep c ?m st w = (r1, w1)" by fastforce
  note s1 = runStep_run [OF laws Cons.prems(1) gen st]
  have "r1 = Inr () \<and> (\<exists>p. storedAt view h0 p w1 \<and> ready h0 p sts)"
  proof (cases st)
    case (Upsert a)
    have r: "r1 = Inr ()" using upsert_healthy [of c, OF _ Cons.prems(1) gen, of a] hd st Upsert by simp
    have "storedAt view h0 (Some a) w1"
    proof -
      have "\<exists>stored. view (w_Srv w1) (keyOf n) = Some stored \<and> kindOf stored = addrKind a" if n: "load a h0 = Some n" for n
      proof -
        obtain ob where ob: "load a (w_Heap w) = Some ob" "keyOf ob = keyOf n"
          using sameKeys_Some(1) [OF Cons.prems(1) n] by blast
        with upsert_stored [OF clientLawsD(1) [OF laws] _ ob(1)] st r Upsert Cons.prems(4) n show ?thesis by (simp add: upsertsWithin_def)
      qed
      then show ?thesis by (simp add: storedAt_def)
    qed
    with r Cons.prems(3) Upsert show ?thesis by auto
  next
    case (DeleteObject a)
    have "r1 = Inr ()" using delete_healthy [of c a w] hd st DeleteObject by simp
    with Cons.prems(3) DeleteObject show ?thesis using storedAt_None by fastforce
  next
    case (WaitJob a)
    with Cons.prems(3) obtain j where prev: "prev = Some a" and j: "load a h0 = Some (KJob j)"
      and rest: "ready h0 prev sts" by auto
    obtain ob where ob: "load a (w_Heap w) = Some ob" "keyOf ob = keyOf (KJob j)"
      using sameKeys_Some(1) [OF Cons.prems(1) j] by blast
    then obtain job where job: "ob = KJob job" by (cases ob) (auto simp: keyOf_def)
    have "addrKind a = JobKind" using load_kind [OF j] by simp
    then obtain stored where "view (w_Srv w) (keyOf (KJob job)) = Some stored" "kindOf stored = JobKind"
      using Cons.prems(2) prev j ob(2) job unfolding storedAt_def by metis
    then have "\<exists>j. view (w_Srv w) (keyOf (KJob job)) = Some (KJob j)" by (cases stored) auto
    then have r: "r1 = Inr ()" using wait_healthy [of c view a w job] ob(1) job hd st WaitJob by simp
    have w1: "waitForJob c a jobPollInterval jobTimeout w = (r1, w1)" using st WaitJob by simp
    have "view (w_Srv w1) = view (w_Srv w)"
      using wait_run(1) [OF clientLawsD(2,4) [OF laws] Cons.prems(1) w1] by (simp add: polled_def)
    with Cons.prems(2) r rest show ?thesis unfolding storedAt_def by metis
  qed
  then obtain p where r: "r1 = Inr ()" and p: "storedAt view h0 p w1" "ready h0 p sts" by blast
  from Cons.IH [OF s1(1) p] upsertsWithin_Cons [OF Cons.prems(4)] r st show ?case by (simp add: andThenA_def)
qed

lemma startsRun_healthy:
  assumes "clientLawsOn K c view" "healthy c view" "generated (heapOf cc job) cc"
    "startsRun c cc job sts m w" "ready (heapOf cc job) None sts" "upsertsWithin K (heapOf cc job) sts"
  shows "\<exists>w'. m w = (Inr (), w')"
proof -
  from assms(4) obtain w1 where w1: "m w = runSteps c (reconcileMutate cc) sts w1" "w_Heap w1 = heapOf cc job"
    by (auto simp: startsRun_def)
  have "sameKeys (w_Heap w1) (heapOf cc job)" using w1(2) by simp
  from runSteps_healthy [OF assms(1-3) this storedAt_None assms(5,6)] w1(1) show ?thesis by simp
qed

section \<open>The reference server is healthy\<close>

text \<open>A timeout no shorter than the interval leaves time for one call.\<close>

lemma polls_once:
  fixes i t :: int64
  assumes "positive i" "positive t" "unat i \<le> unat t"
  obtains n where "unat t div unat i = Suc n"
proof -
  from assms have "unat t div unat i \<noteq> 0" by (simp add: div_eq_0_iff word_sless_alt unat_eq_zero) fastforce
  with that show thesis using not0_implies_Suc by blast
qed

lemma healthy_refClient [simp]: "healthy refClient refView"
proof -
  have "healthyUpsert (refClient :: ('spec, 'status, _) client)"
    unfolding healthyUpsert_def
  proof (intro allI impI)
    fix a h ob and f :: "(heap, unit) action" and s :: "('spec, 'status) refServer"
    assume ob: "load a h = Some ob" and f: "\<forall>h1. touched a h h1 \<longrightarrow>
      (\<exists>h2 sent. f h1 = (Inr (), h2) \<and> load a h2 = Some sent \<and> keyOf sent = keyOf ob)"
    define h1 where "h1 = (case rs_Objects s (keyOf ob) of
        Some existing \<Rightarrow> if keyOf existing = keyOf ob then store a existing h else h | None \<Rightarrow> h)"
    have "touched a h h1" using ob by (auto simp: touched_def h1_def split: option.split)
    with f obtain h2 sent where "f h1 = (Inr (), h2)" "load a h2 = Some sent" "keyOf sent = keyOf ob" by blast
    with ob show "fst (c_CreateOrUpdate (refClient :: ('spec, 'status, _) client) a f (h, s)) = Inr ()"
      by (simp add: refUpsert_def Let_def flip: h1_def)
  qed
  moreover have "healthyDelete (refClient :: ('spec, 'status, _) client)"
    by (auto simp: healthyDelete_def refClient_def split: option.splits)
  moreover have "healthyPoll (refClient :: ('spec, 'status, _) client)"
    unfolding healthyPoll_def
  proof (intro allI impI)
    fix i t :: int64 and cond and w :: "('spec, 'status) refServer world"
    assume "positive i" "positive t" "unat i \<le> unat t"
    then obtain n where "unat t div unat i = Suc n" by (rule polls_once)
    then show "\<exists>n. c_Poll refClient i t False cond w = pollFor (Suc n) cond w" by auto
  qed
  moreover have "healthyStatus (refClient :: ('spec, 'status, _) client)"
    by (simp add: healthyStatus_def)
  moreover have "jobsFinish (refClient :: ('spec, 'status, _) client) refView"
    by (auto simp: jobsFinish_def refGetJob_def isJobFinished_def)
  ultimately show ?thesis by (simp add: healthy_def)
qed

section \<open>Every controller makes progress\<close>

text \<open>A run that starts on a healthy server ends without an error, with everything installed.\<close>

context installer
begin

lemma run_converges_on:
  assumes "clientLawsOn K c view" "healthy c view" "ownerLaw x" "generate x cr = Inr cc" "separate cr"
    "startsRun c cc None (steps cr cc) m w" "ready (heapOf cc None) None (steps cr cc)"
    "upsertsWithin K (heapOf cc None) (steps cr cc)"
  shows "\<exists>w'. m w = (Inr (), w') \<and> (\<forall>s \<in> upsertedSlots (steps cr cc). managed s \<longrightarrow> derefSlot cc s \<noteq> None \<longrightarrow>
    installed view cc s w')"
proof -
  obtain w' where w': "m w = (Inr (), w')"
    using startsRun_healthy [OF assms(1,2) required [OF assms(3,4)] assms(6-8)] by blast
  moreover have "installed view cc s w'" if "s \<in> upsertedSlots (steps cr cc)" "managed s" "derefSlot cc s = Some n" for s n
    using run_installs_on [OF assms(1,3-6) w' _ that] that(1,3) assms(8)
    by (simp add: upsertsWithin_def upsertedSlots_def)
  ultimately show ?thesis by blast
qed

lemma run_converges:
  assumes "clientLaws c view" "healthy c view" "ownerLaw x" "generate x cr = Inr cc" "separate cr"
    "startsRun c cc None (steps cr cc) m w" "ready (heapOf cc None) None (steps cr cc)"
  shows "\<exists>w'. m w = (Inr (), w') \<and> (\<forall>s \<in> upsertedSlots (steps cr cc). managed s \<longrightarrow> derefSlot cc s \<noteq> None \<longrightarrow>
    installed view cc s w')"
  by (rule run_converges_on [OF assms upsertsWithin_UNIV])

end

lemma derefSlot_SJob: "i < length (cc_Jobs cc) \<Longrightarrow> \<exists>j. load (InComponents (SJob i)) (heapOf cc job) = Some (KJob j)"
  by simp

lemma ArmadaServer_ready: "ready (heapOf cc job) p (ArmadaServer_steps cr cc)"
  unfolding ArmadaServer_steps_def
  by (intro ready_upserts) (auto intro!: ready_jobSteps ready_upserts_end derefSlot_SJob simp del: list.map)

lemma Scheduler_ready: "ready (heapOf cc job) p (Scheduler_steps cr cc)"
  by (auto simp: Scheduler_steps_def split: option.split)

lemma Lookout_ready: "ready (heapOf cc job) p (Lookout_steps cr cc)"
proof -
  have "ready (heapOf cc job) q ((case lk_DbPruningEnabled (cr_Spec cr) of
        Some True \<Rightarrow> [Upsert (InComponents SCronJob)]
      | _ \<Rightarrow> [DeleteObject (InComponents SCronJob)]) @ upserts [SServiceMonitor])" for q
    by (auto split: option.split bool.split)
  then show ?thesis
    unfolding Lookout_steps_def by (intro ready_upserts ready_jobSteps derefSlot_SJob)
qed

lemma Executor_ready: "ready (heapOf cc job) p (Executor_steps cr cc)"
  unfolding Executor_steps_def by (intro ready_upserts ready_upserts_end)

lemma Binoculars_ready: "ready (heapOf cc job) p (Binoculars_steps cr cc)"
  unfolding Binoculars_steps_def by (intro ready_upserts ready_upserts_end)

lemma ingesters_ready:
  "ready (heapOf cc job) p (EventIngester_steps ei cc)" "ready (heapOf cc job) p (LookoutIngester_steps li cc)"
  "ready (heapOf cc job) p (SchedulerIngester_steps si cc)"
  by (simp_all add: EventIngester_steps_def LookoutIngester_steps_def SchedulerIngester_steps_def)

text \<open>Lookout goes on after its steps: the tail cannot fail on a healthy server either.\<close>

lemma leaveExistingJob_healthy:
  assumes "healthyUpsert c" "load PartitionJob (w_Heap w) = Some ob"
  shows "fst (upsertObjectIfNeeded c PartitionJob leaveExistingJob w) = Inr ()"
proof -
  have "\<exists>h2 sent. leaveExistingJob h1 = (Inr (), h2) \<and> load PartitionJob h2 = Some sent \<and> keyOf sent = keyOf ob"
    if "touched PartitionJob (w_Heap w) h1" for h1
    using touched_sameKeys [OF that] sameKeys_Some(1) assms(2) by (fastforce simp: leaveExistingJob_def)
  with assms have "fst (c_CreateOrUpdate c PartitionJob leaveExistingJob (w_Heap w, w_Srv w)) = Inr ()"
    unfolding healthyUpsert_def by blast
  with assms(2) show ?thesis by (auto simp: upsertObjectIfNeeded_def isNilAt_def split: prod.split)
qed

lemma statusUpdate_healthy:
  assumes "healthyStatus c"
  shows "fst (andThenA (onServer (c_StatusUpdate c cr)) (\<lambda>_. returnA ()) w) = Inr ()"
proof -
  obtain cr' s' where "c_StatusUpdate c cr (w_Srv w) = (Inr cr', s')"
    using assms unfolding healthyStatus_def by (metis prod.collapse)
  then show ?thesis by (simp add: onServer_def andThenA_def)
qed

lemma Lookout_tail_healthy:
  assumes laws: "clientLaws c view" and h: "healthy c view"
    and keys: "sameKeys (w_Heap w) (heapOf cc job)" and jobs: "cc_Jobs cc \<noteq> []"
  shows "fst (Lookout_partitionJobTable x c cr w) = Inr ()"
proof -
  obtain j where "load (InComponents (SJob 0)) (heapOf cc job) = Some (KJob j)" using jobs by auto
  from sameKeys_Some(1) [OF keys this] obtain mig where mig: "load (InComponents (SJob 0)) (w_Heap w) = Some (KJob mig)"
    by (auto dest!: keyOf_kind split: if_splits)
  show ?thesis
  proof (cases "load PartitionJob (w_Heap w) \<noteq> None \<and> getTrueJobCondition mig JobComplete \<noteq> None")
    case False
    with mig show ?thesis by (auto simp: Lookout_partitionJobTable_def simp del: load.simps)
  next
    case True
    then obtain ob where ob: "load PartitionJob (w_Heap w) = Some ob" by blast
    have hu: "healthyUpsert c" and hs: "healthyStatus c" using h by (simp_all add: healthy_def)
    obtain w1 where up: "upsertObjectIfNeeded c PartitionJob leaveExistingJob w = (Inr (), w1)"
      using leaveExistingJob_healthy [OF hu ob] by (metis prod.collapse)
    have "sameKeys (w_Heap w1) (w_Heap w)"
      using leaveExistingJob_keys [OF clientLawsD(1) [OF laws] ob up] .
    then obtain pj where "load PartitionJob (w_Heap w1) = Some (KJob pj)"
      using sameKeys_Some(1) [OF _ ob] load_kind [of PartitionJob "w_Heap w1"] by auto
    then have "fst (Lookout_updateStatus x c cr w1) = Inr ()"
      using statusUpdate_healthy [OF hs] by (simp add: Lookout_updateStatus_def Let_def split_beta del: load.simps)
    with True mig up show ?thesis by (simp add: Lookout_partitionJobTable_def andThenA_def del: load.simps)
  qed
qed

lemma Lookout_progress:
  assumes laws: "clientLaws c view" "healthy c view" "ownerLaw x"
    and start: "fetches c req w cr" "live x cr" "Lookout_generateAll x cr = Inr (cc, job)"
  shows "\<exists>w'. Lookout_Reconcile x c req w = (Inr (), w')"
proof -
  obtain w1 where w1: "Lookout_Reconcile x c req w =
      andThenA (runSteps c (reconcileMutate cc) (Lookout_steps cr cc)) (\<lambda>_. Lookout_partitionJobTable x c cr) w1"
    "w_Heap w1 = heapOf cc job" using Lookout_Reconcile_live [OF start] .
  have gen: "generated (heapOf cc job) cc"
    using lookout.required [OF laws(3)] start(3) by (auto simp: Lookout_generate_eq_Inr)
  have k1: "sameKeys (w_Heap w1) (heapOf cc job)" using w1(2) by simp
  obtain w2 where w2: "runSteps c (reconcileMutate cc) (Lookout_steps cr cc) w1 = (Inr (), w2)"
    using runSteps_healthy [OF laws(1,2) gen k1 storedAt_None Lookout_ready upsertsWithin_UNIV] by blast
  have k2: "sameKeys (w_Heap w2) (heapOf cc job)" using runSteps_trace [OF laws(1) k1 gen w2] by blast
  have "cc_Jobs cc \<noteq> []" using Lookout_migration [OF start(3)] by fastforce
  from Lookout_tail_healthy [OF laws(1,2) k2 this] w1(1) w2
  show ?thesis by (simp add: andThenA_def) (metis prod.collapse)
qed

end
