(* ===== verification/Deletion.thy ===== *)
theory Deletion
  imports Healthy
begin

text \<open>
  What a reconciliation does to a custom resource around its life: before anything is created the
  finalizer is on the resource, and when the resource is being deleted the clean-up calls come in
  the order of the code, each only when the ones before it succeeded, with the removal of the
  finalizer last.
\<close>

section \<open>Actions that call in a fixed order\<close>

text \<open>The calls of the action are a prefix of \<open>es\<close>, and all of \<open>es\<close> when it returns.\<close>

definition emits :: "event list \<Rightarrow> ('s world, 'a) action \<Rightarrow> bool" where
  "emits es m \<longleftrightarrow> (\<forall>w r w'. m w = (r, w') \<longrightarrow>
     (\<exists>es'. w_Trace w' = w_Trace w @ es' \<and> prefix es' es \<and> ((\<exists>y. r = Inr y) \<longrightarrow> es' = es)))"

lemma emitsI:
  assumes "\<And>w r w'. m w = (r, w') \<Longrightarrow>
    \<exists>es'. w_Trace w' = w_Trace w @ es' \<and> prefix es' es \<and> ((\<exists>y. r = Inr y) \<longrightarrow> es' = es)"
  shows "emits es m"
  using assms unfolding emits_def by blast

lemma emitsD:
  assumes "emits es m" "m w = (r, w')"
  obtains es' where "w_Trace w' = w_Trace w @ es'" "prefix es' es" "\<And>y. r = Inr y \<Longrightarrow> es' = es"
  using assms unfolding emits_def by blast

lemma emits_pure [simp, intro]: "emits [] (returnA y)"
  by (simp add: emits_def)

lemma emits_andThenA:
  assumes m: "emits es m" and f: "\<And>y. emits fs (f y)"
  shows "emits (es @ fs) (andThenA m f)"
proof (rule emitsI)
  fix w r w'
  assume run: "andThenA m f w = (r, w')"
  obtain r1 w1 where m1: "m w = (r1, w1)" by fastforce
  obtain es1 where es1: "w_Trace w1 = w_Trace w @ es1" "prefix es1 es" "\<And>y. r1 = Inr y \<Longrightarrow> es1 = es"
    using emitsD [OF m m1] by blast
  show "\<exists>es'. w_Trace w' = w_Trace w @ es' \<and> prefix es' (es @ fs) \<and> ((\<exists>y. r = Inr y) \<longrightarrow> es' = es @ fs)"
  proof (cases r1)
    case (Inl e)
    with run m1 have "r = Inl e" "w' = w1" by (simp_all add: andThenA_def)
    with es1 show ?thesis by (auto simp: prefix_prefix)
  next
    case (Inr y)
    with run m1 have "f y w1 = (r, w')" by (simp add: andThenA_def)
    then obtain es2 where "w_Trace w' = w_Trace w1 @ es2" "prefix es2 fs" "\<And>y. r = Inr y \<Longrightarrow> es2 = fs"
      using emitsD [OF f] by blast
    with es1 Inr show ?thesis by (intro exI [of _ "es1 @ es2"]) auto
  qed
qed

lemma emits_inSequence:
  "(\<And>i. i \<in> set xs \<Longrightarrow> emits (es i) (m i)) \<Longrightarrow> emits (concat (map es xs)) (inSequence (map m xs))"
  by (induction xs) (auto intro!: emits_andThenA)

lemma emits_wrapfA: "emits es m \<Longrightarrow> emits es (wrapfA msg m)"
  unfolding emits_def wrapfA_def by (auto split: prod.splits simp: wrapf_eq_Inr)

lemma emits_deleteExternal: "emits [EvDelete (InComponents s)] (deleteExternal c what cc s)"
  unfolding deleteExternal_def
proof (rule emits_wrapfA, rule emitsI)
  fix w r w'
  assume run: "ignoreNotFound (deleteObject c (InComponents s)) w = (r, w')"
  show "\<exists>es'. w_Trace w' = w_Trace w @ es' \<and> prefix es' [EvDelete (InComponents s)] \<and>
    ((\<exists>y. r = Inr y) \<longrightarrow> es' = [EvDelete (InComponents s)])"
  proof (cases "load (InComponents s) (w_Heap w)")
    case None
    with run have "r = Inl (Panic (NilDereference ''Delete''))" "w' = w"
      by (auto simp: ignoreNotFound_def deleteObject_def)
    then show ?thesis by auto
  next
    case (Some ob)
    with run have "w_Trace w' = w_Trace w @ [EvDelete (InComponents s)]"
      by (auto simp: ignoreNotFound_def deleteObject_def onServer_def split: prod.splits sum.splits if_splits)
    then show ?thesis by auto
  qed
qed

lemma emits_updateCR: "emits [EvUpdateCR (om_Finalizers (cr_Meta cr))] (updateCR c cr)"
  unfolding emits_def updateCR_def onServer_def by (auto split: prod.splits)

section \<open>Deleting\<close>

definition removal :: "externs \<Rightarrow> ('spec, 'status) CR \<Rightarrow> event" where
  "removal x cr = EvUpdateCR (om_Finalizers (RemoveFinalizer x (cr_Meta cr) operatorFinalizer))"

lemma emits_check_deleting:
  assumes del: "om_DeletionTimestamp (cr_Meta cr) \<noteq> None" "ContainsFinalizer x (cr_Meta cr) operatorFinalizer"
    and cl: "emits es cl"
  shows "emits (es @ [removal x cr]) (checkAndHandleObjectDeletion x c cr operatorFinalizer (Some cl))"
proof -
  let ?cr = "cr\<lparr>cr_Meta := RemoveFinalizer x (cr_Meta cr) operatorFinalizer\<rparr>"
  have "emits ([removal x cr] @ []) (andThenA (updateCR c ?cr) (\<lambda>object'. returnA (True, object')))"
    by (rule emits_andThenA) (use emits_updateCR [of ?cr c] in \<open>simp_all add: removal_def\<close>)
  then have "emits (es @ [removal x cr])
      (andThenA cl (\<lambda>_. andThenA (updateCR c ?cr) (\<lambda>object'. returnA (True, object'))))"
    using emits_andThenA [OF cl] by simp
  with del show ?thesis
    by (auto simp: checkAndHandleObjectDeletion_def handleObjectDeletion_def)
qed

text \<open>A reconciliation that finds the resource being deleted is the clean-up and the removal of the finalizer.\<close>

lemma generateFirst_deletion_order:
  assumes cr: "fetches c req w cr" and del: "om_DeletionTimestamp (cr_Meta cr) \<noteq> None"
    "ContainsFinalizer x (cr_Meta cr) operatorFinalizer"
    and gen: "generate cr = Inr cc" and cl: "emits es (cl cc)"
    and run: "generateFirst x c req generate (\<lambda>cc. Some (cl cc)) steps w = (r, w')"
  obtains es' where "w_Trace w' = w_Trace w @ es'" "prefix es' (es @ [removal x cr])"
    "r = Inr () \<Longrightarrow> es' = es @ [removal x cr]"
proof -
  obtain w1 where w1: "getObject c req w = (Inr (Some cr), w1)" "w_Trace w1 = w_Trace w"
    using fetches_getObject [OF cr] by blast
  let ?check = "checkAndHandleObjectDeletion x c cr operatorFinalizer (Some (cl cc))"
  let ?w1 = "w1\<lparr>w_Heap := heapOf cc None\<rparr>"
  obtain r2 w2 where w2: "?check ?w1 = (r2, w2)" by fastforce
  have fin: "finish" if "r2 = Inr (finish, cr')" for finish cr'
    using check_deleting [OF del(1)] w2 that by blast
  have rw: "w' = w2 \<and> (r = Inr () \<longrightarrow> (\<exists>y. r2 = Inr y))"
    using run w1(1) gen w2
    by (cases r2) (auto simp: generateFirst_def andThenA_def allocComponents_def dest: fin)
  obtain es' where "w_Trace w2 = w_Trace ?w1 @ es'" "prefix es' (es @ [removal x cr])"
    "\<And>y. r2 = Inr y \<Longrightarrow> es' = es @ [removal x cr]"
    using emitsD [OF emits_check_deleting [OF del cl] w2] by blast
  with rw w1(2) that show thesis by auto
qed

text \<open>A resource whose configuration does not generate is left alone, finalizer and all.\<close>

lemma generateFirst_blocked:
  assumes "fetches c req w cr" "generate cr = Inl e"
  shows "fst (generateFirst x c req generate cleanup steps w) = Inl e"
    "w_Trace (snd (generateFirst x c req generate cleanup steps w)) = w_Trace w"
proof -
  obtain w1 where "getObject c req w = (Inr (Some cr), w1)" "w_Trace w1 = w_Trace w"
    using fetches_getObject [OF assms(1)] by blast
  with assms(2) show "fst (generateFirst x c req generate cleanup steps w) = Inl e"
    "w_Trace (snd (generateFirst x c req generate cleanup steps w)) = w_Trace w"
    by (simp_all add: generateFirst_def andThenA_def)
qed

section \<open>The clean-up of each controller\<close>

lemma Executor_cleanup_order:
  "emits ([EvDelete (InComponents SClusterRole)] @
     (if cc_PrometheusRule cc \<noteq> None then [EvDelete (InComponents SPrometheusRule)] else []) @
     map (\<lambda>i. EvDelete (InComponents (SClusterRoleBinding i))) [0..<length (cc_ClusterRoleBindings cc)])
   (Executor_deleteExternalResources c cc)"
proof -
  have seq: "emits (map (\<lambda>i. EvDelete (InComponents (SClusterRoleBinding i))) [0..<n])
      (inSequence (map (\<lambda>i. deleteExternal c ''ClusterRoleBinding'' cc (SClusterRoleBinding i)) [0..<n]))" for n
    using emits_inSequence [of "[0..<n]" "\<lambda>i. [EvDelete (InComponents (SClusterRoleBinding i))]",
        OF emits_deleteExternal] by (simp add: comp_def)
  show ?thesis
    unfolding Executor_deleteExternalResources_def
    by (intro emits_andThenA emits_deleteExternal seq) (simp add: emits_deleteExternal emits_pure)
qed

lemma Binoculars_cleanup_order:
  "emits [EvDelete (InComponents SClusterRole), EvDelete (InComponents (SClusterRoleBinding 0))]
     (Binoculars_deleteExternalResources c cc)"
  unfolding Binoculars_deleteExternalResources_def
  using emits_andThenA [OF emits_deleteExternal emits_deleteExternal] by fastforce

lemma ArmadaServer_cleanup_order:
  "emits (if cc_PrometheusRule cc \<noteq> None then [EvDelete (InComponents SPrometheusRule)] else [])
     (ArmadaServer_deleteExternalResources c cc)"
  by (simp add: ArmadaServer_deleteExternalResources_def emits_deleteExternal emits_pure)

section \<open>The finalizer comes first\<close>

definition extends :: "'s world \<Rightarrow> 's world \<Rightarrow> bool" where
  "extends w w' \<longleftrightarrow> (\<exists>es. w_Trace w' = w_Trace w @ es)"

lemma extends_refl [simp]: "extends w w"
  by (simp add: extends_def)

lemma check_adds_finalizer:
  assumes law: "finalizerLaw x" and cr: "om_DeletionTimestamp (cr_Meta cr) = None"
    "\<not> ContainsFinalizer x (cr_Meta cr) operatorFinalizer"
  shows "\<exists>fs. w_Trace (snd (checkAndHandleObjectDeletion x c cr operatorFinalizer cleanup w)) =
    w_Trace w @ [EvUpdateCR fs] \<and> operatorFinalizer \<in> set fs"
proof -
  let ?cr = "cr\<lparr>cr_Meta := AddFinalizer x (cr_Meta cr) operatorFinalizer\<rparr>"
  obtain r w1 where u: "updateCR c ?cr w = (r, w1)" by fastforce
  then have t: "w_Trace w1 = w_Trace w @ [EvUpdateCR (om_Finalizers (cr_Meta ?cr))]"
    by (auto simp: updateCR_def onServer_def split: prod.splits)
  have "snd (checkAndHandleObjectDeletion x c cr operatorFinalizer cleanup w) = w1"
    using cr u by (simp add: check_live split: sum.split)
  with t finalizerLawD(2) [OF law, of "cr_Meta cr" operatorFinalizer] show ?thesis by simp
qed

lemma runSteps_extends:
  assumes poll: "pollLaw c"
  shows "extends w (snd (runSteps c m sts w))"
proof -
  have pj: "extends w (snd (pollJob c a w))" for a w
    by (auto simp: pollJob_def extends_def andThenA_def onServer_def split: option.split kobj.split prod.split sum.split)
  have pf: "extends w (snd (pollFor n (pollJob c a) w))" for n a w
  proof (induction n arbitrary: w)
    case (Suc n)
    obtain r w1 where p: "pollJob c a w = (r, w1)" by fastforce
    with pj [of w a] have "extends w w1" by simp
    moreover have "extends w1 (snd (pollFor n (pollJob c a) w1))" by (rule Suc.IH)
    ultimately show ?case using p by (cases r) (auto simp: andThenA_def extends_def)
  qed (simp add: extends_def)
  have step: "extends w (snd (runStep c m st w))" for st w
  proof (cases st)
    case (WaitJob a)
    obtain n where "runStep c m st w = pollFor n (pollJob c a) w"
      using poll poll_budget(2,3) unfolding pollLaw_def WaitJob runStep.simps waitForJob_def by blast
    with pf show ?thesis by simp
  qed (auto simp: upsertObjectIfNeeded_def deleteObjectIfNeeded_def ignoreNotFound_def deleteObject_def
      onServer_def extends_def split: prod.split sum.split option.split)
  show ?thesis
  proof (induction sts arbitrary: w)
    case (Cons st sts)
    obtain r w1 where s: "runStep c m st w = (r, w1)" by fastforce
    with step [of w st] Cons.IH [of w1] show ?case by (cases r) (auto simp: andThenA_def extends_def)
  qed (simp add: extends_def)
qed

lemma generateFirst_adds_finalizer:
  assumes laws: "pollLaw c" "finalizerLaw x" and cr: "fetches c req w cr"
    "om_DeletionTimestamp (cr_Meta cr) = None" "\<not> ContainsFinalizer x (cr_Meta cr) operatorFinalizer"
    and gen: "generate cr = Inr cc"
  shows "\<exists>fs es. w_Trace (snd (generateFirst x c req generate cleanup steps w)) = w_Trace w @ EvUpdateCR fs # es \<and>
    operatorFinalizer \<in> set fs"
proof -
  obtain w1 where w1: "getObject c req w = (Inr (Some cr), w1)" "w_Trace w1 = w_Trace w"
    using fetches_getObject [OF cr(1)] by blast
  let ?w1 = "w1\<lparr>w_Heap := heapOf cc None\<rparr>"
  let ?check = "checkAndHandleObjectDeletion x c cr operatorFinalizer (cleanup cc)"
  obtain r2 w2 where w2: "?check ?w1 = (r2, w2)" by fastforce
  obtain fs where fs: "w_Trace w2 = w_Trace ?w1 @ [EvUpdateCR fs]" "operatorFinalizer \<in> set fs"
    using check_adds_finalizer [OF laws(2) cr(2,3), of c "cleanup cc" ?w1] w2 by auto
  let ?w' = "snd (generateFirst x c req generate cleanup steps w)"
  have "extends w2 ?w'"
    using w1(1) gen w2 runSteps_extends [OF laws(1)]
    by (cases r2) (auto simp: generateFirst_def andThenA_def allocComponents_def)
  with fs w1(2) show ?thesis by (auto simp: extends_def)
qed

section \<open>A clean-up that succeeds\<close>

text \<open>On a server whose deletes succeed or find nothing, a clean-up of existing components succeeds.\<close>

definition completes :: "heap \<Rightarrow> ('s world, unit) action \<Rightarrow> bool" where
  "completes h m \<longleftrightarrow> (\<forall>w. w_Heap w = h \<longrightarrow> (\<exists>w'. m w = (Inr (), w') \<and> w_Heap w' = h))"

lemma completes_returnA [simp, intro]: "completes h (returnA ())"
  by (simp add: completes_def)

lemma completes_andThenA:
  fixes m :: "('s world, unit) action"
  assumes "completes h m" "\<And>u. completes h (f u)"
  shows "completes h (andThenA m f)"
  unfolding completes_def
proof (intro allI impI)
  fix w :: "'s world"
  assume "w_Heap w = h"
  with assms(1) obtain w1 where "m w = (Inr (), w1)" "w_Heap w1 = h" by (auto simp: completes_def)
  with assms(2) [of "()"] show "\<exists>w'. andThenA m f w = (Inr (), w') \<and> w_Heap w' = h"
    by (simp add: completes_def andThenA_def)
qed

lemma completes_inSequence: "(\<And>m. m \<in> set ms \<Longrightarrow> completes h m) \<Longrightarrow> completes h (inSequence ms)"
  by (induction ms) (auto intro: completes_andThenA)

lemma completes_deleteExternal:
  fixes c :: "('spec, 'status, 's) client"
  assumes "healthyDelete c" "derefSlot (h_Components h) s \<noteq> None"
  shows "completes h (deleteExternal c what cc s)"
  unfolding completes_def
proof (intro allI impI)
  fix w :: "'s world"
  assume w: "w_Heap w = h"
  from assms(2) obtain ob where ob: "derefSlot (h_Components h) s = Some ob" by blast
  obtain r s' where d: "c_Delete c ob (w_Srv w) = (r, s')" by fastforce
  then have "\<And>e. r = Inl e \<Longrightarrow> isNotFound e" using assms(1) by (metis healthyDelete_def fst_conv)
  with w ob d show "\<exists>w'. deleteExternal c what cc s w = (Inr (), w') \<and> w_Heap w' = h"
    by (cases r) (auto simp: deleteExternal_def wrapfA_def ignoreNotFound_def deleteObject_def onServer_def wrapf_def)
qed

lemma Executor_cleanup_completes:
  assumes "healthyDelete c" "Executor_generate x cr = Inr cc"
  shows "completes (heapOf cc job) (Executor_deleteExternalResources c cc)"
proof -
  from assms(2) have "cc_ClusterRole cc \<noteq> None" by (rule Executor_generate_Inr) simp
  then show ?thesis
    unfolding Executor_deleteExternalResources_def
    by (auto intro!: completes_andThenA completes_inSequence completes_deleteExternal [OF assms(1)])
qed

text \<open>A deletion goes through when the clean-up does and the update that removes the finalizer is accepted.\<close>

lemma generateFirst_deletion_succeeds:
  assumes cr: "fetches c req w cr" and del: "om_DeletionTimestamp (cr_Meta cr) \<noteq> None"
    "ContainsFinalizer x (cr_Meta cr) operatorFinalizer"
    and gen: "generate cr = Inr cc" and cl: "completes (heapOf cc None) (cl cc)"
    and update: "\<And>cr s. \<exists>cr'. fst (c_Update c cr s) = Inr cr'"
  shows "\<exists>w'. generateFirst x c req generate (\<lambda>cc. Some (cl cc)) steps w = (Inr (), w')"
proof -
  obtain w1 where w1: "getObject c req w = (Inr (Some cr), w1)" using fetches_getObject [OF cr] by blast
  obtain w2 where w2: "cl cc (w1\<lparr>w_Heap := heapOf cc None\<rparr>) = (Inr (), w2)"
    using cl [unfolded completes_def, THEN spec, of "w1\<lparr>w_Heap := heapOf cc None\<rparr>"] by auto
  let ?cr = "cr\<lparr>cr_Meta := RemoveFinalizer x (cr_Meta cr) operatorFinalizer\<rparr>"
  obtain cr' s' where "c_Update c ?cr (w_Srv w2) = (Inr cr', s')"
    using update [of ?cr "w_Srv w2"] by (metis prod.collapse)
  then obtain w3 where "updateCR c ?cr w2 = (Inr cr', w3)" by (simp add: updateCR_def onServer_def)
  with w1 w2 gen del show ?thesis
    by (simp add: generateFirst_def andThenA_def allocComponents_def check_deleting_run)
qed

end
