(* ===== verification/Webhooks.thy ===== *)
theory Webhooks
  imports Externs
begin

text \<open>
  The admission webhooks of \<open>api/install/v1alpha1/*_webhook.go\<close>: one defaulter for each custom resource
  and, for five of them, a validator that accepts everything. A defaulter changes the object in place, so its
  model returns the changed object. The locale \<open>defaulter\<close> states what the webhook and the
  controllers rely on, and each defaulter is an interpretation of it.
\<close>

section \<open>Blocks of the defaulters\<close>

text \<open>\<open>if p == nil { p = &d }\<close> and \<open>if s == "" { s = d }\<close>.\<close>

definition ifNil :: "'a option \<Rightarrow> 'a \<Rightarrow> 'a option" where
  "ifNil p d = (case p of None \<Rightarrow> Some d | Some v \<Rightarrow> Some v)"

definition ifEmpty :: "string \<Rightarrow> string \<Rightarrow> string" where
  "ifEmpty s d = (if s = '''' then d else s)"

definition defaultResources :: ResourceRequirements where
  "defaultResources = \<lparr>
     rr_Limits = [''cpu'' \<mapsto> Quantity ''300m'', ''memory'' \<mapsto> Quantity ''1Gi''],
     rr_Requests = [''cpu'' \<mapsto> Quantity ''200m'', ''memory'' \<mapsto> Quantity ''512Mi'']\<rparr>"

text \<open>
  The Prometheus block: in some defaulters it runs only when monitoring is enabled, in others
  whenever the block is there. \<open>time.Second * 10\<close> is ten thousand million nanoseconds.
\<close>

definition scrapeDefault :: "(PrometheusConfig \<Rightarrow> bool) \<Rightarrow> PrometheusConfig option \<Rightarrow> PrometheusConfig option" where
  "scrapeDefault scraped prometheus =
     (case prometheus of
        None \<Rightarrow> None
      | Some p \<Rightarrow> if scraped p
          then Some (p\<lparr>pc_ScrapeInterval := ifNil (pc_ScrapeInterval p) 10000000000\<rparr>) else Some p)"

definition imageDefault :: "string \<Rightarrow> Image \<Rightarrow> Image" where
  "imageDefault repository img = img\<lparr>im_Repository := ifEmpty (im_Repository img) repository\<rparr>"

section \<open>The defaulters\<close>

definition ArmadaServer_applyDefaults :: "ArmadaServer \<Rightarrow> ArmadaServer" where
  "ArmadaServer_applyDefaults r =
     (let spec = cr_Spec r;
          spec = spec\<lparr>csb_Image := imageDefault ''gresearch/armada-server'' (csb_Image spec)\<rparr>;
          spec = spec\<lparr>as_Replicas := ifNil (as_Replicas spec) 1\<rparr>;
          spec = spec\<lparr>as_SecurityContext := ifNil (as_SecurityContext spec) GetDefaultSecurityContext\<rparr>;
          spec = spec\<lparr>as_PodSecurityContext := ifNil (as_PodSecurityContext spec) GetDefaultPodSecurityContext\<rparr>;
          spec = spec\<lparr>csb_Resources := ifNil (csb_Resources spec) defaultResources\<rparr>;
          spec = spec\<lparr>csb_Prometheus := scrapeDefault pc_Enabled (csb_Prometheus spec)\<rparr>;
          spec = spec\<lparr>csb_TopologyKey := ifEmpty (csb_TopologyKey spec) ''kubernetes.io/hostname''\<rparr>
      in r\<lparr>cr_Spec := spec\<rparr>)"

definition Binoculars_applyDefaults :: "Binoculars \<Rightarrow> Binoculars" where
  "Binoculars_applyDefaults r =
     (let spec = cr_Spec r;
          spec = spec\<lparr>csb_Image := imageDefault ''gresearch/armada-binoculars'' (csb_Image spec)\<rparr>;
          spec = spec\<lparr>bn_Replicas := ifNil (bn_Replicas spec) 1\<rparr>;
          spec = spec\<lparr>bn_SecurityContext := ifNil (bn_SecurityContext spec) GetDefaultSecurityContext\<rparr>;
          spec = spec\<lparr>bn_PodSecurityContext := ifNil (bn_PodSecurityContext spec) GetDefaultPodSecurityContext\<rparr>;
          spec = spec\<lparr>csb_Resources := ifNil (csb_Resources spec) defaultResources\<rparr>;
          spec = spec\<lparr>csb_Prometheus := scrapeDefault pc_Enabled (csb_Prometheus spec)\<rparr>;
          spec = spec\<lparr>csb_TopologyKey := ifEmpty (csb_TopologyKey spec) ''kubernetes.io/hostname''\<rparr>
      in r\<lparr>cr_Spec := spec\<rparr>)"

definition EventIngester_applyDefaults :: "EventIngester \<Rightarrow> EventIngester" where
  "EventIngester_applyDefaults r =
     (let spec = cr_Spec r;
          spec = spec\<lparr>csb_Image := imageDefault ''gresearch/armada-event-ingester'' (csb_Image spec)\<rparr>;
          spec = spec\<lparr>ei_Replicas := ifNil (ei_Replicas spec) 1\<rparr>;
          spec = spec\<lparr>ei_SecurityContext := ifNil (ei_SecurityContext spec) GetDefaultSecurityContext\<rparr>;
          spec = spec\<lparr>ei_PodSecurityContext := ifNil (ei_PodSecurityContext spec) GetDefaultPodSecurityContext\<rparr>;
          spec = spec\<lparr>csb_Resources := ifNil (csb_Resources spec) defaultResources\<rparr>;
          spec = spec\<lparr>csb_TopologyKey := ifEmpty (csb_TopologyKey spec) ''kubernetes.io/hostname''\<rparr>
      in r\<lparr>cr_Spec := spec\<rparr>)"

definition Executor_applyDefaults :: "Executor \<Rightarrow> Executor" where
  "Executor_applyDefaults r =
     (let spec = cr_Spec r;
          spec = spec\<lparr>csb_Image := imageDefault ''gresearch/armada-executor'' (csb_Image spec)\<rparr>;
          spec = spec\<lparr>ex_Replicas := ifNil (ex_Replicas spec) 1\<rparr>;
          spec = spec\<lparr>ex_SecurityContext := ifNil (ex_SecurityContext spec) GetDefaultSecurityContext\<rparr>;
          spec = spec\<lparr>ex_PodSecurityContext := ifNil (ex_PodSecurityContext spec) GetDefaultPodSecurityContext\<rparr>;
          spec = spec\<lparr>csb_Resources := ifNil (csb_Resources spec) defaultResources\<rparr>;
          spec = spec\<lparr>csb_Prometheus := scrapeDefault (\<lambda>_. True) (csb_Prometheus spec)\<rparr>;
          spec = spec\<lparr>csb_TopologyKey := ifEmpty (csb_TopologyKey spec) ''kubernetes.io/hostname''\<rparr>
      in r\<lparr>cr_Spec := spec\<rparr>)"

definition Lookout_applyDefaults :: "Lookout \<Rightarrow> Lookout" where
  "Lookout_applyDefaults r =
     (let spec = cr_Spec r;
          spec = spec\<lparr>csb_Image := imageDefault ''gresearch/armada-lookout'' (csb_Image spec)\<rparr>;
          spec = spec\<lparr>lk_Replicas := ifNil (lk_Replicas spec) 1\<rparr>;
          spec = spec\<lparr>lk_Migrate := ifNil (lk_Migrate spec) True\<rparr>;
          spec = spec\<lparr>lk_SecurityContext := ifNil (lk_SecurityContext spec) GetDefaultSecurityContext\<rparr>;
          spec = spec\<lparr>lk_PodSecurityContext := ifNil (lk_PodSecurityContext spec) GetDefaultPodSecurityContext\<rparr>;
          spec = spec\<lparr>csb_Resources := ifNil (csb_Resources spec) defaultResources\<rparr>;
          spec = spec\<lparr>csb_Prometheus := scrapeDefault (\<lambda>_. True) (csb_Prometheus spec)\<rparr>;
          spec = spec\<lparr>csb_TopologyKey := ifEmpty (csb_TopologyKey spec) ''kubernetes.io/hostname''\<rparr>
      in r\<lparr>cr_Spec := spec\<rparr>)"

definition LookoutIngester_applyDefaults :: "LookoutIngester \<Rightarrow> LookoutIngester" where
  "LookoutIngester_applyDefaults r =
     (let spec = cr_Spec r;
          spec = spec\<lparr>csb_Image := imageDefault ''gresearch/armada-lookout-ingester'' (csb_Image spec)\<rparr>;
          spec = spec\<lparr>li_Replicas := ifNil (li_Replicas spec) 1\<rparr>;
          spec = spec\<lparr>li_SecurityContext := ifNil (li_SecurityContext spec) GetDefaultSecurityContext\<rparr>;
          spec = spec\<lparr>li_PodSecurityContext := ifNil (li_PodSecurityContext spec) GetDefaultPodSecurityContext\<rparr>;
          spec = spec\<lparr>csb_Resources := ifNil (csb_Resources spec) defaultResources\<rparr>;
          spec = spec\<lparr>csb_TopologyKey := ifEmpty (csb_TopologyKey spec) ''kubernetes.io/hostname''\<rparr>
      in r\<lparr>cr_Spec := spec\<rparr>)"

text \<open>
  The default pruner: \<open>PrunerConfig{Schedule: "@hourly"}\<close>, whose resources are nil and so are filled in
  at once. A pruner that the user wrote keeps nil resources.
\<close>

definition defaultPruner :: PrunerConfig where
  "defaultPruner = \<lparr>prn_Enabled = False, prn_Schedule = ''@hourly'', prn_Resources = Some defaultResources,
     prn_Args = \<lparr>pa_Timeout = '''', pa_Batchsize = 0, pa_ExpireAfter = ''''\<rparr>\<rparr>"

definition Scheduler_applyDefaults :: "Scheduler \<Rightarrow> Scheduler" where
  "Scheduler_applyDefaults r =
     (let spec = cr_Spec r;
          spec = spec\<lparr>csb_Image := imageDefault ''gresearch/armada-scheduler'' (csb_Image spec)\<rparr>;
          spec = spec\<lparr>sd_Migrate := ifNil (sd_Migrate spec) True\<rparr>;
          spec = spec\<lparr>sd_SecurityContext := ifNil (sd_SecurityContext spec) GetDefaultSecurityContext\<rparr>;
          spec = spec\<lparr>sd_PodSecurityContext := ifNil (sd_PodSecurityContext spec) GetDefaultPodSecurityContext\<rparr>;
          spec = spec\<lparr>csb_Resources := ifNil (csb_Resources spec) defaultResources\<rparr>;
          spec = spec\<lparr>sd_Pruner := ifNil (sd_Pruner spec) defaultPruner\<rparr>;
          spec = spec\<lparr>csb_Prometheus := scrapeDefault pc_Enabled (csb_Prometheus spec)\<rparr>;
          spec = spec\<lparr>csb_TopologyKey := ifEmpty (csb_TopologyKey spec) ''kubernetes.io/hostname''\<rparr>
      in r\<lparr>cr_Spec := spec\<rparr>)"

definition SchedulerIngester_applyDefaults :: "SchedulerIngester \<Rightarrow> SchedulerIngester" where
  "SchedulerIngester_applyDefaults r =
     (let spec = cr_Spec r;
          spec = spec\<lparr>csb_Image := imageDefault ''gresearch/armada-scheduler-ingester'' (csb_Image spec)\<rparr>;
          spec = spec\<lparr>si_Replicas := ifNil (si_Replicas spec) 1\<rparr>;
          spec = spec\<lparr>si_SecurityContext := ifNil (si_SecurityContext spec) GetDefaultSecurityContext\<rparr>;
          spec = spec\<lparr>si_PodSecurityContext := ifNil (si_PodSecurityContext spec) GetDefaultPodSecurityContext\<rparr>;
          spec = spec\<lparr>csb_Resources := ifNil (csb_Resources spec) defaultResources\<rparr>;
          spec = spec\<lparr>csb_TopologyKey := ifEmpty (csb_TopologyKey spec) ''kubernetes.io/hostname''\<rparr>
      in r\<lparr>cr_Spec := spec\<rparr>)"

section \<open>Requests\<close>

text \<open>
  The webhook server hands over any object; \<open>Default\<close> checks that its Go type is the one it is
  registered for. \<open>OtherObject\<close> carries the name that \<open>%T\<close> prints.
\<close>

datatype runtimeObject =
    ArmadaServerObject ArmadaServer
  | BinocularsObject Binoculars
  | EventIngesterObject EventIngester
  | ExecutorObject Executor
  | LookoutObject Lookout
  | LookoutIngesterObject LookoutIngester
  | SchedulerObject Scheduler
  | SchedulerIngesterObject SchedulerIngester
  | OtherObject string

fun goType :: "runtimeObject \<Rightarrow> string" where
  "goType (ArmadaServerObject _) = ''*v1alpha1.ArmadaServer''"
| "goType (BinocularsObject _) = ''*v1alpha1.Binoculars''"
| "goType (EventIngesterObject _) = ''*v1alpha1.EventIngester''"
| "goType (ExecutorObject _) = ''*v1alpha1.Executor''"
| "goType (LookoutObject _) = ''*v1alpha1.Lookout''"
| "goType (LookoutIngesterObject _) = ''*v1alpha1.LookoutIngester''"
| "goType (SchedulerObject _) = ''*v1alpha1.Scheduler''"
| "goType (SchedulerIngesterObject _) = ''*v1alpha1.SchedulerIngester''"
| "goType (OtherObject t) = t"

definition ArmadaServer_Default :: "runtimeObject \<Rightarrow> runtimeObject result" where
  "ArmadaServer_Default obj =
     (case obj of
        ArmadaServerObject r \<Rightarrow> Inr (ArmadaServerObject (ArmadaServer_applyDefaults r))
      | _ \<Rightarrow> Inl (UnexpectedType (''expected an ArmadaServer object in webhook but got '' @ goType obj)))"

definition Binoculars_Default :: "runtimeObject \<Rightarrow> runtimeObject result" where
  "Binoculars_Default obj =
     (case obj of
        BinocularsObject r \<Rightarrow> Inr (BinocularsObject (Binoculars_applyDefaults r))
      | _ \<Rightarrow> Inl (UnexpectedType (''expected a Binoculars object in webhook but got '' @ goType obj)))"

definition EventIngester_Default :: "runtimeObject \<Rightarrow> runtimeObject result" where
  "EventIngester_Default obj =
     (case obj of
        EventIngesterObject r \<Rightarrow> Inr (EventIngesterObject (EventIngester_applyDefaults r))
      | _ \<Rightarrow> Inl (UnexpectedType (''expected an EventIngester object in webhook but got '' @ goType obj)))"

definition Executor_Default :: "runtimeObject \<Rightarrow> runtimeObject result" where
  "Executor_Default obj =
     (case obj of
        ExecutorObject r \<Rightarrow> Inr (ExecutorObject (Executor_applyDefaults r))
      | _ \<Rightarrow> Inl (UnexpectedType (''expected an Executor object in webhook but got '' @ goType obj)))"

definition Lookout_Default :: "runtimeObject \<Rightarrow> runtimeObject result" where
  "Lookout_Default obj =
     (case obj of
        LookoutObject r \<Rightarrow> Inr (LookoutObject (Lookout_applyDefaults r))
      | _ \<Rightarrow> Inl (UnexpectedType (''expected a Lookout object in webhook but got '' @ goType obj)))"

definition LookoutIngester_Default :: "runtimeObject \<Rightarrow> runtimeObject result" where
  "LookoutIngester_Default obj =
     (case obj of
        LookoutIngesterObject r \<Rightarrow> Inr (LookoutIngesterObject (LookoutIngester_applyDefaults r))
      | _ \<Rightarrow> Inl (UnexpectedType (''expected a LookoutIngester object in webhook but got '' @ goType obj)))"

definition Scheduler_Default :: "runtimeObject \<Rightarrow> runtimeObject result" where
  "Scheduler_Default obj =
     (case obj of
        SchedulerObject r \<Rightarrow> Inr (SchedulerObject (Scheduler_applyDefaults r))
      | _ \<Rightarrow> Inl (UnexpectedType (''expected a Scheduler object in webhook but got '' @ goType obj)))"

definition SchedulerIngester_Default :: "runtimeObject \<Rightarrow> runtimeObject result" where
  "SchedulerIngester_Default obj =
     (case obj of
        SchedulerIngesterObject r \<Rightarrow> Inr (SchedulerIngesterObject (SchedulerIngester_applyDefaults r))
      | _ \<Rightarrow> Inl (UnexpectedType (''expected a SchedulerIngester object in webhook but got '' @ goType obj)))"

section \<open>Validators\<close>

text \<open>
  The three functions of a validator, which a webhook calls on a creation, an update and a deletion.
  They return warnings, all of them none. Binoculars, Lookout and Scheduler have no validator.
\<close>

datatype validation =
    ValidateCreate runtimeObject
  | ValidateUpdate runtimeObject runtimeObject
  | ValidateDelete runtimeObject

definition ArmadaServerValidator :: "validation \<Rightarrow> string list result" where
  "ArmadaServerValidator request =
     (case request of
        ValidateCreate obj \<Rightarrow> Inr []
      | ValidateUpdate oldObj newObj \<Rightarrow> Inr []
      | ValidateDelete obj \<Rightarrow> Inr [])"

definition EventIngesterValidator :: "validation \<Rightarrow> string list result" where
  "EventIngesterValidator request =
     (case request of
        ValidateCreate obj \<Rightarrow> Inr []
      | ValidateUpdate oldObj newObj \<Rightarrow> Inr []
      | ValidateDelete obj \<Rightarrow> Inr [])"

definition ExecutorValidator :: "validation \<Rightarrow> string list result" where
  "ExecutorValidator request =
     (case request of
        ValidateCreate obj \<Rightarrow> Inr []
      | ValidateUpdate oldObj newObj \<Rightarrow> Inr []
      | ValidateDelete obj \<Rightarrow> Inr [])"

definition LookoutIngesterValidator :: "validation \<Rightarrow> string list result" where
  "LookoutIngesterValidator request =
     (case request of
        ValidateCreate obj \<Rightarrow> Inr []
      | ValidateUpdate oldObj newObj \<Rightarrow> Inr []
      | ValidateDelete obj \<Rightarrow> Inr [])"

definition SchedulerIngesterValidator :: "validation \<Rightarrow> string list result" where
  "SchedulerIngesterValidator request =
     (case request of
        ValidateCreate obj \<Rightarrow> Inr []
      | ValidateUpdate oldObj newObj \<Rightarrow> Inr []
      | ValidateDelete obj \<Rightarrow> Inr [])"

section \<open>The contract of a defaulter\<close>

lemma ifNil_simps [simp]:
  "ifNil (Some v) d = Some v" "ifNil None d = Some d" "ifNil p d \<noteq> None" "ifNil (ifNil p d) e = ifNil p d"
  by (simp_all add: ifNil_def split: option.splits)

lemma ifNil_fixed: "p \<noteq> None \<Longrightarrow> ifNil p d = p"
  by (auto simp: ifNil_def)

lemma ifEmpty_simps [simp]:
  "d \<noteq> '''' \<Longrightarrow> ifEmpty s d \<noteq> ''''" "s \<noteq> '''' \<Longrightarrow> ifEmpty s d = s" "ifEmpty '''' d = d"
  by (simp_all add: ifEmpty_def)

text \<open>What every defaulter does to the part that all specs share.\<close>

definition baseDefaults :: "string \<Rightarrow> (PrometheusConfig \<Rightarrow> bool) \<Rightarrow> CommonSpecBase \<Rightarrow> CommonSpecBase" where
  "baseDefaults repository scraped b = b\<lparr>
     csb_Image := imageDefault repository (csb_Image b),
     csb_Resources := ifNil (csb_Resources b) defaultResources,
     csb_Prometheus := scrapeDefault scraped (csb_Prometheus b),
     csb_TopologyKey := ifEmpty (csb_TopologyKey b) ''kubernetes.io/hostname''\<rparr>"

text \<open>Nothing in it is left to be filled in.\<close>

definition scrapeFilled :: "(PrometheusConfig \<Rightarrow> bool) \<Rightarrow> PrometheusConfig option \<Rightarrow> bool" where
  "scrapeFilled scraped prometheus \<longleftrightarrow>
     (\<forall>p. prometheus = Some p \<longrightarrow> scraped p \<longrightarrow> pc_ScrapeInterval p \<noteq> None)"

definition baseFilled :: "(PrometheusConfig \<Rightarrow> bool) \<Rightarrow> 'a CommonSpecBase_scheme \<Rightarrow> bool" where
  "baseFilled scraped b \<longleftrightarrow> im_Repository (csb_Image b) \<noteq> '''' \<and> csb_Resources b \<noteq> None \<and>
     csb_TopologyKey b \<noteq> '''' \<and> scrapeFilled scraped (csb_Prometheus b)"

text \<open>\<open>scraped\<close> does not look at the interval that is filled in.\<close>

definition stable :: "(PrometheusConfig \<Rightarrow> bool) \<Rightarrow> bool" where
  "stable scraped \<longleftrightarrow> (\<forall>p i. scraped (p\<lparr>pc_ScrapeInterval := i\<rparr>) = scraped p)"

lemma stable_simps [simp]: "stable pc_Enabled" "stable (\<lambda>_. b)"
  by (simp_all add: stable_def)

lemma scrapeDefault_never [simp]: "scrapeDefault (\<lambda>_. False) p = p"
  by (simp add: scrapeDefault_def split: option.split)

lemma scrapeDefault_fills [simp]: "stable scraped \<Longrightarrow> scrapeFilled scraped (scrapeDefault scraped q)"
  by (auto simp: scrapeFilled_def scrapeDefault_def stable_def simp flip: not_None_eq split: option.splits if_splits)

lemma scrapeFilled_never [simp]: "scrapeFilled (\<lambda>_. False) q"
  by (simp add: scrapeFilled_def)

lemma scrapeDefault_fixed: "scrapeFilled scraped q \<Longrightarrow> scrapeDefault scraped q = q"
  by (auto simp: scrapeFilled_def scrapeDefault_def ifNil_fixed split: option.splits)

lemma imageDefault_fixed: "im_Repository img \<noteq> '''' \<Longrightarrow> imageDefault repository img = img"
  by (simp add: imageDefault_def)

lemma imageDefault_repository [simp]: "repository \<noteq> '''' \<Longrightarrow> im_Repository (imageDefault repository img) \<noteq> ''''"
  by (simp add: imageDefault_def)

lemma truncate_base [simp]:
  "csb_Image (CommonSpecBase.truncate b) = csb_Image b" "csb_Labels (CommonSpecBase.truncate b) = csb_Labels b"
  "csb_Resources (CommonSpecBase.truncate b) = csb_Resources b"
  "csb_Prometheus (CommonSpecBase.truncate b) = csb_Prometheus b"
  "csb_TopologyKey (CommonSpecBase.truncate b) = csb_TopologyKey b"
  "csb_ApplicationConfig (CommonSpecBase.truncate b) = csb_ApplicationConfig b"
  "csb_CustomServiceAccount (CommonSpecBase.truncate b) = csb_CustomServiceAccount b"
  by (simp_all add: CommonSpecBase.truncate_def)

locale defaulter =
  fixes repository :: string
    and scraped :: "PrometheusConfig \<Rightarrow> bool"
    and applyDefaults :: "('a CommonSpecBase_scheme, 'status) CR \<Rightarrow> ('a CommonSpecBase_scheme, 'status) CR"
    and filled :: "('a CommonSpecBase_scheme, 'status) CR \<Rightarrow> bool"
  assumes named: "repository \<noteq> ''''"
    and scraped: "stable scraped"
    and frame: "cr_Meta (applyDefaults r) = cr_Meta r" "cr_Status (applyDefaults r) = cr_Status r"
    and base: "CommonSpecBase.truncate (cr_Spec (applyDefaults r)) =
          baseDefaults repository scraped (CommonSpecBase.truncate (cr_Spec r))"
    and fills: "filled (applyDefaults r)"
    and fixed: "filled r \<Longrightarrow> applyDefaults r = r"
begin

lemma idempotent: "applyDefaults (applyDefaults r) = applyDefaults r"
  using fixed [OF fills] .

lemma filled_iff: "filled r \<longleftrightarrow> applyDefaults r = r"
  using fixed fills by metis

lemma base_fields:
  "csb_Image (cr_Spec (applyDefaults r)) = imageDefault repository (csb_Image (cr_Spec r))"
  "csb_Resources (cr_Spec (applyDefaults r)) = ifNil (csb_Resources (cr_Spec r)) defaultResources"
  "csb_Prometheus (cr_Spec (applyDefaults r)) = scrapeDefault scraped (csb_Prometheus (cr_Spec r))"
  "csb_TopologyKey (cr_Spec (applyDefaults r)) = ifEmpty (csb_TopologyKey (cr_Spec r)) ''kubernetes.io/hostname''"
  "csb_ApplicationConfig (cr_Spec (applyDefaults r)) = csb_ApplicationConfig (cr_Spec r)"
  "csb_CustomServiceAccount (cr_Spec (applyDefaults r)) = csb_CustomServiceAccount (cr_Spec r)"
  using arg_cong [OF base [of r], of csb_Image] arg_cong [OF base [of r], of csb_Resources]
    arg_cong [OF base [of r], of csb_Prometheus] arg_cong [OF base [of r], of csb_TopologyKey]
    arg_cong [OF base [of r], of csb_ApplicationConfig] arg_cong [OF base [of r], of csb_CustomServiceAccount]
  by (simp_all add: baseDefaults_def)

lemma base_filled: "baseFilled scraped (cr_Spec (applyDefaults r))"
  using named scraped by (auto simp: baseFilled_def base_fields simp flip: not_None_eq)

text \<open>A field that the user set is left as it is.\<close>

lemma keeps_set:
  "csb_Resources (cr_Spec r) = Some v \<Longrightarrow> csb_Resources (cr_Spec (applyDefaults r)) = Some v"
  "im_Repository (csb_Image (cr_Spec r)) \<noteq> '''' \<Longrightarrow> csb_Image (cr_Spec (applyDefaults r)) = csb_Image (cr_Spec r)"
  "csb_TopologyKey (cr_Spec r) \<noteq> '''' \<Longrightarrow> csb_TopologyKey (cr_Spec (applyDefaults r)) = csb_TopologyKey (cr_Spec r)"
  by (simp_all add: base_fields imageDefault_fixed)

end

section \<open>Every defaulter keeps it\<close>

definition ArmadaServer_filled :: "ArmadaServer \<Rightarrow> bool" where
  "ArmadaServer_filled r \<longleftrightarrow> baseFilled pc_Enabled (cr_Spec r) \<and>
     as_SecurityContext (cr_Spec r) \<noteq> None \<and> as_PodSecurityContext (cr_Spec r) \<noteq> None \<and> as_Replicas (cr_Spec r) \<noteq> None"

interpretation defaultArmadaServer: defaulter "''gresearch/armada-server''" "pc_Enabled" ArmadaServer_applyDefaults ArmadaServer_filled
  by unfold_locales
    (simp_all add: ArmadaServer_applyDefaults_def ArmadaServer_filled_def baseFilled_def baseDefaults_def Let_def
      CommonSpecBase.truncate_def ifNil_fixed imageDefault_fixed scrapeDefault_fixed)

definition Binoculars_filled :: "Binoculars \<Rightarrow> bool" where
  "Binoculars_filled r \<longleftrightarrow> baseFilled pc_Enabled (cr_Spec r) \<and>
     bn_SecurityContext (cr_Spec r) \<noteq> None \<and> bn_PodSecurityContext (cr_Spec r) \<noteq> None \<and> bn_Replicas (cr_Spec r) \<noteq> None"

interpretation defaultBinoculars: defaulter "''gresearch/armada-binoculars''" "pc_Enabled" Binoculars_applyDefaults Binoculars_filled
  by unfold_locales
    (simp_all add: Binoculars_applyDefaults_def Binoculars_filled_def baseFilled_def baseDefaults_def Let_def
      CommonSpecBase.truncate_def ifNil_fixed imageDefault_fixed scrapeDefault_fixed)

definition EventIngester_filled :: "EventIngester \<Rightarrow> bool" where
  "EventIngester_filled r \<longleftrightarrow> baseFilled (\<lambda>_. False) (cr_Spec r) \<and>
     ei_SecurityContext (cr_Spec r) \<noteq> None \<and> ei_PodSecurityContext (cr_Spec r) \<noteq> None \<and> ei_Replicas (cr_Spec r) \<noteq> None"

interpretation defaultEventIngester: defaulter "''gresearch/armada-event-ingester''" "\<lambda>_. False" EventIngester_applyDefaults EventIngester_filled
  by unfold_locales
    (simp_all add: EventIngester_applyDefaults_def EventIngester_filled_def baseFilled_def baseDefaults_def Let_def
      CommonSpecBase.truncate_def ifNil_fixed imageDefault_fixed scrapeDefault_fixed)

definition Executor_filled :: "Executor \<Rightarrow> bool" where
  "Executor_filled r \<longleftrightarrow> baseFilled (\<lambda>_. True) (cr_Spec r) \<and>
     ex_SecurityContext (cr_Spec r) \<noteq> None \<and> ex_PodSecurityContext (cr_Spec r) \<noteq> None \<and> ex_Replicas (cr_Spec r) \<noteq> None"

interpretation defaultExecutor: defaulter "''gresearch/armada-executor''" "\<lambda>_. True" Executor_applyDefaults Executor_filled
  by unfold_locales
    (simp_all add: Executor_applyDefaults_def Executor_filled_def baseFilled_def baseDefaults_def Let_def
      CommonSpecBase.truncate_def ifNil_fixed imageDefault_fixed scrapeDefault_fixed)

definition Lookout_filled :: "Lookout \<Rightarrow> bool" where
  "Lookout_filled r \<longleftrightarrow> baseFilled (\<lambda>_. True) (cr_Spec r) \<and>
     lk_SecurityContext (cr_Spec r) \<noteq> None \<and> lk_PodSecurityContext (cr_Spec r) \<noteq> None \<and> lk_Replicas (cr_Spec r) \<noteq> None \<and> lk_Migrate (cr_Spec r) \<noteq> None"

interpretation defaultLookout: defaulter "''gresearch/armada-lookout''" "\<lambda>_. True" Lookout_applyDefaults Lookout_filled
  by unfold_locales
    (simp_all add: Lookout_applyDefaults_def Lookout_filled_def baseFilled_def baseDefaults_def Let_def
      CommonSpecBase.truncate_def ifNil_fixed imageDefault_fixed scrapeDefault_fixed)

definition LookoutIngester_filled :: "LookoutIngester \<Rightarrow> bool" where
  "LookoutIngester_filled r \<longleftrightarrow> baseFilled (\<lambda>_. False) (cr_Spec r) \<and>
     li_SecurityContext (cr_Spec r) \<noteq> None \<and> li_PodSecurityContext (cr_Spec r) \<noteq> None \<and> li_Replicas (cr_Spec r) \<noteq> None"

interpretation defaultLookoutIngester: defaulter "''gresearch/armada-lookout-ingester''" "\<lambda>_. False" LookoutIngester_applyDefaults LookoutIngester_filled
  by unfold_locales
    (simp_all add: LookoutIngester_applyDefaults_def LookoutIngester_filled_def baseFilled_def baseDefaults_def Let_def
      CommonSpecBase.truncate_def ifNil_fixed imageDefault_fixed scrapeDefault_fixed)

definition Scheduler_filled :: "Scheduler \<Rightarrow> bool" where
  "Scheduler_filled r \<longleftrightarrow> baseFilled pc_Enabled (cr_Spec r) \<and>
     sd_SecurityContext (cr_Spec r) \<noteq> None \<and> sd_PodSecurityContext (cr_Spec r) \<noteq> None \<and> sd_Migrate (cr_Spec r) \<noteq> None \<and> sd_Pruner (cr_Spec r) \<noteq> None"

interpretation defaultScheduler: defaulter "''gresearch/armada-scheduler''" "pc_Enabled" Scheduler_applyDefaults Scheduler_filled
  by unfold_locales
    (simp_all add: Scheduler_applyDefaults_def Scheduler_filled_def baseFilled_def baseDefaults_def Let_def
      CommonSpecBase.truncate_def ifNil_fixed imageDefault_fixed scrapeDefault_fixed)

definition SchedulerIngester_filled :: "SchedulerIngester \<Rightarrow> bool" where
  "SchedulerIngester_filled r \<longleftrightarrow> baseFilled (\<lambda>_. False) (cr_Spec r) \<and>
     si_SecurityContext (cr_Spec r) \<noteq> None \<and> si_PodSecurityContext (cr_Spec r) \<noteq> None \<and> si_Replicas (cr_Spec r) \<noteq> None"

interpretation defaultSchedulerIngester: defaulter "''gresearch/armada-scheduler-ingester''" "\<lambda>_. False" SchedulerIngester_applyDefaults SchedulerIngester_filled
  by unfold_locales
    (simp_all add: SchedulerIngester_applyDefaults_def SchedulerIngester_filled_def baseFilled_def baseDefaults_def Let_def
      CommonSpecBase.truncate_def ifNil_fixed imageDefault_fixed scrapeDefault_fixed)

end
