(* ===== verification/Panics.thy ===== *)
theory Panics
  imports Deletion Webhooks
begin

text \<open>
  No reconciliation panics: from a static condition on the custom resource (every pointer that the
  code follows without a check is set) and a client and libraries that return errors instead of
  panicking, the run of a controller never ends in a nil dereference or an index out of range.
  What the defaulting webhooks fill in discharges part of the condition.
\<close>

named_theorems panicFree_intros \<open>how a result is put together without a panic\<close>

section \<open>Results without panics\<close>

definition panicFree :: "'a result \<Rightarrow> bool" where
  "panicFree r \<longleftrightarrow> (\<forall>p. r \<noteq> Inl (Panic p))"

lemma panicFree_simps [simp]:
  "panicFree (Inr y)" "panicFree (Inl (Panic p)) \<longleftrightarrow> False" "panicFree (Inl NoHostnames)" "panicFree (Inl PortNotPositive)"
  "panicFree (Inl PollTimeout)" "panicFree (Inl (Wrapped s e))" "panicFree (Inl (UnexpectedType t))"
  by (simp_all add: panicFree_def)

lemma panicFree_deref [simp]: "panicFree (deref what p) \<longleftrightarrow> p \<noteq> None"
  by (cases p) simp_all

lemma panicFree_andThen [panicFree_intros]:
  "panicFree m \<Longrightarrow> (\<And>y. m = Inr y \<Longrightarrow> panicFree (f y)) \<Longrightarrow> panicFree (andThen m f)"
  by (auto simp: panicFree_def andThen_eq_Inl)

lemma panicFree_wrapf [panicFree_intros]: "panicFree m \<Longrightarrow> panicFree (wrapf msg m)"
  by (auto simp: wrapf_def split: sum.split error.split)

lemma panicFree_Ingress [simp]: "panicFree (Ingress n ns l a hs s sec p port)"
  by (simp add: Ingress_def)

lemma panicFree_Inl: "panicFree (Inl e :: 'a result) \<Longrightarrow> panicFree (Inl e :: 'b result)"
  by (simp add: panicFree_def)

text \<open>The libraries report errors as errors.\<close>

definition errorsOnly :: "externs \<Rightarrow> bool" where
  "errorsOnly x \<longleftrightarrow> (\<forall>raw. panicFree (JSONToYAML x raw)) \<and> (\<forall>raw d. panicFree (UnmarshalCommon x raw d)) \<and>
     (\<forall>raw. panicFree (UnmarshalApp x raw)) \<and> (\<forall>raw. panicFree (UnmarshalDatabase x raw)) \<and>
     (\<forall>raw. panicFree (UnmarshalExecutor x raw)) \<and> (\<forall>kind owner m. panicFree (SetOwner x kind owner m))"

lemma errorsOnlyD:
  assumes "errorsOnly x"
  shows "panicFree (JSONToYAML x raw)" "panicFree (UnmarshalCommon x raw d)" "panicFree (UnmarshalApp x raw)"
    "panicFree (UnmarshalDatabase x raw)" "panicFree (UnmarshalExecutor x raw)" "panicFree (SetOwner x kind owner m)"
  using assms by (simp_all add: errorsOnly_def)

lemma errorsOnly_refExterns [simp]: "errorsOnly refExterns"
  by (simp add: errorsOnly_def refOwner_def panicFree_def)

section \<open>Generators without panics\<close>

lemma panicFree_shared:
  assumes "errorsOnly x"
  shows "panicFree (ParseCommonApplicationConfig x raw)" "panicFree (CreateSecret x raw n ns f)"
    "panicFree (SetOwnerReference x kind owner g u ob)" "panicFree (serviceAccountFor x kind owner spec)"
    "panicFree (ExtractPulsarConfig x raw)" "panicFree (newProfilingComponents x kind owner cfg ic)"
    "panicFree (ownIngress x kind owner ing)" "panicFree (ownJobs x kind owner jobs)"
proof -
  note e = errorsOnlyD [OF assms]
  show o: "panicFree (SetOwnerReference x kind owner g u ob)" for kind owner g and u :: "_ \<Rightarrow> 'a \<Rightarrow> 'a" and ob
    unfolding SetOwnerReference_def by (intro panicFree_intros e) simp
  show "panicFree (ParseCommonApplicationConfig x raw)"
    unfolding ParseCommonApplicationConfig_def by (auto intro!: panicFree_intros e)
  show "panicFree (CreateSecret x raw n ns f)"
    unfolding CreateSecret_def by (auto intro!: panicFree_intros e)
  have o': "panicFree (SetOwnerReference x kind owner g u ob)" for kind owner g and u :: "_ \<Rightarrow> 'b \<Rightarrow> 'b" and ob
    unfolding SetOwnerReference_def by (intro panicFree_intros e) simp
  show "panicFree (serviceAccountFor x kind owner spec)"
    unfolding serviceAccountFor_def SetOwnerReference_def Let_def by (auto intro!: panicFree_intros e)
  show "panicFree (ExtractPulsarConfig x raw)"
    unfolding ExtractPulsarConfig_def by (auto intro!: panicFree_intros e)
  show "panicFree (newProfilingComponents x kind owner cfg ic)"
    unfolding newProfilingComponents_def newProfilingService_def newProfilingIngress_def SetOwnerReference_def Let_def
    by (auto intro!: panicFree_intros e split: option.split)
  show "panicFree (ownIngress x kind owner ing)"
    unfolding ownIngress_def SetOwnerReference_def by (auto intro!: panicFree_intros e split: option.split)
  show "panicFree (ownJobs x kind owner jobs)"
    by (induction jobs) (auto simp: SetOwnerReference_def intro!: panicFree_intros e)
qed

text \<open>A hostname needs an Ingress configuration.\<close>

definition ingressSet :: "string list \<Rightarrow> IngressConfig option \<Rightarrow> bool" where
  "ingressSet hosts ic \<longleftrightarrow> (hosts \<noteq> [] \<longrightarrow> ic \<noteq> None)"

lemma panicFree_ingresses:
  "ingressSet (as_HostNames (cr_Spec as)) (as_Ingress (cr_Spec as)) \<Longrightarrow> panicFree (createServerIngressGRPC x as cfg)"
  "ingressSet (as_HostNames (cr_Spec as)) (as_Ingress (cr_Spec as)) \<Longrightarrow> panicFree (createServerIngressHTTP x as cfg)"
  "ingressSet (lk_HostNames (cr_Spec lk)) (lk_Ingress (cr_Spec lk)) \<Longrightarrow> panicFree (createLookoutIngressHttp x lk cfg)"
  "ingressSet (sd_HostNames (cr_Spec sd)) (sd_Ingress (cr_Spec sd)) \<Longrightarrow> panicFree (newSchedulerIngressGRPC x sd cfg)"
  "ingressSet (bn_HostNames (cr_Spec bn)) (bn_Ingress (cr_Spec bn)) \<Longrightarrow> panicFree (createBinocularsIngressGrpc x bn cfg)"
  "ingressSet (bn_HostNames (cr_Spec bn)) (bn_Ingress (cr_Spec bn)) \<Longrightarrow> panicFree (createBinocularsIngressHttp x bn cfg)"
  unfolding createServerIngressGRPC_def createServerIngressHTTP_def createLookoutIngressHttp_def
    newSchedulerIngressGRPC_def createBinocularsIngressGrpc_def createBinocularsIngressHttp_def Let_def
  by (auto simp: ingressSet_def intro!: panicFree_intros)

lemma panicFree_objects:
  assumes "errorsOnly x"
  shows "panicFree (createArmadaServerDeployment x as account cfg)" "panicFree (createArmadaServerMigrationJobs x as cfg)"
    "panicFree (createLookoutDeployment x lk account cfg)" "panicFree (createLookoutDatabaseJob x lk account sfx args)"
    "panicFree (createLookoutCronJob x lk account)" "panicFree (newSchedulerDeployment x sd account cfg)"
    "panicFree (newSchedulerMigrationJob x sd account)" "panicFree (createExecutorDeployment x ex account cfg)"
    "panicFree (createExecutorService x ex)" "panicFree (EventIngester_createDeployment x ei account cfg)"
    "panicFree (LookoutIngester_createDeployment x li account cfg)"
    "panicFree (SchedulerIngester_createDeployment x si account cfg)"
    "sd_Pruner (cr_Spec sd) \<noteq> None \<Longrightarrow> panicFree (newSchedulerCronJob x sd account)"
    "csb_Resources (cr_Spec bn) \<noteq> None \<Longrightarrow> panicFree (createBinocularsDeployment x bn sec account cfg)"
  using errorsOnlyD [OF assms] panicFree_shared(5) [OF assms]
  unfolding createArmadaServerDeployment_def createArmadaServerMigrationJobs_def createLookoutDeployment_def
    createLookoutDatabaseJob_def createLookoutCronJob_def extractLookoutConfig_def newSchedulerDeployment_def
    newSchedulerMigrationJob_def extractSchedulerConfig_def createExecutorDeployment_def createExecutorService_def
    extractExecutorConfig_def EventIngester_createDeployment_def LookoutIngester_createDeployment_def
    SchedulerIngester_createDeployment_def newSchedulerCronJob_def createBinocularsDeployment_def
    CreateProbesWithScheme_def Let_def prod.case
  by (auto intro!: panicFree_intros)

lemma panicFree_prod [panicFree_intros]:
  "(\<And>a b. p = (a, b) \<Longrightarrow> panicFree (f a b)) \<Longrightarrow> panicFree (case p of (a, b) \<Rightarrow> f a b)"
  by (cases p) simp

lemma panicFree_option [panicFree_intros]:
  "panicFree a \<Longrightarrow> (\<And>y. p = Some y \<Longrightarrow> panicFree (f y)) \<Longrightarrow> panicFree (case p of None \<Rightarrow> a | Some y \<Rightarrow> f y)"
  by (cases p) simp_all

lemma panicFree_if [panicFree_intros]:
  "(b \<Longrightarrow> panicFree m) \<Longrightarrow> (\<not> b \<Longrightarrow> panicFree n) \<Longrightarrow> panicFree (if b then m else n)"
  by simp

lemma ArmadaServer_generate_panicFree:
  assumes "errorsOnly x" "ingressSet (as_HostNames (cr_Spec cr)) (as_Ingress (cr_Spec cr))"
  shows "panicFree (ArmadaServer_generate x cr)"
  unfolding ArmadaServer_generate_def generateArmadaServerInstallComponents_def Let_def
  by (intro panicFree_intros panicFree_shared [OF assms(1)] panicFree_objects(1,2) [OF assms(1)]
      panicFree_ingresses(1,2) [OF assms(2)] panicFree_simps)

lemma Lookout_generateAll_panicFree:
  assumes "errorsOnly x" "ingressSet (lk_HostNames (cr_Spec cr)) (lk_Ingress (cr_Spec cr))"
  shows "panicFree (Lookout_generateAll x cr)"
  unfolding Lookout_generateAll_def generateLookoutInstallComponents_def createLookoutMigrationJob_def
    createLookoutPartitionJobTableJob_def Let_def
  by (intro panicFree_intros panicFree_shared [OF assms(1)] panicFree_objects(3-5) [OF assms(1)]
      panicFree_ingresses(3) [OF assms(2)] panicFree_simps)

lemma Scheduler_generate_panicFree:
  assumes "errorsOnly x" "ingressSet (sd_HostNames (cr_Spec cr)) (sd_Ingress (cr_Spec cr))"
    "sd_Pruner (cr_Spec cr) \<noteq> None"
  shows "panicFree (Scheduler_generate x cr)"
  unfolding Scheduler_generate_def generateSchedulerInstallComponents_def Let_def
  by (intro panicFree_intros panicFree_shared [OF assms(1)] panicFree_objects(6,7) [OF assms(1)]
      panicFree_objects(13) [OF assms(1,3)] panicFree_ingresses(4) [OF assms(2)] panicFree_simps)

lemma Executor_generate_panicFree: "errorsOnly x \<Longrightarrow> panicFree (Executor_generate x cr)"
  unfolding Executor_generate_def generateExecutorInstallComponents_def Let_def
  by (intro panicFree_intros panicFree_shared panicFree_objects(8,9) panicFree_simps; assumption)

lemma ingesters_generate_panicFree:
  assumes "errorsOnly x"
  shows "panicFree (EventIngester_generate x ei)" "panicFree (LookoutIngester_generate x li)"
    "panicFree (SchedulerIngester_generate x si)"
  unfolding EventIngester_generate_def EventIngester_generateEventIngesterComponents_def
    LookoutIngester_generate_def LookoutIngester_generateInstallComponents_def
    SchedulerIngester_generate_def SchedulerIngester_generateSchedulerIngesterComponents_def Let_def
  by (intro panicFree_intros panicFree_shared [OF assms] panicFree_objects(10-12) [OF assms] panicFree_simps)+

lemma Binoculars_generate_panicFree:
  assumes "errorsOnly x" "csb_Resources (cr_Spec cr) \<noteq> None" "bn_HostNames (cr_Spec cr) \<noteq> []" "bn_Ingress (cr_Spec cr) \<noteq> None"
  shows "panicFree (Binoculars_generate x cr)"
proof -
  have i: "ingressSet (bn_HostNames (cr_Spec cr)) (bn_Ingress (cr_Spec cr))" using assms(4) by (simp add: ingressSet_def)
  have nil: "createBinocularsIngressHttp x cr cfg = Inr ing \<Longrightarrow> panicFree (deref w ing)"
    "createBinocularsIngressGrpc x cr cfg = Inr ing \<Longrightarrow> panicFree (deref w ing)" for cfg ing w
    using assms(3) by (auto simp: createBinocularsIngressHttp_def createBinocularsIngressGrpc_def Let_def andThen_eq_Inr)
  show ?thesis
    unfolding Binoculars_generate_def generateBinocularsInstallComponents_def Let_def
    by (intro panicFree_intros panicFree_shared [OF assms(1)] panicFree_objects(14) [OF assms(1,2)]
        panicFree_ingresses(5,6) [OF i] panicFree_simps; (rule nil, assumption)?)
qed

section \<open>Runs without panics\<close>

text \<open>
  The client never panics by itself: its calls return errors, and \<open>CreateOrUpdate\<close> panics only when
  the mutate function does.
\<close>

definition calm :: "('spec, 'status, 's) client \<Rightarrow> bool" where
  "calm c \<longleftrightarrow> (\<forall>k s. panicFree (fst (c_Get c k s))) \<and> (\<forall>cr s. panicFree (fst (c_Update c cr s))) \<and>
     (\<forall>cr s. panicFree (fst (c_StatusUpdate c cr s))) \<and> (\<forall>ob s. panicFree (fst (c_Delete c ob s))) \<and>
     (\<forall>k s. panicFree (fst (c_GetJob c k s))) \<and>
     (\<forall>a f h s ob. load a h = Some ob \<longrightarrow> (\<forall>h1. touched a h h1 \<longrightarrow> panicFree (fst (f h1))) \<longrightarrow>
        panicFree (fst (c_CreateOrUpdate c a f (h, s))))"

lemma calmD:
  assumes "calm c"
  shows "panicFree (fst (c_Get c k s))" "panicFree (fst (c_Update c cr s))" "panicFree (fst (c_StatusUpdate c cr s))"
    "panicFree (fst (c_Delete c ob s))" "panicFree (fst (c_GetJob c k s))"
    "load a h = Some ob \<Longrightarrow> (\<And>h1. touched a h h1 \<Longrightarrow> panicFree (fst (f h1))) \<Longrightarrow>
       panicFree (fst (c_CreateOrUpdate c a f (h, s)))"
  using assms unfolding calm_def by blast+

lemma panicFree_onServer: "panicFree (fst (onServer m w)) \<longleftrightarrow> panicFree (fst (m (w_Srv w)))"
  by (simp add: onServer_def split: prod.split)

lemma panicFree_andThenA:
  assumes "panicFree (fst (m w))" "\<And>y w'. m w = (Inr y, w') \<Longrightarrow> panicFree (fst (f y w'))"
  shows "panicFree (fst (andThenA m f w))"
  using assms by (auto simp: andThenA_def split: prod.split sum.split dest: panicFree_Inl)

lemma panicFree_updateCR: "calm c \<Longrightarrow> panicFree (fst (updateCR c cr w))"
  by (simp add: updateCR_def panicFree_onServer calmD)

lemma panicFree_getObject: "calm c \<Longrightarrow> panicFree (fst (getObject c k w))"
  using panicFree_onServer [of "c_Get c k" w] calmD(1) [of c k "w_Srv w"]
  by (auto simp: getObject_def split: prod.split sum.split dest: panicFree_Inl)

lemma panicFree_deleteObject: "calm c \<Longrightarrow> load a (w_Heap w) \<noteq> None \<Longrightarrow> panicFree (fst (deleteObject c a w))"
  by (auto simp: deleteObject_def panicFree_onServer calmD(4))

lemma panicFree_ignoreNotFound: "panicFree (fst (m w)) \<Longrightarrow> panicFree (fst (ignoreNotFound m w))"
  by (cases "m w") (auto simp: ignoreNotFound_def split: sum.split)

lemma panicFree_deleteExternal:
  assumes "calm c" "load (InComponents s) (w_Heap w) \<noteq> None"
  shows "panicFree (fst (deleteExternal c what cc s w))"
  using panicFree_wrapf [OF panicFree_ignoreNotFound [of "deleteObject c (InComponents s)", OF panicFree_deleteObject [OF assms]]]
  by (simp add: deleteExternal_def wrapfA_def split_beta)

lemma panicFree_check:
  assumes "calm c" "\<And>cl. cleanup = Some cl \<Longrightarrow> panicFree (fst (cl w))"
  shows "panicFree (fst (checkAndHandleObjectDeletion x c cr f cleanup w))"
  using assms
  by (auto simp: checkAndHandleObjectDeletion_def handleObjectDeletion_def addFinalizerIfNeeded_def
      intro!: panicFree_andThenA panicFree_updateCR split: option.split)

text \<open>Every Job that is waited for is there.\<close>

definition waitsLoaded :: "heap \<Rightarrow> step list \<Rightarrow> bool" where
  "waitsLoaded h sts \<longleftrightarrow> (\<forall>a. WaitJob a \<in> set sts \<longrightarrow> (\<exists>j. load a h = Some (KJob j)))"

lemma ready_waitsLoaded: "ready h p sts \<Longrightarrow> waitsLoaded h sts"
  by (induction h p sts rule: ready.induct) (auto simp: waitsLoaded_def)

lemma panicFree_pollFor:
  assumes calm: "calm c" and law: "getJobLaw c view" and j: "load a h0 = Some (KJob j)"
  shows "sameKeys (w_Heap w) h0 \<Longrightarrow> panicFree (fst (pollFor n (pollJob c a) w))"
proof (induction n arbitrary: w)
  case 0
  then show ?case by simp
next
  case (Suc n)
  obtain ob where ob: "load a (w_Heap w) = Some ob" "keyOf ob = keyOf (KJob j)"
    using sameKeys_Some(1) [OF Suc.prems j] by blast
  then obtain job where job: "ob = KJob job" by (cases ob) (auto simp: keyOf_def)
  show ?case unfolding pollFor.simps
  proof (rule panicFree_andThenA)
    show "panicFree (fst (pollJob c a w))"
      using ob(1) job calmD(5) [OF calm]
      by (auto simp: pollJob_def intro!: panicFree_andThenA) (simp add: panicFree_onServer)
    fix y w1
    assume "pollJob c a w = (Inr y, w1)"
    from pollJob_run(1) [OF law Suc.prems this] have "sameKeys (w_Heap w1) h0" by (simp add: polled_def)
    with Suc.IH show "panicFree (fst ((if y then returnA () else pollFor n (pollJob c a)) w1))" by simp
  qed
qed

lemma panicFree_runStep:
  assumes laws: "clientLaws c view" "calm c" and gen: "generated h0 new" and keys: "sameKeys (w_Heap w) h0"
    and wait: "\<And>a. st = WaitJob a \<Longrightarrow> \<exists>j. load a h0 = Some (KJob j)"
  shows "panicFree (fst (runStep c (reconcileMutate new) st w))"
proof (cases st)
  case (Upsert a)
  show ?thesis
  proof (cases "load a (w_Heap w)")
    case None
    with Upsert show ?thesis by (simp add: upsert_nil)
  next
    case (Some ob)
    from gen have new: "h_Components h0 = new" "cc_Secret new \<noteq> None" "cc_Deployment new \<noteq> None"
      by (simp_all add: generated_def)
    have "panicFree (fst (reconcileMutate new h1))" if t: "touched a (w_Heap w) h1" for h1
    proof -
      have "sameKeys h1 h0" using touched_sameKeys [OF t] keys by (rule sameKeys_trans)
      then obtain h2 where "reconcileMutate new h1 = (Inr (), h2)"
        using reconcileMutate_run [OF _ new] by metis
      then show ?thesis by simp
    qed
    with calmD(6) [OF laws(2) Some] have co: "panicFree (fst (c_CreateOrUpdate c a (reconcileMutate new) (w_Heap w, w_Srv w)))"
      by blast
    obtain r h s where "c_CreateOrUpdate c a (reconcileMutate new) (w_Heap w, w_Srv w) = (r, (h, s))"
      by (metis surj_pair)
    with co Some Upsert show ?thesis by (simp add: upsertObjectIfNeeded_def isNilAt_def)
  qed
next
  case (DeleteObject a)
  show ?thesis
    using panicFree_deleteObject [OF laws(2), of a w]
    by (auto simp: DeleteObject deleteObjectIfNeeded_def isNilAt_def intro: panicFree_ignoreNotFound)
next
  case (WaitJob a)
  obtain j where j: "load a h0 = Some (KJob j)" using wait [OF WaitJob] by blast
  obtain n where "runStep c (reconcileMutate new) st w = pollFor n (pollJob c a) w"
    using clientLawsD(4) [OF laws(1)] poll_budget(2,3) unfolding pollLaw_def WaitJob runStep.simps waitForJob_def by blast
  with panicFree_pollFor [OF laws(2) clientLawsD(2) [OF laws(1)] j keys] show ?thesis by simp
qed

lemma panicFree_runSteps:
  assumes laws: "clientLaws c view" "calm c" and gen: "generated h0 new"
  shows "sameKeys (w_Heap w) h0 \<Longrightarrow> waitsLoaded h0 sts \<Longrightarrow> panicFree (fst (runSteps c (reconcileMutate new) sts w))"
proof (induction sts arbitrary: w)
  case (Cons st sts)
  show ?case unfolding runSteps.simps
  proof (rule panicFree_andThenA)
    show "panicFree (fst (runStep c (reconcileMutate new) st w))"
      using panicFree_runStep [OF laws gen Cons.prems(1)] Cons.prems(2) by (auto simp: waitsLoaded_def)
    fix y w1
    assume "runStep c (reconcileMutate new) st w = (Inr y, w1)"
    from runStep_run(1) [OF laws(1) Cons.prems(1) gen this] Cons.IH Cons.prems(2)
    show "panicFree (fst (runSteps c (reconcileMutate new) sts w1))" by (simp add: waitsLoaded_def)
  qed
qed simp

lemma onServer_heap: "w_Heap (snd (onServer m w)) = w_Heap w"
  by (simp add: onServer_def split: prod.split)

text \<open>From worlds with the heap \<open>h\<close>, the action does not panic and leaves the heap alone.\<close>

definition safeAt :: "heap \<Rightarrow> ('s world, 'a) action \<Rightarrow> bool" where
  "safeAt h m \<longleftrightarrow> (\<forall>w. w_Heap w = h \<longrightarrow> panicFree (fst (m w)) \<and> w_Heap (snd (m w)) = h)"

lemma safeAtD: "safeAt h m \<Longrightarrow> w_Heap w = h \<Longrightarrow> m w = (r, w') \<Longrightarrow> panicFree r \<and> w_Heap w' = h"
  unfolding safeAt_def by (metis fst_conv snd_conv)

lemma safeAt_returnA [simp]: "safeAt h (returnA y)"
  by (simp add: safeAt_def)

lemma safeAt_Pair [simp]: "safeAt h (Pair (Inr y))"
  by (simp add: safeAt_def)

lemma safeAt_andThenA:
  fixes m :: "('s world, 'a) action"
  assumes m: "safeAt h m" and f: "\<And>y. safeAt h (f y)"
  shows "safeAt h (andThenA m f)"
  unfolding safeAt_def
proof (intro allI impI)
  fix w :: "'s world"
  assume "w_Heap w = h"
  obtain r w1 where "m w = (r, w1)" by fastforce
  moreover from safeAtD [OF m \<open>w_Heap w = h\<close> this] have "panicFree r" "w_Heap w1 = h" by blast+
  ultimately show "panicFree (fst (andThenA m f w)) \<and> w_Heap (snd (andThenA m f w)) = h"
    using f by (cases r) (auto simp: andThenA_def safeAt_def dest: panicFree_Inl)
qed

lemma safeAt_updateCR: "calm c \<Longrightarrow> safeAt h (updateCR c cr)"
  unfolding safeAt_def by (simp add: panicFree_updateCR) (simp add: updateCR_def onServer_heap)

lemma safeAt_deleteExternal:
  assumes "calm c" "load (InComponents s) h \<noteq> None"
  shows "safeAt h (deleteExternal c what cc s)"
proof -
  have k: "w_Heap (snd (deleteObject c a w)) = w_Heap w" for a w
    by (auto simp: deleteObject_def onServer_heap split: option.split)
  have "w_Heap (snd (deleteExternal c what cc s w)) = w_Heap w" for w
    using k [of "InComponents s" w]
    by (cases "deleteObject c (InComponents s) w")
      (auto simp: deleteExternal_def wrapfA_def ignoreNotFound_def split: sum.split)
  with panicFree_deleteExternal [OF assms(1)] assms(2) show ?thesis by (auto simp: safeAt_def)
qed

lemma safeAt_inSequence: "(\<And>m. m \<in> set ms \<Longrightarrow> safeAt h m) \<Longrightarrow> safeAt h (inSequence ms)"
  by (induction ms) (auto intro!: safeAt_andThenA)

lemma safeAt_check:
  assumes "calm c" "\<And>cl. cleanup = Some cl \<Longrightarrow> safeAt h cl"
  shows "safeAt h (checkAndHandleObjectDeletion x c cr f cleanup)"
  unfolding checkAndHandleObjectDeletion_def handleObjectDeletion_def addFinalizerIfNeeded_def
  using assms by (auto intro!: safeAt_andThenA safeAt_updateCR split: option.split)

text \<open>An update of the resource answers with the specification that was sent.\<close>

definition keepsSpec :: "('spec, 'status, 's) client \<Rightarrow> bool" where
  "keepsSpec c \<longleftrightarrow> (\<forall>cr cr' s s'. c_Update c cr s = (Inr cr', s') \<longrightarrow> cr_Spec cr' = cr_Spec cr)"

lemma updateCR_spec: "keepsSpec c \<Longrightarrow> updateCR c cr w = (Inr cr', w') \<Longrightarrow> cr_Spec cr' = cr_Spec cr"
  unfolding keepsSpec_def by (auto simp: updateCR_def onServer_def split: prod.splits)

lemma check_spec:
  assumes "keepsSpec c" "checkAndHandleObjectDeletion x c cr f cleanup w = (Inr y, w')"
  shows "cr_Spec (snd y) = cr_Spec cr"
  using assms(2)
  by (auto simp: checkAndHandleObjectDeletion_def handleObjectDeletion_def addFinalizerIfNeeded_def andThenA_eq_Inr
      split: option.splits if_splits dest!: updateCR_spec [OF assms(1)])

lemma generateFirst_panicFree:
  assumes laws: "clientLaws c view" "calm c" and cr: "fetches c req w cr" and gen: "panicFree (generate cr)"
    and cc: "\<And>cc. generate cr = Inr cc \<Longrightarrow> generated (heapOf cc None) cc"
    and cl: "\<And>cc cl. generate cr = Inr cc \<Longrightarrow> cleanup cc = Some cl \<Longrightarrow> safeAt (heapOf cc None) cl"
    and steps: "\<And>cr' cc. waitsLoaded (heapOf cc None) (steps cr' cc)"
  shows "panicFree (fst (generateFirst x c req generate cleanup steps w))"
proof -
  obtain w1 where w1: "getObject c req w = (Inr (Some cr), w1)" using fetches_getObject [OF cr] by blast
  show ?thesis
  proof (cases "generate cr")
    case (Inl e)
    with gen w1 show ?thesis by (auto simp: generateFirst_def andThenA_def dest: panicFree_Inl)
  next
    case (Inr cc)
    let ?w1 = "w1\<lparr>w_Heap := heapOf cc None\<rparr>"
    let ?check = "checkAndHandleObjectDeletion x c cr operatorFinalizer (cleanup cc)"
    let ?rest = "\<lambda>(finish, object). if finish then returnA () else runSteps c (reconcileMutate (DeepCopy cc)) (steps object cc)"
    have eq: "generateFirst x c req generate cleanup steps w = andThenA ?check ?rest ?w1"
      using w1 Inr by (simp add: generateFirst_def andThenA_def allocComponents_def)
    show ?thesis unfolding eq
    proof (rule panicFree_andThenA)
      have safe: "safeAt (heapOf cc None) ?check" by (rule safeAt_check [OF laws(2) cl [OF Inr]])
      then show "panicFree (fst (?check ?w1))" by (simp add: safeAt_def)
      fix y w2
      assume "?check ?w1 = (Inr y, w2)"
      with safeAtD [OF safe _ this] have "w_Heap w2 = heapOf cc None" by simp
      then show "panicFree (fst (?rest y w2))"
        using panicFree_runSteps [OF laws cc [OF Inr], of w2] steps by (auto simp: DeepCopy_eq split: prod.split)
    qed
  qed
qed

lemma checkFirst_panicFree:
  assumes laws: "clientLaws c view" "calm c" and cr: "fetches c req w cr"
    and gen: "\<And>cr'. cr_Spec cr' = cr_Spec cr \<Longrightarrow> panicFree (generate cr')"
    and upd: "keepsSpec c"
    and cc: "\<And>cr' cc. generate cr' = Inr cc \<Longrightarrow> generated (heapOf cc None) cc"
    and steps: "\<And>cr' cc. waitsLoaded (heapOf cc None) (steps cr' cc)"
  shows "panicFree (fst (checkFirst x c req generate steps w))"
proof -
  obtain w1 where w1: "getObject c req w = (Inr (Some cr), w1)" using fetches_getObject [OF cr] by blast
  let ?check = "checkAndHandleObjectDeletion x c cr operatorFinalizer None"
  let ?rest = "\<lambda>(finish, object). if finish then returnA () else
     andThenA (liftA (generate object)) (\<lambda>components. andThenA (allocComponents components None) (\<lambda>_.
     runSteps c (reconcileMutate (DeepCopy components)) (steps object components)))"
  have eq: "checkFirst x c req generate steps w = andThenA ?check ?rest w1"
    using w1 by (simp add: checkFirst_def andThenA_def)
  show ?thesis unfolding eq
  proof (rule panicFree_andThenA)
    show "panicFree (fst (?check w1))" by (intro panicFree_check laws) simp
    fix y w2
    assume "?check w1 = (Inr y, w2)"
    then have spec: "cr_Spec (snd y) = cr_Spec cr" by (rule check_spec [OF upd])
    show "panicFree (fst (?rest y w2))"
    proof (cases "generate (snd y)")
      case (Inl e)
      with gen [OF spec] show ?thesis by (auto simp: andThenA_liftA split: prod.split dest: panicFree_Inl)
    next
      case (Inr cc)
      with panicFree_runSteps [OF laws cc [OF Inr], of "w2\<lparr>w_Heap := heapOf cc None\<rparr>"] steps
      show ?thesis by (auto simp: andThenA_liftA allocComponents_def andThenA_def DeepCopy_eq split: prod.split)
    qed
  qed
qed

section \<open>The controllers\<close>

lemma cleanups_safe:
  "calm ca \<Longrightarrow> safeAt (heapOf cc None) (ArmadaServer_deleteExternalResources ca cc)"
  "calm ce \<Longrightarrow> cc_ClusterRole cc \<noteq> None \<Longrightarrow> safeAt (heapOf cc None) (Executor_deleteExternalResources ce cc)"
  "calm cb \<Longrightarrow> cc_ClusterRole cc \<noteq> None \<Longrightarrow> cc_ClusterRoleBindings cc \<noteq> [] \<Longrightarrow>
     safeAt (heapOf cc None) (Binoculars_deleteExternalResources cb cc)"
  unfolding ArmadaServer_deleteExternalResources_def Executor_deleteExternalResources_def
    Binoculars_deleteExternalResources_def
  by (auto intro!: safeAt_andThenA safeAt_inSequence safeAt_deleteExternal)

lemma ArmadaServer_Reconcile_panicFree:
  assumes "clientLaws c view" "calm c" "ownerLaw x" "errorsOnly x" "fetches c req w cr"
    "ingressSet (as_HostNames (cr_Spec cr)) (as_Ingress (cr_Spec cr))"
  shows "panicFree (fst (ArmadaServer_Reconcile x c req w))"
  unfolding ArmadaServer_Reconcile_skeleton
proof (rule generateFirst_panicFree [OF assms(1,2,5)])
  show "panicFree (ArmadaServer_generate x cr)" by (rule ArmadaServer_generate_panicFree [OF assms(4,6)])
  show "ArmadaServer_generate x cr = Inr cc \<Longrightarrow> generated (heapOf cc None) cc" for cc
    by (rule armadaServer.required [OF assms(3)])
qed (auto intro: cleanups_safe assms(2) ready_waitsLoaded [OF ArmadaServer_ready])

lemma Executor_Reconcile_panicFree:
  assumes "clientLaws c view" "calm c" "ownerLaw x" "errorsOnly x" "fetches c req w cr"
  shows "panicFree (fst (Executor_Reconcile x c req w))"
  unfolding Executor_Reconcile_skeleton
proof (rule generateFirst_panicFree [OF assms(1,2,5)])
  show "panicFree (Executor_generate x cr)" by (rule Executor_generate_panicFree [OF assms(4)])
  show "Executor_generate x cr = Inr cc \<Longrightarrow> generated (heapOf cc None) cc" for cc
    by (rule executor.required [OF assms(3)])
  show "safeAt (heapOf cc None) cl" if "Executor_generate x cr = Inr cc" "Some (Executor_deleteExternalResources c cc) = Some cl" for cc cl
    using that cleanups_safe(2) [OF assms(2)] by (auto elim: Executor_generate_Inr)
qed (auto intro: ready_waitsLoaded [OF Executor_ready])

lemma Binoculars_Reconcile_panicFree:
  assumes "clientLaws c view" "calm c" "ownerLaw x" "errorsOnly x" "fetches c req w cr"
    "csb_Resources (cr_Spec cr) \<noteq> None" "bn_HostNames (cr_Spec cr) \<noteq> []" "bn_Ingress (cr_Spec cr) \<noteq> None"
  shows "panicFree (fst (Binoculars_Reconcile x c req w))"
  unfolding Binoculars_Reconcile_skeleton
proof (rule generateFirst_panicFree [OF assms(1,2,5)])
  show "panicFree (Binoculars_generate x cr)" by (rule Binoculars_generate_panicFree [OF assms(4,6-8)])
  show "Binoculars_generate x cr = Inr cc \<Longrightarrow> generated (heapOf cc None) cc" for cc
    by (rule binoculars.required [OF assms(3)])
  show "safeAt (heapOf cc None) cl" if "Binoculars_generate x cr = Inr cc" "Some (Binoculars_deleteExternalResources c cc) = Some cl" for cc cl
    using that cleanups_safe(3) [OF assms(2)] Binoculars_cluster [OF that(1)] by auto
qed (auto intro: ready_waitsLoaded [OF Binoculars_ready])

lemma Scheduler_Reconcile_panicFree:
  assumes "clientLaws c view" "calm c" "keepsSpec c" "ownerLaw x" "errorsOnly x" "fetches c req w cr"
    "ingressSet (sd_HostNames (cr_Spec cr)) (sd_Ingress (cr_Spec cr))" "sd_Pruner (cr_Spec cr) \<noteq> None"
  shows "panicFree (fst (Scheduler_Reconcile x c req w))"
  unfolding Scheduler_Reconcile_skeleton
proof (rule checkFirst_panicFree [OF assms(1,2,6) _ assms(3)])
  show "cr_Spec cr' = cr_Spec cr \<Longrightarrow> panicFree (Scheduler_generate x cr')" for cr'
    using assms(5,7,8) by (intro Scheduler_generate_panicFree) simp_all
  show "Scheduler_generate x cr' = Inr cc \<Longrightarrow> generated (heapOf cc None) cc" for cr' cc
    by (rule scheduler.required [OF assms(4)])
qed (rule ready_waitsLoaded [OF Scheduler_ready])

lemma EventIngester_Reconcile_panicFree:
  assumes "clientLaws c view" "calm c" "ownerLaw x" "errorsOnly x" "fetches c req w cr"
  shows "panicFree (fst (EventIngester_Reconcile x c req w))"
  unfolding EventIngester_Reconcile_skeleton
proof (rule generateFirst_panicFree [OF assms(1,2,5)])
  show "panicFree (EventIngester_generate x cr)" by (rule ingesters_generate_panicFree(1) [OF assms(4)])
  show "EventIngester_generate x cr = Inr cc \<Longrightarrow> generated (heapOf cc None) cc" for cc
    by (rule eventIngester.required [OF assms(3)])
qed (auto intro: ready_waitsLoaded [OF ingesters_ready(1)])

lemma LookoutIngester_Reconcile_panicFree:
  assumes "clientLaws c view" "calm c" "keepsSpec c" "ownerLaw x" "errorsOnly x" "fetches c req w cr"
  shows "panicFree (fst (LookoutIngester_Reconcile x c req w))"
  unfolding LookoutIngester_Reconcile_skeleton
proof (rule checkFirst_panicFree [OF assms(1,2,6) _ assms(3)])
  show "panicFree (LookoutIngester_generate x cr')" for cr' by (rule ingesters_generate_panicFree(2) [OF assms(5)])
  show "LookoutIngester_generate x cr' = Inr cc \<Longrightarrow> generated (heapOf cc None) cc" for cr' cc
    by (rule lookoutIngester.required [OF assms(4)])
qed (rule ready_waitsLoaded [OF ingesters_ready(2)])

lemma SchedulerIngester_Reconcile_panicFree:
  assumes "clientLaws c view" "calm c" "keepsSpec c" "ownerLaw x" "errorsOnly x" "fetches c req w cr"
  shows "panicFree (fst (SchedulerIngester_Reconcile x c req w))"
  unfolding SchedulerIngester_Reconcile_skeleton
proof (rule checkFirst_panicFree [OF assms(1,2,6) _ assms(3)])
  show "panicFree (SchedulerIngester_generate x cr')" for cr' by (rule ingesters_generate_panicFree(3) [OF assms(5)])
  show "SchedulerIngester_generate x cr' = Inr cc \<Longrightarrow> generated (heapOf cc None) cc" for cr' cc
    by (rule schedulerIngester.required [OF assms(4)])
qed (rule ready_waitsLoaded [OF ingesters_ready(3)])

section \<open>The reference client\<close>

lemma calm_refClient [simp]: "calm (refClient :: ('spec, 'status, ('spec, 'status) refServer) client)"
proof -
  have "panicFree (fst (c_CreateOrUpdate (refClient :: ('spec, 'status, _) client) a f (h, s)))"
    if ob: "load a h = Some ob" and f: "\<And>h1. touched a h h1 \<Longrightarrow> panicFree (fst (f h1))"
    for a f h ob and s :: "('spec, 'status) refServer"
  proof -
    define h1 where "h1 = (case rs_Objects s (keyOf ob) of
        Some existing \<Rightarrow> if keyOf existing = keyOf ob then store a existing h else h | None \<Rightarrow> h)"
    have "touched a h h1" using ob by (auto simp: touched_def h1_def split: option.split)
    with f have "panicFree (fst (f h1))" by blast
    with ob show ?thesis
      by (cases "f h1") (auto simp: refUpsert_def Let_def panicFree_def simp flip: h1_def split: sum.split option.split)
  qed
  moreover have "panicFree (fst (c_Delete (refClient :: ('spec, 'status, _) client) ob s))" for ob s
    by (auto simp: refClient_def panicFree_def split: option.split)
  ultimately show ?thesis
    unfolding calm_def by (auto simp: refGetJob_def panicFree_def split: option.split kobj.split)
qed

lemma keepsSpec_refClient [simp]: "keepsSpec refClient"
  by (simp add: keepsSpec_def)

section \<open>Lookout\<close>

lemma Lookout_tail_panicFree:
  assumes laws: "upsertLaw c view" "calm c" and keys: "sameKeys (w_Heap w) (heapOf cc job)" and jobs: "cc_Jobs cc \<noteq> []"
  shows "panicFree (fst (Lookout_partitionJobTable x c cr w))"
proof -
  obtain j where "load (InComponents (SJob 0)) (heapOf cc job) = Some (KJob j)" using jobs by auto
  from sameKeys_Some(1) [OF keys this] obtain mig where mig: "load (InComponents (SJob 0)) (w_Heap w) = Some (KJob mig)"
    by (auto dest!: keyOf_kind split: if_splits)
  show ?thesis
  proof (cases "load PartitionJob (w_Heap w) \<noteq> None \<and> getTrueJobCondition mig JobComplete \<noteq> None")
    case False
    with mig show ?thesis by (auto simp: Lookout_partitionJobTable_def simp del: load.simps)
  next
    case True
    then obtain ob where ob: "load PartitionJob (w_Heap w) = Some ob" by blast
    have "panicFree (fst (c_CreateOrUpdate c PartitionJob leaveExistingJob (w_Heap w, w_Srv w)))"
      using calmD(6) [OF laws(2) ob] by (simp add: leaveExistingJob_def)
    then have up: "panicFree (fst (upsertObjectIfNeeded c PartitionJob leaveExistingJob w))"
      using ob by (cases "c_CreateOrUpdate c PartitionJob leaveExistingJob (w_Heap w, w_Srv w)")
        (auto simp: upsertObjectIfNeeded_def isNilAt_def split: prod.split)
    have st: "panicFree (fst (Lookout_updateStatus x c cr w1))"
      if u: "upsertObjectIfNeeded c PartitionJob leaveExistingJob w = (r1, w1)" for r1 w1
    proof -
      obtain pj where "load PartitionJob (w_Heap w1) = Some (KJob pj)"
        using sameKeys_Some(1) [OF leaveExistingJob_keys [OF laws(1) ob u] ob] load_kind [of PartitionJob "w_Heap w1"] by auto
      then show ?thesis
        using calmD(3) [OF laws(2)]
        by (auto simp: Lookout_updateStatus_def Let_def panicFree_onServer split_beta simp del: load.simps intro!: panicFree_andThenA)
    qed
    have "Lookout_partitionJobTable x c cr w =
        andThenA (upsertObjectIfNeeded c PartitionJob leaveExistingJob) (\<lambda>_. Lookout_updateStatus x c cr) w"
      using True mig by (simp add: Lookout_partitionJobTable_def del: load.simps)
    moreover have "panicFree (fst \<dots>)" by (rule panicFree_andThenA) (use up st in auto)
    ultimately show ?thesis by simp
  qed
qed

lemma Lookout_Reconcile_panicFree:
  assumes laws: "clientLaws c view" "calm c" "keepsSpec c" "ownerLaw x" "errorsOnly x" and cr: "fetches c req w cr"
    and set: "ingressSet (lk_HostNames (cr_Spec cr)) (lk_Ingress (cr_Spec cr))"
  shows "panicFree (fst (Lookout_Reconcile x c req w))"
proof -
  obtain w1 where w1: "getObject c req w = (Inr (Some cr), w1)" using fetches_getObject [OF cr] by blast
  let ?check = "checkAndHandleObjectDeletion x c cr operatorFinalizer None"
  let ?rest = "\<lambda>(finish, object). if finish then returnA () else
     andThenA (liftA (Lookout_generateAll x object)) (\<lambda>(cc, job). andThenA (allocComponents cc job) (\<lambda>_.
     andThenA (runSteps c (reconcileMutate (DeepCopy cc)) (Lookout_steps object cc)) (\<lambda>_.
     Lookout_partitionJobTable x c object)))"
  have eq: "Lookout_Reconcile x c req w = andThenA ?check ?rest w1"
    using w1 by (simp add: Lookout_Reconcile_def Lookout_generateAll_def andThenA_liftA_andThen andThenA_Inr Let_def
        cong: if_cong)
  show ?thesis unfolding eq
  proof (rule panicFree_andThenA)
    show "panicFree (fst (?check w1))" by (intro panicFree_check laws) simp
    fix y w2
    assume "?check w1 = (Inr y, w2)"
    then have spec: "cr_Spec (snd y) = cr_Spec cr" by (rule check_spec [OF laws(3)])
    show "panicFree (fst (?rest y w2))"
    proof (cases "Lookout_generateAll x (snd y)")
      case (Inl e)
      with Lookout_generateAll_panicFree [OF laws(5), of "snd y"] set spec
      show ?thesis by (auto simp: andThenA_liftA split: prod.split dest: panicFree_Inl)
    next
      case (Inr g)
      obtain cc job where g: "g = (cc, job)" by fastforce
      let ?w2 = "w2\<lparr>w_Heap := heapOf cc job\<rparr>"
      let ?run = "runSteps c (reconcileMutate cc) (Lookout_steps (snd y) cc)"
      have gen: "generated (heapOf cc job) cc"
        using lookout.required [OF laws(4)] Inr g by (auto simp: Lookout_generate_eq_Inr)
      have k2: "sameKeys (w_Heap ?w2) (heapOf cc job)" by simp
      have jobs: "cc_Jobs cc \<noteq> []" using Lookout_migration [OF Inr [unfolded g]] by fastforce
      have "panicFree (fst (andThenA ?run (\<lambda>_. Lookout_partitionJobTable x c (snd y)) ?w2))"
      proof (rule panicFree_andThenA)
        show "panicFree (fst (?run ?w2))"
          by (rule panicFree_runSteps [OF laws(1,2) gen k2 ready_waitsLoaded [OF Lookout_ready]])
        fix u w3
        assume "?run ?w2 = (Inr u, w3)"
        from runSteps_trace [OF laws(1) k2 gen this] have "sameKeys (w_Heap w3) (heapOf cc job)" by blast
        then show "panicFree (fst (Lookout_partitionJobTable x c (snd y) w3))"
          by (rule Lookout_tail_panicFree [OF clientLawsD(1) [OF laws(1)] laws(2) _ jobs])
      qed
      then show ?thesis
        by (cases y) (use Inr g in \<open>auto simp: andThenA_liftA allocComponents_def andThenA_def DeepCopy_eq\<close>)
    qed
  qed
qed

end
