(* ===== verification/Ordering.thy ===== *)
theory Ordering
  imports Healthy
begin

text \<open>
  The order of a reconciliation: the objects that depend on a Job are written only after the Job was
  seen finished.
\<close>

section \<open>Jobs first\<close>

lemma jobSteps_split:
  assumes "i < n"
  obtains pre post where "jobSteps n = pre @ WaitJob (InComponents (SJob i)) # post"
    "set pre \<subseteq> (\<lambda>j. Upsert (InComponents (SJob j))) ` {..i} \<union> (\<lambda>j. WaitJob (InComponents (SJob j))) ` {..<i}"
    "InComponents (SJob i) \<notin> stepAddr ` set post"
proof -
  let ?f = "\<lambda>j. [Upsert (InComponents (SJob j)), WaitJob (InComponents (SJob j))]"
  have "[0..<n] = [0..<i] @ i # [Suc i..<n]"
    using assms upt_add_eq_append [of 0 i "n - i"] by (simp add: upt_conv_Cons)
  then have "jobSteps n = (concat (map ?f [0..<i]) @ [Upsert (InComponents (SJob i))])
      @ WaitJob (InComponents (SJob i)) # concat (map ?f [Suc i..<n])"
    by (simp add: jobSteps_def)
  then show thesis by (rule that) auto
qed

text \<open>
  In a plan that upserts and awaits its Jobs between \<open>before\<close> and \<open>after\<close>, an object that is not a
  Job and that \<open>before\<close> does not upsert is written only when every Job is finished.
\<close>

lemma jobs_first:
  assumes laws: "clientLaws c view" and gen: "generated (heapOf cc job) cc"
    and run: "startsRun c cc job (before @ jobSteps n @ after) m w" "m w = (r, w')"
    and s: "slotKind s \<noteq> JobKind" "Upsert (InComponents s) \<notin> set before"
    and ev: "EvUpsert (InComponents s) \<in> set (w_Trace w')" "EvUpsert (InComponents s) \<notin> set (w_Trace w)"
    and i: "i < n" "InComponents (SJob i) \<notin> stepAddr ` set after"
  shows "finishedAt (InComponents (SJob i)) w'"
proof -
  obtain pre post where js: "jobSteps n = pre @ WaitJob (InComponents (SJob i)) # post"
    "set pre \<subseteq> (\<lambda>j. Upsert (InComponents (SJob j))) ` {..i} \<union> (\<lambda>j. WaitJob (InComponents (SJob j))) ` {..<i}"
    "InComponents (SJob i) \<notin> stepAddr ` set post" using jobSteps_split [OF i(1)] .
  from run obtain w1 where w1: "runSteps c (reconcileMutate cc) ((before @ pre) @ WaitJob (InComponents (SJob i)) # (post @ after)) w1 = (r, w')"
    "w_Heap w1 = heapOf cc job" "w_Trace w1 = w_Trace w" by (auto simp: startsRun_def js(1))
  have keys: "sameKeys (w_Heap w1) (heapOf cc job)" using w1(2) by simp
  have "EvUpsert (InComponents s) \<notin> set (planned (heapOf cc job) (before @ pre))"
  proof
    assume "EvUpsert (InComponents s) \<in> set (planned (heapOf cc job) (before @ pre))"
    then have "Upsert (InComponents s) \<in> set (before @ pre)" by (rule planned_upsert)
    with s(2) have "Upsert (InComponents s) \<in> set pre" by simp
    with js(2) s(1) show False by (cases s) auto
  qed
  with runSteps_finished [OF laws keys gen w1(1) _ _ ev(1)] ev(2) w1(3) js(3) i(2)
  show ?thesis by auto
qed

lemma ArmadaServer_jobs_first:
  assumes laws: "clientLaws c view" "ownerLaw x"
    and start: "fetches c req w cr" "live x cr" "ArmadaServer_generate x cr = Inr cc"
    and pulsar: "as_PulsarInit (cr_Spec cr)" and run: "ArmadaServer_Reconcile x c req w = (r, w')"
    and ev: "EvUpsert (InComponents SDeployment) \<in> set (w_Trace w')" "EvUpsert (InComponents SDeployment) \<notin> set (w_Trace w)"
    and i: "i < length (cc_Jobs cc)"
  shows "finishedAt (InComponents (SJob i)) w'"
proof -
  have "startsRun c cc None (upserts [SServiceAccount, SSecret] @ jobSteps (length (cc_Jobs cc)) @
      upserts [SDeployment, SService, SIngressGrpc, SIngressHttp, SPodDisruptionBudget, SPrometheusRule, SServiceMonitor])
    (ArmadaServer_Reconcile x c req) w"
    unfolding ArmadaServer_Reconcile_skeleton
    using generateFirst_starts [where generate = "ArmadaServer_generate x", OF start, of ArmadaServer_steps] pulsar by (simp add: ArmadaServer_steps_def)
  from jobs_first [OF laws(1) armadaServer.required [OF laws(2) start(3)] this run _ _ ev i]
  show ?thesis by auto
qed

lemma Scheduler_jobs_first:
  assumes laws: "clientLaws c view" "ownerLaw x"
    and start: "fetches c req w cr" "live x cr" "Scheduler_generate x cr = Inr cc"
    and run: "Scheduler_Reconcile x c req w = (r, w')"
    and ev: "EvUpsert (InComponents SDeployment) \<in> set (w_Trace w')" "EvUpsert (InComponents SDeployment) \<notin> set (w_Trace w)"
  shows "finishedAt (InComponents (SJob 0)) w'"
proof -
  let ?cron = "if case sd_Pruner (cr_Spec cr) of None \<Rightarrow> False | Some pruner \<Rightarrow> prn_Enabled pruner
      then [Upsert (InComponents SCronJob)] else [DeleteObject (InComponents SCronJob)]"
  have "length (cc_Jobs cc) > 0" using start(3) by (auto elim!: Scheduler_generate_Inr)
  then have "startsRun c cc None (upserts [SServiceAccount, SSecret] @ jobSteps 1 @
      (upserts [SDeployment, SService, SServiceProfiling, SIngressGrpc, SIngressProfiling, SServiceMonitor, SPrometheusRule]
       @ ?cron)) (Scheduler_Reconcile x c req) w"
    unfolding Scheduler_Reconcile_skeleton
    using checkFirst_starts [where generate = "Scheduler_generate x", OF start, of Scheduler_steps] by (simp add: Scheduler_steps_def jobSteps_def)
  from jobs_first [OF laws(1) scheduler.required [OF laws(2) start(3)] this run _ _ ev]
  show ?thesis by (auto split: option.split)
qed

lemma Lookout_jobs_first:
  assumes laws: "clientLaws c view" "statusLaw c view" "ownerLaw x"
    and start: "fetches c req w cr" "live x cr" "Lookout_generateAll x cr = Inr (cc, job)"
    and run: "Lookout_Reconcile x c req w = (r, w')"
    and ev: "EvUpsert (InComponents SDeployment) \<in> set (w_Trace w')" "EvUpsert (InComponents SDeployment) \<notin> set (w_Trace w)"
  shows "finishedAt (InComponents (SJob 0)) w'"
proof -
  obtain r2 w2 where s: "startsRun c cc job (Lookout_steps cr cc) (\<lambda>_. (r2, w2)) w"
    and tail: "r2 = Inr () \<and> Lookout_partitionJobTable x c cr w2 = (r, w') \<or> r2 = r \<and> w' = w2"
    using Lookout_Reconcile_run [OF laws start run] by blast
  have gen: "generated (heapOf cc job) cc"
    using lookout.required [OF laws(3)] start(3) by (auto simp: Lookout_generate_eq_Inr)
  have n: "length (cc_Jobs cc) = 1" using Lookout_migration [OF start(3)] by fastforce
  have later: "EvUpsert (InComponents SDeployment) \<in> set (w_Trace w2) \<and>
      (finishedAt (InComponents (SJob 0)) w2 \<longrightarrow> finishedAt (InComponents (SJob 0)) w')"
  proof (cases "Lookout_partitionJobTable x c cr w2 = (r, w')")
    case True
    note t = Lookout_partitionJobTable_run [OF clientLawsD(1) [OF laws(1)] laws(2) True]
    from t(1) [of "InComponents (SJob 0)"] Lookout_tail_upserts [OF clientLawsD(1) [OF laws(1)] laws(2) True] ev(1)
    show ?thesis by (auto simp: finishedAt_def)
  qed (use tail ev(1) in auto)
  let ?rest = "upserts [SDeployment, SService, SIngressHttp] @
     (case lk_DbPruningEnabled (cr_Spec cr) of Some True \<Rightarrow> [Upsert (InComponents SCronJob)]
      | _ \<Rightarrow> [DeleteObject (InComponents SCronJob)]) @ upserts [SServiceMonitor]"
  have "startsRun c cc job (upserts [SServiceAccount, SSecret] @ jobSteps 1 @ ?rest) (\<lambda>_. (r2, w2)) w"
    using s n by (simp add: Lookout_steps_def)
  from jobs_first [OF laws(1) gen this refl, of SDeployment 0] later ev(2)
  show ?thesis by (auto split: option.splits bool.splits)
qed

end
