(* ===== verification/Partitioning.thy ===== *)
theory Partitioning
  imports Ordering Deletion
begin

text \<open>
  What a reconciliation without error has called: every upsert of its steps, and, for a Lookout when
  no Job fails, the upsert of the opt-in Job that partitions the job table.
\<close>

section \<open>Every step is carried out\<close>

lemma upsert_planned: "Upsert a \<in> set sts \<Longrightarrow> load a h \<noteq> None \<Longrightarrow> EvUpsert a \<in> set (planned h sts)"
  by (auto simp: planned_def intro!: bexI [of _ "Upsert a"])

lemma visible_planned: "visible es = planned h sts \<Longrightarrow> Upsert a \<in> set sts \<Longrightarrow> load a h \<noteq> None \<Longrightarrow> EvUpsert a \<in> set es"
  using upsert_planned [of a sts h] by (auto simp: visible_def dest!: arg_cong [of _ _ set])

context installer
begin

lemma run_upserts:
  assumes "clientLaws c view" "ownerLaw x" "generate x cr = Inr cc"
    "startsRun c cc job (steps cr cc) m w" "m w = (Inr (), w')"
    "s \<in> upsertedSlots (steps cr cc)" "derefSlot cc s \<noteq> None"
  shows "EvUpsert (InComponents s) \<in> set (w_Trace w')"
proof -
  obtain es where "w_Trace w' = w_Trace w @ es" "visible es = planned (heapOf cc job) (steps cr cc)"
    using run_trace [OF assms(1-5)] by blast
  with visible_planned [of es "heapOf cc job" "steps cr cc" "InComponents s"] assms(6,7)
  show ?thesis by (simp add: upsertedSlots_def)
qed

end

section \<open>Complete Jobs\<close>

definition completeAt :: "addr \<Rightarrow> 's world \<Rightarrow> bool" where
  "completeAt a w \<longleftrightarrow> (\<exists>job. load a (w_Heap w) = Some (KJob job) \<and> getTrueJobCondition job JobComplete \<noteq> None)"

text \<open>A Job that is finished is finished because it is complete.\<close>

definition noJobFails :: "('spec, 'status, 's) client \<Rightarrow> bool" where
  "noJobFails c \<longleftrightarrow> (\<forall>k s job. fst (c_GetJob c k s) = Inr job \<longrightarrow> isJobFinished job \<longrightarrow>
     getTrueJobCondition job JobComplete \<noteq> None)"

lemma noJobFails_refClient [simp]: "noJobFails refClient"
  by (auto simp: noJobFails_def refGetJob_def getTrueJobCondition_def split: option.splits kobj.splits)

lemma pollJob_complete:
  assumes "noJobFails c" "pollJob c a w = (Inr True, w')"
  shows "completeAt a w'"
proof -
  from assms(2) obtain job job' s' where job: "load a (w_Heap w) = Some (KJob job)"
    and get: "c_GetJob c (om_Namespace (job_Meta job), om_Name (job_Meta job)) (w_Srv w) = (Inr job', s')"
    and fin: "isJobFinished job'" and w': "w_Heap w' = store a (KJob job') (w_Heap w)"
    by (auto simp: pollJob_def onServer_def andThenA_def logCall_def
        split: option.splits kobj.splits prod.splits sum.splits)
  have "addrKind a = JobKind" using load_kind [OF job] by simp
  then have "load a (w_Heap w') = Some (KJob job')" using w' job by (simp add: load_store)
  moreover have "getTrueJobCondition job' JobComplete \<noteq> None"
    using assms(1) get fin unfolding noJobFails_def by (metis fst_conv)
  ultimately show ?thesis by (simp add: completeAt_def)
qed

lemma pollFor_complete:
  assumes "noJobFails c"
  shows "pollFor n (pollJob c a) w = (Inr (), w') \<Longrightarrow> completeAt a w'"
proof (induction n arbitrary: w)
  case (Suc n)
  from Suc.prems obtain d w1 where p: "pollJob c a w = (Inr d, w1)"
    "(if d then returnA () else pollFor n (pollJob c a)) w1 = (Inr (), w')" by (auto simp: go_simps)
  show ?case
  proof (cases d)
    case True
    with p pollJob_complete [OF assms] show ?thesis by auto
  next
    case False
    with p Suc.IH show ?thesis by simp
  qed
qed simp

lemma wait_complete:
  assumes "noJobFails c" "pollLaw c" "waitForJob c a jobPollInterval jobTimeout w = (Inr (), w')"
  shows "completeAt a w'"
proof -
  obtain n where "c_Poll c jobPollInterval jobTimeout False (pollJob c a) w = pollFor n (pollJob c a) w"
    using assms(2) poll_budget(2,3) unfolding pollLaw_def by blast
  with assms(3) have "pollFor n (pollJob c a) w = (Inr (), w')" by (simp add: waitForJob_def)
  then show ?thesis by (rule pollFor_complete [OF assms(1)])
qed

text \<open>A run without error that waits for a Job, and does not touch it again, leaves it complete.\<close>

lemma runSteps_complete:
  assumes laws: "clientLaws c view" "noJobFails c" and keys: "sameKeys (w_Heap w) h0" and gen: "generated h0 new"
    and run: "runSteps c (reconcileMutate new) (pre @ WaitJob a # post) w = (Inr (), w')"
    and a: "\<not> managedAddr a" "a \<notin> stepAddr ` set post"
  shows "completeAt a w'"
proof -
  let ?m = "reconcileMutate new"
  obtain w0 where w0: "runSteps c ?m pre w = (Inr (), w0)" "runSteps c ?m (WaitJob a # post) w0 = (Inr (), w')"
    using run by (auto simp: runSteps_append split: prod.splits sum.splits)
  then obtain w1 where w1: "runStep c ?m (WaitJob a) w0 = (Inr (), w1)" "runSteps c ?m post w1 = (Inr (), w')"
    by (auto simp: go_simps)
  have k0: "sameKeys (w_Heap w0) h0" using runSteps_trace [OF laws(1) keys gen w0(1)] by blast
  have k1: "sameKeys (w_Heap w1) h0" using runStep_run(1) [OF laws(1) k0 gen w1(1)] .
  have "completeAt a w1" using wait_complete [OF laws(2) clientLawsD(4) [OF laws(1)]] w1(1) by simp
  with runSteps_unmanaged [OF laws(1) k1 gen w1(2) a] show ?thesis by (simp add: completeAt_def)
qed

section \<open>The partition Job is upserted\<close>

lemma Lookout_updateStatus_extends: "extends w (snd (Lookout_updateStatus x c cr w))"
  by (auto simp: Lookout_updateStatus_def onServer_def andThenA_def Let_def extends_def logCall_def
      split: option.splits kobj.splits prod.splits if_splits sum.splits)

lemma Lookout_tail_extends: "extends w (snd (Lookout_partitionJobTable x c cr w))"
proof -
  have up: "extends w (snd (upsertObjectIfNeeded c PartitionJob leaveExistingJob w))"
    by (auto simp: upsertObjectIfNeeded_def extends_def logCall_def split: prod.split)
  obtain r1 w1 where w1: "upsertObjectIfNeeded c PartitionJob leaveExistingJob w = (r1, w1)" by fastforce
  with up have e1: "extends w w1" by simp
  have e2: "extends w1 (snd (Lookout_updateStatus x c cr w1))" by (rule Lookout_updateStatus_extends)
  have "extends w (snd (andThenA (upsertObjectIfNeeded c PartitionJob leaveExistingJob)
      (\<lambda>_. Lookout_updateStatus x c cr) w))"
    using w1 e1 e2 by (cases r1) (auto simp: andThenA_def extends_def)
  then show ?thesis by (auto simp: Lookout_partitionJobTable_def split: option.split kobj.split)
qed

lemma Lookout_tail_partitions:
  assumes law: "upsertLaw c view" and "completeAt (InComponents (SJob 0)) w" "load PartitionJob (w_Heap w) \<noteq> None"
  shows "EvUpsert PartitionJob \<in> set (w_Trace (snd (Lookout_partitionJobTable x c cr w)))"
proof -
  obtain ob where ob: "load PartitionJob (w_Heap w) = Some ob" using assms(3) by blast
  obtain r1 w1 where up: "upsertObjectIfNeeded c PartitionJob leaveExistingJob w = (r1, w1)" by fastforce
  have "EvUpsert PartitionJob \<in> set (w_Trace w1)" using leaveExistingJob_run(1) [OF law ob up] by simp
  moreover have "extends w1 (snd (Lookout_partitionJobTable x c cr w))"
    using assms(2,3) up Lookout_updateStatus_extends [of w1 x c cr]
    by (cases r1) (auto simp: Lookout_partitionJobTable_def completeAt_def andThenA_def simp del: load.simps)
  ultimately show ?thesis by (auto simp: extends_def)
qed

lemma Lookout_partitions:
  assumes laws: "clientLaws c view" "statusLaw c view" "healthy c view" "noJobFails c" "ownerLaw x"
    and start: "fetches c req w cr" "live x cr" "Lookout_generateAll x cr = Inr (cc, Some job)"
  shows "\<exists>w'. Lookout_Reconcile x c req w = (Inr (), w') \<and> EvUpsert PartitionJob \<in> set (w_Trace w') \<and>
    (\<forall>s \<in> upsertedSlots (Lookout_steps cr cc). derefSlot cc s \<noteq> None \<longrightarrow> EvUpsert (InComponents s) \<in> set (w_Trace w'))"
proof -
  obtain w1 where w1: "Lookout_Reconcile x c req w =
      andThenA (runSteps c (reconcileMutate cc) (Lookout_steps cr cc)) (\<lambda>_. Lookout_partitionJobTable x c cr) w1"
    "w_Heap w1 = heapOf cc (Some job)" using Lookout_Reconcile_live [OF start] .
  have gen: "generated (heapOf cc (Some job)) cc"
    using lookout.required [OF laws(5)] start(3) by (auto simp: Lookout_generate_eq_Inr)
  have k1: "sameKeys (w_Heap w1) (heapOf cc (Some job))" using w1(2) by simp
  obtain w2 where w2: "runSteps c (reconcileMutate cc) (Lookout_steps cr cc) w1 = (Inr (), w2)"
    using runSteps_healthy [OF laws(1,3) gen k1 storedAt_None Lookout_ready upsertsWithin_UNIV] by blast
  from runSteps_trace [OF laws(1) k1 gen w2] obtain es where k2: "sameKeys (w_Heap w2) (heapOf cc (Some job))"
    and es: "w_Trace w2 = w_Trace w1 @ es" "visible es = planned (heapOf cc (Some job)) (Lookout_steps cr cc)" by blast
  have up: "EvUpsert (InComponents s) \<in> set (w_Trace w2)"
    if "s \<in> upsertedSlots (Lookout_steps cr cc)" "derefSlot cc s \<noteq> None" for s
    using visible_planned [OF es(2), of "InComponents s"] es(1) that by (simp add: upsertedSlots_def)
  have n: "length (cc_Jobs cc) = 1" using Lookout_migration [OF start(3)] by fastforce
  let ?post = "upserts [SDeployment, SService, SIngressHttp] @
     (case lk_DbPruningEnabled (cr_Spec cr) of Some True \<Rightarrow> [Upsert (InComponents SCronJob)]
      | _ \<Rightarrow> [DeleteObject (InComponents SCronJob)]) @ upserts [SServiceMonitor]"
  have "Lookout_steps cr cc = (upserts [SServiceAccount, SSecret] @ [Upsert (InComponents (SJob 0))]) @
      WaitJob (InComponents (SJob 0)) # ?post"
    using n by (simp add: Lookout_steps_def jobSteps_def)
  with w2 have run: "runSteps c (reconcileMutate cc) ((upserts [SServiceAccount, SSecret] @
      [Upsert (InComponents (SJob 0))]) @ WaitJob (InComponents (SJob 0)) # ?post) w1 = (Inr (), w2)" by metis
  have "InComponents (SJob 0) \<notin> stepAddr ` set ?post" by (auto split: option.splits bool.splits)
  from runSteps_complete [OF laws(1,4) k1 gen run _ this]
  have complete: "completeAt (InComponents (SJob 0)) w2" by simp
  have "load PartitionJob (w_Heap w2) \<noteq> None" using sameKeys_Some(3) [OF k2, of PartitionJob] by simp
  with Lookout_tail_partitions [OF clientLawsD(1) [OF laws(1)] complete]
  have ev: "EvUpsert PartitionJob \<in> set (w_Trace (snd (Lookout_partitionJobTable x c cr w2)))" by blast
  have "cc_Jobs cc \<noteq> []" using n by auto
  from Lookout_tail_healthy [OF laws(1,3) k2 this]
  have "fst (Lookout_partitionJobTable x c cr w2) = Inr ()" .
  then obtain w3 where w3: "Lookout_partitionJobTable x c cr w2 = (Inr (), w3)" by (metis prod.collapse)
  with Lookout_tail_extends [of w2 x c cr] have "extends w2 w3" by simp
  with up have up3: "EvUpsert (InComponents s) \<in> set (w_Trace w3)"
    if "s \<in> upsertedSlots (Lookout_steps cr cc)" "derefSlot cc s \<noteq> None" for s
    using that by (fastforce simp: extends_def)
  have "Lookout_Reconcile x c req w = (Inr (), w3)" using w1(1) w2 w3 by (simp add: andThenA_def)
  with ev w3 up3 show ?thesis by (intro exI [of _ w3]) simp
qed

end
