(* ===== verification/Stability.thy ===== *)
theory Stability
  imports Healthy
begin

text \<open>
  Reconciling again does no harm. What a reconciliation has installed stays installed through
  the next ones of the same resource, even through one that fails half-way: each upsert either
  leaves the object as it was or writes the generated fields again. The lemmas are proved in the locale
  \<open>installer\<close>, for plans without deletions.
\<close>

section \<open>Atomic upserts\<close>

text \<open>
  A request to the API server takes effect or does not, and the client may be told that it failed in either
  case. So after a \<open>CreateOrUpdate\<close>, with an error or without, the object is what it was or what was sent.
\<close>

definition atomicLaw :: "('spec, 'status, 's) client \<Rightarrow> 's view \<Rightarrow> bool" where
  "atomicLaw c view \<longleftrightarrow> (\<forall>a f h s r h' s' ob.
     load a h = Some ob \<longrightarrow> c_CreateOrUpdate c a f (h, s) = (r, (h', s')) \<longrightarrow>
     view s' (keyOf ob) = view s (keyOf ob) \<or>
     (\<exists>h1 h2 sent stored. touched a h h1 \<and> f h1 = (Inr (), h2) \<and> load a h2 = Some sent \<and>
        view s' (keyOf ob) = Some stored \<and> ownedFields stored = ownedFields sent))"

lemma atomicLaw_refClient [simp]: "atomicLaw refClient refView"
  unfolding atomicLaw_def
proof (intro allI impI)
  fix a f h r h' ob and s s' :: "('spec, 'status) refServer"
  assume ob: "load a h = Some ob"
    and run: "c_CreateOrUpdate (refClient :: ('spec, 'status, _) client) a f (h, s) = (r, (h', s'))"
  define h1 where "h1 = (case rs_Objects s (keyOf ob) of
      Some existing \<Rightarrow> if keyOf existing = keyOf ob then store a existing h else h | None \<Rightarrow> h)"
  have t: "touched a h h1" using ob by (auto simp: touched_def h1_def split: option.split)
  obtain r1 h2 where f: "f h1 = (r1, h2)" by fastforce
  show "rs_Objects s' (keyOf ob) = rs_Objects s (keyOf ob) \<or>
     (\<exists>h1 h2 sent stored. touched a h h1 \<and> f h1 = (Inr (), h2) \<and> load a h2 = Some sent \<and>
        rs_Objects s' (keyOf ob) = Some stored \<and> ownedFields stored = ownedFields sent)"
    using run ob f t
    by (auto simp: refUpsert_def Let_def simp flip: h1_def split: sum.splits option.splits if_splits)
qed

lemma upsert_keeps:
  assumes laws: "upsertLaw c view" "atomicLaw c view" and keys: "sameKeys (w_Heap w) h0" and gen: "generated h0 new"
    and dist: "distinctKeys h0" and b: "managedAddr b" "holds view h0 b w"
    and run: "upsertObjectIfNeeded c a (reconcileMutate new) w = (r, w')"
  shows "holds view h0 b w'"
proof (cases "b = a")
  case False
  from gen have new: "h_Components h0 = new" "cc_Secret new \<noteq> None" "cc_Deployment new \<noteq> None"
    by (simp_all add: generated_def)
  from holds_elsewhere [OF dist b(2) upsert_run(4) [OF laws(1) keys new run] False] show ?thesis .
next
  case True
  from gen have new: "h_Components h0 = new" "cc_Secret new \<noteq> None" "cc_Deployment new \<noteq> None"
    by (simp_all add: generated_def)
  from b(2) True obtain n stored where n: "load a h0 = Some n" "view (w_Srv w) (keyOf n) = Some stored"
    "ownedFields stored = ownedFields n" by (auto simp: holds_def)
  obtain ob where ob: "load a (w_Heap w) = Some ob" "keyOf ob = keyOf n" using sameKeys_Some(1) [OF keys n(1)] by blast
  obtain h' s' where co: "c_CreateOrUpdate c a (reconcileMutate new) (w_Heap w, w_Srv w) = (r, (h', s'))"
    and w': "w_Srv w' = s'"
    using run ob by (auto simp: upsertObjectIfNeeded_def isNilAt_def split: prod.splits)
  from laws(2) [unfolded atomicLaw_def, rule_format, OF ob(1) co]
  consider "view s' (keyOf ob) = view (w_Srv w) (keyOf ob)"
    | h1 h2 sent st where "touched a (w_Heap w) h1" "reconcileMutate new h1 = (Inr (), h2)" "load a h2 = Some sent"
        "view s' (keyOf ob) = Some st" "ownedFields st = ownedFields sent"
    by blast
  then show ?thesis
  proof cases
    case 1
    with n ob(2) w' True show ?thesis by (simp add: holds_def)
  next
    case (2 h1 h2 sent st)
    have "sameKeys h1 h0" using touched_sameKeys [OF 2(1)] keys by (rule sameKeys_trans)
    from reconcileMutate_run [OF this new] 2(2,3) b(1) True n(1)
    have "ownedFields sent = ownedFields n" by (metis (no_types, lifting) option.inject prod.inject)
    with 2(4,5) n(1) ob(2) w' True show ?thesis by (simp add: holds_def)
  qed
qed

section \<open>Runs\<close>

definition deletesNothing :: "step list \<Rightarrow> bool" where
  "deletesNothing sts \<longleftrightarrow> (\<forall>a. DeleteObject a \<notin> set sts)"

lemma deletesNothing_simps [simp]:
  "deletesNothing []" "deletesNothing (Upsert a # sts) \<longleftrightarrow> deletesNothing sts"
  "deletesNothing (WaitJob a # sts) \<longleftrightarrow> deletesNothing sts" "\<not> deletesNothing (DeleteObject a # sts)"
  "deletesNothing (sts @ sts') \<longleftrightarrow> deletesNothing sts \<and> deletesNothing sts'"
  by (auto simp: deletesNothing_def)

lemma deletesNothing_upserts [simp]: "deletesNothing (map (\<lambda>i. Upsert (f i)) xs)"
  by (auto simp: deletesNothing_def)

lemma runSteps_keeps:
  assumes laws: "clientLaws c view" "atomicLaw c view" and keys: "sameKeys (w_Heap w) h0" and gen: "generated h0 new"
    and dist: "distinctKeys h0" and b: "managedAddr b" "holds view h0 b w"
    and run: "runSteps c (reconcileMutate new) sts w = (r, w')" and del: "deletesNothing sts"
  shows "holds view h0 b w'"
  using keys run b(2) del
proof (induction sts arbitrary: w)
  case (Cons st sts)
  obtain r1 w1 where st: "runStep c (reconcileMutate new) st w = (r1, w1)" by fastforce
  note s1 = runStep_run [OF laws(1) Cons.prems(1) gen st]
  have "holds view h0 b w1"
  proof (cases st)
    case (Upsert a)
    with st upsert_keeps [OF clientLawsD(1) [OF laws(1)] laws(2) Cons.prems(1) gen dist b(1) Cons.prems(3)] show ?thesis by simp
  next
    case (WaitJob a)
    with st have "waitForJob c a jobPollInterval jobTimeout w = (r1, w1)" by simp
    from wait_run(1) [OF clientLawsD(2,4) [OF laws(1)] Cons.prems(1) this] Cons.prems(3)
    show ?thesis by (simp add: polled_def holds_def)
  next
    case (DeleteObject a)
    with Cons.prems(4) show ?thesis by simp
  qed
  moreover from Cons.prems(2) st
  have "(r1 = Inr () \<and> runSteps c (reconcileMutate new) sts w1 = (r, w')) \<or> w' = w1"
    by (auto simp: andThenA_def split: sum.splits)
  moreover have "deletesNothing sts" using Cons.prems(4) by (auto simp: deletesNothing_def)
  ultimately show ?case using Cons.IH [OF s1(1)] by auto
qed simp

text \<open>The calls before the steps leave the objects alone.\<close>

lemma generateFirst_live_run:
  assumes law: "resourceLaw c view" and cr: "fetches c req w cr" "live x cr" "generate cr = Inr cc"
  obtains w1 where "generateFirst x c req generate cleanup steps w = runSteps c (reconcileMutate cc) (steps cr cc) w1"
    "w_Heap w1 = heapOf cc None" "view (w_Srv w1) = view (w_Srv w)"
proof -
  obtain w1 where w1: "getObject c req w = (Inr (Some cr), w1)"
    using fetches_getObject [OF cr(1)] by blast
  let ?w1 = "w1\<lparr>w_Heap := heapOf cc None\<rparr>"
  have "generateFirst x c req generate cleanup steps w = runSteps c (reconcileMutate cc) (steps cr cc) ?w1"
    using w1 cr(2,3)
    by (simp add: generateFirst_def andThenA_def live_def check_live allocComponents_def DeepCopy_eq)
  moreover have "view (w_Srv w1) = view (w_Srv w)" using getObject_run(1) [OF law w1, of "\<lambda>_. False"] by (simp add: confined_def fun_eq_iff)
  ultimately show thesis using that [of ?w1] by simp
qed

context installer
begin

lemma run_keeps_installed:
  assumes "clientLaws c view" "resourceLaw c view" "atomicLaw c view" "ownerLaw x" "fetches c req w cr" "live x cr"
    "generate x cr = Inr cc" "separate cr" "deletesNothing (steps cr cc)"
    "generateFirst x c req (generate x) cleanup steps w = (r, w')" "managed s" "installed view cc s w"
  shows "installed view cc s w'"
proof -
  obtain w1 where w1: "runSteps c (reconcileMutate cc) (steps cr cc) w1 = (r, w')"
    "w_Heap w1 = heapOf cc None" "view (w_Srv w1) = view (w_Srv w)"
    using generateFirst_live_run [where generate = "generate x", OF assms(2,5-7)] assms(10) by metis
  have k: "sameKeys (w_Heap w1) (heapOf cc None)" using w1(2) by simp
  have d: "distinctKeys (heapOf cc None)" using distinctSlots_keys [OF keys [OF assms(4,7,8)], of None] by simp
  have "holds view (heapOf cc None) (InComponents s) w1" using assms(12) w1(3) by (simp add: installed_def holds_def)
  from runSteps_keeps [OF assms(1,3) k required [OF assms(4,7)] d _ this w1(1) assms(9)] assms(11)
  show ?thesis by (simp add: holds_def installed_def)
qed

end

end
