(* ===== verification/Startup.thy ===== *)
theory Startup
  imports Webhooks "HOL-Library.Sublist"
begin

text \<open>
  How the operator starts: \<open>cmd/main.go\<close>, and what each controller and each admission webhook
  registers with the manager (\<open>SetupWithManager\<close>, \<open>SetupWebhookWithManager\<close>). The manager, the schemes and the
  environment belong to libraries: a call on them is a \<open>setupCall\<close> whose outcome is a parameter, and the
  code is an action over the events so far. The flags come parsed.
\<close>

section \<open>What is registered\<close>

text \<open>
  \<open>For\<close> and \<open>Owns\<close> of a controller; the manager watches those kinds. Without \<open>MatchEveryOwner\<close> an owned
  object only wakes the owner that controls it.
\<close>

datatype OwnsOption = MatchEveryOwner

record ControllerSetup =
  ctl_For :: string
  ctl_Owns :: "(kind \<times> OwnsOption list) list"

record WebhookSetup =
  wh_For :: string
  wh_Defaulter :: string
  wh_Validator :: "string option"

text \<open>\<open>tls.Config\<close>: only the protocols matter here.\<close>

record TLSServerConfig =
  tls_NextProtos :: "string list"

datatype FilterProvider = WithAuthenticationAndAuthorization

record MetricsServerOptions =
  mso_BindAddress :: string
  mso_SecureServing :: bool
  mso_TLSOpts :: "(TLSServerConfig \<Rightarrow> TLSServerConfig) list"
  mso_FilterProvider :: "FilterProvider option"

record WebhookOptions =
  who_CertDir :: string
  who_TLSOpts :: "(TLSServerConfig \<Rightarrow> TLSServerConfig) list"

record ManagerOptions =
  mgo_Metrics :: MetricsServerOptions
  mgo_HealthProbeBindAddress :: string
  mgo_PprofBindAddress :: string
  mgo_LeaderElection :: bool
  mgo_LeaderElectionID :: string
  mgo_WebhookServer :: WebhookOptions

text \<open>The calls on libraries that can fail.\<close>

datatype setupCall =
    GetConfigOrDie
  | NewManager ManagerOptions
  | AddMonitoringToScheme
  | SetupController ControllerSetup
  | SetupWebhook WebhookSetup
  | AddHealthzCheck string
  | AddReadyzCheck string
  | StartManager

text \<open>
  A process has a log of its calls. \<open>lib\<close> says what a call returns after the calls already made. \<open>os.Exit(1)\<close>
  ends the process, so the first failed call is the last; its error is the process's outcome.
\<close>

type_synonym library = "setupCall list \<Rightarrow> setupCall \<Rightarrow> error option"

definition perform :: "library \<Rightarrow> setupCall \<Rightarrow> (setupCall list, unit) action" where
  "perform lib e = (\<lambda>log. (case lib log e of None \<Rightarrow> Inr () | Some err \<Rightarrow> Inl err, log @ [e]))"

section \<open>Controllers\<close>

definition ArmadaServerReconciler_SetupWithManager :: "library \<Rightarrow> (setupCall list, unit) action" where
  "ArmadaServerReconciler_SetupWithManager lib = perform lib (SetupController \<lparr>ctl_For = ''ArmadaServer'', ctl_Owns = []\<rparr>)"

definition ExecutorReconciler_SetupWithManager :: "library \<Rightarrow> (setupCall list, unit) action" where
  "ExecutorReconciler_SetupWithManager lib = perform lib (SetupController \<lparr>ctl_For = ''Executor'', ctl_Owns = []\<rparr>)"

definition BinocularsReconciler_SetupWithManager :: "library \<Rightarrow> (setupCall list, unit) action" where
  "BinocularsReconciler_SetupWithManager lib = perform lib (SetupController \<lparr>ctl_For = ''Binoculars'', ctl_Owns = []\<rparr>)"

definition LookoutReconciler_SetupWithManager :: "library \<Rightarrow> (setupCall list, unit) action" where
  "LookoutReconciler_SetupWithManager lib = perform lib (SetupController \<lparr>ctl_For = ''Lookout'', ctl_Owns = [(JobKind, [MatchEveryOwner])]\<rparr>)"

definition EventIngesterReconciler_SetupWithManager :: "library \<Rightarrow> (setupCall list, unit) action" where
  "EventIngesterReconciler_SetupWithManager lib = perform lib (SetupController \<lparr>ctl_For = ''EventIngester'', ctl_Owns = []\<rparr>)"

definition QueueReconciler_SetupWithManager :: "library \<Rightarrow> (setupCall list, unit) action" where
  "QueueReconciler_SetupWithManager lib = perform lib (SetupController \<lparr>ctl_For = ''Queue'', ctl_Owns = []\<rparr>)"

definition LookoutIngesterReconciler_SetupWithManager :: "library \<Rightarrow> (setupCall list, unit) action" where
  "LookoutIngesterReconciler_SetupWithManager lib =
     perform lib (SetupController \<lparr>ctl_For = ''LookoutIngester'', ctl_Owns = []\<rparr>)"

definition SchedulerIngesterReconciler_SetupWithManager :: "library \<Rightarrow> (setupCall list, unit) action" where
  "SchedulerIngesterReconciler_SetupWithManager lib =
     perform lib (SetupController \<lparr>ctl_For = ''SchedulerIngester'', ctl_Owns = []\<rparr>)"

definition SchedulerReconciler_SetupWithManager :: "library \<Rightarrow> (setupCall list, unit) action" where
  "SchedulerReconciler_SetupWithManager lib = perform lib (SetupController \<lparr>ctl_For = ''Scheduler'', ctl_Owns = []\<rparr>)"

text \<open>The scaffold: a Queue is reconciled by doing nothing, for any client \<open>'w\<close>.\<close>

definition Queue_Reconcile :: "('w, unit) action" where
  "Queue_Reconcile = returnA ()"

section \<open>Webhooks\<close>

definition ArmadaServer_SetupWebhookWithManager :: "library \<Rightarrow> (setupCall list, unit) action" where
  "ArmadaServer_SetupWebhookWithManager lib = perform lib (SetupWebhook
     \<lparr>wh_For = ''ArmadaServer'', wh_Defaulter = ''ArmadaServerDefaulter'', wh_Validator = Some ''ArmadaServerValidator''\<rparr>)"

definition Executor_SetupWebhookWithManager :: "library \<Rightarrow> (setupCall list, unit) action" where
  "Executor_SetupWebhookWithManager lib = perform lib (SetupWebhook
     \<lparr>wh_For = ''Executor'', wh_Defaulter = ''ExecutorDefaulter'', wh_Validator = Some ''ExecutorValidator''\<rparr>)"

definition EventIngester_SetupWebhookWithManager :: "library \<Rightarrow> (setupCall list, unit) action" where
  "EventIngester_SetupWebhookWithManager lib = perform lib (SetupWebhook
     \<lparr>wh_For = ''EventIngester'', wh_Defaulter = ''EventIngesterDefaulter'', wh_Validator = Some ''EventIngesterValidator''\<rparr>)"

definition Binoculars_SetupWebhookWithManager :: "library \<Rightarrow> (setupCall list, unit) action" where
  "Binoculars_SetupWebhookWithManager lib = perform lib (SetupWebhook
     \<lparr>wh_For = ''Binoculars'', wh_Defaulter = ''BinocularsDefaulter'', wh_Validator = None\<rparr>)"

definition Lookout_SetupWebhookWithManager :: "library \<Rightarrow> (setupCall list, unit) action" where
  "Lookout_SetupWebhookWithManager lib = perform lib (SetupWebhook
     \<lparr>wh_For = ''Lookout'', wh_Defaulter = ''LookoutDefaulter'', wh_Validator = None\<rparr>)"

definition LookoutIngester_SetupWebhookWithManager :: "library \<Rightarrow> (setupCall list, unit) action" where
  "LookoutIngester_SetupWebhookWithManager lib = perform lib (SetupWebhook
     \<lparr>wh_For = ''LookoutIngester'', wh_Defaulter = ''LookoutIngesterDefaulter'', wh_Validator = Some ''LookoutIngesterValidator''\<rparr>)"

definition SchedulerIngester_SetupWebhookWithManager :: "library \<Rightarrow> (setupCall list, unit) action" where
  "SchedulerIngester_SetupWebhookWithManager lib = perform lib (SetupWebhook
     \<lparr>wh_For = ''SchedulerIngester'', wh_Defaulter = ''SchedulerIngesterDefaulter'',
      wh_Validator = Some ''SchedulerIngesterValidator''\<rparr>)"

definition Scheduler_SetupWebhookWithManager :: "library \<Rightarrow> (setupCall list, unit) action" where
  "Scheduler_SetupWebhookWithManager lib = perform lib (SetupWebhook
     \<lparr>wh_For = ''Scheduler'', wh_Defaulter = ''SchedulerDefaulter'', wh_Validator = None\<rparr>)"

section \<open>main\<close>

record Flags =
  fl_metricsAddr :: string
  fl_probeAddr :: string
  fl_pprofAddr :: string
  fl_enableLeaderElection :: bool
  fl_secureMetrics :: bool
  fl_enableHTTP2 :: bool

text \<open>The values of the flags that the command line does not set.\<close>

definition defaultFlags :: Flags where
  "defaultFlags = \<lparr>fl_metricsAddr = '':8443'', fl_probeAddr = '':8081'', fl_pprofAddr = '''',
     fl_enableLeaderElection = False, fl_secureMetrics = True, fl_enableHTTP2 = False\<rparr>"

record Environment =
  env_WEBHOOK_CERT_DIR :: string
  env_ENABLE_WEBHOOKS :: string

definition disableHTTP2 :: "TLSServerConfig \<Rightarrow> TLSServerConfig" where
  "disableHTTP2 c = c\<lparr>tls_NextProtos := [''http/1.1'']\<rparr>"

definition tlsOptions :: "Flags \<Rightarrow> (TLSServerConfig \<Rightarrow> TLSServerConfig) list" where
  "tlsOptions flags = (if \<not> fl_enableHTTP2 flags then [disableHTTP2] else [])"

definition webhookOptions :: "Flags \<Rightarrow> Environment \<Rightarrow> WebhookOptions" where
  "webhookOptions flags env = \<lparr>who_CertDir = env_WEBHOOK_CERT_DIR env, who_TLSOpts = tlsOptions flags\<rparr>"

definition metricsServerOptions :: "Flags \<Rightarrow> MetricsServerOptions" where
  "metricsServerOptions flags =
     (let options = \<lparr>mso_BindAddress = fl_metricsAddr flags, mso_SecureServing = fl_secureMetrics flags,
        mso_TLSOpts = tlsOptions flags, mso_FilterProvider = None\<rparr>
      in if fl_secureMetrics flags
         then options\<lparr>mso_FilterProvider := Some WithAuthenticationAndAuthorization\<rparr>
         else options)"

text \<open>\<open>setupLog.Info("WARNING: ...")\<close>, the one message that depends on the flags.\<close>

definition warnsInsecureMetrics :: "Flags \<Rightarrow> bool" where
  "warnsInsecureMetrics flags \<longleftrightarrow>
     \<not> fl_secureMetrics flags \<and> fl_metricsAddr flags \<noteq> '''' \<and> fl_metricsAddr flags \<noteq> ''0''"

definition managerOptions :: "Flags \<Rightarrow> Environment \<Rightarrow> ManagerOptions" where
  "managerOptions flags env =
     \<lparr>mgo_Metrics = metricsServerOptions flags, mgo_HealthProbeBindAddress = fl_probeAddr flags,
      mgo_PprofBindAddress = fl_pprofAddr flags, mgo_LeaderElection = fl_enableLeaderElection flags,
      mgo_LeaderElectionID = ''b00891aa.armadaproject.io'', mgo_WebhookServer = webhookOptions flags env\<rparr>"

definition setupControllers :: "library \<Rightarrow> (setupCall list, unit) action" where
  "setupControllers lib =
     andThenA (ArmadaServerReconciler_SetupWithManager lib) (\<lambda>_.
     andThenA (ExecutorReconciler_SetupWithManager lib) (\<lambda>_.
     andThenA (BinocularsReconciler_SetupWithManager lib) (\<lambda>_.
     andThenA (LookoutReconciler_SetupWithManager lib) (\<lambda>_.
     andThenA (EventIngesterReconciler_SetupWithManager lib) (\<lambda>_.
     andThenA (QueueReconciler_SetupWithManager lib) (\<lambda>_.
     andThenA (LookoutIngesterReconciler_SetupWithManager lib) (\<lambda>_.
     andThenA (SchedulerIngesterReconciler_SetupWithManager lib) (\<lambda>_.
     SchedulerReconciler_SetupWithManager lib))))))))"

definition setupWebhooks :: "library \<Rightarrow> (setupCall list, unit) action" where
  "setupWebhooks lib =
     andThenA (ArmadaServer_SetupWebhookWithManager lib) (\<lambda>_.
     andThenA (Executor_SetupWebhookWithManager lib) (\<lambda>_.
     andThenA (EventIngester_SetupWebhookWithManager lib) (\<lambda>_.
     andThenA (Binoculars_SetupWebhookWithManager lib) (\<lambda>_.
     andThenA (Lookout_SetupWebhookWithManager lib) (\<lambda>_.
     andThenA (LookoutIngester_SetupWebhookWithManager lib) (\<lambda>_.
     andThenA (SchedulerIngester_SetupWebhookWithManager lib) (\<lambda>_.
     Scheduler_SetupWebhookWithManager lib)))))))"

definition main :: "library \<Rightarrow> Flags \<Rightarrow> Environment \<Rightarrow> (setupCall list, unit) action" where
  "main lib flags env =
     andThenA (perform lib GetConfigOrDie) (\<lambda>_.
     andThenA (perform lib (NewManager (managerOptions flags env))) (\<lambda>_.
     andThenA (perform lib AddMonitoringToScheme) (\<lambda>_.
     andThenA (setupControllers lib) (\<lambda>_.
     andThenA (if env_ENABLE_WEBHOOKS env \<noteq> ''false'' then setupWebhooks lib else returnA ()) (\<lambda>_.
     andThenA (perform lib (AddHealthzCheck ''healthz'')) (\<lambda>_.
     andThenA (perform lib (AddReadyzCheck ''readyz'')) (\<lambda>_.
     perform lib StartManager)))))))"

section \<open>A process makes the calls of its plan until one fails\<close>

text \<open>The calls of a plan, one after the other.\<close>

fun callAll :: "library \<Rightarrow> setupCall list \<Rightarrow> (setupCall list, unit) action" where
  "callAll lib [] = returnA ()"
| "callAll lib (e # es) = andThenA (perform lib e) (\<lambda>_. callAll lib es)"

lemma andThenA_assoc: "andThenA (andThenA m f) g = andThenA m (\<lambda>x. andThenA (f x) g)"
  by (auto simp: andThenA_def fun_eq_iff split: prod.splits sum.splits)

lemma andThenA_returnA: "andThenA m returnA = m"
  by (auto simp: andThenA_def returnA_def fun_eq_iff split: prod.splits sum.splits)

lemma callAll_append: "callAll lib (es @ fs) = andThenA (callAll lib es) (\<lambda>_. callAll lib fs)"
  by (induction es) (simp_all add: andThenA_assoc del: action_simps)

definition controllerPlan :: "setupCall list" where
  "controllerPlan =
     map (\<lambda>cr. SetupController \<lparr>ctl_For = cr, ctl_Owns = if cr = ''Lookout'' then [(JobKind, [MatchEveryOwner])] else []\<rparr>)
       [''ArmadaServer'', ''Executor'', ''Binoculars'', ''Lookout'', ''EventIngester'', ''Queue'',
        ''LookoutIngester'', ''SchedulerIngester'', ''Scheduler'']"

definition webhookPlan :: "setupCall list" where
  "webhookPlan =
     map (\<lambda>cr. SetupWebhook \<lparr>wh_For = cr, wh_Defaulter = cr @ ''Defaulter'',
         wh_Validator = if cr \<in> {''Binoculars'', ''Lookout'', ''Scheduler''} then None else Some (cr @ ''Validator'')\<rparr>)
       [''ArmadaServer'', ''Executor'', ''EventIngester'', ''Binoculars'', ''Lookout'', ''LookoutIngester'',
        ''SchedulerIngester'', ''Scheduler'']"

definition mainPlan :: "Flags \<Rightarrow> Environment \<Rightarrow> setupCall list" where
  "mainPlan flags env = [GetConfigOrDie, NewManager (managerOptions flags env), AddMonitoringToScheme]
     @ controllerPlan @ (if env_ENABLE_WEBHOOKS env = ''false'' then [] else webhookPlan)
     @ [AddHealthzCheck ''healthz'', AddReadyzCheck ''readyz'', StartManager]"

lemma setupControllers_plan: "setupControllers lib = callAll lib controllerPlan"
  by (simp del: action_simps add: setupControllers_def controllerPlan_def andThenA_returnA
      ArmadaServerReconciler_SetupWithManager_def ExecutorReconciler_SetupWithManager_def
      BinocularsReconciler_SetupWithManager_def LookoutReconciler_SetupWithManager_def
      EventIngesterReconciler_SetupWithManager_def QueueReconciler_SetupWithManager_def
      LookoutIngesterReconciler_SetupWithManager_def SchedulerIngesterReconciler_SetupWithManager_def
      SchedulerReconciler_SetupWithManager_def)

lemma setupWebhooks_plan: "setupWebhooks lib = callAll lib webhookPlan"
  by (simp del: action_simps add: setupWebhooks_def webhookPlan_def andThenA_returnA
      ArmadaServer_SetupWebhookWithManager_def Executor_SetupWebhookWithManager_def
      EventIngester_SetupWebhookWithManager_def Binoculars_SetupWebhookWithManager_def
      Lookout_SetupWebhookWithManager_def LookoutIngester_SetupWebhookWithManager_def
      SchedulerIngester_SetupWebhookWithManager_def Scheduler_SetupWebhookWithManager_def)

lemma main_plan: "main lib flags env = callAll lib (mainPlan flags env)"
  by (simp del: action_simps add: main_def mainPlan_def setupControllers_plan setupWebhooks_plan callAll_append
      andThenA_assoc andThenA_returnA)

section \<open>Running a plan\<close>

text \<open>The calls that succeed when a plan runs from the empty log.\<close>

definition succeeds :: "library \<Rightarrow> setupCall list \<Rightarrow> nat \<Rightarrow> bool" where
  "succeeds lib es i \<longleftrightarrow> lib (take i es) (es ! i) = None"

lemma callAll_snoc:
  "callAll lib (es @ [e]) log =
     (case callAll lib es log of (Inl err, log') \<Rightarrow> (Inl err, log') | (Inr _, log') \<Rightarrow> perform lib e log')"
  by (auto simp: callAll_append andThenA_def split: prod.split sum.split)

lemma callAll_run:
  "callAll lib es [] = (r, log) \<Longrightarrow> prefix log es \<and>
     (r = Inr () \<longleftrightarrow> (\<forall>i < length es. succeeds lib es i)) \<and> (r = Inr () \<longrightarrow> log = es)"
proof (induction es arbitrary: r log rule: rev_induct)
  case (snoc e es)
  obtain r1 log1 where 1: "callAll lib es [] = (r1, log1)" by fastforce
  have before: "succeeds lib (es @ [e]) i = succeeds lib es i" if "i < length es" for i
    using that by (simp add: succeeds_def nth_append)
  note IH = snoc.IH [OF 1]
  show ?case
  proof (cases "r1 = Inr ()")
    case True
    with IH 1 snoc.prems have "log = es @ [e]" "r = (case lib es e of None \<Rightarrow> Inr () | Some err \<Rightarrow> Inl err)"
      by (simp_all add: callAll_snoc perform_def)
    with IH True before show ?thesis
      by (auto simp: less_Suc_eq succeeds_def split: option.splits)
  next
    case False
    with IH 1 snoc.prems have "log = log1" "r = r1" "r1 \<noteq> Inr ()"
      by (auto simp: callAll_snoc split: sum.splits)
    with IH before show ?thesis by (auto simp: less_Suc_eq)
  qed
qed auto

lemma callAll_last:
  assumes "callAll lib (es @ [e]) [] = (r, log)" and e: "e \<notin> set es"
  shows "e \<in> set log \<longleftrightarrow> (\<forall>i < length es. succeeds lib (es @ [e]) i)"
proof -
  obtain r1 log1 where 1: "callAll lib es [] = (r1, log1)" by fastforce
  note run = callAll_run [OF 1]
  have "e \<notin> set log1" using run e by (auto dest: set_mono_prefix)
  moreover have "log = (case r1 of Inl _ \<Rightarrow> log1 | Inr _ \<Rightarrow> log1 @ [e])"
    using assms(1) 1 by (auto simp: callAll_snoc perform_def split: sum.splits)
  moreover have "succeeds lib (es @ [e]) i = succeeds lib es i" if "i < length es" for i
    using that by (simp add: succeeds_def nth_append)
  ultimately show ?thesis using run by (cases r1) auto
qed

lemma mainPlan_last: "\<exists>es. mainPlan flags env = es @ [StartManager] \<and> StartManager \<notin> set es"
  by (simp add: mainPlan_def controllerPlan_def webhookPlan_def) 

lemma NewManager_plan: "NewManager options \<in> set (mainPlan flags env) \<Longrightarrow> options = managerOptions flags env"
  by (simp add: mainPlan_def controllerPlan_def webhookPlan_def split: if_splits)

text \<open>Every TLS configuration that went through the options without HTTP/2 speaks HTTP/1.1 only.\<close>

lemma http1_only:
  "\<not> fl_enableHTTP2 flags \<Longrightarrow> tls_NextProtos (fold (\<lambda>f. f) (tlsOptions flags) tls) = [''http/1.1'']"
  by (simp add: tlsOptions_def disableHTTP2_def)

end
