(* ===== verification/Operator.thy ===== *)
theory Operator
  imports LookoutIngester SchedulerIngester EventIngester Executor ArmadaServer Lookout Scheduler Binoculars Startup
begin

text \<open>
  The operator as a whole: the nine controllers that \<open>main\<close> registers share one API server, and requests
  for custom resources reach them in any order. \<open>operatorStep\<close> is the reconciliation of one request, its
  closure a history of the operator. The lemmas: a history changes nothing out of the reach of
  its requests, and what the steps of one resource installed stays while others are reconciled.
  Each reconciliation is one step; what its own calls do in between is the business of the
  controllers' theories.
\<close>

section \<open>Requests and steps\<close>

text \<open>A request is taken from the queue of one controller: a kind and a namespaced name.\<close>

datatype request =
    ArmadaServerRequest "string \<times> string"
  | BinocularsRequest "string \<times> string"
  | EventIngesterRequest "string \<times> string"
  | ExecutorRequest "string \<times> string"
  | LookoutRequest "string \<times> string"
  | LookoutIngesterRequest "string \<times> string"
  | SchedulerRequest "string \<times> string"
  | SchedulerIngesterRequest "string \<times> string"
  | QueueRequest "string \<times> string"

primrec requestKey :: "request \<Rightarrow> string \<times> string" where
  "requestKey (ArmadaServerRequest k) = k"
| "requestKey (BinocularsRequest k) = k"
| "requestKey (EventIngesterRequest k) = k"
| "requestKey (ExecutorRequest k) = k"
| "requestKey (LookoutRequest k) = k"
| "requestKey (LookoutIngesterRequest k) = k"
| "requestKey (SchedulerRequest k) = k"
| "requestKey (SchedulerIngesterRequest k) = k"
| "requestKey (QueueRequest k) = k"

text \<open>The manager's client, at the type of each custom resource.\<close>

record 's clients =
  cl_ArmadaServer :: "(ArmadaServerSpec, unit, 's) client"
  cl_Binoculars :: "(BinocularsSpec, unit, 's) client"
  cl_EventIngester :: "(EventIngesterSpec, unit, 's) client"
  cl_Executor :: "(ExecutorSpec, unit, 's) client"
  cl_Lookout :: "(LookoutSpec, LookoutStatus, 's) client"
  cl_LookoutIngester :: "(LookoutIngesterSpec, unit, 's) client"
  cl_Scheduler :: "(SchedulerSpec, unit, 's) client"
  cl_SchedulerIngester :: "(SchedulerIngesterSpec, unit, 's) client"

text \<open>A reconciliation starts with no components in scope and no calls made.\<close>

definition freshWorld :: "'s \<Rightarrow> 's world" where
  "freshWorld s = \<lparr>w_Srv = s, w_Heap = heapOf noComponents None, w_Trace = []\<rparr>"

primrec reconcileRequest :: "externs \<Rightarrow> 's clients \<Rightarrow> request \<Rightarrow> ('s world, unit) action" where
  "reconcileRequest x cs (ArmadaServerRequest k) = ArmadaServer_Reconcile x (cl_ArmadaServer cs) k"
| "reconcileRequest x cs (BinocularsRequest k) = Binoculars_Reconcile x (cl_Binoculars cs) k"
| "reconcileRequest x cs (EventIngesterRequest k) = EventIngester_Reconcile x (cl_EventIngester cs) k"
| "reconcileRequest x cs (ExecutorRequest k) = Executor_Reconcile x (cl_Executor cs) k"
| "reconcileRequest x cs (LookoutRequest k) = Lookout_Reconcile x (cl_Lookout cs) k"
| "reconcileRequest x cs (LookoutIngesterRequest k) = LookoutIngester_Reconcile x (cl_LookoutIngester cs) k"
| "reconcileRequest x cs (SchedulerRequest k) = Scheduler_Reconcile x (cl_Scheduler cs) k"
| "reconcileRequest x cs (SchedulerIngesterRequest k) = SchedulerIngester_Reconcile x (cl_SchedulerIngester cs) k"
| "reconcileRequest x cs (QueueRequest k) = Queue_Reconcile"

text \<open>
  A step reconciles one of the requests, returning, failing or panicking: the server keeps what was done.
\<close>

inductive operatorStep :: "externs \<Rightarrow> 's clients \<Rightarrow> request set \<Rightarrow> 's \<Rightarrow> 's \<Rightarrow> bool"
  for x cs R where
  reconciled: "rq \<in> R \<Longrightarrow> reconcileRequest x cs rq (freshWorld s) = (r, w') \<Longrightarrow> operatorStep x cs R s (w_Srv w')"

inductive operatorRun :: "externs \<Rightarrow> 's clients \<Rightarrow> request set \<Rightarrow> 's \<Rightarrow> 's \<Rightarrow> bool"
  for x cs R where
  idle: "operatorRun x cs R s s"
| step: "operatorRun x cs R s s' \<Longrightarrow> operatorStep x cs R s' s'' \<Longrightarrow> operatorRun x cs R s s''"

inductive_cases operatorStepE: "operatorStep x cs R s s'"

lemma operatorRun_one:
  "rq \<in> R \<Longrightarrow> operatorRun x cs R s (w_Srv (snd (reconcileRequest x cs rq (freshWorld s))))"
  by (rule operatorRun.step [OF operatorRun.idle operatorStep.reconciled]) (auto intro: prod.collapse [symmetric])

section \<open>Laws\<close>

text \<open>Every client keeps the laws of \<open>controller-runtime\<close> over the same view of the server.\<close>

definition managerLaws :: "('spec, 'status, 's) client \<Rightarrow> 's view \<Rightarrow> bool" where
  "managerLaws c view \<longleftrightarrow> clientLaws c view \<and> resourceLaw c view \<and> statusLaw c view"

definition operatorLaws :: "'s clients \<Rightarrow> 's view \<Rightarrow> bool" where
  "operatorLaws cs view \<longleftrightarrow>
     managerLaws (cl_ArmadaServer cs) view \<and> managerLaws (cl_Binoculars cs) view \<and>
     managerLaws (cl_EventIngester cs) view \<and> managerLaws (cl_Executor cs) view \<and>
     managerLaws (cl_Lookout cs) view \<and> managerLaws (cl_LookoutIngester cs) view \<and>
     managerLaws (cl_Scheduler cs) view \<and> managerLaws (cl_SchedulerIngester cs) view"

section \<open>What a history may change\<close>

lemma reconcileRequest_confined:
  assumes "operatorLaws cs view" "finalizerLaw x" "ownerLaw x" "reconcileRequest x cs rq w = (r, w')"
  shows "confined view (reach (requestKey rq)) w w'"
  using assms
  by (cases rq)
    (auto simp: operatorLaws_def managerLaws_def Queue_Reconcile_def intro: ArmadaServer_confined Binoculars_confined EventIngester_confined
      Executor_confined Lookout_confined LookoutIngester_confined Scheduler_confined SchedulerIngester_confined)

lemma operatorStep_outside:
  assumes laws: "operatorLaws cs view" "finalizerLaw x" "ownerLaw x" and st: "operatorStep x cs R s s'"
    and k: "\<forall>rq \<in> R. \<not> reach (requestKey rq) k"
  shows "view s' k = view s k"
  using st
proof (rule operatorStepE)
  fix rq r w'
  assume rq: "rq \<in> R" "reconcileRequest x cs rq (freshWorld s) = (r, w')" "s' = w_Srv w'"
  from reconcileRequest_confined [OF laws rq(2), unfolded confined_def, rule_format, of k] k rq(1,3)
  show ?thesis by (simp add: freshWorld_def)
qed

lemma operatorRun_outside:
  assumes laws: "operatorLaws cs view" "finalizerLaw x" "ownerLaw x" and run: "operatorRun x cs R s s'"
    and k: "\<forall>rq \<in> R. \<not> reach (requestKey rq) k"
  shows "view s' k = view s k"
  using run by (induction rule: operatorRun.induct) (simp_all add: operatorStep_outside [OF laws _ k])

text \<open>What is installed at keys that the requests cannot reach stays installed.\<close>

lemma operatorRun_installed:
  assumes laws: "operatorLaws cs view" "finalizerLaw x" "ownerLaw x" and run: "operatorRun x cs R (w_Srv w) s'"
    and own: "\<And>ob rq. derefSlot cc s = Some ob \<Longrightarrow> rq \<in> R \<Longrightarrow> \<not> reach (requestKey rq) (keyOf ob)"
    and inst: "installed view cc s w"
  shows "installed view cc s (w\<lparr>w_Srv := s'\<rparr>)"
proof -
  from inst obtain n stored where n: "derefSlot cc s = Some n" "view (w_Srv w) (keyOf n) = Some stored"
    "ownedFields stored = ownedFields n" by (auto simp: installed_def)
  have "view s' (keyOf n) = view (w_Srv w) (keyOf n)"
    using operatorRun_outside [OF laws run] own [OF n(1)] by blast
  with n show ?thesis by (simp add: installed_def)
qed

end
