(* ===== verification/Sharing.thy ===== *)
theory Sharing
  imports Healthy Operator
begin

text \<open>
  A reconciliation does not have the server to itself: the other controllers, the controllers of
  Kubernetes and users change it between any two of its calls. \<open>sharedClient\<close> is a client of such a
  server. It keeps the laws of the client for the objects that nobody else writes, so the lemmas about
  a run apply to it; and the other reconciliations of the operator do not write them, whether
  they come from other namespaces or for other names.
\<close>

section \<open>A server that others change\<close>

text \<open>
  Before each call the others act: \<open>others t\<close> is all that they do to the server between the calls \<open>t - 1\<close> and
  \<open>t\<close>. It may be anything, and it may depend on the state. Between the polls of a Job others act too,
  since each poll is a call.
\<close>

record 's shared =
  sh_Server :: 's
  sh_Calls :: nat

definition meanwhile :: "(nat \<Rightarrow> 's \<Rightarrow> 's) \<Rightarrow> ('s, 'a) action \<Rightarrow> ('s shared, 'a) action" where
  "meanwhile others call = (\<lambda>sh.
     case call (others (sh_Calls sh) (sh_Server sh)) of
       (r, s) \<Rightarrow> (r, \<lparr>sh_Server = s, sh_Calls = Suc (sh_Calls sh)\<rparr>))"

definition sharedClient ::
  "(nat \<Rightarrow> 's \<Rightarrow> 's) \<Rightarrow> ('spec, 'status, 's) client \<Rightarrow> ('spec, 'status, 's shared) client" where
  "sharedClient others c = \<lparr>
     c_Get = (\<lambda>k. meanwhile others (c_Get c k)),
     c_Update = (\<lambda>cr. meanwhile others (c_Update c cr)),
     c_StatusUpdate = (\<lambda>cr. meanwhile others (c_StatusUpdate c cr)),
     c_Delete = (\<lambda>ob. meanwhile others (c_Delete c ob)),
     c_GetJob = (\<lambda>k. meanwhile others (c_GetJob c k)),
     c_CreateOrUpdate = (\<lambda>a f (h, sh).
       case c_CreateOrUpdate c a f (h, others (sh_Calls sh) (sh_Server sh)) of
         (r, (h', s)) \<Rightarrow> (r, (h', \<lparr>sh_Server = s, sh_Calls = Suc (sh_Calls sh)\<rparr>))),
     c_Poll = (\<lambda>i t imm cond. pollFor (unat t div unat i) cond)\<rparr>"

text \<open>The others write none of the objects with keys in \<open>K\<close>; only these are looked at.\<close>

definition keepOff :: "objkey set \<Rightarrow> 's view \<Rightarrow> (nat \<Rightarrow> 's \<Rightarrow> 's) \<Rightarrow> bool" where
  "keepOff K view others \<longleftrightarrow> (\<forall>t s. \<forall>k \<in> K. view (others t s) k = view s k)"

definition seenOn :: "objkey set \<Rightarrow> 's view \<Rightarrow> 's shared view" where
  "seenOn K view = (\<lambda>sh k. if k \<in> K then view (sh_Server sh) k else None)"

lemma seenOn_others:
  "keepOff K view others \<Longrightarrow>
     seenOn K view \<lparr>sh_Server = others t s, sh_Calls = n\<rparr> = seenOn K view \<lparr>sh_Server = s, sh_Calls = m\<rparr>"
  by (auto simp: seenOn_def keepOff_def fun_eq_iff)

lemma seenOn_cong: "(\<And>k. k \<in> K \<Longrightarrow> view (sh_Server sh) k = view (sh_Server sh') k) \<Longrightarrow> seenOn K view sh = seenOn K view sh'"
  by (simp add: seenOn_def fun_eq_iff)

lemma upsertLaw_shared:
  assumes law: "upsertLaw c view" and off: "keepOff K view others"
  shows "upsertLawOn K (sharedClient others c) (seenOn K view)"
  unfolding upsertLawOn_def
proof (intro allI impI)
  fix a f h sh r h' sh' ob
  assume ob: "load a h = Some ob" and co: "c_CreateOrUpdate (sharedClient others c) a f (h, sh) = (r, (h', sh'))"
  obtain s' where s': "c_CreateOrUpdate c a f (h, others (sh_Calls sh) (sh_Server sh)) = (r, (h', s'))" "sh_Server sh' = s'"
    using co by (auto simp: sharedClient_def split: prod.splits)
  have same: "view (others (sh_Calls sh) (sh_Server sh)) k = view (sh_Server sh) k" if "k \<in> K" for k
    using off that by (simp add: keepOff_def)
  from law [unfolded upsertLaw_eq, rule_format, OF ob s'(1)] s'(2)
  show "(\<forall>k. k \<noteq> keyOf ob \<longrightarrow> seenOn K view sh' k = seenOn K view sh k) \<and>
     (\<exists>h1. touched a h h1 \<and>
        ((\<exists>e. r = Inl e \<and> h' = h1) \<or>
         (\<exists>e. r = Inl e \<and> f h1 = (Inl e, h')) \<or>
         (\<exists>h2. f h1 = (Inr (), h2) \<and> touched a h2 h' \<and>
            (r = Inr () \<longrightarrow> keyOf ob \<in> K \<longrightarrow> (\<exists>sent stored. load a h2 = Some sent \<and>
               seenOn K view sh' (keyOf ob) = Some stored \<and> ownedFields stored = ownedFields sent)))))"
    by (simp add: seenOn_def same) blast
qed

lemma clientLaws_shared:
  assumes "clientLaws c view" "keepOff K view others"
  shows "clientLawsOn K (sharedClient others c) (seenOn K view)"
proof -
  note law = clientLawsD [OF assms(1)]
  have "getJobLaw (sharedClient others c) (seenOn K view)"
    unfolding getJobLaw_def
  proof (intro allI impI)
    fix ns n sh r sh'
    assume "c_GetJob (sharedClient others c) (ns, n) sh = (r, sh')"
    then obtain s' where s': "c_GetJob c (ns, n) (others (sh_Calls sh) (sh_Server sh)) = (r, s')" "sh_Server sh' = s'"
      by (auto simp: sharedClient_def meanwhile_def split: prod.splits)
    from law(2) [unfolded getJobLaw_def, rule_format, OF s'(1)] s'(2) assms(2)
    show "seenOn K view sh' = seenOn K view sh \<and>
       (\<forall>job. r = Inr job \<longrightarrow> om_Namespace (job_Meta job) = ns \<and> om_Name (job_Meta job) = n)"
      by (auto simp: keepOff_def intro: seenOn_cong)
  qed
  moreover have "deleteLaw (sharedClient others c) (seenOn K view)"
    unfolding deleteLaw_def
  proof (intro allI impI)
    fix ob sh r sh' k
    assume d: "c_Delete (sharedClient others c) ob sh = (r, sh')" and k: "k \<noteq> keyOf ob"
    obtain s' where s': "c_Delete c ob (others (sh_Calls sh) (sh_Server sh)) = (r, s')" "sh_Server sh' = s'"
      using d by (auto simp: sharedClient_def meanwhile_def split: prod.splits)
    from law(3) [unfolded deleteLaw_def, rule_format, OF s'(1) k] s'(2) assms(2)
    show "seenOn K view sh' k = seenOn K view sh k" by (simp add: seenOn_def keepOff_def)
  qed
  moreover have "pollLaw (sharedClient others c)"
    by (auto simp: pollLaw_def sharedClient_def)
  ultimately show ?thesis
    using upsertLaw_shared [OF law(1) assms(2)] by (simp add: clientLawsOn_def)
qed

lemma healthy_shared:
  fixes c :: "('spec, 'status, 's) client"
  assumes "healthy c view" "keepOff K view others"
  shows "healthy (sharedClient others c) (seenOn K view)"
proof -
  let ?c = "sharedClient others c"
  have h: "healthyUpsert c" "healthyDelete c" "jobsFinish c view" "healthyStatus c"
    using assms(1) by (simp_all add: healthy_def)
  have fst_upsert: "fst (c_CreateOrUpdate ?c a f (h, sh)) = fst (c_CreateOrUpdate c a f (h, others (sh_Calls sh) (sh_Server sh)))"
    for a f h sh by (simp add: sharedClient_def split: prod.split)
  have fst_call: "fst (meanwhile others m sh) = fst (m (others (sh_Calls sh) (sh_Server sh)))"
    for m :: "('s, 'x) action" and sh by (simp add: meanwhile_def split: prod.split)
  have "healthyUpsert ?c" using h(1) unfolding healthyUpsert_def fst_upsert by blast
  moreover have "healthyDelete ?c"
    using h(2) by (simp add: healthyDelete_def sharedClient_def fst_call)
  moreover have "jobsFinish ?c (seenOn K view)"
    using h(3) assms(2)
    by (auto simp: jobsFinish_def sharedClient_def fst_call seenOn_def keepOff_def split: if_splits)
  moreover have "healthyPoll ?c"
    unfolding healthyPoll_def
  proof (intro allI impI)
    fix i t :: int64 and cond and w :: "'s shared world"
    assume "positive i" "positive t" "unat i \<le> unat t"
    then obtain n where "unat t div unat i = Suc n" by (rule polls_once)
    then show "\<exists>n. c_Poll ?c i t False cond w = pollFor (Suc n) cond w" by (auto simp: sharedClient_def)
  qed
  moreover have "healthyStatus ?c"
    using h(4) by (simp add: healthyStatus_def sharedClient_def fst_call)
  ultimately show ?thesis by (simp add: healthy_def)
qed

section \<open>Runs on a shared server\<close>

text \<open>The keys of the objects that a plan upserts.\<close>

definition upsertedKeys :: "CommonComponents \<Rightarrow> step list \<Rightarrow> objkey set" where
  "upsertedKeys cc sts = {keyOf ob | s ob. s \<in> upsertedSlots sts \<and> derefSlot cc s = Some ob}"

lemma upsertsWithin_upsertedKeys: "upsertsWithin (upsertedKeys cc sts) (heapOf cc None) sts"
  unfolding upsertsWithin_def
proof (intro allI impI)
  fix a n
  assume "Upsert a \<in> set sts" "load a (heapOf cc None) = Some n"
  then show "keyOf n \<in> upsertedKeys cc sts"
    by (cases a) (auto simp: upsertedKeys_def upsertedSlots_def)
qed

context installer
begin

lemma run_converges_shared:
  assumes "clientLaws c view" "healthy c view" "keepOff (upsertedKeys cc (steps cr cc)) view others"
    "ownerLaw x" "generate x cr = Inr cc" "separate cr"
    "startsRun (sharedClient others c) cc None (steps cr cc) m w" "ready (heapOf cc None) None (steps cr cc)"
  shows "\<exists>w'. m w = (Inr (), w') \<and> (\<forall>s \<in> upsertedSlots (steps cr cc). managed s \<longrightarrow> derefSlot cc s \<noteq> None \<longrightarrow>
    installed (\<lambda>sh. view (sh_Server sh)) cc s w')"
proof -
  let ?K = "upsertedKeys cc (steps cr cc)"
  have seen: "installed (seenOn ?K view) cc s w' \<Longrightarrow> installed (\<lambda>sh. view (sh_Server sh)) cc s w'" for s w'
    by (auto simp: installed_def seenOn_def split: if_splits)
  show ?thesis
    using run_converges_on [OF clientLaws_shared [OF assms(1,3)] healthy_shared [OF assms(2,3)] assms(4-8)
      upsertsWithin_upsertedKeys] seen by blast
qed

end

section \<open>The operator's other reconciliations keep off\<close>

text \<open>What the operator does when, between two calls, it reconciles a request to the end.\<close>

definition reconciling :: "externs \<Rightarrow> 's clients \<Rightarrow> (nat \<Rightarrow> request) \<Rightarrow> nat \<Rightarrow> 's \<Rightarrow> 's" where
  "reconciling x cs rqs t s = w_Srv (snd (reconcileRequest x cs (rqs t) (freshWorld s)))"

lemma reconciling_keepsOff:
  assumes "operatorLaws cs view" "finalizerLaw x" "ownerLaw x" "\<And>t k. k \<in> K \<Longrightarrow> \<not> reach (requestKey (rqs t)) k"
  shows "keepOff K view (reconciling x cs rqs)"
  unfolding keepOff_def
proof (intro allI ballI)
  fix t s k
  assume k: "k \<in> K"
  obtain r w' where run: "reconcileRequest x cs (rqs t) (freshWorld s) = (r, w')" by fastforce
  from reconcileRequest_confined [OF assms(1-3) run, unfolded confined_def, rule_format, of k] assms(4) [OF k] run
  show "view (reconciling x cs rqs t s) k = view s k" by (simp add: reconciling_def freshWorld_def)
qed

end
