(* ===== verification/Served.thy ===== *)
theory Served
  imports Binoculars Executor Lookout
begin

text \<open>
  Reading the server: when an object is installed, the server stores an object of its kind under its key
  with the fields that the operator owns. So what the generators put together can be stated of the server:
  how requests reach a Lookout, and what the pods of an Executor or a Binoculars may do.
\<close>

section \<open>Objects with the same owned fields\<close>

lemma ownedFields_stored:
  "ownedFields ob = ownedFields (KDeployment d) \<Longrightarrow> \<exists>d'. ob = KDeployment d' \<and> dep_Spec d' = dep_Spec d"
  "ownedFields ob = ownedFields (KService v) \<Longrightarrow> \<exists>v'. ob = KService v' \<and> svc_Spec v' = svc_Spec v"
  "ownedFields ob = ownedFields (KIngress i) \<Longrightarrow> \<exists>i'. ob = KIngress i' \<and> ing_Spec i' = ing_Spec i"
  "ownedFields ob = ownedFields (KClusterRole r) \<Longrightarrow> \<exists>r'. ob = KClusterRole r' \<and> crole_Rules r' = crole_Rules r"
  "ownedFields ob = ownedFields (KClusterRoleBinding b) \<Longrightarrow>
     \<exists>b'. ob = KClusterRoleBinding b' \<and> crb_Subjects b' = crb_Subjects b \<and> crb_RoleRef b' = crb_RoleRef b"
  by (cases ob; auto simp: ownedFields_def dest: arg_cong [where f = dep_Spec] arg_cong [where f = svc_Spec]
      arg_cong [where f = ing_Spec] arg_cong [where f = crole_Rules] arg_cong [where f = crb_Subjects]
      arg_cong [where f = crb_RoleRef])+

section \<open>Installed objects on the server\<close>

lemma installed_served:
  "installed view cc SDeployment w \<Longrightarrow> cc_Deployment cc = Some d \<Longrightarrow> metaKey (dep_Meta d) = (ns, name) \<Longrightarrow>
     \<exists>d'. view (w_Srv w) (DeploymentKind, ns, name) = Some (KDeployment d') \<and> dep_Spec d' = dep_Spec d"
  "installed view cc SService w \<Longrightarrow> cc_Service cc = Some v \<Longrightarrow> metaKey (svc_Meta v) = (ns, name) \<Longrightarrow>
     \<exists>v'. view (w_Srv w) (ServiceKind, ns, name) = Some (KService v') \<and> svc_Spec v' = svc_Spec v"
  "installed view cc SIngressHttp w \<Longrightarrow> cc_IngressHttp cc = Some i \<Longrightarrow> metaKey (ing_Meta i) = (ns, name) \<Longrightarrow>
     \<exists>i'. view (w_Srv w) (IngressKind, ns, name) = Some (KIngress i') \<and> ing_Spec i' = ing_Spec i"
  "installed view cc SClusterRole w \<Longrightarrow> cc_ClusterRole cc = Some r \<Longrightarrow> metaKey (crole_Meta r) = (ns, name) \<Longrightarrow>
     \<exists>r'. view (w_Srv w) (ClusterRoleKind, ns, name) = Some (KClusterRole r') \<and> crole_Rules r' = crole_Rules r"
  "installed view cc (SClusterRoleBinding n) w \<Longrightarrow> n < length (cc_ClusterRoleBindings cc) \<Longrightarrow>
     metaKey (crb_Meta (cc_ClusterRoleBindings cc ! n)) = (ns, name) \<Longrightarrow>
     \<exists>b'. view (w_Srv w) (ClusterRoleBindingKind, ns, name) = Some (KClusterRoleBinding b') \<and>
       crb_Subjects b' = crb_Subjects (cc_ClusterRoleBindings cc ! n) \<and> crb_RoleRef b' = crb_RoleRef (cc_ClusterRoleBindings cc ! n)"
  by (auto simp: installed_def keyOf_def metaKey_def dest!: ownedFields_stored)

section \<open>What a Lookout serves\<close>

lemma Lookout_container_port:
  assumes "createLookoutDeployment x cr account cfg = Inr dep"
  shows "\<exists>c \<in> set (ps_Containers (pt_Spec (d_Template (dep_Spec dep)))). cac_HTTPPort cfg \<in> cp_ContainerPort ` set (c_Ports c)"
  using assms
  by (auto simp: createLookoutDeployment_def CreateProbesWithScheme_def Let_def go_simps newContainerPortsHTTPWithMetrics_def
      newContainerPortHTTP_def zeroPodSpec_def split: option.splits)

lemma Lookout_ingress_rules:
  assumes "createLookoutIngressHttp x cr cfg = Inr ing" "lk_HostNames (cr_Spec cr) \<noteq> []"
  shows "\<exists>i. ing = Some i \<and> metaKey (ing_Meta i) = (crNamespace cr, crName cr @ ''-rest'') \<and>
     map ir_Host (is_Rules (ing_Spec i)) = lk_HostNames (cr_Spec cr) \<and>
     map tls_Hosts (is_TLS (ing_Spec i)) = [lk_HostNames (cr_Spec cr)] \<and>
     (\<forall>r \<in> set (is_Rules (ing_Spec i)). \<forall>p \<in> set (ir_Paths r). hp_ServiceName p = crName cr \<and> hp_ServicePort p = cac_HTTPPort cfg)"
  using assms
  by (auto simp: createLookoutIngressHttp_def Let_def go_simps ingressRulesFrom_map comp_def metaKey_def split: if_splits)

text \<open>
  How a request gets from a host to a container: the Ingress has a rule for each host and leads to a port of the Service, the
  Service selects the pods, and a container of them listens on that port.
\<close>

definition routes :: "string list \<Rightarrow> string \<Rightarrow> Ingress \<Rightarrow> Service \<Rightarrow> Deployment \<Rightarrow> bool" where
  "routes hosts service i v d \<longleftrightarrow> map ir_Host (is_Rules (ing_Spec i)) = hosts \<and> map tls_Hosts (is_TLS (ing_Spec i)) = [hosts] \<and>
     (\<forall>r \<in> set (is_Rules (ing_Spec i)). \<forall>p \<in> set (ir_Paths r). hp_ServiceName p = service \<and>
        hp_ServicePort p \<in> sp_Port ` set (ss_Ports (svc_Spec v)) \<and>
        (\<exists>ctr \<in> set (ps_Containers (pt_Spec (d_Template (dep_Spec d)))). hp_ServicePort p \<in> cp_ContainerPort ` set (c_Ports ctr))) \<and>
     ss_Selector (svc_Spec v) \<subseteq>\<^sub>m om_Labels (pt_Meta (d_Template (dep_Spec d)))"

lemma routes_cong:
  "ing_Spec i = ing_Spec i' \<Longrightarrow> svc_Spec v = svc_Spec v' \<Longrightarrow> dep_Spec d = dep_Spec d' \<Longrightarrow>
     routes hosts service i v d = routes hosts service i' v' d'"
  by (simp add: routes_def)

lemma Lookout_route:
  assumes "ownerLaw x" "Lookout_generateAll x cr = Inr (cc, job)" "lk_HostNames (cr_Spec cr) \<noteq> []"
  shows "\<exists>i v d. cc_IngressHttp cc = Some i \<and> metaKey (ing_Meta i) = (crNamespace cr, crName cr @ ''-rest'') \<and>
     cc_Service cc = Some v \<and> metaKey (svc_Meta v) = (crNamespace cr, crName cr) \<and>
     cc_Deployment cc = Some d \<and> metaKey (dep_Meta d) = (crNamespace cr, crName cr) \<and>
     routes (lk_HostNames (cr_Spec cr)) (crName cr) i v d"
  using assms(2)
proof (rule Lookout_generateAll_Inr, goal_cases)
  case (1 cfg sec0 sec sa account dep0 dep http0 svc psvc ping mig0 mig)
  obtain i0 where i0: "http0 = Some i0" "metaKey (ing_Meta i0) = (crNamespace cr, crName cr @ ''-rest'')"
    "map ir_Host (is_Rules (ing_Spec i0)) = lk_HostNames (cr_Spec cr)" "map tls_Hosts (is_TLS (ing_Spec i0)) = [lk_HostNames (cr_Spec cr)]"
    "\<forall>r \<in> set (is_Rules (ing_Spec i0)). \<forall>p \<in> set (ir_Paths r). hp_ServiceName p = crName cr \<and> hp_ServicePort p = cac_HTTPPort cfg"
    using Lookout_ingress_rules [OF 1(6) assms(3)] by (elim exE conjE) (rule that)
  obtain i where i: "cc_IngressHttp cc = Some i" using 1(7) i0(1) by (cases "cc_IngressHttp cc") (auto simp: ownIngress_def go_simps)
  note ik = ownIngress_key [OF assms(1) 1(7) i]
  have svc: "metaKey (svc_Meta svc) = (crNamespace cr, crName cr)" "cac_HTTPPort cfg \<in> sp_Port ` set (ss_Ports (svc_Spec svc))"
    "ss_Selector (svc_Spec svc) = IdentityLabel (crName cr)"
    using 1(8) by (auto simp: go_simps Service_def ServiceEnableHTTPWithMetrics_def Let_def metaKey_def ownerLawD(1,2) [OF assms(1)])
  have dep: "dep_Spec dep = dep_Spec dep0" "metaKey (dep_Meta dep) = (crNamespace cr, crName cr)"
    using 1(5) Lookout_deployment(3) [OF 1(4)] by (auto simp: go_simps metaKey_def ownerLawD(1,2) [OF assms(1)])
  have "routes (lk_HostNames (cr_Spec cr)) (crName cr) i0 svc dep0"
    unfolding routes_def using i0 svc Lookout_container_port [OF 1(4)] Lookout_deployment(2) [OF 1(4)] by auto
  then have "routes (lk_HostNames (cr_Spec cr)) (crName cr) i svc dep"
    using ik i0(1) dep(1) by (subst routes_cong [of i i0 svc svc dep dep0]) auto
  with i ik i0(1,2) svc(1) dep(2) 1(15,16) show ?case by auto
qed

lemma Lookout_upserts:
  "SIngressHttp \<in> upsertedSlots (Lookout_steps cr cc)" "SService \<in> upsertedSlots (Lookout_steps cr cc)"
  "SDeployment \<in> upsertedSlots (Lookout_steps cr cc)"
  by (auto simp: upsertedSlots_def Lookout_steps_def)

section \<open>What an Executor may do\<close>

text \<open>The bindings in order: their names, and the ClusterRoles that they bind.\<close>

definition boundRoles :: "Executor \<Rightarrow> (string \<times> string) list" where
  "boundRoles cr = (crName cr, crName cr) #
     map (\<lambda>b. (crName cr @ ''-'' @ acrb_NameSuffix b, acrb_ClusterRoleName b)) (ex_AdditionalClusterRoleBindings (cr_Spec cr))"

lemma Executor_bindings:
  assumes "ownerLaw x" "Executor_generate x cr = Inr cc" "crName cr \<noteq> ''''" "i < length (boundRoles cr)"
  shows "length (cc_ClusterRoleBindings cc) = length (boundRoles cr) \<and>
    metaKey (crb_Meta (cc_ClusterRoleBindings cc ! i)) = ('''', fst (boundRoles cr ! i)) \<and>
    rref_Name (crb_RoleRef (cc_ClusterRoleBindings cc ! i)) = snd (boundRoles cr ! i) \<and>
    (\<exists>dep. cc_Deployment cc = Some dep \<and> metaKey (dep_Meta dep) = (crNamespace cr, crName cr) \<and>
       crb_Subjects (cc_ClusterRoleBindings cc ! i) = [\<lparr>sub_Kind = ''ServiceAccount'',
         sub_Name = ps_ServiceAccountName (pt_Spec (d_Template (dep_Spec dep))), sub_Namespace = crNamespace cr\<rparr>])"
  using assms(2)
proof (rule Executor_generate_Inr, goal_cases)
  case (1 cfg sec0 sec sa account dep0 dep svc0 svc psvc ping)
  have "account \<noteq> []"
    using 1(3) assms(3) by (auto simp: serviceAccountFor_def Let_def go_simps ownerLawD(1) [OF assms(1)] split: if_splits)
  moreover have "ps_ServiceAccountName (pt_Spec (d_Template (dep_Spec dep))) = account"
    "metaKey (dep_Meta dep) = (crNamespace cr, crName cr)"
    using 1(5) Executor_deployment [OF 1(4)] by (auto simp: go_simps metaKey_def ownerLawD(1,2) [OF assms(1)])
  ultimately show ?case
    using 1 assms(4)
    by (cases i) (auto simp: boundRoles_def createAdditionalClusterRoleBindings_def additionalBinding_def metaKey_def
        Executor_createClusterRoleBinding_def Executor_createClusterRole_def)
qed

lemma signedMin_one: "signedMin 1 (n :: int32) \<le>s 1" "sint (signedMin 1 (n :: int32)) = min 1 (sint n)"
  by (simp_all add: signedMin_def word_sless_alt word_sle_eq)

lemma Executor_replicas:
  assumes "ownerLaw x" "Executor_generate x cr = Inr cc"
  shows "\<exists>dep. cc_Deployment cc = Some dep \<and> metaKey (dep_Meta dep) = (crNamespace cr, crName cr) \<and>
     d_Replicas (dep_Spec dep) = Some (case ex_Replicas (cr_Spec cr) of None \<Rightarrow> 1 | Some n \<Rightarrow> signedMin 1 n)"
  using assms(2)
proof (rule Executor_generate_Inr, goal_cases)
  case (1 cfg sec0 sec sa account dep0 dep svc0 svc psvc ping)
  then show ?case
    using Executor_deployment(3,4) [OF 1(4)] by (auto simp: go_simps metaKey_def ownerLawD(1,2) [OF assms(1)])
qed

text \<open>What a successful reconciliation of an Executor has put on the server.\<close>

lemma Executor_installs:
  assumes "clientLaws c view" "ownerLaw x" "fetches c req w cr" "live x cr" "Executor_generate x cr = Inr cc"
    "Executor_separate cr" "Executor_Reconcile x c req w = (Inr (), w')"
    "s \<in> upsertedSlots (Executor_steps cr cc)" "managed s" "derefSlot cc s \<noteq> None"
  shows "installed view cc s w'"
proof -
  have "startsRun c cc None (Executor_steps cr cc) (Executor_Reconcile x c req) w"
    unfolding Executor_Reconcile_skeleton
    by (rule generateFirst_starts [where generate = "Executor_generate x", OF assms(3-5)])
  from executor.run_installs [OF assms(1,2,5,6) this assms(7) _ assms(8-10)] show ?thesis by simp
qed

lemma Executor_upserts:
  "SDeployment \<in> upsertedSlots (Executor_steps cr cc)" "SClusterRole \<in> upsertedSlots (Executor_steps cr cc)"
  "SClusterRoleBinding i \<in> upsertedSlots (Executor_steps cr cc) \<longleftrightarrow> i < length (cc_ClusterRoleBindings cc)"
  by (auto simp: upsertedSlots_def Executor_steps_def)

section \<open>What a Binoculars may do\<close>

lemma Binoculars_installs:
  assumes "clientLaws c view" "ownerLaw x" "fetches c req w cr" "live x cr" "Binoculars_generate x cr = Inr cc"
    "Binoculars_Reconcile x c req w = (Inr (), w')"
    "s \<in> upsertedSlots (Binoculars_steps cr cc)" "managed s" "derefSlot cc s \<noteq> None"
  shows "installed view cc s w'"
proof -
  have "startsRun c cc None (Binoculars_steps cr cc) (Binoculars_Reconcile x c req) w"
    unfolding Binoculars_Reconcile_skeleton
    by (rule generateFirst_starts [where generate = "Binoculars_generate x", OF assms(3-5)])
  from binoculars.run_installs [OF assms(1,2,5) TrueI this assms(6) _ assms(7-9)] show ?thesis by simp
qed

lemma Binoculars_upserts:
  "SDeployment \<in> upsertedSlots (Binoculars_steps cr cc)" "SClusterRole \<in> upsertedSlots (Binoculars_steps cr cc)"
  "SClusterRoleBinding i \<in> upsertedSlots (Binoculars_steps cr cc) \<longleftrightarrow> i < length (cc_ClusterRoleBindings cc)"
  by (auto simp: upsertedSlots_def Binoculars_steps_def)

lemma Binoculars_account:
  assumes "ownerLaw x" "Binoculars_generate x cr = Inr cc"
  shows "\<exists>dep. cc_Deployment cc = Some dep \<and> metaKey (dep_Meta dep) = (crNamespace cr, crName cr) \<and>
     ps_ServiceAccountName (pt_Spec (d_Template (dep_Spec dep))) =
       (if csb_CustomServiceAccount (cr_Spec cr) = '''' then crName cr else csb_CustomServiceAccount (cr_Spec cr))"
  using assms(2)
proof (rule Binoculars_generate_Inr, goal_cases)
  case (1 cfg sec0 sec sa account dep0 dep http0 http grpc0 grpc svc psvc ping)
  have "account = (if csb_CustomServiceAccount (cr_Spec cr) = '''' then crName cr else csb_CustomServiceAccount (cr_Spec cr))"
    using 1(3) by (auto simp: serviceAccountFor_def Let_def go_simps ownerLawD(1) [OF assms(1)] split: if_splits)
  moreover have "ps_ServiceAccountName (pt_Spec (d_Template (dep_Spec dep))) = account"
    "metaKey (dep_Meta dep) = (crNamespace cr, crName cr)"
    using 1(5) Binoculars_deployment(1,3) [OF 1(4)] by (auto simp: go_simps metaKey_def ownerLawD(1,2) [OF assms(1)])
  ultimately show ?case using 1(14) by auto
qed

lemma Binoculars_cluster_keys:
  "metaKey (crole_Meta (createBinocularsClusterRole cr)) = ('''', crName cr)"
  "metaKey (crb_Meta (generateBinocularsClusterRoleBinding cr)) = ('''', crName cr)"
  by (simp_all add: createBinocularsClusterRole_def generateBinocularsClusterRoleBinding_def metaKey_def Let_def)

end
