(* ===== verification/Schemes.thy ===== *)
theory Schemes
  imports Startup
begin

text \<open>
  How the operator's types get into the manager's scheme: \<open>groupversion_info.go\<close> of both API groups, the \<open>init\<close> functions of the
  \<open>*_types.go\<close> files, which register the types with the group's builder, and \<open>init\<close> of \<open>cmd/main.go\<close>, which runs
  after them and adds the groups to the scheme. The builder and the scheme are library types and so parameters.
\<close>

section \<open>The scheme library\<close>

record GroupVersion =
  gv_Group :: string
  gv_Version :: string

text \<open>\<open>scheme.Builder\<close>, with values \<open>'b\<close>, and \<open>runtime.Scheme\<close>, with values \<open>'s\<close>. A Go type is given by its name.\<close>

record ('b, 's) schemeLib =
  sl_Builder :: "GroupVersion \<Rightarrow> 'b"
  sl_Register :: "string list \<Rightarrow> 'b \<Rightarrow> 'b"
  sl_AddToScheme :: "'b \<Rightarrow> 's \<Rightarrow> 's result"
  sl_clientgo :: "'s \<Rightarrow> 's result"

text \<open>
  The documented behaviour: \<open>Register\<close> adds types to the builder, and \<open>AddToScheme\<close> adds all its types to the scheme, under
  the builder's group and version; nothing that a scheme knows gets lost. \<open>types\<close> and \<open>known\<close> read builder and scheme.
\<close>

definition schemeLaw :: "('b, 's) schemeLib \<Rightarrow> ('b \<Rightarrow> GroupVersion \<times> string set) \<Rightarrow> ('s \<Rightarrow> (GroupVersion \<times> string) set) \<Rightarrow> bool" where
  "schemeLaw lib types known \<longleftrightarrow>
     (\<forall>gv. types (sl_Builder lib gv) = (gv, {})) \<and>
     (\<forall>ts b. types (sl_Register lib ts b) = (fst (types b), snd (types b) \<union> set ts)) \<and>
     (\<forall>b s s'. sl_AddToScheme lib b s = Inr s' \<longrightarrow> known s' = known s \<union> {fst (types b)} \<times> snd (types b)) \<and>
     (\<forall>s s'. sl_clientgo lib s = Inr s' \<longrightarrow> known s \<subseteq> known s')"

section \<open>The groups\<close>

definition installGroupVersion :: GroupVersion where
  "installGroupVersion = \<lparr>gv_Group = ''install.armadaproject.io'', gv_Version = ''v1alpha1''\<rparr>"

definition coreGroupVersion :: GroupVersion where
  "coreGroupVersion = \<lparr>gv_Group = ''core.armadaproject.io'', gv_Version = ''v1alpha1''\<rparr>"

definition ArmadaServer_init :: "('b, 's) schemeLib \<Rightarrow> 'b \<Rightarrow> 'b" where
  "ArmadaServer_init lib = sl_Register lib [''ArmadaServer'', ''ArmadaServerList'']"

definition Binoculars_init :: "('b, 's) schemeLib \<Rightarrow> 'b \<Rightarrow> 'b" where
  "Binoculars_init lib = sl_Register lib [''Binoculars'', ''BinocularsList'']"

definition EventIngester_init :: "('b, 's) schemeLib \<Rightarrow> 'b \<Rightarrow> 'b" where
  "EventIngester_init lib = sl_Register lib [''EventIngester'', ''EventIngesterList'']"

definition Executor_init :: "('b, 's) schemeLib \<Rightarrow> 'b \<Rightarrow> 'b" where
  "Executor_init lib = sl_Register lib [''Executor'', ''ExecutorList'']"

definition Lookout_init :: "('b, 's) schemeLib \<Rightarrow> 'b \<Rightarrow> 'b" where
  "Lookout_init lib = sl_Register lib [''Lookout'', ''LookoutList'']"

definition LookoutIngester_init :: "('b, 's) schemeLib \<Rightarrow> 'b \<Rightarrow> 'b" where
  "LookoutIngester_init lib = sl_Register lib [''LookoutIngester'', ''LookoutIngesterList'']"

definition Scheduler_init :: "('b, 's) schemeLib \<Rightarrow> 'b \<Rightarrow> 'b" where
  "Scheduler_init lib = sl_Register lib [''Scheduler'', ''SchedulerList'']"

definition SchedulerIngester_init :: "('b, 's) schemeLib \<Rightarrow> 'b \<Rightarrow> 'b" where
  "SchedulerIngester_init lib = sl_Register lib [''SchedulerIngester'', ''SchedulerIngesterList'']"

definition Queue_init :: "('b, 's) schemeLib \<Rightarrow> 'b \<Rightarrow> 'b" where
  "Queue_init lib = sl_Register lib [''Queue'', ''QueueList'']"

text \<open>
  \<open>SchemeBuilder\<close> is a pointer, and \<open>AddToScheme\<close> a method of it, so it sees what the \<open>init\<close> functions of the package
  register: they run file by file, before those of the packages that import it.
\<close>

definition installSchemeBuilder :: "('b, 's) schemeLib \<Rightarrow> 'b" where
  "installSchemeBuilder lib =
     (let b = sl_Builder lib installGroupVersion;
          b = ArmadaServer_init lib b;
          b = Binoculars_init lib b;
          b = EventIngester_init lib b;
          b = Executor_init lib b;
          b = Lookout_init lib b;
          b = LookoutIngester_init lib b;
          b = Scheduler_init lib b
      in SchedulerIngester_init lib b)"

definition coreSchemeBuilder :: "('b, 's) schemeLib \<Rightarrow> 'b" where
  "coreSchemeBuilder lib = Queue_init lib (sl_Builder lib coreGroupVersion)"

text \<open>
  \<open>init\<close> of \<open>cmd/main.go\<close> on the new scheme. \<open>utilruntime.Must\<close> ends the process at an error. \<open>v1alpha1\<close> and
  \<open>installv1alpha1\<close> are two names of one package, whose types are added twice.
\<close>

definition main_init :: "('b, 's) schemeLib \<Rightarrow> 's \<Rightarrow> 's result" where
  "main_init lib scheme =
     andThen (sl_clientgo lib scheme) (\<lambda>scheme.
     andThen (sl_AddToScheme lib (installSchemeBuilder lib) scheme) (\<lambda>scheme.
     andThen (sl_AddToScheme lib (coreSchemeBuilder lib) scheme) (\<lambda>scheme.
     sl_AddToScheme lib (installSchemeBuilder lib) scheme)))"

section \<open>What the manager is set up for is in its scheme\<close>

definition installKinds :: "string list" where
  "installKinds = [''ArmadaServer'', ''Binoculars'', ''EventIngester'', ''Executor'', ''Lookout'', ''LookoutIngester'', ''Scheduler'', ''SchedulerIngester'']"

lemma schemeBuilders_types:
  assumes "schemeLaw lib types known"
  shows "types (installSchemeBuilder lib) = (installGroupVersion, set installKinds \<union> (\<lambda>k. k @ ''List'') ` set installKinds)"
    "types (coreSchemeBuilder lib) = (coreGroupVersion, {''Queue'', ''QueueList''})"
  using assms
  by (auto simp: schemeLaw_def installSchemeBuilder_def coreSchemeBuilder_def installKinds_def Let_def
      ArmadaServer_init_def Binoculars_init_def EventIngester_init_def Executor_init_def Lookout_init_def
      LookoutIngester_init_def Scheduler_init_def SchedulerIngester_init_def Queue_init_def)

lemma main_init_known:
  assumes "schemeLaw lib types known" "main_init lib s = Inr s'"
  shows "{installGroupVersion} \<times> (set installKinds \<union> (\<lambda>k. k @ ''List'') ` set installKinds) \<subseteq> known s'"
    "{coreGroupVersion} \<times> {''Queue'', ''QueueList''} \<subseteq> known s'"
  using assms(2) assms(1)[unfolded schemeLaw_def] schemeBuilders_types [OF assms(1)]
  by (auto simp: main_init_def andThen_eq_Inr)

lemma mainPlan_kinds:
  "SetupController ctl \<in> set (mainPlan flags env) \<Longrightarrow> ctl_For ctl \<in> insert ''Queue'' (set installKinds)"
  "SetupWebhook wh \<in> set (mainPlan flags env) \<Longrightarrow> wh_For wh \<in> set installKinds"
  by (auto simp: mainPlan_def controllerPlan_def webhookPlan_def installKinds_def split: if_splits)

text \<open>
  Each controller and each webhook that a process sets up is for a kind that \<open>init\<close> has put into the scheme; for a controller,
  whose objects the manager lists and watches, with its list.
\<close>

theorem setup_kinds_known:
  assumes "schemeLaw lib types known" "main_init lib s = Inr s'" "main calls flags env [] = (r, log)"
  shows "SetupController ctl \<in> set log \<Longrightarrow> \<exists>gv \<in> {installGroupVersion, coreGroupVersion}.
      (gv, ctl_For ctl) \<in> known s' \<and> (gv, ctl_For ctl @ ''List'') \<in> known s'"
    "SetupWebhook wh \<in> set log \<Longrightarrow> (installGroupVersion, wh_For wh) \<in> known s'"
proof -
  have plan: "set log \<subseteq> set (mainPlan flags env)"
    using callAll_run [OF assms(3) [unfolded main_plan]] set_mono_prefix by blast
  note known = main_init_known [OF assms(1,2)]
  show "\<exists>gv \<in> {installGroupVersion, coreGroupVersion}. (gv, ctl_For ctl) \<in> known s' \<and> (gv, ctl_For ctl @ ''List'') \<in> known s'"
    if "SetupController ctl \<in> set log"
  proof (cases "ctl_For ctl = ''Queue''")
    case False
    with mainPlan_kinds(1) [OF subsetD [OF plan that]] have "ctl_For ctl \<in> set installKinds" by simp
    with known(1) show ?thesis by blast
  qed (use known(2) in simp)
  show "(installGroupVersion, wh_For wh) \<in> known s'" if "SetupWebhook wh \<in> set log"
    using mainPlan_kinds(2) [OF subsetD [OF plan that]] known(1) by blast
qed

section \<open>An instance\<close>

definition refSchemeLib :: "(GroupVersion \<times> string set, (GroupVersion \<times> string) set) schemeLib" where
  "refSchemeLib = \<lparr>sl_Builder = \<lambda>gv. (gv, {}), sl_Register = \<lambda>ts b. (fst b, snd b \<union> set ts),
     sl_AddToScheme = \<lambda>b s. Inr (s \<union> {fst b} \<times> snd b), sl_clientgo = Inr\<rparr>"

lemma schemeLaw_refSchemeLib: "schemeLaw refSchemeLib (\<lambda>b. b) (\<lambda>s. s)"
  by (simp add: schemeLaw_def refSchemeLib_def)

lemma main_init_refSchemeLib: "\<exists>s. main_init refSchemeLib {} = Inr s"
  by (simp add: main_init_def refSchemeLib_def)

end
