(* ===== verification/Deviations.thy ===== *)
theory Deviations
  imports ArmadaServer Binoculars Lookout Scheduler
begin

text \<open>
  Small facts about the generators that a maintainer would not expect: Jobs that do not see the
  configuration they mount, Jobs that two resources share, a port that is not the one of the protocol, a
  dereference outside its nil check, a setting that nothing reads, and objects that resources of different kinds
  share.
\<close>

section \<open>The Pulsar Jobs of an ArmadaServer\<close>

text \<open>
  Both Jobs mount the configuration under the name of the ArmadaServer, which is not a key of the Secret: its one key
  is the file name that the Deployment mounts.
\<close>

lemma pulsarJobs_miss_config:
  assumes "CreateSecret x raw (crName as) (crNamespace as) (GetConfigFilename (crName as)) = Inr sec"
    "job = pulsarWaitJob as asConfig commonConfig \<or> job = initPulsarJob as asConfig"
    "c \<in> set (ps_Containers (pt_Spec (js_Template (job_Spec job))))"
  shows "\<not> mountsConfigOf sec (c_VolumeMounts c) (ps_Volumes (pt_Spec (js_Template (job_Spec job))))"
proof -
  have "sec_Data sec (crName as) = None"
    using assms(1) by (auto simp: CreateSecret_def go_simps GetConfigFilename_def GetConfigName_def)
  moreover have "c_VolumeMounts c = ArmadaServer_configMounts as"
    using assms(2,3) by (auto simp: pulsarWaitJob_def initPulsarJob_def Let_def zeroPodSpec_def zeroContainer_def)
  ultimately show ?thesis by (simp add: mountsConfigOf_def ArmadaServer_configMounts_def)
qed

text \<open>Their names are fixed, so two ArmadaServers of one namespace have the same Jobs.\<close>

lemma pulsarJobs_shared:
  assumes "crNamespace as' = crNamespace as"
    "createArmadaServerMigrationJobs x as config = Inr jobs" "createArmadaServerMigrationJobs x as' config' = Inr jobs'"
  shows "map (\<lambda>j. keyOf (KJob j)) jobs' = map (\<lambda>j. keyOf (KJob j)) jobs"
  using assms
  by (auto simp: createArmadaServerMigrationJobs_def go_simps pulsarWaitJob_def initPulsarJob_def Let_def keyOf_def)

section \<open>Binoculars\<close>

text \<open>The memory limit is read from the resources after, not within, the check that there are any.\<close>

lemma Binoculars_without_resources_panics:
  assumes "csb_Resources (cr_Spec binoculars) = None"
  shows "createBinocularsDeployment x binoculars secret account config = Inl (Panic (NilDereference ''Spec.Resources''))"
  using assms by (simp add: createBinocularsDeployment_def CreateProbesWithScheme_def Let_def)

text \<open>The Ingress of the gRPC protocol leads to the HTTP port.\<close>

lemma Binoculars_grpc_ingress_at_http_port:
  assumes "createBinocularsIngressGrpc x binoculars config = Inr (Some i)" "r \<in> set (is_Rules (ing_Spec i))" "p \<in> set (ir_Paths r)"
  shows "hp_ServicePort p = cac_HTTPPort config"
proof -
  have "hp_ServicePort p = port"
    if "r \<in> set (ingressRulesFrom s path port hosts)" "p \<in> set (ir_Paths r)" for s path port hosts
    using that by (induction hosts) auto
  with assms show ?thesis
    by (auto simp: createBinocularsIngressGrpc_def Let_def go_simps split: if_splits)
qed

section \<open>Migrate\<close>

text \<open>\<open>Spec.Migrate\<close> is set by the webhooks and read by nothing: the migration Job is always part of the plan.\<close>

lemmas everywhere = option.case_cong_weak prod.case_cong_weak list.case_cong_weak if_weak_cong let_weak_cong

lemma Scheduler_ignores_Migrate:
  "generateSchedulerInstallComponents x (cr\<lparr>cr_Spec := (cr_Spec cr)\<lparr>sd_Migrate := m\<rparr>\<rparr>) config =
     generateSchedulerInstallComponents x cr config"
  "Scheduler_steps (cr\<lparr>cr_Spec := (cr_Spec cr)\<lparr>sd_Migrate := m\<rparr>\<rparr>) cc = Scheduler_steps cr cc"
  by (simp_all add: generateSchedulerInstallComponents_def newSchedulerDeployment_def newSchedulerServiceMonitor_def
      newSchedulerPrometheusRule_def newSchedulerMigrationJob_def newSchedulerCronJob_def newSchedulerIngressGRPC_def
      serviceAccountFor_def Scheduler_steps_def Let_def split del: if_split cong del: everywhere)

lemma Lookout_ignores_Migrate:
  "generateLookoutInstallComponents x (cr\<lparr>cr_Spec := (cr_Spec cr)\<lparr>lk_Migrate := m\<rparr>\<rparr>) config =
     generateLookoutInstallComponents x cr config"
  "Lookout_steps (cr\<lparr>cr_Spec := (cr_Spec cr)\<lparr>lk_Migrate := m\<rparr>\<rparr>) cc = Lookout_steps cr cc"
  by (simp_all add: generateLookoutInstallComponents_def createLookoutDeployment_def createLookoutServiceMonitor_def
      createLookoutMigrationJob_def createLookoutPartitionJobTableJob_def createLookoutDatabaseJob_def
      createLookoutCronJob_def createLookoutIngressHttp_def serviceAccountFor_def Lookout_steps_def Let_def
      split del: if_split cong del: everywhere)

section \<open>Resources of one name\<close>

text \<open>
  Every controller names the Deployment and the Secret after the resource alone, without its kind. So two resources of
  different kinds with the same name and namespace have one Deployment and one Secret between them, which each
  reconciliation turns into its own.
\<close>

definition workloadKeys :: "CommonComponents \<Rightarrow> objkey list" where
  "workloadKeys cc = map keyOf (map KDeployment (case cc_Deployment cc of None \<Rightarrow> [] | Some d \<Rightarrow> [d]) @
     map KSecret (case cc_Secret cc of None \<Rightarrow> [] | Some s \<Rightarrow> [s]))"

lemma workloadKeys_of:
  "wellFormedInstall x kind owner spec cc \<Longrightarrow> workloadKeys cc =
     [(DeploymentKind, om_Namespace owner, om_Name owner), (SecretKind, om_Namespace owner, om_Name owner)]"
  by (auto simp: wellFormedInstall_def workloadKeys_def keyOf_def)

context installer
begin

lemma workloads:
  "ownerLaw x \<Longrightarrow> generate x cr = Inr cc \<Longrightarrow>
     workloadKeys cc = [(DeploymentKind, crNamespace cr, crName cr), (SecretKind, crNamespace cr, crName cr)]"
  using wellFormed [of x cr cc] workloadKeys_of by blast

end

lemma kinds_share_workloads:
  assumes "ownerLaw x" "Lookout_generate x lk = Inr cc" "Scheduler_generate x sd = Inr cc'" "crKey lk = crKey sd"
  shows "workloadKeys cc = workloadKeys cc'"
  using lookout.workloads [OF assms(1,2)] scheduler.workloads [OF assms(1,3)] assms(4) by (simp add: crKey_def)

end
