(* ===== verification/Examples.thy ===== *)
theory Examples
  imports Healthy Webhooks
begin

text \<open>
  One concrete custom resource of each kind and a server that holds it, on which the witnesses
  evaluate the model. \<open>demoWorld\<close> is an empty cluster with the custom resource in it, which
  carries the operator's finalizer and is not being deleted.
\<close>

definition demoMeta :: "string \<Rightarrow> ObjectMeta" where
  "demoMeta name = (newMeta name ''armada'' [''team'' \<mapsto> ''batch''] Map.empty)
     \<lparr>om_UID := ''uid-1'', om_Finalizers := [operatorFinalizer]\<rparr>"

text \<open>The same resource after a user asked for its deletion, and before it has a finalizer.\<close>

definition deleted :: "('spec, 'status) CR \<Rightarrow> ('spec, 'status) CR" where
  "deleted cr = cr\<lparr>cr_Meta := (cr_Meta cr)\<lparr>om_DeletionTimestamp := Some 1700000000\<rparr>\<rparr>"

definition unfinalized :: "('spec, 'status) CR \<Rightarrow> ('spec, 'status) CR" where
  "unfinalized cr = cr\<lparr>cr_Meta := (cr_Meta cr)\<lparr>om_Finalizers := []\<rparr>\<rparr>"

definition demoWorld :: "('spec, 'status) CR \<Rightarrow> ('spec, 'status) refServer world" where
  "demoWorld cr = \<lparr>w_Srv = \<lparr>rs_Objects = Map.empty, rs_CR = Some cr\<rparr>,
     w_Heap = heapOf noComponents None, w_Trace = []\<rparr>"

definition demoKey :: "string \<times> string" where
  "demoKey = (''armada'', ''demo'')"

definition demoIngress :: IngressConfig where
  "demoIngress = \<lparr>ic_Labels = Map.empty, ic_Annotations = Map.empty, ic_IngressClass = ''nginx'',
     ic_Hostnames = [''armada.example.com''], ic_ClusterIssuer = ''letsencrypt''\<rparr>"

definition demoPrometheus :: PrometheusConfig where
  "demoPrometheus = \<lparr>pc_Enabled = True, pc_Labels = [''metrics'' \<mapsto> ''yes''], pc_ScrapeInterval = Some 1000000000\<rparr>"

definition demoArmadaServer :: ArmadaServer where
  "demoArmadaServer = \<lparr>cr_Meta = demoMeta ''demo'', cr_Spec = \<lparr>
     csb_Labels = [''tier'' \<mapsto> ''prod''], csb_Image = \<lparr>im_Repository = ''gresearch/armada'', im_Tag = ''1.0''\<rparr>,
     csb_ApplicationConfig = ''{}'', csb_Prometheus = Some demoPrometheus, csb_Resources = Some defaultResources,
     csb_Tolerations = [], csb_TerminationGracePeriodSeconds = Some 30, csb_CustomServiceAccount = [],
     csb_ServiceAccount = None, csb_Environment = [], csb_AdditionalVolumes = [], csb_AdditionalVolumeMounts = [],
     csb_NodeSelector = Map.empty, csb_TopologyKey = ''kubernetes.io/hostname'',
     as_Replicas = Some 2, as_NodeSelector = Map.empty, as_Ingress = Some demoIngress,
     as_ProfilingIngressConfig = Some demoIngress, as_HostNames = [''demo.example.com''], as_ClusterIssuer = [], as_PulsarInit = True,
     as_SecurityContext = None, as_PodSecurityContext = None\<rparr>,
     cr_Status = ()\<rparr>"

definition demoBinoculars :: Binoculars where
  "demoBinoculars = \<lparr>cr_Meta = demoMeta ''demo'', cr_Spec = \<lparr>
     csb_Labels = [''tier'' \<mapsto> ''prod''], csb_Image = \<lparr>im_Repository = ''gresearch/armada'', im_Tag = ''1.0''\<rparr>,
     csb_ApplicationConfig = ''{}'', csb_Prometheus = Some demoPrometheus, csb_Resources = Some defaultResources,
     csb_Tolerations = [], csb_TerminationGracePeriodSeconds = Some 30, csb_CustomServiceAccount = [],
     csb_ServiceAccount = None, csb_Environment = [], csb_AdditionalVolumes = [], csb_AdditionalVolumeMounts = [],
     csb_NodeSelector = Map.empty, csb_TopologyKey = ''kubernetes.io/hostname'',
     bn_Replicas = Some 1, bn_NodeSelector = Map.empty, bn_Ingress = Some demoIngress,
     bn_ProfilingIngressConfig = None, bn_HostNames = [''demo.example.com''], bn_ClusterIssuer = [],
     bn_SecurityContext = None, bn_PodSecurityContext = None\<rparr>,
     cr_Status = ()\<rparr>"

definition demoEventIngester :: EventIngester where
  "demoEventIngester = \<lparr>cr_Meta = demoMeta ''demo'', cr_Spec = \<lparr>
     csb_Labels = [''tier'' \<mapsto> ''prod''], csb_Image = \<lparr>im_Repository = ''gresearch/armada'', im_Tag = ''1.0''\<rparr>,
     csb_ApplicationConfig = ''{}'', csb_Prometheus = Some demoPrometheus, csb_Resources = Some defaultResources,
     csb_Tolerations = [], csb_TerminationGracePeriodSeconds = Some 30, csb_CustomServiceAccount = [],
     csb_ServiceAccount = None, csb_Environment = [], csb_AdditionalVolumes = [], csb_AdditionalVolumeMounts = [],
     csb_NodeSelector = Map.empty, csb_TopologyKey = ''kubernetes.io/hostname'',
     ei_Replicas = Some 1, ei_NodeSelector = Map.empty, ei_SecurityContext = None, ei_PodSecurityContext = None,
     ei_ProfilingIngressConfig = None\<rparr>,
     cr_Status = ()\<rparr>"

definition demoExecutor :: Executor where
  "demoExecutor = \<lparr>cr_Meta = demoMeta ''demo'', cr_Spec = \<lparr>
     csb_Labels = [''tier'' \<mapsto> ''prod''], csb_Image = \<lparr>im_Repository = ''gresearch/armada'', im_Tag = ''1.0''\<rparr>,
     csb_ApplicationConfig = ''{}'', csb_Prometheus = Some demoPrometheus, csb_Resources = Some defaultResources,
     csb_Tolerations = [], csb_TerminationGracePeriodSeconds = Some 30, csb_CustomServiceAccount = [],
     csb_ServiceAccount = None, csb_Environment = [], csb_AdditionalVolumes = [], csb_AdditionalVolumeMounts = [],
     csb_NodeSelector = Map.empty, csb_TopologyKey = ''kubernetes.io/hostname'',
     ex_Replicas = Some 5, ex_NodeSelector = Map.empty,
     ex_AdditionalClusterRoleBindings = [\<lparr>acrb_NameSuffix = ''view'', acrb_ClusterRoleName = ''view''\<rparr>],
     ex_SecurityContext = None, ex_PodSecurityContext = None, ex_ProfilingIngressConfig = None\<rparr>,
     cr_Status = ()\<rparr>"

definition demoLookout :: Lookout where
  "demoLookout = \<lparr>cr_Meta = demoMeta ''demo'', cr_Spec = \<lparr>
     csb_Labels = [''tier'' \<mapsto> ''prod''], csb_Image = \<lparr>im_Repository = ''gresearch/armada'', im_Tag = ''1.0''\<rparr>,
     csb_ApplicationConfig = ''{}'', csb_Prometheus = Some demoPrometheus, csb_Resources = Some defaultResources,
     csb_Tolerations = [], csb_TerminationGracePeriodSeconds = Some 30, csb_CustomServiceAccount = [],
     csb_ServiceAccount = None, csb_Environment = [], csb_AdditionalVolumes = [], csb_AdditionalVolumeMounts = [],
     csb_NodeSelector = Map.empty, csb_TopologyKey = ''kubernetes.io/hostname'',
     lk_Replicas = Some 1, lk_NodeSelector = Map.empty, lk_Ingress = Some demoIngress, lk_HostNames = [''demo.example.com''],
     lk_ClusterIssuer = [], lk_Migrate = Some True, lk_MigrationDbWaitImage = None, lk_DbPruningEnabled = Some True,
     lk_DbPruningSchedule = None, lk_SecurityContext = None, lk_PodSecurityContext = None,
     lk_ProfilingIngressConfig = None,
     lk_PartitionJobTable = Some \<lparr>pjt_Enabled = True, pjt_ActiveDeadlineSeconds = None\<rparr>\<rparr>,
     cr_Status = \<lparr>lst_Conditions = []\<rparr>\<rparr>"

definition demoLookoutIngester :: LookoutIngester where
  "demoLookoutIngester = \<lparr>cr_Meta = demoMeta ''demo'', cr_Spec = \<lparr>
     csb_Labels = [''tier'' \<mapsto> ''prod''], csb_Image = \<lparr>im_Repository = ''gresearch/armada'', im_Tag = ''1.0''\<rparr>,
     csb_ApplicationConfig = ''{}'', csb_Prometheus = Some demoPrometheus, csb_Resources = Some defaultResources,
     csb_Tolerations = [], csb_TerminationGracePeriodSeconds = Some 30, csb_CustomServiceAccount = [],
     csb_ServiceAccount = None, csb_Environment = [], csb_AdditionalVolumes = [], csb_AdditionalVolumeMounts = [],
     csb_NodeSelector = Map.empty, csb_TopologyKey = ''kubernetes.io/hostname'',
     li_Replicas = Some 1, li_SecurityContext = None, li_PodSecurityContext = None,
     li_ProfilingIngressConfig = None\<rparr>,
     cr_Status = ()\<rparr>"

definition demoScheduler :: Scheduler where
  "demoScheduler = \<lparr>cr_Meta = demoMeta ''demo'', cr_Spec = \<lparr>
     csb_Labels = [''tier'' \<mapsto> ''prod''], csb_Image = \<lparr>im_Repository = ''gresearch/armada'', im_Tag = ''1.0''\<rparr>,
     csb_ApplicationConfig = ''{}'', csb_Prometheus = Some demoPrometheus, csb_Resources = Some defaultResources,
     csb_Tolerations = [], csb_TerminationGracePeriodSeconds = Some 30, csb_CustomServiceAccount = [],
     csb_ServiceAccount = None, csb_Environment = [], csb_AdditionalVolumes = [], csb_AdditionalVolumeMounts = [],
     csb_NodeSelector = Map.empty, csb_TopologyKey = ''kubernetes.io/hostname'',
     sd_Replicas = Some 1, sd_Ingress = Some demoIngress, sd_ProfilingIngressConfig = Some demoIngress,
     sd_HostNames = [''demo.example.com''], sd_ClusterIssuer = [], sd_Migrate = Some True, sd_MigrationDbWaitImage = None,
     sd_Pruner = Some defaultPruner, sd_SecurityContext = None, sd_PodSecurityContext = None\<rparr>,
     cr_Status = ()\<rparr>"

definition demoSchedulerIngester :: SchedulerIngester where
  "demoSchedulerIngester = \<lparr>cr_Meta = demoMeta ''demo'', cr_Spec = \<lparr>
     csb_Labels = [''tier'' \<mapsto> ''prod''], csb_Image = \<lparr>im_Repository = ''gresearch/armada'', im_Tag = ''1.0''\<rparr>,
     csb_ApplicationConfig = ''{}'', csb_Prometheus = Some demoPrometheus, csb_Resources = Some defaultResources,
     csb_Tolerations = [], csb_TerminationGracePeriodSeconds = Some 30, csb_CustomServiceAccount = [],
     csb_ServiceAccount = None, csb_Environment = [], csb_AdditionalVolumes = [], csb_AdditionalVolumeMounts = [],
     csb_NodeSelector = Map.empty, csb_TopologyKey = ''kubernetes.io/hostname'',
     si_Replicas = Some 1, si_SecurityContext = None, si_PodSecurityContext = None,
     si_ProfilingIngressConfig = None\<rparr>,
     cr_Status = ()\<rparr>"

text \<open>Custom resources on which a reconciliation goes wrong.\<close>

definition unconfigured :: "('a CommonSpecBase_scheme, 'status) CR \<Rightarrow> ('a CommonSpecBase_scheme, 'status) CR" where
  "unconfigured cr = cr\<lparr>cr_Spec := (cr_Spec cr)\<lparr>csb_ApplicationConfig := ''''\<rparr>\<rparr>"

definition prunerless :: "Scheduler \<Rightarrow> Scheduler" where
  "prunerless cr = cr\<lparr>cr_Spec := (cr_Spec cr)\<lparr>sd_Pruner := None\<rparr>\<rparr>"

definition hostlessBinoculars :: Binoculars where
  "hostlessBinoculars = demoBinoculars\<lparr>cr_Spec := (cr_Spec demoBinoculars)\<lparr>bn_HostNames := []\<rparr>\<rparr>"

definition customAccount :: "('a CommonSpecBase_scheme, 'status) CR \<Rightarrow> ('a CommonSpecBase_scheme, 'status) CR" where
  "customAccount cr = cr\<lparr>cr_Spec := (cr_Spec cr)\<lparr>csb_CustomServiceAccount := ''shared''\<rparr>\<rparr>"

section \<open>They can be fetched, are live and generate components\<close>

lemma demoWorld_trace [simp]: "w_Trace (demoWorld cr) = []"
  by (simp add: demoWorld_def)

lemma fetches_demo [simp]: "crKey cr = k \<Longrightarrow> fetches refClient k (demoWorld cr) cr"
  by (simp add: fetches_def demoWorld_def)

lemma crKey_demo [simp]: "cr_Meta cr = demoMeta ''demo'' \<Longrightarrow> crKey cr = demoKey"
  by (simp add: crKey_def demoKey_def demoMeta_def newMeta_def)

lemma crKey_variants [simp]:
  "crKey (deleted cr) = crKey cr" "crKey (unfinalized cr) = crKey cr" "crKey (unconfigured cr) = crKey cr"
  "crKey (customAccount cr) = crKey cr" "crKey (prunerless scheduler) = crKey scheduler"
  "crKey (Scheduler_applyDefaults scheduler) = crKey scheduler"
  by (simp_all add: crKey_def Scheduler_applyDefaults_def Let_def deleted_def unfinalized_def unconfigured_def customAccount_def prunerless_def)

lemma demo_metas [simp]:
  "cr_Meta demoArmadaServer = demoMeta ''demo''"
  "cr_Meta demoBinoculars = demoMeta ''demo''"
  "cr_Meta demoEventIngester = demoMeta ''demo''"
  "cr_Meta demoExecutor = demoMeta ''demo''"
  "cr_Meta demoLookout = demoMeta ''demo''"
  "cr_Meta demoLookoutIngester = demoMeta ''demo''"
  "cr_Meta demoScheduler = demoMeta ''demo''"
  "cr_Meta demoSchedulerIngester = demoMeta ''demo''"
  by (simp_all add: demoArmadaServer_def demoBinoculars_def demoEventIngester_def demoExecutor_def demoLookout_def demoLookoutIngester_def demoScheduler_def demoSchedulerIngester_def)

lemma demo_live [simp]: "cr_Meta cr = demoMeta n \<Longrightarrow> live refExterns cr"
  by (simp add: live_def demoMeta_def newMeta_def)

lemma deleted_meta [simp]: "om_DeletionTimestamp (cr_Meta (deleted cr)) = Some 1700000000"
  "om_Finalizers (cr_Meta (deleted cr)) = om_Finalizers (cr_Meta cr)"
  by (simp_all add: deleted_def)

lemma demoMeta_simps [simp]: "om_Finalizers (demoMeta n) = [operatorFinalizer]" "om_DeletionTimestamp (demoMeta n) = None"
  by (simp_all add: demoMeta_def)

lemma demo_fixed [simp]: "SetOwnerReference refExterns kind owner g u ob = Inr (u (\<lambda>_. (g ob)\<lparr>om_OwnerReferences :=
    om_OwnerReferences (g ob) @ [\<lparr>or_Kind = kind, or_Name = om_Name owner, or_UID = om_UID owner\<rparr>]\<rparr>) ob)"
  by (simp add: SetOwnerReference_def refOwner_def)

lemmas demo_builders = ParseCommonApplicationConfig_def defaultCommonConfig_def CreateSecret_def serviceAccountFor_def
  ExtractPulsarConfig_def CreateProbesWithScheme_def newProfilingComponents_def newProfilingService_def
  newProfilingIngress_def Ingress_def ownIngress_def wrapf_def demoIngress_def demoPrometheus_def demoMeta_def Let_def

lemma demoArmadaServer_generates: "\<exists>cc. ArmadaServer_generate refExterns demoArmadaServer = Inr cc"
  by (simp add: ArmadaServer_generate_def generateArmadaServerInstallComponents_def createArmadaServerDeployment_def createServerIngressGRPC_def createServerIngressHTTP_def createArmadaServerMigrationJobs_def demo_builders demoArmadaServer_def word_sless_alt
      del: SetOwnerReference_eq_Inr)

lemma demoBinoculars_generates: "\<exists>cc. Binoculars_generate refExterns demoBinoculars = Inr cc"
  by (simp add: Binoculars_generate_def generateBinocularsInstallComponents_def createBinocularsDeployment_def createBinocularsIngressGrpc_def createBinocularsIngressHttp_def demo_builders demoBinoculars_def word_sless_alt
      del: SetOwnerReference_eq_Inr)

lemma demoEventIngester_generates: "\<exists>cc. EventIngester_generate refExterns demoEventIngester = Inr cc"
  by (simp add: EventIngester_generate_def EventIngester_generateEventIngesterComponents_def EventIngester_createDeployment_def demo_builders demoEventIngester_def word_sless_alt
      del: SetOwnerReference_eq_Inr)

lemma demoExecutor_generates: "\<exists>cc. Executor_generate refExterns demoExecutor = Inr cc"
  by (simp add: Executor_generate_def generateExecutorInstallComponents_def createExecutorDeployment_def createExecutorService_def extractExecutorConfig_def demo_builders demoExecutor_def word_sless_alt
      del: SetOwnerReference_eq_Inr)

lemma demoLookoutIngester_generates: "\<exists>cc. LookoutIngester_generate refExterns demoLookoutIngester = Inr cc"
  by (simp add: LookoutIngester_generate_def LookoutIngester_generateInstallComponents_def LookoutIngester_createDeployment_def demo_builders demoLookoutIngester_def word_sless_alt
      del: SetOwnerReference_eq_Inr)

lemma demoScheduler_generates: "\<exists>cc. Scheduler_generate refExterns demoScheduler = Inr cc"
  by (simp add: Scheduler_generate_def generateSchedulerInstallComponents_def newSchedulerDeployment_def newSchedulerIngressGRPC_def newSchedulerMigrationJob_def newSchedulerCronJob_def extractSchedulerConfig_def demo_builders demoScheduler_def word_sless_alt
      del: SetOwnerReference_eq_Inr)

lemma demoSchedulerIngester_generates: "\<exists>cc. SchedulerIngester_generate refExterns demoSchedulerIngester = Inr cc"
  by (simp add: SchedulerIngester_generate_def SchedulerIngester_generateSchedulerIngesterComponents_def SchedulerIngester_createDeployment_def demo_builders demoSchedulerIngester_def word_sless_alt
      del: SetOwnerReference_eq_Inr)

lemma demoExecutor_deleted_generates: "\<exists>cc. Executor_generate refExterns (deleted demoExecutor) = Inr cc"
  by (simp add: Executor_generate_def generateExecutorInstallComponents_def createExecutorDeployment_def createExecutorService_def extractExecutorConfig_def demo_builders demoExecutor_def deleted_def word_sless_alt
      del: SetOwnerReference_eq_Inr)

lemma demoBinoculars_customAccount_generates:
  "\<exists>cc. Binoculars_generate refExterns (customAccount demoBinoculars) = Inr cc"
  by (simp add: Binoculars_generate_def generateBinocularsInstallComponents_def createBinocularsDeployment_def createBinocularsIngressGrpc_def createBinocularsIngressHttp_def demo_builders demoBinoculars_def customAccount_def word_sless_alt
      del: SetOwnerReference_eq_Inr)

lemma demoArmadaServer_unfinalized_generates: "\<exists>cc. ArmadaServer_generate refExterns (unfinalized demoArmadaServer) = Inr cc"
  by (simp add: ArmadaServer_generate_def generateArmadaServerInstallComponents_def createArmadaServerDeployment_def createServerIngressGRPC_def createServerIngressHTTP_def createArmadaServerMigrationJobs_def demo_builders demoArmadaServer_def unfinalized_def word_sless_alt
      del: SetOwnerReference_eq_Inr)

lemma demoLookout_generates: "\<exists>cc job. Lookout_generateAll refExterns demoLookout = Inr (cc, Some job)"
  by (simp add: Lookout_generateAll_def generateLookoutInstallComponents_def createLookoutDeployment_def
      createLookoutIngressHttp_def createLookoutMigrationJob_def createLookoutPartitionJobTableJob_def
      createLookoutDatabaseJob_def createLookoutCronJob_def extractLookoutConfig_def demo_builders demoLookout_def
      word_sless_alt)

end
