(* ===== verification/OperatorExamples.thy ===== *)
theory OperatorExamples
  imports Operator Sharing Deletion Examples
begin

text \<open>
  A cluster with resources of several kinds, for the witnesses about the operator as a whole: the
  client of each kind is the reference client on the part of the cluster that it can see.
\<close>

section \<open>The reference client on a part of the server\<close>

definition clientOn ::
  "('t \<Rightarrow> ('spec, 'status) refServer) \<Rightarrow> (('spec, 'status) refServer \<Rightarrow> 't \<Rightarrow> 't)
     \<Rightarrow> ('spec, 'status, 't) client" where
  "clientOn get put = \<lparr>
     c_Get = (\<lambda>k t. case c_Get refClient k (get t) of (r, s) \<Rightarrow> (r, put s t)),
     c_Update = (\<lambda>cr t. case c_Update refClient cr (get t) of (r, s) \<Rightarrow> (r, put s t)),
     c_StatusUpdate = (\<lambda>cr t. case c_StatusUpdate refClient cr (get t) of (r, s) \<Rightarrow> (r, put s t)),
     c_Delete = (\<lambda>ob t. case c_Delete refClient ob (get t) of (r, s) \<Rightarrow> (r, put s t)),
     c_GetJob = (\<lambda>k t. case c_GetJob refClient k (get t) of (r, s) \<Rightarrow> (r, put s t)),
     c_CreateOrUpdate = (\<lambda>a f (h, t). case c_CreateOrUpdate refClient a f (h, get t) of (r, (h', s)) \<Rightarrow> (r, (h', put s t))),
     c_Poll = (\<lambda>i t imm cond. pollFor (unat t div unat i) cond)\<rparr>"

lemma managerLaws_clientOn:
  assumes "\<And>s t. rs_Objects (get (put s t)) = rs_Objects s"
  shows "managerLaws (clientOn get put) (\<lambda>t. refView (get t))"
proof -
  let ?c = "clientOn get put" and ?v = "\<lambda>t. refView (get t)"
  note ref = clientLawsD [OF clientLaws_refClient]
  have "upsertLaw ?c ?v"
    unfolding upsertLaw_eq
  proof (intro allI impI)
    fix a f h t r h' t' ob
    assume ob: "load a h = Some ob" and co: "c_CreateOrUpdate ?c a f (h, t) = (r, (h', t'))"
    obtain s' where s': "c_CreateOrUpdate refClient a f (h, get t) = (r, (h', s'))" "t' = put s' t"
      using co by (auto simp: clientOn_def split: prod.splits)
    from ref(1) [unfolded upsertLaw_eq, rule_format, OF ob s'(1)] s'(2)
    show "(\<forall>k. k \<noteq> keyOf ob \<longrightarrow> ?v t' k = ?v t k) \<and>
     (\<exists>h1. touched a h h1 \<and>
        ((\<exists>e. r = Inl e \<and> h' = h1) \<or>
         (\<exists>e. r = Inl e \<and> f h1 = (Inl e, h')) \<or>
         (\<exists>h2. f h1 = (Inr (), h2) \<and> touched a h2 h' \<and>
            (r = Inr () \<longrightarrow> (\<exists>sent stored. load a h2 = Some sent \<and>
               ?v t' (keyOf ob) = Some stored \<and> ownedFields stored = ownedFields sent)))))"
      by (simp add: assms)
  qed
  moreover have "getJobLaw ?c ?v"
    unfolding getJobLaw_def
  proof (intro allI impI)
    fix ns n t r t'
    assume g: "c_GetJob ?c (ns, n) t = (r, t')"
    obtain s' where s': "c_GetJob refClient (ns, n) (get t) = (r, s')" "t' = put s' t"
      using g by (auto simp: clientOn_def split: prod.splits)
    from ref(2) [unfolded getJobLaw_def, rule_format, OF s'(1)] s'(2)
    show "?v t' = ?v t \<and> (\<forall>job. r = Inr job \<longrightarrow> om_Namespace (job_Meta job) = ns \<and> om_Name (job_Meta job) = n)"
      by (simp add: assms)
  qed
  moreover have "deleteLaw ?c ?v"
    using ref(3) unfolding deleteLaw_def clientOn_def by (simp add: assms split: prod.splits) blast
  moreover have "pollLaw ?c"
    unfolding pollLaw_def clientOn_def by auto
  moreover have "resourceLaw ?c ?v"
    by (auto simp: resourceLaw_def clientOn_def assms split: prod.splits option.splits if_splits)
  moreover have "statusLaw ?c ?v"
    by (auto simp: statusLaw_def clientOn_def assms)
  ultimately show ?thesis by (simp add: managerLaws_def clientLawsOn_def)
qed

lemma clientOn_fst:
  "fst (c_CreateOrUpdate (clientOn get put) a f (h, t)) = fst (c_CreateOrUpdate refClient a f (h, get t))"
  "fst (c_Delete (clientOn get put) ob t) = fst (c_Delete refClient ob (get t))"
  "fst (c_GetJob (clientOn get put) k t) = fst (c_GetJob refClient k (get t))"
  by (simp_all add: clientOn_def del: refClient_simps split: prod.split)

lemma healthy_clientOn:
  fixes get :: "'a \<Rightarrow> ('spec, 'status) refServer"
  assumes "\<And>s t. rs_Objects (get (put s t)) = rs_Objects s"
  shows "healthy (clientOn get put) (\<lambda>t. refView (get t))"
proof -
  let ?c = "clientOn get put" and ?v = "\<lambda>t. refView (get t)"
  have ref: "healthyUpsert refClient" "healthyDelete refClient" "jobsFinish refClient refView"
    using healthy_refClient by (auto simp: healthy_def)
  have "healthyUpsert ?c"
    using ref(1) unfolding healthyUpsert_def clientOn_fst by blast
  moreover have "healthyDelete ?c"
    using ref(2) unfolding healthyDelete_def clientOn_fst by blast
  moreover have "jobsFinish ?c ?v"
    using ref(3) unfolding jobsFinish_def clientOn_fst by blast
  moreover have "healthyPoll ?c"
    unfolding healthyPoll_def
  proof (intro allI impI)
    fix i t :: int64 and cond and w :: "'a world"
    assume "positive i" "positive t" "unat i \<le> unat t"
    then obtain n where "unat t div unat i = Suc n" by (rule polls_once)
    then show "\<exists>n. c_Poll ?c i t False cond w = pollFor (Suc n) cond w" by (auto simp: clientOn_def)
  qed
  moreover have "healthyStatus ?c"
    by (simp add: healthyStatus_def clientOn_def)
  ultimately show ?thesis by (simp add: healthy_def)
qed

section \<open>A cluster\<close>

text \<open>
  An ArmadaServer in the namespace \<open>armada\<close>, an Executor of the same name in \<open>batch\<close>, and an object that is
  not the operator's.
\<close>

record refFleet =
  rf_Objects :: "objkey \<rightharpoonup> kobj"
  rf_ArmadaServer :: "ArmadaServer option"
  rf_Executor :: "Executor option"

definition moved :: "('spec, 'status) CR \<Rightarrow> ('spec, 'status) CR" where
  "moved cr = cr\<lparr>cr_Meta := (cr_Meta cr)\<lparr>om_Namespace := ''batch''\<rparr>\<rparr>"

text \<open>No resource of the other kinds exists.\<close>

definition emptyClient :: "('spec, 'status, refFleet) client" where
  "emptyClient = clientOn (\<lambda>t. \<lparr>rs_Objects = rf_Objects t, rs_CR = None\<rparr>) (\<lambda>s t. t\<lparr>rf_Objects := rs_Objects s\<rparr>)"

definition fleetClients :: "refFleet clients" where
  "fleetClients = \<lparr>
     cl_ArmadaServer = clientOn (\<lambda>t. \<lparr>rs_Objects = rf_Objects t, rs_CR = rf_ArmadaServer t\<rparr>)
       (\<lambda>s t. t\<lparr>rf_Objects := rs_Objects s, rf_ArmadaServer := rs_CR s\<rparr>),
     cl_Binoculars = emptyClient,
     cl_EventIngester = emptyClient,
     cl_Executor = clientOn (\<lambda>t. \<lparr>rs_Objects = rf_Objects t, rs_CR = rf_Executor t\<rparr>)
       (\<lambda>s t. t\<lparr>rf_Objects := rs_Objects s, rf_Executor := rs_CR s\<rparr>),
     cl_Lookout = emptyClient,
     cl_LookoutIngester = emptyClient,
     cl_Scheduler = emptyClient,
     cl_SchedulerIngester = emptyClient\<rparr>"

definition demoFleet :: refFleet where
  "demoFleet = \<lparr>
     rf_Objects = [(SecretKind, ''kube-system'', ''demo'') \<mapsto>
       KSecret \<lparr>sec_Meta = newMeta ''demo'' ''kube-system'' Map.empty Map.empty, sec_Data = Map.empty\<rparr>],
     rf_ArmadaServer = Some demoArmadaServer,
     rf_Executor = Some (moved demoExecutor)\<rparr>"

lemma managerLaws_emptyClient: "managerLaws emptyClient rf_Objects"
  using managerLaws_clientOn [of "\<lambda>t. \<lparr>rs_Objects = rf_Objects t, rs_CR = None\<rparr>"
      "\<lambda>s t. t\<lparr>rf_Objects := rs_Objects s\<rparr>"]
  by (simp add: emptyClient_def)

lemma fleetClients_laws [simp]:
  "managerLaws (cl_ArmadaServer fleetClients) rf_Objects" "managerLaws (cl_Executor fleetClients) rf_Objects"
  "healthy (cl_ArmadaServer fleetClients) rf_Objects"
  using managerLaws_clientOn [of "\<lambda>t. \<lparr>rs_Objects = rf_Objects t, rs_CR = rf_ArmadaServer t\<rparr>"
      "\<lambda>s t. t\<lparr>rf_Objects := rs_Objects s, rf_ArmadaServer := rs_CR s\<rparr>"]
    managerLaws_clientOn [of "\<lambda>t. \<lparr>rs_Objects = rf_Objects t, rs_CR = rf_Executor t\<rparr>"
      "\<lambda>s t. t\<lparr>rf_Objects := rs_Objects s, rf_Executor := rs_CR s\<rparr>"]
    healthy_clientOn [of "\<lambda>t. \<lparr>rs_Objects = rf_Objects t, rs_CR = rf_ArmadaServer t\<rparr>"
      "\<lambda>s t. t\<lparr>rf_Objects := rs_Objects s, rf_ArmadaServer := rs_CR s\<rparr>"]
  by (simp_all add: fleetClients_def)

lemma operatorLaws_fleetClients [simp]: "operatorLaws fleetClients rf_Objects"
proof -
  have "cl_Binoculars fleetClients = emptyClient" "cl_EventIngester fleetClients = emptyClient"
    "cl_Lookout fleetClients = emptyClient" "cl_LookoutIngester fleetClients = emptyClient"
    "cl_Scheduler fleetClients = emptyClient" "cl_SchedulerIngester fleetClients = emptyClient"
    by (simp_all add: fleetClients_def)
  then show ?thesis by (simp add: operatorLaws_def managerLaws_emptyClient)
qed

lemma demoFleet_fetches [simp]:
  "fetches (cl_ArmadaServer fleetClients) demoKey (freshWorld demoFleet) demoArmadaServer"
  by (simp add: fetches_def fleetClients_def clientOn_def freshWorld_def demoFleet_def)

section \<open>Further worlds\<close>

text \<open>A server that holds one more object.\<close>

definition holding :: "kobj \<Rightarrow> ('spec, 'status) refServer world \<Rightarrow> ('spec, 'status) refServer world" where
  "holding ob w = w\<lparr>w_Srv := (w_Srv w)\<lparr>rs_Objects := (rs_Objects (w_Srv w))(keyOf ob \<mapsto> ob)\<rparr>\<rparr>"

lemma fetches_holding: "fetches refClient k w cr \<Longrightarrow> fetches refClient k (holding ob w) cr"
  by (auto simp: fetches_def holding_def split: option.splits)

lemma demoExecutor_moved_generates: "\<exists>cc. Executor_generate refExterns (moved demoExecutor) = Inr cc"
  by (simp add: Executor_generate_def generateExecutorInstallComponents_def createExecutorDeployment_def
      createExecutorService_def extractExecutorConfig_def demo_builders demoExecutor_def moved_def word_sless_alt
      del: SetOwnerReference_eq_Inr)

lemma demoExecutor_deletion_succeeds:
  "\<exists>w'. Executor_Reconcile refExterns refClient demoKey (demoWorld (deleted demoExecutor)) = (Inr (), w')"
proof -
  obtain cc where cc: "Executor_generate refExterns (deleted demoExecutor) = Inr cc" using demoExecutor_deleted_generates ..
  have "healthyDelete (refClient :: (ExecutorSpec, unit, _) client)" using healthy_refClient by (auto simp: healthy_def)
  note clean = Executor_cleanup_completes [OF this cc]
  show ?thesis
    unfolding Executor_Reconcile_skeleton
    by (rule generateFirst_deletion_succeeds [where cl = "Executor_deleteExternalResources refClient"
        and generate = "Executor_generate refExterns", OF _ _ _ cc clean])
      simp_all
qed

lemma demoArmadaServer_secret:
  assumes "ArmadaServer_generate refExterns demoArmadaServer = Inr cc"
  obtains sec n where "cc_Secret cc = Some sec" "keyOf (KSecret sec) = (SecretKind, ''armada'', n)"
  using assms
  by (rule ArmadaServer_generate_Inr) (auto simp: go_simps keyOf_def refOwner_def demoMeta_def newMeta_def)

text \<open>A reconciliation of the ArmadaServer creates its Secret.\<close>

lemma demoFleet_changes:
  "\<exists>s' n. operatorRun refExterns fleetClients {ArmadaServerRequest demoKey} demoFleet s' \<and>
     rf_Objects s' (SecretKind, ''armada'', n) \<noteq> rf_Objects demoFleet (SecretKind, ''armada'', n)"
proof -
  obtain cc where cc: "ArmadaServer_generate refExterns demoArmadaServer = Inr cc" using demoArmadaServer_generates ..
  obtain sec n where sec: "cc_Secret cc = Some sec" "keyOf (KSecret sec) = (SecretKind, ''armada'', n)"
    using demoArmadaServer_secret [OF cc] .
  have laws: "clientLaws (cl_ArmadaServer fleetClients) rf_Objects"
    using fleetClients_laws(1) by (simp add: managerLaws_def)
  have "\<exists>w'. ArmadaServer_Reconcile refExterns (cl_ArmadaServer fleetClients) demoKey (freshWorld demoFleet) = (Inr (), w') \<and>
    (\<forall>s \<in> upsertedSlots (ArmadaServer_steps demoArmadaServer cc). managed s \<longrightarrow> derefSlot cc s \<noteq> None \<longrightarrow>
       installed rf_Objects cc s w')"
    unfolding ArmadaServer_Reconcile_skeleton
    by (rule armadaServer.run_converges [OF laws fleetClients_laws(3) ownerLaw_refExterns cc TrueI _ ArmadaServer_ready])
      (rule generateFirst_starts [where generate = "ArmadaServer_generate refExterns", OF demoFleet_fetches _ cc], simp)
  then obtain w' where w': "ArmadaServer_Reconcile refExterns (cl_ArmadaServer fleetClients) demoKey (freshWorld demoFleet) = (Inr (), w')"
    "\<forall>s \<in> upsertedSlots (ArmadaServer_steps demoArmadaServer cc). managed s \<longrightarrow> derefSlot cc s \<noteq> None \<longrightarrow>
       installed rf_Objects cc s w'" by blast
  have "SSecret \<in> upsertedSlots (ArmadaServer_steps demoArmadaServer cc)"
    by (simp add: upsertedSlots_def ArmadaServer_steps_def)
  with w'(2) sec have "rf_Objects (w_Srv w') (SecretKind, ''armada'', n) \<noteq> None"
    by (fastforce simp: installed_def)
  moreover have "rf_Objects demoFleet (SecretKind, ''armada'', n) = None" by (simp add: demoFleet_def)
  moreover have "operatorRun refExterns fleetClients {ArmadaServerRequest demoKey} demoFleet (w_Srv w')"
    using operatorRun_one [of "ArmadaServerRequest demoKey" "{ArmadaServerRequest demoKey}" refExterns fleetClients demoFleet]
      w'(1) by simp
  ultimately show ?thesis by (intro exI [of _ "w_Srv w'"] exI [of _ n]) simp
qed

section \<open>A server that is shared\<close>

definition sharedWorld :: "'s world \<Rightarrow> 's shared world" where
  "sharedWorld w = \<lparr>w_Srv = \<lparr>sh_Server = w_Srv w, sh_Calls = 0\<rparr>, w_Heap = w_Heap w, w_Trace = w_Trace w\<rparr>"

text \<open>Somebody who writes an object of their own over and over.\<close>

definition leaseHolder :: "nat \<Rightarrow> ('spec, 'status) refServer \<Rightarrow> ('spec, 'status) refServer" where
  "leaseHolder t s = s\<lparr>rs_Objects := (rs_Objects s)((SecretKind, ''kube-system'', ''lease'') \<mapsto>
     KSecret \<lparr>sec_Meta = newMeta ''lease'' ''kube-system'' Map.empty Map.empty, sec_Data = [''holder'' \<mapsto> showInt (int t)]\<rparr>)\<rparr>"

lemma leaseHolder_keepsOff: "(SecretKind, ''kube-system'', ''lease'') \<notin> K \<Longrightarrow> keepOff K refView leaseHolder"
  by (auto simp: keepOff_def leaseHolder_def)

lemma fetches_shared:
  "fetches (sharedClient leaseHolder refClient) k (sharedWorld w) cr \<longleftrightarrow> fetches refClient k w cr"
  by (simp add: fetches_def sharedClient_def meanwhile_def sharedWorld_def leaseHolder_def)

text \<open>Requests for the namespace \<open>batch\<close>, of which the first is for the Queue, whose controller does nothing.\<close>

definition demoRequests :: "nat \<Rightarrow> request" where
  "demoRequests t = (if t = 0 then QueueRequest (''batch'', ''demo'') else ExecutorRequest (''batch'', ''demo''))"

lemma demoFleet_fetches_shared:
  "fetches (sharedClient (reconciling refExterns fleetClients demoRequests) (cl_ArmadaServer fleetClients)) demoKey
     (sharedWorld (freshWorld demoFleet)) demoArmadaServer"
  using demoFleet_fetches
  by (auto simp: fetches_def sharedClient_def meanwhile_def sharedWorld_def reconciling_def demoRequests_def
      Queue_Reconcile_def freshWorld_def split: prod.splits)

lemma Binoculars_returns:
  assumes "clientLaws c view" "healthy c view" "ownerLaw x" "fetches c req w cr" "live x cr" "Binoculars_generate x cr = Inr cc"
  shows "\<exists>w'. Binoculars_Reconcile x c req w = (Inr (), w')"
proof -
  note start = generateFirst_starts [where generate = "Binoculars_generate x" and steps = Binoculars_steps
      and cleanup = "\<lambda>components. Some (Binoculars_deleteExternalResources c components)", OF assms(4-6)]
  from binoculars.run_converges [OF assms(1-3,6) TrueI start Binoculars_ready]
  show ?thesis unfolding Binoculars_Reconcile_skeleton by auto
qed

lemma demoExecutor_returns: "\<exists>w'. Executor_Reconcile refExterns refClient demoKey (demoWorld demoExecutor) = (Inr (), w')"
proof -
  obtain cc where cc: "Executor_generate refExterns demoExecutor = Inr cc" using demoExecutor_generates ..
  have sep: "Executor_separate demoExecutor" by (simp add: Executor_separate_def demoExecutor_def)
  note start = generateFirst_starts [where generate = "Executor_generate refExterns" and steps = Executor_steps
      and cleanup = "\<lambda>components. Some (Executor_deleteExternalResources refClient components)"
      and cr = demoExecutor and req = demoKey and x = refExterns, OF fetches_demo _ cc]
  from executor.run_converges [OF clientLaws_refClient healthy_refClient ownerLaw_refExterns cc sep start Executor_ready]
  show ?thesis unfolding Executor_Reconcile_skeleton by auto
qed

end
