(* ===== verification/GoMemory.thy ===== *)
theory GoMemory
  imports Prelude
begin

text \<open>
  Go's memory, for the code whose meaning is a matter of sharing: a heap maps addresses to cells, a
  pointer, map or slice is an address or nil, and \<open>new\<close> and \<open>make\<close> take addresses that were never
  handed out before. The rest of the development works on values; a \<open>view\<close> reads the value that a
  piece of memory stands for. The locale \<open>deepCopier\<close> is the contract of Go's generated
  \<open>DeepCopyInto\<close>: the copy stands for the same value and can be read from the new cells alone. The
  combinators below copy pointers, maps and slices, and each of them meets the contract when the
  copier of its elements does.
\<close>

named_theorems copier_intros \<open>copiers that meet the contract of deepCopier\<close>
named_theorems copy_steps \<open>one field of a struct copied, the rest to do\<close>
named_theorems steady_intros \<open>views that more cells do not change\<close>

section \<open>The heap\<close>

type_synonym ref = nat
type_synonym 'c cells = "ref \<rightharpoonup> 'c"

record 'c memory =
  hp_cells :: "'c cells"
  hp_next :: ref

text \<open>
  \<open>hp_next\<close> is the next address to hand out. \<open>newRef\<close> is \<open>new(T)\<close> and \<open>make\<close>: the code writes
  the memory it gets before anyone reads it, so its zero value is left out. \<open>readRef\<close> and \<open>writeRef\<close> are
  \<open>*p\<close> and \<open>*p = x\<close>. The cells of a program hold values of many types; a tag says how a value of
  one type is stored in a cell, and a cell of another type is not read. Go's type checker makes
  sure that this and a dangling pointer never happen: the theorems assume that the view of the
  memory to copy is defined.
\<close>

record ('c, 'm) tag =
  tag_put :: "'m \<Rightarrow> 'c"
  tag_get :: "'c \<Rightarrow> 'm option"

definition newRef :: "('c memory, ref) action" where
  "newRef = (\<lambda>h. (Inr (hp_next h), h\<lparr>hp_next := Suc (hp_next h)\<rparr>))"

definition readRef :: "('c, 'm) tag \<Rightarrow> ref \<Rightarrow> ('c memory, 'm) action" where
  "readRef t a = (\<lambda>h. (deref ''pointer'' (Option.bind (hp_cells h a) (tag_get t)), h))"

definition writeRef :: "('c, 'm) tag \<Rightarrow> ref \<Rightarrow> 'm \<Rightarrow> ('c memory, unit) action" where
  "writeRef t a m = (\<lambda>h. (Inr (), h\<lparr>hp_cells := (hp_cells h)(a \<mapsto> tag_put t m)\<rparr>))"

definition tagged :: "('c, 'm) tag \<Rightarrow> bool" where
  "tagged t \<longleftrightarrow> (\<forall>m. tag_get t (tag_put t m) = Some m)"

lemma taggedD [simp]: "tagged t \<Longrightarrow> tag_get t (tag_put t m) = Some m"
  by (simp add: tagged_def)

section \<open>Growing heaps\<close>

definition wfHeap :: "'c memory \<Rightarrow> bool" where
  "wfHeap h \<longleftrightarrow> dom (hp_cells h) \<subseteq> {..<hp_next h}"

text \<open>Code that only allocates: every old cell keeps its content.\<close>

definition grows :: "'c memory \<Rightarrow> 'c memory \<Rightarrow> bool" where
  "grows h h' \<longleftrightarrow> wfHeap h \<and> wfHeap h' \<and> hp_next h \<le> hp_next h' \<and>
     (\<forall>a<hp_next h. hp_cells h' a = hp_cells h a)"

definition added :: "'c memory \<Rightarrow> 'c memory \<Rightarrow> 'c cells" where
  "added h h' = hp_cells h' |` {hp_next h..}"

lemma wfHeapD: "wfHeap h \<Longrightarrow> hp_cells h a = Some x \<Longrightarrow> a < hp_next h"
  by (auto simp: wfHeap_def)

lemma wfHeap_fresh: "wfHeap h \<Longrightarrow> hp_next h \<le> a \<Longrightarrow> hp_cells h a = None"
  by (auto simp: wfHeap_def dom_def subset_eq linorder_not_less[symmetric] intro: ccontr)

lemma grows_refl [simp]: "grows h h \<longleftrightarrow> wfHeap h"
  by (auto simp: grows_def)

lemma grows_trans: "grows h h' \<Longrightarrow> grows h' h'' \<Longrightarrow> grows h h''"
  by (auto simp: grows_def)

lemma grows_wf: "grows h h' \<Longrightarrow> wfHeap h \<and> wfHeap h'"
  by (simp add: grows_def)

lemma grows_cells: "grows h h' \<Longrightarrow> hp_cells h \<subseteq>\<^sub>m hp_cells h'"
  by (auto simp: grows_def map_le_def dest: wfHeapD)

lemma added_le: "added h h' \<subseteq>\<^sub>m hp_cells h'"
  by (auto simp: added_def map_le_def)

lemma added_trans1: "grows h h' \<Longrightarrow> grows h' h'' \<Longrightarrow> added h h' \<subseteq>\<^sub>m added h h''"
  by (auto simp: added_def map_le_def grows_def restrict_map_def dest: wfHeapD split: if_splits)

lemma added_trans2: "grows h h' \<Longrightarrow> added h' h'' \<subseteq>\<^sub>m added h h''"
  by (auto simp: added_def map_le_def grows_def restrict_map_def split: if_splits)

lemma added_disjoint: "wfHeap h \<Longrightarrow> dom (added h h') \<inter> dom (hp_cells h) = {}"
  by (auto simp: added_def dest: wfHeapD)

section \<open>What an allocating action leaves\<close>

text \<open>
  \<open>yields h act P\<close>: run on \<open>h\<close>, the action returns and only allocates, and its result satisfies \<open>P\<close>
  in every memory that has the new cells, whatever the other cells hold.
\<close>

definition yields :: "'c memory \<Rightarrow> ('c memory, 'm) action \<Rightarrow> ('c cells \<Rightarrow> 'm \<Rightarrow> bool) \<Rightarrow> bool" where
  "yields h act P \<longleftrightarrow>
     (\<exists>m h'. act h = (Inr m, h') \<and> grows h h' \<and> (\<forall>c. added h h' \<subseteq>\<^sub>m c \<longrightarrow> P c m))"

lemma yields_return: "grows h0 h \<Longrightarrow> (\<And>c. P c m) \<Longrightarrow> yields h (returnA m) P"
  by (auto simp: yields_def dest: grows_wf)

lemma yields_bind:
  assumes h0: "grows h0 h" and m: "yields h m P"
    and f: "\<And>x h'. grows h0 h' \<Longrightarrow> yields h' (f x) (\<lambda>c y. P c x \<longrightarrow> Q c y)"
  shows "yields h (andThenA m f) Q"
proof -
  obtain x h1 where 1: "m h = (Inr x, h1)" "grows h h1" "\<And>c. added h h1 \<subseteq>\<^sub>m c \<Longrightarrow> P c x"
    using m by (auto simp: yields_def)
  obtain y h2 where 2: "f x h1 = (Inr y, h2)" "grows h1 h2"
      "\<And>c. added h1 h2 \<subseteq>\<^sub>m c \<Longrightarrow> P c x \<Longrightarrow> Q c y"
    using f [OF grows_trans [OF h0 1(2)], of x] unfolding yields_def by blast
  have "Q c y" if "added h h2 \<subseteq>\<^sub>m c" for c
    using that 1 2 added_trans1 [OF 1(2) 2(2)] added_trans2 [OF 1(2), of h2] by (blast intro: map_le_trans)
  with 1 2 show ?thesis
    by (auto simp: yields_def andThenA_Inr intro: grows_trans)
qed

section \<open>Reading values\<close>

text \<open>A reading is steady when more cells never change what was read: it follows addresses and nothing else.\<close>

definition steady :: "('c cells \<Rightarrow> 'v option) \<Rightarrow> bool" where
  "steady F \<longleftrightarrow> (\<forall>c c' v. c \<subseteq>\<^sub>m c' \<longrightarrow> F c = Some v \<longrightarrow> F c' = Some v)"

lemma steadyD: "steady F \<Longrightarrow> c \<subseteq>\<^sub>m c' \<Longrightarrow> F c = Some v \<Longrightarrow> F c' = Some v"
  by (simp add: steady_def)

lemma steady_const [steady_intros]: "steady (\<lambda>c. r)"
  by (simp add: steady_def)

lemma steady_cell [steady_intros]: "steady (\<lambda>c. c a)"
  by (auto simp: steady_def map_le_def dom_def)

lemma steady_bind [steady_intros]:
  "steady F \<Longrightarrow> (\<And>x. steady (G x)) \<Longrightarrow> steady (\<lambda>c. Option.bind (F c) (\<lambda>x. G x c))"
  by (auto simp: steady_def bind_eq_Some_conv)

lemma steady_map [steady_intros]: "steady F \<Longrightarrow> steady (\<lambda>c. map_option f (F c))"
  by (auto simp: steady_def)

section \<open>The contract of a deep copy\<close>

locale deepCopier =
  fixes view :: "'c cells \<Rightarrow> 'm \<Rightarrow> 'v option"
    and copyInto :: "'m \<Rightarrow> ('c memory, 'm) action"
  assumes view_steady: "steady (\<lambda>c. view c m)"
    and copies: "wfHeap h \<Longrightarrow> view (hp_cells h) m = Some v \<Longrightarrow>
      yields h (copyInto m) (\<lambda>c m'. view c m' = Some v)"
begin

lemma copies_later:
  "grows h0 h \<Longrightarrow> view (hp_cells h0) m = Some v \<Longrightarrow> yields h (copyInto m) (\<lambda>c m'. view c m' = Some v)"
  by (blast intro: copies steadyD [OF view_steady] dest: grows_wf grows_cells)

text \<open>
  The two halves of a deep copy's promise. However the cells of the original are changed, the copy
  still stands for the value copied; however the new cells are changed, so does the original.
\<close>

lemma isolated:
  assumes h: "wfHeap h" and v: "view (hp_cells h) m = Some v"
  shows "\<exists>m' h'. copyInto m h = (Inr m', h') \<and> grows h h' \<and>
     (\<forall>c. added h h' \<subseteq>\<^sub>m c \<longrightarrow> view c m' = Some v) \<and> (\<forall>c. hp_cells h \<subseteq>\<^sub>m c \<longrightarrow> view c m = Some v)"
  using copies [OF h v] steadyD [OF view_steady _ v] by (auto simp: yields_def)

end

text \<open>
  Copying a struct is copying its fields one after the other. \<open>yields_field\<close> takes one field: the
  memory to copy is still as it was in \<open>h0\<close>, and what the field yields is kept for the end.
\<close>

lemma yields_field:
  assumes "deepCopier view copyInto" "grows h0 h" "view (hp_cells h0) m = Some v"
    and "\<And>x h'. grows h0 h' \<Longrightarrow> yields h' (f x) (\<lambda>c y. view c x = Some v \<longrightarrow> Q c y)"
  shows "yields h (andThenA (copyInto m) f) Q"
  by (rule yields_bind [OF assms(2) deepCopier.copies_later [OF assms(1-3)] assms(4)])

section \<open>Plain values\<close>

text \<open>\<open>*out = *in\<close> is a whole copy when the type has no pointer, map or slice in it.\<close>

definition plainView :: "'c cells \<Rightarrow> 'm \<Rightarrow> 'm option" where
  "plainView c m = Some m"

definition plainCopy :: "'m \<Rightarrow> ('c memory, 'm) action" where
  "plainCopy m = returnA m"

interpretation plain: deepCopier plainView plainCopy
  by unfold_locales (auto simp: plainView_def plainCopy_def yields_def steady_def)

lemmas plain_copier [copier_intros] = plain.deepCopier_axioms
lemmas plain_steady [steady_intros] = plain.view_steady

section \<open>Pointers\<close>

text \<open>\<open>if in.P != nil { *out = new(T); (*in).DeepCopyInto(*out) }\<close>.\<close>

definition pointerView :: "('c, 'm) tag \<Rightarrow> ('c cells \<Rightarrow> 'm \<Rightarrow> 'v option) \<Rightarrow> 'c cells \<Rightarrow> ref option \<Rightarrow> 'v option option" where
  "pointerView t view c p =
     (case p of
        None \<Rightarrow> Some None
      | Some a \<Rightarrow> map_option Some (Option.bind (Option.bind (c a) (tag_get t)) (view c)))"

definition copyPointer :: "('c, 'm) tag \<Rightarrow> ('m \<Rightarrow> ('c memory, 'm) action) \<Rightarrow> ref option \<Rightarrow> ('c memory, ref option) action" where
  "copyPointer t copyInto p =
     (case p of
        None \<Rightarrow> returnA None
      | Some a \<Rightarrow>
          andThenA newRef (\<lambda>b.
          andThenA (readRef t a) (\<lambda>m.
          andThenA (copyInto m) (\<lambda>m'.
          andThenA (writeRef t b m') (\<lambda>_. returnA (Some b))))))"

lemma pointerView_steady [steady_intros]:
  "(\<And>m. steady (\<lambda>c. view c m)) \<Longrightarrow> steady (\<lambda>c. pointerView t view c p)"
  unfolding pointerView_def by (cases p) (auto simp: steady_def bind_eq_Some_conv map_le_def dom_def)

lemma newRef_grows: "wfHeap h \<Longrightarrow> grows h (h\<lparr>hp_next := Suc (hp_next h)\<rparr>)"
  by (auto simp: grows_def wfHeap_def)

lemma writeRef_grows:
  assumes h: "wfHeap h" and h': "grows (h\<lparr>hp_next := Suc (hp_next h)\<rparr>) h'"
  shows "grows h (h'\<lparr>hp_cells := (hp_cells h')(hp_next h \<mapsto> x)\<rparr>)"
    and "added (h\<lparr>hp_next := Suc (hp_next h)\<rparr>) h' \<subseteq>\<^sub>m
      added h (h'\<lparr>hp_cells := (hp_cells h')(hp_next h \<mapsto> x)\<rparr>)"
    and "added h (h'\<lparr>hp_cells := (hp_cells h')(hp_next h \<mapsto> x)\<rparr>) (hp_next h) = Some x"
  using assms by (auto simp: grows_def wfHeap_def added_def map_le_def restrict_map_def)

lemma copyPointer_yields:
  assumes t: "tagged t" and h: "wfHeap h"
    and a: "Option.bind (hp_cells h a) (tag_get t) = Some m"
    and copy: "\<And>h'. grows h h' \<Longrightarrow> yields h' (copyInto m) P"
  shows "yields h (copyPointer t copyInto (Some a))
    (\<lambda>c p. \<exists>b m'. p = Some b \<and> Option.bind (c b) (tag_get t) = Some m' \<and> P c m')"
proof -
  let ?h = "h\<lparr>hp_next := Suc (hp_next h)\<rparr>"
  obtain m' h' where *: "copyInto m ?h = (Inr m', h')" "grows ?h h'" "\<And>c. added ?h h' \<subseteq>\<^sub>m c \<Longrightarrow> P c m'"
    using copy [OF newRef_grows [OF h]] by (auto simp: yields_def)
  let ?g = "h'\<lparr>hp_cells := (hp_cells h')(hp_next h \<mapsto> tag_put t m')\<rparr>"
  note g = writeRef_grows [OF h *(2), of "tag_put t m'"]
  have run: "copyPointer t copyInto (Some a) h = (Inr (Some (hp_next h)), ?g)"
    using a * by (simp add: copyPointer_def andThenA_def newRef_def readRef_def writeRef_def)
  have "Option.bind (c (hp_next h)) (tag_get t) = Some m' \<and> P c m'" if c: "added h ?g \<subseteq>\<^sub>m c" for c
  proof -
    have "c (hp_next h) = Some (tag_put t m')"
      using c g(3) by (metis domI map_le_def)
    then show ?thesis
      using *(3) map_le_trans [OF g(2) c] t by simp
  qed
  with run g(1) show ?thesis
    by (auto simp: yields_def)
qed

lemma copyPointer_copier [copier_intros]:
  assumes t: "tagged t" and view: "deepCopier view copyInto"
  shows "deepCopier (pointerView t view) (copyPointer t copyInto)"
proof
  show "steady (\<lambda>c. pointerView t view c p)" for p
    by (rule pointerView_steady) (rule deepCopier.view_steady [OF view])
next
  fix h p v
  assume h: "wfHeap h" and p: "pointerView t view (hp_cells h) p = Some v"
  show "yields h (copyPointer t copyInto p) (\<lambda>c p'. pointerView t view c p' = Some v)"
  proof (cases p)
    case None
    with h p show ?thesis by (auto simp: pointerView_def copyPointer_def yields_def)
  next
    case (Some a)
    then obtain m w where m: "Option.bind (hp_cells h a) (tag_get t) = Some m"
        "view (hp_cells h) m = Some w" "v = Some w"
      using p by (auto simp: pointerView_def bind_eq_Some_conv)
    have "yields h (copyPointer t copyInto (Some a))
        (\<lambda>c p. \<exists>b m'. p = Some b \<and> Option.bind (c b) (tag_get t) = Some m' \<and> view c m' = Some w)"
      by (rule copyPointer_yields [OF t h m(1)]) (rule deepCopier.copies_later [OF view _ m(2)])
    then show ?thesis
      unfolding Some yields_def using m(3) by (fastforce simp: pointerView_def)
  qed
qed

section \<open>Maps and slices\<close>

text \<open>
  A map is copied key by key into a new one, and a slice element by element into a new backing
  array. A nil map or slice stays nil; as values, nil and empty are the same. A slice is taken to
  be the whole of its backing array.
\<close>

primrec copyAll :: "('m \<Rightarrow> ('c memory, 'm) action) \<Rightarrow> 'm list \<Rightarrow> ('c memory, 'm list) action" where
  "copyAll copyInto [] = returnA []"
| "copyAll copyInto (m # ms) =
     andThenA (copyInto m) (\<lambda>m'. andThenA (copyAll copyInto ms) (\<lambda>ms'. returnA (m' # ms')))"

primrec viewAll :: "('c cells \<Rightarrow> 'm \<Rightarrow> 'v option) \<Rightarrow> 'c cells \<Rightarrow> 'm list \<Rightarrow> 'v list option" where
  "viewAll view c [] = Some []"
| "viewAll view c (m # ms) =
     Option.bind (view c m) (\<lambda>v. Option.bind (viewAll view c ms) (\<lambda>vs. Some (v # vs)))"

definition sliceView :: "('c, 'm list) tag \<Rightarrow> ('c cells \<Rightarrow> 'm \<Rightarrow> 'v option) \<Rightarrow> 'c cells \<Rightarrow> ref option \<Rightarrow> 'v list option" where
  "sliceView t view c s = map_option (case_option [] id) (pointerView t (viewAll view) c s)"

definition copySlice :: "('c, 'm list) tag \<Rightarrow> ('m \<Rightarrow> ('c memory, 'm) action) \<Rightarrow> ref option \<Rightarrow> ('c memory, ref option) action" where
  "copySlice t copyInto s = copyPointer t (copyAll copyInto) s"

definition mapView :: "('c, 'k \<rightharpoonup> 'v) tag \<Rightarrow> 'c cells \<Rightarrow> ref option \<Rightarrow> ('k \<rightharpoonup> 'v) option" where
  "mapView t c p = map_option (case_option Map.empty id) (pointerView t plainView c p)"

definition copyMap :: "('c, 'k \<rightharpoonup> 'v) tag \<Rightarrow> ref option \<Rightarrow> ('c memory, ref option) action" where
  "copyMap t p = copyPointer t plainCopy p"

lemma viewAll_steady:
  assumes "\<And>m. steady (\<lambda>c. view c m)"
  shows "steady (\<lambda>c. viewAll view c ms)"
  by (induction ms) (auto simp: assms intro!: steady_intros)

lemma sliceView_steady [steady_intros]:
  "(\<And>m. steady (\<lambda>c. view c m)) \<Longrightarrow> steady (\<lambda>c. sliceView t view c s)"
  unfolding sliceView_def by (intro steady_intros viewAll_steady)

lemma mapView_steady [steady_intros]: "steady (\<lambda>c. mapView t c p)"
  unfolding mapView_def by (intro steady_intros)

lemma copyAll_copier:
  assumes view: "deepCopier view copyInto"
  shows "deepCopier (viewAll view) (copyAll copyInto)"
proof
  show "steady (\<lambda>c. viewAll view c ms)" for ms
    by (rule viewAll_steady) (rule deepCopier.view_steady [OF view])
next
  fix h ms vs
  assume "wfHeap h" "viewAll view (hp_cells h) ms = Some vs"
  then have "yields h' (copyAll copyInto ms) (\<lambda>c ms'. viewAll view c ms' = Some vs)" if "grows h h'" for h'
    using that
  proof (induction ms arbitrary: vs h')
    case Nil
    show ?case
      unfolding copyAll.simps by (rule yields_return [OF Nil.prems(3)]) (use Nil.prems(2) in simp)
  next
    case (Cons m ms)
    then obtain w ws where v: "view (hp_cells h) m = Some w"
        "viewAll view (hp_cells h) ms = Some ws" "vs = w # ws"
      by (auto simp: bind_eq_Some_conv)
    show ?case
      unfolding copyAll.simps
      by (rule yields_field [OF view Cons.prems(3) v(1)], rule yields_bind, assumption,
          rule Cons.IH [OF Cons.prems(1) v(2)], assumption, rule yields_return, assumption) (simp add: v(3))
  qed
  then show "yields h (copyAll copyInto ms) (\<lambda>c ms'. viewAll view c ms' = Some vs)"
    using \<open>wfHeap h\<close> by simp
qed

text \<open>A view that forgets part of what another reads is copied as well.\<close>

lemma deepCopier_map:
  assumes "deepCopier view copyInto"
  shows "deepCopier (\<lambda>c m. map_option f (view c m)) copyInto"
proof
  show "steady (\<lambda>c. map_option f (view c m))" for m
    by (intro steady_intros deepCopier.view_steady [OF assms])
  show "yields h (copyInto m) (\<lambda>c m'. map_option f (view c m') = Some v)"
    if "wfHeap h" "map_option f (view (hp_cells h) m) = Some v" for h m v
    using that deepCopier.copies [OF assms that(1)] by (fastforce simp: yields_def)
qed

lemma copySlice_copier [copier_intros]:
  "tagged t \<Longrightarrow> deepCopier view copyInto \<Longrightarrow> deepCopier (sliceView t view) (copySlice t copyInto)"
  unfolding sliceView_def [abs_def] copySlice_def [abs_def]
  by (intro deepCopier_map copyPointer_copier copyAll_copier)

lemma copyMap_copier [copier_intros]: "tagged t \<Longrightarrow> deepCopier (mapView t) (copyMap t)"
  unfolding mapView_def [abs_def] copyMap_def [abs_def]
  by (intro deepCopier_map copyPointer_copier plain_copier)

lemmas [copy_steps] =
  yields_field [OF copyPointer_copier] yields_field [OF copySlice_copier] yields_field [OF copyMap_copier]

end
