(* ===== verification/ApiMemory.thy ===== *)
theory ApiMemory
  imports ApiTypes GoMemory "HOL-Library.Monad_Syntax"
begin

text \<open>
  The custom resources as Go keeps them in memory: a struct's plain fields inline, its pointers, maps
  and slices as addresses. A view reads the value, a record of \<open>ApiTypes\<close>, that such a struct
  stands for. \<open>datatype cell\<close> lists the types that a cell of the heap can hold. Structs of the
  Kubernetes libraries are parameters, collected in the record \<open>kubeApi\<close>.
\<close>

section \<open>Values that ApiTypes leaves out\<close>

text \<open>
  A list's metadata is passed along only. \<open>Queue\<close>, of \<open>api/core/v1alpha1\<close>, is a scaffold: its one
  field is an example.
\<close>

datatype ListMeta = ListMeta string

record QueueSpec =
  qs_Foo :: string

type_synonym Queue = "(QueueSpec, unit) CR"

section \<open>The specs in memory\<close>

record IngressConfigMem =
  icm_Labels :: "ref option"
  icm_Annotations :: "ref option"
  icm_IngressClass :: string
  icm_Hostnames :: "ref option"
  icm_ClusterIssuer :: string

record PrometheusConfigMem =
  pcm_Enabled :: bool
  pcm_Labels :: "ref option"
  pcm_ScrapeInterval :: "ref option"

record ServiceAccountConfigMem =
  sacm_Secrets :: "ref option"
  sacm_ImagePullSecrets :: "ref option"
  sacm_AutomountServiceAccountToken :: "ref option"

record PartitionJobTableConfigMem =
  pjtm_Enabled :: bool
  pjtm_ActiveDeadlineSeconds :: "ref option"

record PrunerConfigMem =
  prnm_Enabled :: bool
  prnm_Schedule :: string
  prnm_Resources :: "ref option"
  prnm_Args :: PrunerArgs

record 'x CommonSpecBaseMem =
  csbm_Labels :: "ref option"
  csbm_Image :: Image
  csbm_ApplicationConfig :: "'x"
  csbm_Prometheus :: "ref option"
  csbm_Resources :: "ref option"
  csbm_Tolerations :: "ref option"
  csbm_TerminationGracePeriodSeconds :: "ref option"
  csbm_CustomServiceAccount :: string
  csbm_ServiceAccount :: "ref option"
  csbm_Environment :: "ref option"
  csbm_AdditionalVolumes :: "ref option"
  csbm_AdditionalVolumeMounts :: "ref option"
  csbm_NodeSelector :: "ref option"
  csbm_TopologyKey :: string

record 'x ArmadaServerSpecMem =
  asm_Base :: "'x CommonSpecBaseMem"
  asm_Replicas :: "ref option"
  asm_NodeSelector :: "ref option"
  asm_Ingress :: "ref option"
  asm_ProfilingIngressConfig :: "ref option"
  asm_HostNames :: "ref option"
  asm_ClusterIssuer :: string
  asm_PulsarInit :: bool
  asm_SecurityContext :: "ref option"
  asm_PodSecurityContext :: "ref option"

record 'x BinocularsSpecMem =
  bnm_Base :: "'x CommonSpecBaseMem"
  bnm_Replicas :: "ref option"
  bnm_NodeSelector :: "ref option"
  bnm_Ingress :: "ref option"
  bnm_ProfilingIngressConfig :: "ref option"
  bnm_HostNames :: "ref option"
  bnm_ClusterIssuer :: string
  bnm_SecurityContext :: "ref option"
  bnm_PodSecurityContext :: "ref option"

record 'x EventIngesterSpecMem =
  eim_Base :: "'x CommonSpecBaseMem"
  eim_Replicas :: "ref option"
  eim_NodeSelector :: "ref option"
  eim_SecurityContext :: "ref option"
  eim_PodSecurityContext :: "ref option"
  eim_ProfilingIngressConfig :: "ref option"

record 'x ExecutorSpecMem =
  exm_Base :: "'x CommonSpecBaseMem"
  exm_Replicas :: "ref option"
  exm_NodeSelector :: "ref option"
  exm_AdditionalClusterRoleBindings :: "ref option"
  exm_SecurityContext :: "ref option"
  exm_PodSecurityContext :: "ref option"
  exm_ProfilingIngressConfig :: "ref option"

record 'x LookoutSpecMem =
  lkm_Base :: "'x CommonSpecBaseMem"
  lkm_Replicas :: "ref option"
  lkm_NodeSelector :: "ref option"
  lkm_Ingress :: "ref option"
  lkm_HostNames :: "ref option"
  lkm_ClusterIssuer :: string
  lkm_Migrate :: "ref option"
  lkm_MigrationDbWaitImage :: "ref option"
  lkm_DbPruningEnabled :: "ref option"
  lkm_DbPruningSchedule :: "ref option"
  lkm_SecurityContext :: "ref option"
  lkm_PodSecurityContext :: "ref option"
  lkm_ProfilingIngressConfig :: "ref option"
  lkm_PartitionJobTable :: "ref option"

record 'x LookoutIngesterSpecMem =
  lim_Base :: "'x CommonSpecBaseMem"
  lim_Replicas :: "ref option"
  lim_SecurityContext :: "ref option"
  lim_PodSecurityContext :: "ref option"
  lim_ProfilingIngressConfig :: "ref option"

record 'x SchedulerSpecMem =
  sdm_Base :: "'x CommonSpecBaseMem"
  sdm_Replicas :: "ref option"
  sdm_Ingress :: "ref option"
  sdm_ProfilingIngressConfig :: "ref option"
  sdm_HostNames :: "ref option"
  sdm_ClusterIssuer :: string
  sdm_Migrate :: "ref option"
  sdm_MigrationDbWaitImage :: "ref option"
  sdm_Pruner :: "ref option"
  sdm_SecurityContext :: "ref option"
  sdm_PodSecurityContext :: "ref option"

record 'x SchedulerIngesterSpecMem =
  sim_Base :: "'x CommonSpecBaseMem"
  sim_Replicas :: "ref option"
  sim_SecurityContext :: "ref option"
  sim_PodSecurityContext :: "ref option"
  sim_ProfilingIngressConfig :: "ref option"

record LookoutStatusMem =
  lstm_Conditions :: "ref option"

section \<open>Resources and lists in memory\<close>

record TypeMeta =
  tm_Kind :: string
  tm_APIVersion :: string

record ('x, 'spec, 'status) CRMem =
  crm_TypeMeta :: TypeMeta
  crm_ObjectMeta :: 'x
  crm_Spec :: 'spec
  crm_Status :: 'status

record 'x ListMem =
  lsm_TypeMeta :: TypeMeta
  lsm_ListMeta :: 'x
  lsm_Items :: "ref option"

text \<open>The status of every resource but Lookout is an empty struct.\<close>

type_synonym 'x ArmadaServerMem = "('x, 'x ArmadaServerSpecMem, unit) CRMem"
type_synonym 'x BinocularsMem = "('x, 'x BinocularsSpecMem, unit) CRMem"
type_synonym 'x EventIngesterMem = "('x, 'x EventIngesterSpecMem, unit) CRMem"
type_synonym 'x ExecutorMem = "('x, 'x ExecutorSpecMem, unit) CRMem"
type_synonym 'x LookoutMem = "('x, 'x LookoutSpecMem, LookoutStatusMem) CRMem"
type_synonym 'x LookoutIngesterMem = "('x, 'x LookoutIngesterSpecMem, unit) CRMem"
type_synonym 'x SchedulerMem = "('x, 'x SchedulerSpecMem, unit) CRMem"
type_synonym 'x SchedulerIngesterMem = "('x, 'x SchedulerIngesterSpecMem, unit) CRMem"
type_synonym 'x QueueMem = "('x, QueueSpec, unit) CRMem"

section \<open>Cells\<close>

text \<open>Values without an address in them, structs with addresses, specs, and resources with their slices and lists.\<close>

datatype leaf =
    Leaf_int32 int32
  | Leaf_int64 int64
  | Leaf_bool bool
  | Leaf_string string
  | Leaf_Duration int64
  | Leaf_strmap strmap
  | Leaf_strings "string list"
  | Leaf_empty unit
  | Leaf_Image Image
  | Leaf_PrunerArgs PrunerArgs
  | Leaf_QueueSpec QueueSpec
  | Leaf_AdditionalClusterRoleBinding AdditionalClusterRoleBinding
  | Leaf_AdditionalClusterRoleBindings "AdditionalClusterRoleBinding list"
  | Leaf_ObjectReferences "ObjectReference list"
  | Leaf_LocalObjectReferences "ObjectReference list"

datatype block =
    Block_IngressConfig IngressConfigMem
  | Block_PrometheusConfig PrometheusConfigMem
  | Block_ServiceAccountConfig ServiceAccountConfigMem
  | Block_PartitionJobTableConfig PartitionJobTableConfigMem
  | Block_PrunerConfig PrunerConfigMem
  | Block_LookoutStatus LookoutStatusMem

datatype 'x spec =
    Spec_CommonSpecBase "'x CommonSpecBaseMem"
  | Spec_ArmadaServerSpec "'x ArmadaServerSpecMem"
  | Spec_BinocularsSpec "'x BinocularsSpecMem"
  | Spec_EventIngesterSpec "'x EventIngesterSpecMem"
  | Spec_ExecutorSpec "'x ExecutorSpecMem"
  | Spec_LookoutSpec "'x LookoutSpecMem"
  | Spec_LookoutIngesterSpec "'x LookoutIngesterSpecMem"
  | Spec_SchedulerSpec "'x SchedulerSpecMem"
  | Spec_SchedulerIngesterSpec "'x SchedulerIngesterSpecMem"

datatype ('x, 'm) resource = One 'm | Slice "'m list" | ObjectList "'x ListMem"

datatype 'x cell =
    Cell_leaf leaf
  | Cell_block block
  | Cell_spec "'x spec"
  | Cell_Api "'x"
  | Cell_Apis "'x list"
  | Cell_ArmadaServer "('x, 'x ArmadaServerMem) resource"
  | Cell_Binoculars "('x, 'x BinocularsMem) resource"
  | Cell_EventIngester "('x, 'x EventIngesterMem) resource"
  | Cell_Executor "('x, 'x ExecutorMem) resource"
  | Cell_Lookout "('x, 'x LookoutMem) resource"
  | Cell_LookoutIngester "('x, 'x LookoutIngesterMem) resource"
  | Cell_Scheduler "('x, 'x SchedulerMem) resource"
  | Cell_SchedulerIngester "('x, 'x SchedulerIngesterMem) resource"
  | Cell_Queue "('x, 'x QueueMem) resource"

type_synonym 'x goMemory = "'x cell memory"

text \<open>A tag for the values kept within another tag's.\<close>

definition within :: "('c, 'd) tag \<Rightarrow> ('d, 'm) tag \<Rightarrow> ('c, 'm) tag" where
  "within outer inner =
     \<lparr>tag_put = (\<lambda>m. tag_put outer (tag_put inner m)),
      tag_get = (\<lambda>c. Option.bind (tag_get outer c) (tag_get inner))\<rparr>"

definition leafTag :: "('x cell, leaf) tag" where
  "leafTag =
     \<lparr>tag_put = Cell_leaf,
       tag_get = (\<lambda>c. case c of Cell_leaf m \<Rightarrow> Some m | _ \<Rightarrow> None)\<rparr>"

definition blockTag :: "('x cell, block) tag" where
  "blockTag =
     \<lparr>tag_put = Cell_block,
       tag_get = (\<lambda>c. case c of Cell_block m \<Rightarrow> Some m | _ \<Rightarrow> None)\<rparr>"

definition specTag :: "('x cell, 'x spec) tag" where
  "specTag =
     \<lparr>tag_put = Cell_spec,
       tag_get = (\<lambda>c. case c of Cell_spec m \<Rightarrow> Some m | _ \<Rightarrow> None)\<rparr>"

definition ApiTag :: "('x cell, 'x) tag" where
  "ApiTag =
     \<lparr>tag_put = Cell_Api,
       tag_get = (\<lambda>c. case c of Cell_Api m \<Rightarrow> Some m | _ \<Rightarrow> None)\<rparr>"

definition ApisTag :: "('x cell, 'x list) tag" where
  "ApisTag =
     \<lparr>tag_put = Cell_Apis,
       tag_get = (\<lambda>c. case c of Cell_Apis m \<Rightarrow> Some m | _ \<Rightarrow> None)\<rparr>"

definition int32Tag :: "('x cell, int32) tag" where
  "int32Tag = within leafTag
     \<lparr>tag_put = Leaf_int32,
      tag_get = (\<lambda>c. case c of Leaf_int32 m \<Rightarrow> Some m | _ \<Rightarrow> None)\<rparr>"

definition int64Tag :: "('x cell, int64) tag" where
  "int64Tag = within leafTag
     \<lparr>tag_put = Leaf_int64,
      tag_get = (\<lambda>c. case c of Leaf_int64 m \<Rightarrow> Some m | _ \<Rightarrow> None)\<rparr>"

definition boolTag :: "('x cell, bool) tag" where
  "boolTag = within leafTag
     \<lparr>tag_put = Leaf_bool,
      tag_get = (\<lambda>c. case c of Leaf_bool m \<Rightarrow> Some m | _ \<Rightarrow> None)\<rparr>"

definition stringTag :: "('x cell, string) tag" where
  "stringTag = within leafTag
     \<lparr>tag_put = Leaf_string,
      tag_get = (\<lambda>c. case c of Leaf_string m \<Rightarrow> Some m | _ \<Rightarrow> None)\<rparr>"

definition DurationTag :: "('x cell, int64) tag" where
  "DurationTag = within leafTag
     \<lparr>tag_put = Leaf_Duration,
      tag_get = (\<lambda>c. case c of Leaf_Duration m \<Rightarrow> Some m | _ \<Rightarrow> None)\<rparr>"

definition strmapTag :: "('x cell, strmap) tag" where
  "strmapTag = within leafTag
     \<lparr>tag_put = Leaf_strmap,
      tag_get = (\<lambda>c. case c of Leaf_strmap m \<Rightarrow> Some m | _ \<Rightarrow> None)\<rparr>"

definition stringsTag :: "('x cell, string list) tag" where
  "stringsTag = within leafTag
     \<lparr>tag_put = Leaf_strings,
      tag_get = (\<lambda>c. case c of Leaf_strings m \<Rightarrow> Some m | _ \<Rightarrow> None)\<rparr>"

definition emptyTag :: "('x cell, unit) tag" where
  "emptyTag = within leafTag
     \<lparr>tag_put = Leaf_empty,
      tag_get = (\<lambda>c. case c of Leaf_empty m \<Rightarrow> Some m | _ \<Rightarrow> None)\<rparr>"

definition ImageTag :: "('x cell, Image) tag" where
  "ImageTag = within leafTag
     \<lparr>tag_put = Leaf_Image,
      tag_get = (\<lambda>c. case c of Leaf_Image m \<Rightarrow> Some m | _ \<Rightarrow> None)\<rparr>"

definition PrunerArgsTag :: "('x cell, PrunerArgs) tag" where
  "PrunerArgsTag = within leafTag
     \<lparr>tag_put = Leaf_PrunerArgs,
      tag_get = (\<lambda>c. case c of Leaf_PrunerArgs m \<Rightarrow> Some m | _ \<Rightarrow> None)\<rparr>"

definition QueueSpecTag :: "('x cell, QueueSpec) tag" where
  "QueueSpecTag = within leafTag
     \<lparr>tag_put = Leaf_QueueSpec,
      tag_get = (\<lambda>c. case c of Leaf_QueueSpec m \<Rightarrow> Some m | _ \<Rightarrow> None)\<rparr>"

definition AdditionalClusterRoleBindingTag :: "('x cell, AdditionalClusterRoleBinding) tag" where
  "AdditionalClusterRoleBindingTag = within leafTag
     \<lparr>tag_put = Leaf_AdditionalClusterRoleBinding,
      tag_get = (\<lambda>c. case c of Leaf_AdditionalClusterRoleBinding m \<Rightarrow> Some m | _ \<Rightarrow> None)\<rparr>"

definition AdditionalClusterRoleBindingsTag :: "('x cell, AdditionalClusterRoleBinding list) tag" where
  "AdditionalClusterRoleBindingsTag = within leafTag
     \<lparr>tag_put = Leaf_AdditionalClusterRoleBindings,
      tag_get = (\<lambda>c. case c of Leaf_AdditionalClusterRoleBindings m \<Rightarrow> Some m | _ \<Rightarrow> None)\<rparr>"

definition ObjectReferencesTag :: "('x cell, ObjectReference list) tag" where
  "ObjectReferencesTag = within leafTag
     \<lparr>tag_put = Leaf_ObjectReferences,
      tag_get = (\<lambda>c. case c of Leaf_ObjectReferences m \<Rightarrow> Some m | _ \<Rightarrow> None)\<rparr>"

definition LocalObjectReferencesTag :: "('x cell, ObjectReference list) tag" where
  "LocalObjectReferencesTag = within leafTag
     \<lparr>tag_put = Leaf_LocalObjectReferences,
      tag_get = (\<lambda>c. case c of Leaf_LocalObjectReferences m \<Rightarrow> Some m | _ \<Rightarrow> None)\<rparr>"

definition IngressConfigTag :: "('x cell, IngressConfigMem) tag" where
  "IngressConfigTag = within blockTag
     \<lparr>tag_put = Block_IngressConfig,
      tag_get = (\<lambda>c. case c of Block_IngressConfig m \<Rightarrow> Some m | _ \<Rightarrow> None)\<rparr>"

definition PrometheusConfigTag :: "('x cell, PrometheusConfigMem) tag" where
  "PrometheusConfigTag = within blockTag
     \<lparr>tag_put = Block_PrometheusConfig,
      tag_get = (\<lambda>c. case c of Block_PrometheusConfig m \<Rightarrow> Some m | _ \<Rightarrow> None)\<rparr>"

definition ServiceAccountConfigTag :: "('x cell, ServiceAccountConfigMem) tag" where
  "ServiceAccountConfigTag = within blockTag
     \<lparr>tag_put = Block_ServiceAccountConfig,
      tag_get = (\<lambda>c. case c of Block_ServiceAccountConfig m \<Rightarrow> Some m | _ \<Rightarrow> None)\<rparr>"

definition PartitionJobTableConfigTag :: "('x cell, PartitionJobTableConfigMem) tag" where
  "PartitionJobTableConfigTag = within blockTag
     \<lparr>tag_put = Block_PartitionJobTableConfig,
      tag_get = (\<lambda>c. case c of Block_PartitionJobTableConfig m \<Rightarrow> Some m | _ \<Rightarrow> None)\<rparr>"

definition PrunerConfigTag :: "('x cell, PrunerConfigMem) tag" where
  "PrunerConfigTag = within blockTag
     \<lparr>tag_put = Block_PrunerConfig,
      tag_get = (\<lambda>c. case c of Block_PrunerConfig m \<Rightarrow> Some m | _ \<Rightarrow> None)\<rparr>"

definition LookoutStatusTag :: "('x cell, LookoutStatusMem) tag" where
  "LookoutStatusTag = within blockTag
     \<lparr>tag_put = Block_LookoutStatus,
      tag_get = (\<lambda>c. case c of Block_LookoutStatus m \<Rightarrow> Some m | _ \<Rightarrow> None)\<rparr>"

definition CommonSpecBaseTag :: "('x cell, 'x CommonSpecBaseMem) tag" where
  "CommonSpecBaseTag = within specTag
     \<lparr>tag_put = Spec_CommonSpecBase,
      tag_get = (\<lambda>c. case c of Spec_CommonSpecBase m \<Rightarrow> Some m | _ \<Rightarrow> None)\<rparr>"

definition ArmadaServerSpecTag :: "('x cell, 'x ArmadaServerSpecMem) tag" where
  "ArmadaServerSpecTag = within specTag
     \<lparr>tag_put = Spec_ArmadaServerSpec,
      tag_get = (\<lambda>c. case c of Spec_ArmadaServerSpec m \<Rightarrow> Some m | _ \<Rightarrow> None)\<rparr>"

definition BinocularsSpecTag :: "('x cell, 'x BinocularsSpecMem) tag" where
  "BinocularsSpecTag = within specTag
     \<lparr>tag_put = Spec_BinocularsSpec,
      tag_get = (\<lambda>c. case c of Spec_BinocularsSpec m \<Rightarrow> Some m | _ \<Rightarrow> None)\<rparr>"

definition EventIngesterSpecTag :: "('x cell, 'x EventIngesterSpecMem) tag" where
  "EventIngesterSpecTag = within specTag
     \<lparr>tag_put = Spec_EventIngesterSpec,
      tag_get = (\<lambda>c. case c of Spec_EventIngesterSpec m \<Rightarrow> Some m | _ \<Rightarrow> None)\<rparr>"

definition ExecutorSpecTag :: "('x cell, 'x ExecutorSpecMem) tag" where
  "ExecutorSpecTag = within specTag
     \<lparr>tag_put = Spec_ExecutorSpec,
      tag_get = (\<lambda>c. case c of Spec_ExecutorSpec m \<Rightarrow> Some m | _ \<Rightarrow> None)\<rparr>"

definition LookoutSpecTag :: "('x cell, 'x LookoutSpecMem) tag" where
  "LookoutSpecTag = within specTag
     \<lparr>tag_put = Spec_LookoutSpec,
      tag_get = (\<lambda>c. case c of Spec_LookoutSpec m \<Rightarrow> Some m | _ \<Rightarrow> None)\<rparr>"

definition LookoutIngesterSpecTag :: "('x cell, 'x LookoutIngesterSpecMem) tag" where
  "LookoutIngesterSpecTag = within specTag
     \<lparr>tag_put = Spec_LookoutIngesterSpec,
      tag_get = (\<lambda>c. case c of Spec_LookoutIngesterSpec m \<Rightarrow> Some m | _ \<Rightarrow> None)\<rparr>"

definition SchedulerSpecTag :: "('x cell, 'x SchedulerSpecMem) tag" where
  "SchedulerSpecTag = within specTag
     \<lparr>tag_put = Spec_SchedulerSpec,
      tag_get = (\<lambda>c. case c of Spec_SchedulerSpec m \<Rightarrow> Some m | _ \<Rightarrow> None)\<rparr>"

definition SchedulerIngesterSpecTag :: "('x cell, 'x SchedulerIngesterSpecMem) tag" where
  "SchedulerIngesterSpecTag = within specTag
     \<lparr>tag_put = Spec_SchedulerIngesterSpec,
      tag_get = (\<lambda>c. case c of Spec_SchedulerIngesterSpec m \<Rightarrow> Some m | _ \<Rightarrow> None)\<rparr>"

definition oneTag :: "(('x, 'm) resource, 'm) tag" where
  "oneTag =
     \<lparr>tag_put = One,
       tag_get = (\<lambda>c. case c of One m \<Rightarrow> Some m | _ \<Rightarrow> None)\<rparr>"

definition sliceTag :: "(('x, 'm) resource, 'm list) tag" where
  "sliceTag =
     \<lparr>tag_put = Slice,
       tag_get = (\<lambda>c. case c of Slice m \<Rightarrow> Some m | _ \<Rightarrow> None)\<rparr>"

definition objectListTag :: "(('x, 'm) resource, 'x ListMem) tag" where
  "objectListTag =
     \<lparr>tag_put = ObjectList,
       tag_get = (\<lambda>c. case c of ObjectList m \<Rightarrow> Some m | _ \<Rightarrow> None)\<rparr>"

definition ArmadaServerCellTag :: "('x cell, ('x, 'x ArmadaServerMem) resource) tag" where
  "ArmadaServerCellTag =
     \<lparr>tag_put = Cell_ArmadaServer,
       tag_get = (\<lambda>c. case c of Cell_ArmadaServer m \<Rightarrow> Some m | _ \<Rightarrow> None)\<rparr>"

definition BinocularsCellTag :: "('x cell, ('x, 'x BinocularsMem) resource) tag" where
  "BinocularsCellTag =
     \<lparr>tag_put = Cell_Binoculars,
       tag_get = (\<lambda>c. case c of Cell_Binoculars m \<Rightarrow> Some m | _ \<Rightarrow> None)\<rparr>"

definition EventIngesterCellTag :: "('x cell, ('x, 'x EventIngesterMem) resource) tag" where
  "EventIngesterCellTag =
     \<lparr>tag_put = Cell_EventIngester,
       tag_get = (\<lambda>c. case c of Cell_EventIngester m \<Rightarrow> Some m | _ \<Rightarrow> None)\<rparr>"

definition ExecutorCellTag :: "('x cell, ('x, 'x ExecutorMem) resource) tag" where
  "ExecutorCellTag =
     \<lparr>tag_put = Cell_Executor,
       tag_get = (\<lambda>c. case c of Cell_Executor m \<Rightarrow> Some m | _ \<Rightarrow> None)\<rparr>"

definition LookoutCellTag :: "('x cell, ('x, 'x LookoutMem) resource) tag" where
  "LookoutCellTag =
     \<lparr>tag_put = Cell_Lookout,
       tag_get = (\<lambda>c. case c of Cell_Lookout m \<Rightarrow> Some m | _ \<Rightarrow> None)\<rparr>"

definition LookoutIngesterCellTag :: "('x cell, ('x, 'x LookoutIngesterMem) resource) tag" where
  "LookoutIngesterCellTag =
     \<lparr>tag_put = Cell_LookoutIngester,
       tag_get = (\<lambda>c. case c of Cell_LookoutIngester m \<Rightarrow> Some m | _ \<Rightarrow> None)\<rparr>"

definition SchedulerCellTag :: "('x cell, ('x, 'x SchedulerMem) resource) tag" where
  "SchedulerCellTag =
     \<lparr>tag_put = Cell_Scheduler,
       tag_get = (\<lambda>c. case c of Cell_Scheduler m \<Rightarrow> Some m | _ \<Rightarrow> None)\<rparr>"

definition SchedulerIngesterCellTag :: "('x cell, ('x, 'x SchedulerIngesterMem) resource) tag" where
  "SchedulerIngesterCellTag =
     \<lparr>tag_put = Cell_SchedulerIngester,
       tag_get = (\<lambda>c. case c of Cell_SchedulerIngester m \<Rightarrow> Some m | _ \<Rightarrow> None)\<rparr>"

definition QueueCellTag :: "('x cell, ('x, 'x QueueMem) resource) tag" where
  "QueueCellTag =
     \<lparr>tag_put = Cell_Queue,
       tag_get = (\<lambda>c. case c of Cell_Queue m \<Rightarrow> Some m | _ \<Rightarrow> None)\<rparr>"

definition ArmadaServerTag :: "('x cell, 'x ArmadaServerMem) tag" where
  "ArmadaServerTag = within ArmadaServerCellTag oneTag"

definition ArmadaServersTag :: "('x cell, 'x ArmadaServerMem list) tag" where
  "ArmadaServersTag = within ArmadaServerCellTag sliceTag"

definition ArmadaServerListTag :: "('x cell, 'x ListMem) tag" where
  "ArmadaServerListTag = within ArmadaServerCellTag objectListTag"

definition BinocularsTag :: "('x cell, 'x BinocularsMem) tag" where
  "BinocularsTag = within BinocularsCellTag oneTag"

definition BinocularssTag :: "('x cell, 'x BinocularsMem list) tag" where
  "BinocularssTag = within BinocularsCellTag sliceTag"

definition BinocularsListTag :: "('x cell, 'x ListMem) tag" where
  "BinocularsListTag = within BinocularsCellTag objectListTag"

definition EventIngesterTag :: "('x cell, 'x EventIngesterMem) tag" where
  "EventIngesterTag = within EventIngesterCellTag oneTag"

definition EventIngestersTag :: "('x cell, 'x EventIngesterMem list) tag" where
  "EventIngestersTag = within EventIngesterCellTag sliceTag"

definition EventIngesterListTag :: "('x cell, 'x ListMem) tag" where
  "EventIngesterListTag = within EventIngesterCellTag objectListTag"

definition ExecutorTag :: "('x cell, 'x ExecutorMem) tag" where
  "ExecutorTag = within ExecutorCellTag oneTag"

definition ExecutorsTag :: "('x cell, 'x ExecutorMem list) tag" where
  "ExecutorsTag = within ExecutorCellTag sliceTag"

definition ExecutorListTag :: "('x cell, 'x ListMem) tag" where
  "ExecutorListTag = within ExecutorCellTag objectListTag"

definition LookoutTag :: "('x cell, 'x LookoutMem) tag" where
  "LookoutTag = within LookoutCellTag oneTag"

definition LookoutsTag :: "('x cell, 'x LookoutMem list) tag" where
  "LookoutsTag = within LookoutCellTag sliceTag"

definition LookoutListTag :: "('x cell, 'x ListMem) tag" where
  "LookoutListTag = within LookoutCellTag objectListTag"

definition LookoutIngesterTag :: "('x cell, 'x LookoutIngesterMem) tag" where
  "LookoutIngesterTag = within LookoutIngesterCellTag oneTag"

definition LookoutIngestersTag :: "('x cell, 'x LookoutIngesterMem list) tag" where
  "LookoutIngestersTag = within LookoutIngesterCellTag sliceTag"

definition LookoutIngesterListTag :: "('x cell, 'x ListMem) tag" where
  "LookoutIngesterListTag = within LookoutIngesterCellTag objectListTag"

definition SchedulerTag :: "('x cell, 'x SchedulerMem) tag" where
  "SchedulerTag = within SchedulerCellTag oneTag"

definition SchedulersTag :: "('x cell, 'x SchedulerMem list) tag" where
  "SchedulersTag = within SchedulerCellTag sliceTag"

definition SchedulerListTag :: "('x cell, 'x ListMem) tag" where
  "SchedulerListTag = within SchedulerCellTag objectListTag"

definition SchedulerIngesterTag :: "('x cell, 'x SchedulerIngesterMem) tag" where
  "SchedulerIngesterTag = within SchedulerIngesterCellTag oneTag"

definition SchedulerIngestersTag :: "('x cell, 'x SchedulerIngesterMem list) tag" where
  "SchedulerIngestersTag = within SchedulerIngesterCellTag sliceTag"

definition SchedulerIngesterListTag :: "('x cell, 'x ListMem) tag" where
  "SchedulerIngesterListTag = within SchedulerIngesterCellTag objectListTag"

definition QueueTag :: "('x cell, 'x QueueMem) tag" where
  "QueueTag = within QueueCellTag oneTag"

definition QueuesTag :: "('x cell, 'x QueueMem list) tag" where
  "QueuesTag = within QueueCellTag sliceTag"

definition QueueListTag :: "('x cell, 'x ListMem) tag" where
  "QueueListTag = within QueueCellTag objectListTag"

lemmas tag_defs =
  leafTag_def blockTag_def specTag_def ApiTag_def ApisTag_def
  oneTag_def sliceTag_def objectListTag_def ArmadaServerCellTag_def BinocularsCellTag_def
  EventIngesterCellTag_def ExecutorCellTag_def
  LookoutCellTag_def LookoutIngesterCellTag_def SchedulerCellTag_def
  SchedulerIngesterCellTag_def QueueCellTag_def int32Tag_def int64Tag_def boolTag_def
  stringTag_def DurationTag_def strmapTag_def stringsTag_def emptyTag_def
  ImageTag_def PrunerArgsTag_def
  QueueSpecTag_def AdditionalClusterRoleBindingTag_def AdditionalClusterRoleBindingsTag_def
  ObjectReferencesTag_def LocalObjectReferencesTag_def
  IngressConfigTag_def PrometheusConfigTag_def ServiceAccountConfigTag_def
  PartitionJobTableConfigTag_def PrunerConfigTag_def
  LookoutStatusTag_def CommonSpecBaseTag_def ArmadaServerSpecTag_def
  BinocularsSpecTag_def EventIngesterSpecTag_def
  ExecutorSpecTag_def LookoutSpecTag_def LookoutIngesterSpecTag_def
  SchedulerSpecTag_def SchedulerIngesterSpecTag_def
  ArmadaServerTag_def ArmadaServersTag_def ArmadaServerListTag_def
  BinocularsTag_def BinocularssTag_def BinocularsListTag_def EventIngesterTag_def EventIngestersTag_def
  EventIngesterListTag_def ExecutorTag_def ExecutorsTag_def ExecutorListTag_def LookoutTag_def
  LookoutsTag_def LookoutListTag_def LookoutIngesterTag_def LookoutIngestersTag_def LookoutIngesterListTag_def
  SchedulerTag_def SchedulersTag_def SchedulerListTag_def SchedulerIngesterTag_def SchedulerIngestersTag_def
  SchedulerIngesterListTag_def QueueTag_def QueuesTag_def QueueListTag_def

lemma tags [copier_intros]:
  "tagged int32Tag"
  "tagged int64Tag"
  "tagged boolTag"
  "tagged stringTag"
  "tagged DurationTag"
  "tagged strmapTag"
  "tagged stringsTag"
  "tagged emptyTag"
  "tagged ImageTag"
  "tagged PrunerArgsTag"
  "tagged QueueSpecTag"
  "tagged AdditionalClusterRoleBindingTag"
  "tagged AdditionalClusterRoleBindingsTag"
  "tagged ObjectReferencesTag"
  "tagged LocalObjectReferencesTag"
  "tagged IngressConfigTag"
  "tagged PrometheusConfigTag"
  "tagged ServiceAccountConfigTag"
  "tagged PartitionJobTableConfigTag"
  "tagged PrunerConfigTag"
  "tagged LookoutStatusTag"
  "tagged CommonSpecBaseTag"
  "tagged ArmadaServerSpecTag"
  "tagged BinocularsSpecTag"
  "tagged EventIngesterSpecTag"
  "tagged ExecutorSpecTag"
  "tagged LookoutSpecTag"
  "tagged LookoutIngesterSpecTag"
  "tagged SchedulerSpecTag"
  "tagged SchedulerIngesterSpecTag"
  "tagged ArmadaServerTag"
  "tagged ArmadaServersTag"
  "tagged ArmadaServerListTag"
  "tagged BinocularsTag"
  "tagged BinocularssTag"
  "tagged BinocularsListTag"
  "tagged EventIngesterTag"
  "tagged EventIngestersTag"
  "tagged EventIngesterListTag"
  "tagged ExecutorTag"
  "tagged ExecutorsTag"
  "tagged ExecutorListTag"
  "tagged LookoutTag"
  "tagged LookoutsTag"
  "tagged LookoutListTag"
  "tagged LookoutIngesterTag"
  "tagged LookoutIngestersTag"
  "tagged LookoutIngesterListTag"
  "tagged SchedulerTag"
  "tagged SchedulersTag"
  "tagged SchedulerListTag"
  "tagged SchedulerIngesterTag"
  "tagged SchedulerIngestersTag"
  "tagged SchedulerIngesterListTag"
  "tagged QueueTag"
  "tagged QueuesTag"
  "tagged QueueListTag"
  "tagged ApiTag"
  "tagged ApisTag"
  by (simp_all add: tag_defs within_def tagged_def)
section \<open>Types of the Kubernetes libraries\<close>

text \<open>
  The structs of the Kubernetes libraries are not under \<open>src/\<close>: their form in memory is the type
  \<open>'x\<close>, and their \<open>DeepCopyInto\<close> and the value that they stand for are parameters. The code relies
  on \<open>kubeApiLaws\<close>: their generated \<open>DeepCopyInto\<close> is a deep copy, as its documentation promises.
\<close>

record 'x kubeApi =
  ObjectMeta_view :: "'x cell cells \<Rightarrow> 'x \<Rightarrow> ObjectMeta option"
  ObjectMeta_DeepCopyInto :: "'x \<Rightarrow> ('x goMemory, 'x) action"
  ListMeta_view :: "'x cell cells \<Rightarrow> 'x \<Rightarrow> ListMeta option"
  ListMeta_DeepCopyInto :: "'x \<Rightarrow> ('x goMemory, 'x) action"
  RawExtension_view :: "'x cell cells \<Rightarrow> 'x \<Rightarrow> bytes option"
  RawExtension_DeepCopyInto :: "'x \<Rightarrow> ('x goMemory, 'x) action"
  ResourceRequirements_view :: "'x cell cells \<Rightarrow> 'x \<Rightarrow> ResourceRequirements option"
  ResourceRequirements_DeepCopyInto :: "'x \<Rightarrow> ('x goMemory, 'x) action"
  Toleration_view :: "'x cell cells \<Rightarrow> 'x \<Rightarrow> Toleration option"
  Toleration_DeepCopyInto :: "'x \<Rightarrow> ('x goMemory, 'x) action"
  EnvVar_view :: "'x cell cells \<Rightarrow> 'x \<Rightarrow> EnvVar option"
  EnvVar_DeepCopyInto :: "'x \<Rightarrow> ('x goMemory, 'x) action"
  Volume_view :: "'x cell cells \<Rightarrow> 'x \<Rightarrow> Volume option"
  Volume_DeepCopyInto :: "'x \<Rightarrow> ('x goMemory, 'x) action"
  VolumeMount_view :: "'x cell cells \<Rightarrow> 'x \<Rightarrow> VolumeMount option"
  VolumeMount_DeepCopyInto :: "'x \<Rightarrow> ('x goMemory, 'x) action"
  SecurityContext_view :: "'x cell cells \<Rightarrow> 'x \<Rightarrow> SecurityContext option"
  SecurityContext_DeepCopyInto :: "'x \<Rightarrow> ('x goMemory, 'x) action"
  PodSecurityContext_view :: "'x cell cells \<Rightarrow> 'x \<Rightarrow> PodSecurityContext option"
  PodSecurityContext_DeepCopyInto :: "'x \<Rightarrow> ('x goMemory, 'x) action"
  Condition_view :: "'x cell cells \<Rightarrow> 'x \<Rightarrow> Condition option"
  Condition_DeepCopyInto :: "'x \<Rightarrow> ('x goMemory, 'x) action"

definition kubeApiLaws :: "'x kubeApi \<Rightarrow> bool" where
  "kubeApiLaws k8s \<longleftrightarrow>
     deepCopier (ObjectMeta_view k8s) (ObjectMeta_DeepCopyInto k8s) \<and>
     deepCopier (ListMeta_view k8s) (ListMeta_DeepCopyInto k8s) \<and>
     deepCopier (RawExtension_view k8s) (RawExtension_DeepCopyInto k8s) \<and>
     deepCopier (ResourceRequirements_view k8s) (ResourceRequirements_DeepCopyInto k8s) \<and>
     deepCopier (Toleration_view k8s) (Toleration_DeepCopyInto k8s) \<and>
     deepCopier (EnvVar_view k8s) (EnvVar_DeepCopyInto k8s) \<and>
     deepCopier (Volume_view k8s) (Volume_DeepCopyInto k8s) \<and>
     deepCopier (VolumeMount_view k8s) (VolumeMount_DeepCopyInto k8s) \<and>
     deepCopier (SecurityContext_view k8s) (SecurityContext_DeepCopyInto k8s) \<and>
     deepCopier (PodSecurityContext_view k8s) (PodSecurityContext_DeepCopyInto k8s) \<and>
     deepCopier (Condition_view k8s) (Condition_DeepCopyInto k8s)"

lemma kubeApi_copiers [copier_intros]:
  assumes "kubeApiLaws k8s"
  shows
    "deepCopier (ObjectMeta_view k8s) (ObjectMeta_DeepCopyInto k8s)"
    "deepCopier (ListMeta_view k8s) (ListMeta_DeepCopyInto k8s)"
    "deepCopier (RawExtension_view k8s) (RawExtension_DeepCopyInto k8s)"
    "deepCopier (ResourceRequirements_view k8s) (ResourceRequirements_DeepCopyInto k8s)"
    "deepCopier (Toleration_view k8s) (Toleration_DeepCopyInto k8s)"
    "deepCopier (EnvVar_view k8s) (EnvVar_DeepCopyInto k8s)"
    "deepCopier (Volume_view k8s) (Volume_DeepCopyInto k8s)"
    "deepCopier (VolumeMount_view k8s) (VolumeMount_DeepCopyInto k8s)"
    "deepCopier (SecurityContext_view k8s) (SecurityContext_DeepCopyInto k8s)"
    "deepCopier (PodSecurityContext_view k8s) (PodSecurityContext_DeepCopyInto k8s)"
    "deepCopier (Condition_view k8s) (Condition_DeepCopyInto k8s)"
  using assms by (simp_all add: kubeApiLaws_def)

lemmas kubeApi_steady [steady_intros] = kubeApi_copiers [THEN deepCopier.view_steady]
lemmas kubeApi_steps [copy_steps] = kubeApi_copiers [THEN yields_field]
section \<open>The value of a struct in memory\<close>

definition IngressConfig_view ::
    "'x cell cells \<Rightarrow> IngressConfigMem \<Rightarrow> IngressConfig option" where
  "IngressConfig_view c m = do {
     labels \<leftarrow> mapView strmapTag c (icm_Labels m);
     annotations \<leftarrow> mapView strmapTag c (icm_Annotations m);
     hostnames \<leftarrow> sliceView stringsTag plainView c (icm_Hostnames m);
     Some \<lparr>ic_Labels = labels, ic_Annotations = annotations, ic_IngressClass = icm_IngressClass m,
       ic_Hostnames = hostnames, ic_ClusterIssuer = icm_ClusterIssuer m\<rparr>}"

lemma IngressConfig_steady [steady_intros]:
  "steady (\<lambda>c. IngressConfig_view c m)"
  unfolding IngressConfig_view_def by (intro steady_intros)

definition PrometheusConfig_view ::
    "'x cell cells \<Rightarrow> PrometheusConfigMem \<Rightarrow> PrometheusConfig option" where
  "PrometheusConfig_view c m = do {
     labels \<leftarrow> mapView strmapTag c (pcm_Labels m);
     scrapeInterval \<leftarrow> pointerView DurationTag plainView c (pcm_ScrapeInterval m);
     Some \<lparr>pc_Enabled = pcm_Enabled m, pc_Labels = labels, pc_ScrapeInterval = scrapeInterval\<rparr>}"

lemma PrometheusConfig_steady [steady_intros]:
  "steady (\<lambda>c. PrometheusConfig_view c m)"
  unfolding PrometheusConfig_view_def by (intro steady_intros)

definition ServiceAccountConfig_view ::
    "'x cell cells \<Rightarrow> ServiceAccountConfigMem \<Rightarrow> ServiceAccountConfig option" where
  "ServiceAccountConfig_view c m = do {
     secrets \<leftarrow> sliceView ObjectReferencesTag plainView c (sacm_Secrets m);
     imagePullSecrets \<leftarrow> sliceView LocalObjectReferencesTag plainView c (sacm_ImagePullSecrets m);
     automountServiceAccountToken \<leftarrow>
       pointerView boolTag plainView c (sacm_AutomountServiceAccountToken m);
     Some \<lparr>sac_Secrets = secrets, sac_ImagePullSecrets = imagePullSecrets,
       sac_AutomountServiceAccountToken = automountServiceAccountToken\<rparr>}"

lemma ServiceAccountConfig_steady [steady_intros]:
  "steady (\<lambda>c. ServiceAccountConfig_view c m)"
  unfolding ServiceAccountConfig_view_def by (intro steady_intros)

definition PartitionJobTableConfig_view ::
    "'x cell cells \<Rightarrow> PartitionJobTableConfigMem \<Rightarrow> PartitionJobTableConfig option" where
  "PartitionJobTableConfig_view c m = do {
     activeDeadlineSeconds \<leftarrow> pointerView int64Tag plainView c (pjtm_ActiveDeadlineSeconds m);
     Some \<lparr>pjt_Enabled = pjtm_Enabled m, pjt_ActiveDeadlineSeconds = activeDeadlineSeconds\<rparr>}"

lemma PartitionJobTableConfig_steady [steady_intros]:
  "steady (\<lambda>c. PartitionJobTableConfig_view c m)"
  unfolding PartitionJobTableConfig_view_def by (intro steady_intros)

definition PrunerConfig_view ::
    "'x kubeApi \<Rightarrow> 'x cell cells \<Rightarrow> PrunerConfigMem \<Rightarrow>
     PrunerConfig option" where
  "PrunerConfig_view k8s c m = do {
     resources \<leftarrow> pointerView ApiTag (ResourceRequirements_view k8s) c (prnm_Resources m);
     Some \<lparr>prn_Enabled = prnm_Enabled m, prn_Schedule = prnm_Schedule m, prn_Resources = resources,
       prn_Args = prnm_Args m\<rparr>}"

lemma PrunerConfig_steady [steady_intros]:
  "kubeApiLaws k8s \<Longrightarrow> steady (\<lambda>c. PrunerConfig_view k8s c m)"
  unfolding PrunerConfig_view_def by (intro steady_intros)

definition CommonSpecBase_view ::
    "'x kubeApi \<Rightarrow> 'x cell cells \<Rightarrow> 'x CommonSpecBaseMem \<Rightarrow>
     CommonSpecBase option" where
  "CommonSpecBase_view k8s c m = do {
     labels \<leftarrow> mapView strmapTag c (csbm_Labels m);
     applicationConfig \<leftarrow> RawExtension_view k8s c (csbm_ApplicationConfig m);
     prometheus \<leftarrow> pointerView PrometheusConfigTag PrometheusConfig_view c (csbm_Prometheus m);
     resources \<leftarrow> pointerView ApiTag (ResourceRequirements_view k8s) c (csbm_Resources m);
     tolerations \<leftarrow> sliceView ApisTag (Toleration_view k8s) c (csbm_Tolerations m);
     terminationGracePeriodSeconds \<leftarrow>
       pointerView int64Tag plainView c (csbm_TerminationGracePeriodSeconds m);
     serviceAccount \<leftarrow>
       pointerView ServiceAccountConfigTag ServiceAccountConfig_view c (csbm_ServiceAccount m);
     environment \<leftarrow> sliceView ApisTag (EnvVar_view k8s) c (csbm_Environment m);
     additionalVolumes \<leftarrow> sliceView ApisTag (Volume_view k8s) c (csbm_AdditionalVolumes m);
     additionalVolumeMounts \<leftarrow>
       sliceView ApisTag (VolumeMount_view k8s) c (csbm_AdditionalVolumeMounts m);
     nodeSelector \<leftarrow> mapView strmapTag c (csbm_NodeSelector m);
     Some \<lparr>csb_Labels = labels, csb_Image = csbm_Image m, csb_ApplicationConfig = applicationConfig,
       csb_Prometheus = prometheus, csb_Resources = resources, csb_Tolerations = tolerations,
       csb_TerminationGracePeriodSeconds = terminationGracePeriodSeconds,
       csb_CustomServiceAccount = csbm_CustomServiceAccount m, csb_ServiceAccount = serviceAccount,
       csb_Environment = environment, csb_AdditionalVolumes = additionalVolumes,
       csb_AdditionalVolumeMounts = additionalVolumeMounts, csb_NodeSelector = nodeSelector,
       csb_TopologyKey = csbm_TopologyKey m\<rparr>}"

lemma CommonSpecBase_steady [steady_intros]:
  "kubeApiLaws k8s \<Longrightarrow> steady (\<lambda>c. CommonSpecBase_view k8s c m)"
  unfolding CommonSpecBase_view_def by (intro steady_intros)

definition ArmadaServerSpec_view ::
    "'x kubeApi \<Rightarrow> 'x cell cells \<Rightarrow> 'x ArmadaServerSpecMem \<Rightarrow>
     ArmadaServerSpec option" where
  "ArmadaServerSpec_view k8s c m = do {
     base \<leftarrow> CommonSpecBase_view k8s c (asm_Base m);
     replicas \<leftarrow> pointerView int32Tag plainView c (asm_Replicas m);
     nodeSelector \<leftarrow> mapView strmapTag c (asm_NodeSelector m);
     ingress \<leftarrow> pointerView IngressConfigTag IngressConfig_view c (asm_Ingress m);
     profilingIngressConfig \<leftarrow>
       pointerView IngressConfigTag IngressConfig_view c (asm_ProfilingIngressConfig m);
     hostNames \<leftarrow> sliceView stringsTag plainView c (asm_HostNames m);
     securityContext \<leftarrow> pointerView ApiTag (SecurityContext_view k8s) c (asm_SecurityContext m);
     podSecurityContext \<leftarrow>
       pointerView ApiTag (PodSecurityContext_view k8s) c (asm_PodSecurityContext m);
     Some (CommonSpecBase.extend base (ArmadaServerSpec.fields replicas nodeSelector ingress
       profilingIngressConfig hostNames (asm_ClusterIssuer m) (asm_PulsarInit m) securityContext
       podSecurityContext))}"

lemma ArmadaServerSpec_steady [steady_intros]:
  "kubeApiLaws k8s \<Longrightarrow> steady (\<lambda>c. ArmadaServerSpec_view k8s c m)"
  unfolding ArmadaServerSpec_view_def by (intro steady_intros)

definition BinocularsSpec_view ::
    "'x kubeApi \<Rightarrow> 'x cell cells \<Rightarrow> 'x BinocularsSpecMem \<Rightarrow>
     BinocularsSpec option" where
  "BinocularsSpec_view k8s c m = do {
     base \<leftarrow> CommonSpecBase_view k8s c (bnm_Base m);
     replicas \<leftarrow> pointerView int32Tag plainView c (bnm_Replicas m);
     nodeSelector \<leftarrow> mapView strmapTag c (bnm_NodeSelector m);
     ingress \<leftarrow> pointerView IngressConfigTag IngressConfig_view c (bnm_Ingress m);
     profilingIngressConfig \<leftarrow>
       pointerView IngressConfigTag IngressConfig_view c (bnm_ProfilingIngressConfig m);
     hostNames \<leftarrow> sliceView stringsTag plainView c (bnm_HostNames m);
     securityContext \<leftarrow> pointerView ApiTag (SecurityContext_view k8s) c (bnm_SecurityContext m);
     podSecurityContext \<leftarrow>
       pointerView ApiTag (PodSecurityContext_view k8s) c (bnm_PodSecurityContext m);
     Some (CommonSpecBase.extend base (BinocularsSpec.fields replicas nodeSelector ingress
       profilingIngressConfig hostNames (bnm_ClusterIssuer m) securityContext podSecurityContext))}"

lemma BinocularsSpec_steady [steady_intros]:
  "kubeApiLaws k8s \<Longrightarrow> steady (\<lambda>c. BinocularsSpec_view k8s c m)"
  unfolding BinocularsSpec_view_def by (intro steady_intros)

definition EventIngesterSpec_view ::
    "'x kubeApi \<Rightarrow> 'x cell cells \<Rightarrow> 'x EventIngesterSpecMem \<Rightarrow>
     EventIngesterSpec option" where
  "EventIngesterSpec_view k8s c m = do {
     base \<leftarrow> CommonSpecBase_view k8s c (eim_Base m);
     replicas \<leftarrow> pointerView int32Tag plainView c (eim_Replicas m);
     nodeSelector \<leftarrow> mapView strmapTag c (eim_NodeSelector m);
     securityContext \<leftarrow> pointerView ApiTag (SecurityContext_view k8s) c (eim_SecurityContext m);
     podSecurityContext \<leftarrow>
       pointerView ApiTag (PodSecurityContext_view k8s) c (eim_PodSecurityContext m);
     profilingIngressConfig \<leftarrow>
       pointerView IngressConfigTag IngressConfig_view c (eim_ProfilingIngressConfig m);
     Some (CommonSpecBase.extend base (EventIngesterSpec.fields replicas nodeSelector securityContext
       podSecurityContext profilingIngressConfig))}"

lemma EventIngesterSpec_steady [steady_intros]:
  "kubeApiLaws k8s \<Longrightarrow> steady (\<lambda>c. EventIngesterSpec_view k8s c m)"
  unfolding EventIngesterSpec_view_def by (intro steady_intros)

definition ExecutorSpec_view ::
    "'x kubeApi \<Rightarrow> 'x cell cells \<Rightarrow> 'x ExecutorSpecMem \<Rightarrow>
     ExecutorSpec option" where
  "ExecutorSpec_view k8s c m = do {
     base \<leftarrow> CommonSpecBase_view k8s c (exm_Base m);
     replicas \<leftarrow> pointerView int32Tag plainView c (exm_Replicas m);
     nodeSelector \<leftarrow> mapView strmapTag c (exm_NodeSelector m);
     additionalClusterRoleBindings \<leftarrow>
       sliceView AdditionalClusterRoleBindingsTag plainView c (exm_AdditionalClusterRoleBindings m);
     securityContext \<leftarrow> pointerView ApiTag (SecurityContext_view k8s) c (exm_SecurityContext m);
     podSecurityContext \<leftarrow>
       pointerView ApiTag (PodSecurityContext_view k8s) c (exm_PodSecurityContext m);
     profilingIngressConfig \<leftarrow>
       pointerView IngressConfigTag IngressConfig_view c (exm_ProfilingIngressConfig m);
     Some (CommonSpecBase.extend base (ExecutorSpec.fields replicas nodeSelector
       additionalClusterRoleBindings securityContext podSecurityContext profilingIngressConfig))}"

lemma ExecutorSpec_steady [steady_intros]:
  "kubeApiLaws k8s \<Longrightarrow> steady (\<lambda>c. ExecutorSpec_view k8s c m)"
  unfolding ExecutorSpec_view_def by (intro steady_intros)

definition LookoutSpec_view ::
    "'x kubeApi \<Rightarrow> 'x cell cells \<Rightarrow> 'x LookoutSpecMem \<Rightarrow>
     LookoutSpec option" where
  "LookoutSpec_view k8s c m = do {
     base \<leftarrow> CommonSpecBase_view k8s c (lkm_Base m);
     replicas \<leftarrow> pointerView int32Tag plainView c (lkm_Replicas m);
     nodeSelector \<leftarrow> mapView strmapTag c (lkm_NodeSelector m);
     ingress \<leftarrow> pointerView IngressConfigTag IngressConfig_view c (lkm_Ingress m);
     hostNames \<leftarrow> sliceView stringsTag plainView c (lkm_HostNames m);
     migrate \<leftarrow> pointerView boolTag plainView c (lkm_Migrate m);
     migrationDbWaitImage \<leftarrow> pointerView ImageTag plainView c (lkm_MigrationDbWaitImage m);
     dbPruningEnabled \<leftarrow> pointerView boolTag plainView c (lkm_DbPruningEnabled m);
     dbPruningSchedule \<leftarrow> pointerView stringTag plainView c (lkm_DbPruningSchedule m);
     securityContext \<leftarrow> pointerView ApiTag (SecurityContext_view k8s) c (lkm_SecurityContext m);
     podSecurityContext \<leftarrow>
       pointerView ApiTag (PodSecurityContext_view k8s) c (lkm_PodSecurityContext m);
     profilingIngressConfig \<leftarrow>
       pointerView IngressConfigTag IngressConfig_view c (lkm_ProfilingIngressConfig m);
     partitionJobTable \<leftarrow>
       pointerView PartitionJobTableConfigTag PartitionJobTableConfig_view c (lkm_PartitionJobTable m);
     Some (CommonSpecBase.extend base (LookoutSpec.fields replicas nodeSelector ingress hostNames
       (lkm_ClusterIssuer m) migrate migrationDbWaitImage dbPruningEnabled dbPruningSchedule
       securityContext podSecurityContext profilingIngressConfig partitionJobTable))}"

lemma LookoutSpec_steady [steady_intros]:
  "kubeApiLaws k8s \<Longrightarrow> steady (\<lambda>c. LookoutSpec_view k8s c m)"
  unfolding LookoutSpec_view_def by (intro steady_intros)

definition LookoutIngesterSpec_view ::
    "'x kubeApi \<Rightarrow> 'x cell cells \<Rightarrow> 'x LookoutIngesterSpecMem \<Rightarrow>
     LookoutIngesterSpec option" where
  "LookoutIngesterSpec_view k8s c m = do {
     base \<leftarrow> CommonSpecBase_view k8s c (lim_Base m);
     replicas \<leftarrow> pointerView int32Tag plainView c (lim_Replicas m);
     securityContext \<leftarrow> pointerView ApiTag (SecurityContext_view k8s) c (lim_SecurityContext m);
     podSecurityContext \<leftarrow>
       pointerView ApiTag (PodSecurityContext_view k8s) c (lim_PodSecurityContext m);
     profilingIngressConfig \<leftarrow>
       pointerView IngressConfigTag IngressConfig_view c (lim_ProfilingIngressConfig m);
     Some (CommonSpecBase.extend base (LookoutIngesterSpec.fields replicas securityContext
       podSecurityContext profilingIngressConfig))}"

lemma LookoutIngesterSpec_steady [steady_intros]:
  "kubeApiLaws k8s \<Longrightarrow> steady (\<lambda>c. LookoutIngesterSpec_view k8s c m)"
  unfolding LookoutIngesterSpec_view_def by (intro steady_intros)

definition SchedulerSpec_view ::
    "'x kubeApi \<Rightarrow> 'x cell cells \<Rightarrow> 'x SchedulerSpecMem \<Rightarrow>
     SchedulerSpec option" where
  "SchedulerSpec_view k8s c m = do {
     base \<leftarrow> CommonSpecBase_view k8s c (sdm_Base m);
     replicas \<leftarrow> pointerView int32Tag plainView c (sdm_Replicas m);
     ingress \<leftarrow> pointerView IngressConfigTag IngressConfig_view c (sdm_Ingress m);
     profilingIngressConfig \<leftarrow>
       pointerView IngressConfigTag IngressConfig_view c (sdm_ProfilingIngressConfig m);
     hostNames \<leftarrow> sliceView stringsTag plainView c (sdm_HostNames m);
     migrate \<leftarrow> pointerView boolTag plainView c (sdm_Migrate m);
     migrationDbWaitImage \<leftarrow> pointerView ImageTag plainView c (sdm_MigrationDbWaitImage m);
     pruner \<leftarrow> pointerView PrunerConfigTag (PrunerConfig_view k8s) c (sdm_Pruner m);
     securityContext \<leftarrow> pointerView ApiTag (SecurityContext_view k8s) c (sdm_SecurityContext m);
     podSecurityContext \<leftarrow>
       pointerView ApiTag (PodSecurityContext_view k8s) c (sdm_PodSecurityContext m);
     Some (CommonSpecBase.extend base (SchedulerSpec.fields replicas ingress profilingIngressConfig
       hostNames (sdm_ClusterIssuer m) migrate migrationDbWaitImage pruner securityContext
       podSecurityContext))}"

lemma SchedulerSpec_steady [steady_intros]:
  "kubeApiLaws k8s \<Longrightarrow> steady (\<lambda>c. SchedulerSpec_view k8s c m)"
  unfolding SchedulerSpec_view_def by (intro steady_intros)

definition SchedulerIngesterSpec_view ::
    "'x kubeApi \<Rightarrow> 'x cell cells \<Rightarrow> 'x SchedulerIngesterSpecMem \<Rightarrow>
     SchedulerIngesterSpec option" where
  "SchedulerIngesterSpec_view k8s c m = do {
     base \<leftarrow> CommonSpecBase_view k8s c (sim_Base m);
     replicas \<leftarrow> pointerView int32Tag plainView c (sim_Replicas m);
     securityContext \<leftarrow> pointerView ApiTag (SecurityContext_view k8s) c (sim_SecurityContext m);
     podSecurityContext \<leftarrow>
       pointerView ApiTag (PodSecurityContext_view k8s) c (sim_PodSecurityContext m);
     profilingIngressConfig \<leftarrow>
       pointerView IngressConfigTag IngressConfig_view c (sim_ProfilingIngressConfig m);
     Some (CommonSpecBase.extend base (SchedulerIngesterSpec.fields replicas securityContext
       podSecurityContext profilingIngressConfig))}"

lemma SchedulerIngesterSpec_steady [steady_intros]:
  "kubeApiLaws k8s \<Longrightarrow> steady (\<lambda>c. SchedulerIngesterSpec_view k8s c m)"
  unfolding SchedulerIngesterSpec_view_def by (intro steady_intros)

definition LookoutStatus_view ::
    "'x kubeApi \<Rightarrow> 'x cell cells \<Rightarrow> LookoutStatusMem \<Rightarrow>
     LookoutStatus option" where
  "LookoutStatus_view k8s c m = do {
     conditions \<leftarrow> sliceView ApisTag (Condition_view k8s) c (lstm_Conditions m);
     Some \<lparr>lst_Conditions = conditions\<rparr>}"

lemma LookoutStatus_steady [steady_intros]:
  "kubeApiLaws k8s \<Longrightarrow> steady (\<lambda>c. LookoutStatus_view k8s c m)"
  unfolding LookoutStatus_view_def by (intro steady_intros)

end
