(* ===== verification/DeepCopy.thy ===== *)
theory DeepCopy
  imports ApiMemory
begin

text \<open>
  The deep copies of \<open>zz_generated.deepcopy.go\<close>, of both API groups: \<open>DeepCopyInto\<close>, \<open>DeepCopy\<close> and
  \<open>DeepCopyObject\<close> of every struct. \<open>*out = *in\<close> is the struct \<open>m\<close>, and every field that the code
  copies deeper is overwritten in it, in the code's order. \<open>DeepCopy\<close> of a pointer is \<open>copyPointer\<close>: nil for nil,
  and otherwise a new struct that \<open>DeepCopyInto\<close> fills. The lemmas show that each is a
  \<open>deepCopier\<close>: no pointer, map or slice of the types is left shared.
\<close>

section \<open>Structs without pointers\<close>

definition Image_DeepCopyInto :: "Image \<Rightarrow> ('x goMemory, Image) action" where
  "Image_DeepCopyInto m = plainCopy m"

definition Image_DeepCopy :: "ref option \<Rightarrow> ('x goMemory, ref option) action" where
  "Image_DeepCopy p = copyPointer ImageTag Image_DeepCopyInto p"

definition AdditionalClusterRoleBinding_DeepCopyInto ::
    "AdditionalClusterRoleBinding \<Rightarrow> ('x goMemory, AdditionalClusterRoleBinding) action" where
  "AdditionalClusterRoleBinding_DeepCopyInto m = plainCopy m"

definition AdditionalClusterRoleBinding_DeepCopy ::
    "ref option \<Rightarrow> ('x goMemory, ref option) action" where
  "AdditionalClusterRoleBinding_DeepCopy p =
     copyPointer AdditionalClusterRoleBindingTag AdditionalClusterRoleBinding_DeepCopyInto p"

definition PrunerArgs_DeepCopyInto :: "PrunerArgs \<Rightarrow> ('x goMemory, PrunerArgs) action" where
  "PrunerArgs_DeepCopyInto m = plainCopy m"

definition PrunerArgs_DeepCopy :: "ref option \<Rightarrow> ('x goMemory, ref option) action" where
  "PrunerArgs_DeepCopy p = copyPointer PrunerArgsTag PrunerArgs_DeepCopyInto p"

definition QueueSpec_DeepCopyInto :: "QueueSpec \<Rightarrow> ('x goMemory, QueueSpec) action" where
  "QueueSpec_DeepCopyInto m = plainCopy m"

definition QueueSpec_DeepCopy :: "ref option \<Rightarrow> ('x goMemory, ref option) action" where
  "QueueSpec_DeepCopy p = copyPointer QueueSpecTag QueueSpec_DeepCopyInto p"

text \<open>The empty structs: statuses, defaulters and validators.\<close>

definition ArmadaServerStatus_DeepCopyInto :: "unit \<Rightarrow> ('x goMemory, unit) action" where
  "ArmadaServerStatus_DeepCopyInto m = plainCopy m"

definition ArmadaServerStatus_DeepCopy :: "ref option \<Rightarrow> ('x goMemory, ref option) action" where
  "ArmadaServerStatus_DeepCopy p = copyPointer emptyTag ArmadaServerStatus_DeepCopyInto p"

definition BinocularsStatus_DeepCopyInto :: "unit \<Rightarrow> ('x goMemory, unit) action" where
  "BinocularsStatus_DeepCopyInto m = plainCopy m"

definition BinocularsStatus_DeepCopy :: "ref option \<Rightarrow> ('x goMemory, ref option) action" where
  "BinocularsStatus_DeepCopy p = copyPointer emptyTag BinocularsStatus_DeepCopyInto p"

definition EventIngesterStatus_DeepCopyInto :: "unit \<Rightarrow> ('x goMemory, unit) action" where
  "EventIngesterStatus_DeepCopyInto m = plainCopy m"

definition EventIngesterStatus_DeepCopy :: "ref option \<Rightarrow> ('x goMemory, ref option) action" where
  "EventIngesterStatus_DeepCopy p = copyPointer emptyTag EventIngesterStatus_DeepCopyInto p"

definition ExecutorStatus_DeepCopyInto :: "unit \<Rightarrow> ('x goMemory, unit) action" where
  "ExecutorStatus_DeepCopyInto m = plainCopy m"

definition ExecutorStatus_DeepCopy :: "ref option \<Rightarrow> ('x goMemory, ref option) action" where
  "ExecutorStatus_DeepCopy p = copyPointer emptyTag ExecutorStatus_DeepCopyInto p"

definition LookoutIngesterStatus_DeepCopyInto :: "unit \<Rightarrow> ('x goMemory, unit) action" where
  "LookoutIngesterStatus_DeepCopyInto m = plainCopy m"

definition LookoutIngesterStatus_DeepCopy :: "ref option \<Rightarrow> ('x goMemory, ref option) action" where
  "LookoutIngesterStatus_DeepCopy p = copyPointer emptyTag LookoutIngesterStatus_DeepCopyInto p"

definition SchedulerStatus_DeepCopyInto :: "unit \<Rightarrow> ('x goMemory, unit) action" where
  "SchedulerStatus_DeepCopyInto m = plainCopy m"

definition SchedulerStatus_DeepCopy :: "ref option \<Rightarrow> ('x goMemory, ref option) action" where
  "SchedulerStatus_DeepCopy p = copyPointer emptyTag SchedulerStatus_DeepCopyInto p"

definition SchedulerIngesterStatus_DeepCopyInto :: "unit \<Rightarrow> ('x goMemory, unit) action" where
  "SchedulerIngesterStatus_DeepCopyInto m = plainCopy m"

definition SchedulerIngesterStatus_DeepCopy :: "ref option \<Rightarrow> ('x goMemory, ref option) action" where
  "SchedulerIngesterStatus_DeepCopy p = copyPointer emptyTag SchedulerIngesterStatus_DeepCopyInto p"

definition QueueStatus_DeepCopyInto :: "unit \<Rightarrow> ('x goMemory, unit) action" where
  "QueueStatus_DeepCopyInto m = plainCopy m"

definition QueueStatus_DeepCopy :: "ref option \<Rightarrow> ('x goMemory, ref option) action" where
  "QueueStatus_DeepCopy p = copyPointer emptyTag QueueStatus_DeepCopyInto p"

definition ArmadaServerDefaulter_DeepCopyInto :: "unit \<Rightarrow> ('x goMemory, unit) action" where
  "ArmadaServerDefaulter_DeepCopyInto m = plainCopy m"

definition ArmadaServerDefaulter_DeepCopy :: "ref option \<Rightarrow> ('x goMemory, ref option) action" where
  "ArmadaServerDefaulter_DeepCopy p = copyPointer emptyTag ArmadaServerDefaulter_DeepCopyInto p"

definition BinocularsDefaulter_DeepCopyInto :: "unit \<Rightarrow> ('x goMemory, unit) action" where
  "BinocularsDefaulter_DeepCopyInto m = plainCopy m"

definition BinocularsDefaulter_DeepCopy :: "ref option \<Rightarrow> ('x goMemory, ref option) action" where
  "BinocularsDefaulter_DeepCopy p = copyPointer emptyTag BinocularsDefaulter_DeepCopyInto p"

definition EventIngesterDefaulter_DeepCopyInto :: "unit \<Rightarrow> ('x goMemory, unit) action" where
  "EventIngesterDefaulter_DeepCopyInto m = plainCopy m"

definition EventIngesterDefaulter_DeepCopy :: "ref option \<Rightarrow> ('x goMemory, ref option) action" where
  "EventIngesterDefaulter_DeepCopy p = copyPointer emptyTag EventIngesterDefaulter_DeepCopyInto p"

definition ExecutorDefaulter_DeepCopyInto :: "unit \<Rightarrow> ('x goMemory, unit) action" where
  "ExecutorDefaulter_DeepCopyInto m = plainCopy m"

definition ExecutorDefaulter_DeepCopy :: "ref option \<Rightarrow> ('x goMemory, ref option) action" where
  "ExecutorDefaulter_DeepCopy p = copyPointer emptyTag ExecutorDefaulter_DeepCopyInto p"

definition LookoutDefaulter_DeepCopyInto :: "unit \<Rightarrow> ('x goMemory, unit) action" where
  "LookoutDefaulter_DeepCopyInto m = plainCopy m"

definition LookoutDefaulter_DeepCopy :: "ref option \<Rightarrow> ('x goMemory, ref option) action" where
  "LookoutDefaulter_DeepCopy p = copyPointer emptyTag LookoutDefaulter_DeepCopyInto p"

definition LookoutIngesterDefaulter_DeepCopyInto :: "unit \<Rightarrow> ('x goMemory, unit) action" where
  "LookoutIngesterDefaulter_DeepCopyInto m = plainCopy m"

definition LookoutIngesterDefaulter_DeepCopy ::
    "ref option \<Rightarrow> ('x goMemory, ref option) action" where
  "LookoutIngesterDefaulter_DeepCopy p = copyPointer emptyTag LookoutIngesterDefaulter_DeepCopyInto p"

definition SchedulerDefaulter_DeepCopyInto :: "unit \<Rightarrow> ('x goMemory, unit) action" where
  "SchedulerDefaulter_DeepCopyInto m = plainCopy m"

definition SchedulerDefaulter_DeepCopy :: "ref option \<Rightarrow> ('x goMemory, ref option) action" where
  "SchedulerDefaulter_DeepCopy p = copyPointer emptyTag SchedulerDefaulter_DeepCopyInto p"

definition SchedulerIngesterDefaulter_DeepCopyInto :: "unit \<Rightarrow> ('x goMemory, unit) action" where
  "SchedulerIngesterDefaulter_DeepCopyInto m = plainCopy m"

definition SchedulerIngesterDefaulter_DeepCopy ::
    "ref option \<Rightarrow> ('x goMemory, ref option) action" where
  "SchedulerIngesterDefaulter_DeepCopy p = copyPointer emptyTag SchedulerIngesterDefaulter_DeepCopyInto p"

definition ArmadaServerValidator_DeepCopyInto :: "unit \<Rightarrow> ('x goMemory, unit) action" where
  "ArmadaServerValidator_DeepCopyInto m = plainCopy m"

definition ArmadaServerValidator_DeepCopy :: "ref option \<Rightarrow> ('x goMemory, ref option) action" where
  "ArmadaServerValidator_DeepCopy p = copyPointer emptyTag ArmadaServerValidator_DeepCopyInto p"

definition EventIngesterValidator_DeepCopyInto :: "unit \<Rightarrow> ('x goMemory, unit) action" where
  "EventIngesterValidator_DeepCopyInto m = plainCopy m"

definition EventIngesterValidator_DeepCopy :: "ref option \<Rightarrow> ('x goMemory, ref option) action" where
  "EventIngesterValidator_DeepCopy p = copyPointer emptyTag EventIngesterValidator_DeepCopyInto p"

definition ExecutorValidator_DeepCopyInto :: "unit \<Rightarrow> ('x goMemory, unit) action" where
  "ExecutorValidator_DeepCopyInto m = plainCopy m"

definition ExecutorValidator_DeepCopy :: "ref option \<Rightarrow> ('x goMemory, ref option) action" where
  "ExecutorValidator_DeepCopy p = copyPointer emptyTag ExecutorValidator_DeepCopyInto p"

definition LookoutIngesterValidator_DeepCopyInto :: "unit \<Rightarrow> ('x goMemory, unit) action" where
  "LookoutIngesterValidator_DeepCopyInto m = plainCopy m"

definition LookoutIngesterValidator_DeepCopy ::
    "ref option \<Rightarrow> ('x goMemory, ref option) action" where
  "LookoutIngesterValidator_DeepCopy p = copyPointer emptyTag LookoutIngesterValidator_DeepCopyInto p"

definition SchedulerIngesterValidator_DeepCopyInto :: "unit \<Rightarrow> ('x goMemory, unit) action" where
  "SchedulerIngesterValidator_DeepCopyInto m = plainCopy m"

definition SchedulerIngesterValidator_DeepCopy ::
    "ref option \<Rightarrow> ('x goMemory, ref option) action" where
  "SchedulerIngesterValidator_DeepCopy p = copyPointer emptyTag SchedulerIngesterValidator_DeepCopyInto p"

section \<open>Structs with pointers\<close>
definition IngressConfig_DeepCopyInto ::
    "IngressConfigMem \<Rightarrow> ('x goMemory, IngressConfigMem) action" where
  "IngressConfig_DeepCopyInto m =
     andThenA (copyMap strmapTag (icm_Labels m)) (\<lambda>labels.
     andThenA (copyMap strmapTag (icm_Annotations m)) (\<lambda>annotations.
     andThenA (copySlice stringsTag plainCopy (icm_Hostnames m)) (\<lambda>hostnames.
     returnA (m\<lparr>icm_Labels := labels, icm_Annotations := annotations,
       icm_Hostnames := hostnames\<rparr>))))"

definition IngressConfig_DeepCopy :: "ref option \<Rightarrow> ('x goMemory, ref option) action" where
  "IngressConfig_DeepCopy p = copyPointer IngressConfigTag IngressConfig_DeepCopyInto p"

lemma IngressConfig_copier [copier_intros]:
  "deepCopier IngressConfig_view IngressConfig_DeepCopyInto"
  by unfold_locales
    (intro steady_intros,
     auto simp: IngressConfig_DeepCopyInto_def IngressConfig_view_def bind_eq_Some_conv
       intro!: copy_steps copier_intros yields_return)

lemmas IngressConfig_step [copy_steps] = yields_field [OF IngressConfig_copier]

definition PrometheusConfig_DeepCopyInto ::
    "PrometheusConfigMem \<Rightarrow> ('x goMemory, PrometheusConfigMem) action" where
  "PrometheusConfig_DeepCopyInto m =
     andThenA (copyMap strmapTag (pcm_Labels m)) (\<lambda>labels.
     andThenA (copyPointer DurationTag plainCopy (pcm_ScrapeInterval m)) (\<lambda>scrapeInterval.
     returnA (m\<lparr>pcm_Labels := labels, pcm_ScrapeInterval := scrapeInterval\<rparr>)))"

definition PrometheusConfig_DeepCopy :: "ref option \<Rightarrow> ('x goMemory, ref option) action" where
  "PrometheusConfig_DeepCopy p = copyPointer PrometheusConfigTag PrometheusConfig_DeepCopyInto p"

lemma PrometheusConfig_copier [copier_intros]:
  "deepCopier PrometheusConfig_view PrometheusConfig_DeepCopyInto"
  by unfold_locales
    (intro steady_intros,
     auto simp: PrometheusConfig_DeepCopyInto_def PrometheusConfig_view_def bind_eq_Some_conv
       intro!: copy_steps copier_intros yields_return)

lemmas PrometheusConfig_step [copy_steps] = yields_field [OF PrometheusConfig_copier]

definition ServiceAccountConfig_DeepCopyInto ::
    "ServiceAccountConfigMem \<Rightarrow> ('x goMemory, ServiceAccountConfigMem) action" where
  "ServiceAccountConfig_DeepCopyInto m =
     andThenA (copySlice ObjectReferencesTag plainCopy (sacm_Secrets m)) (\<lambda>secrets.
     andThenA (copySlice LocalObjectReferencesTag plainCopy (sacm_ImagePullSecrets m))
       (\<lambda>imagePullSecrets.
     andThenA (copyPointer boolTag plainCopy (sacm_AutomountServiceAccountToken m))
       (\<lambda>automountServiceAccountToken.
     returnA (m\<lparr>sacm_Secrets := secrets, sacm_ImagePullSecrets := imagePullSecrets,
       sacm_AutomountServiceAccountToken := automountServiceAccountToken\<rparr>))))"

definition ServiceAccountConfig_DeepCopy :: "ref option \<Rightarrow> ('x goMemory, ref option) action" where
  "ServiceAccountConfig_DeepCopy p = copyPointer ServiceAccountConfigTag ServiceAccountConfig_DeepCopyInto p"

lemma ServiceAccountConfig_copier [copier_intros]:
  "deepCopier ServiceAccountConfig_view ServiceAccountConfig_DeepCopyInto"
  by unfold_locales
    (intro steady_intros,
     auto simp: ServiceAccountConfig_DeepCopyInto_def ServiceAccountConfig_view_def bind_eq_Some_conv
       intro!: copy_steps copier_intros yields_return)

lemmas ServiceAccountConfig_step [copy_steps] = yields_field [OF ServiceAccountConfig_copier]

definition PartitionJobTableConfig_DeepCopyInto ::
    "PartitionJobTableConfigMem \<Rightarrow> ('x goMemory, PartitionJobTableConfigMem) action" where
  "PartitionJobTableConfig_DeepCopyInto m =
     andThenA (copyPointer int64Tag plainCopy (pjtm_ActiveDeadlineSeconds m)) (\<lambda>activeDeadlineSeconds.
     returnA (m\<lparr>pjtm_ActiveDeadlineSeconds := activeDeadlineSeconds\<rparr>))"

definition PartitionJobTableConfig_DeepCopy :: "ref option \<Rightarrow> ('x goMemory, ref option) action" where
  "PartitionJobTableConfig_DeepCopy p =
     copyPointer PartitionJobTableConfigTag PartitionJobTableConfig_DeepCopyInto p"

lemma PartitionJobTableConfig_copier [copier_intros]:
  "deepCopier PartitionJobTableConfig_view PartitionJobTableConfig_DeepCopyInto"
  by unfold_locales
    (intro steady_intros,
     auto simp: PartitionJobTableConfig_DeepCopyInto_def PartitionJobTableConfig_view_def bind_eq_Some_conv
       intro!: copy_steps copier_intros yields_return)

lemmas PartitionJobTableConfig_step [copy_steps] = yields_field [OF PartitionJobTableConfig_copier]

definition PrunerConfig_DeepCopyInto ::
    "'x kubeApi \<Rightarrow> PrunerConfigMem \<Rightarrow> ('x goMemory, PrunerConfigMem) action" where
  "PrunerConfig_DeepCopyInto k8s m =
     andThenA (copyPointer ApiTag (ResourceRequirements_DeepCopyInto k8s) (prnm_Resources m))
       (\<lambda>resources.
     returnA (m\<lparr>prnm_Resources := resources\<rparr>))"

definition PrunerConfig_DeepCopy ::
    "'x kubeApi \<Rightarrow> ref option \<Rightarrow> ('x goMemory, ref option) action" where
  "PrunerConfig_DeepCopy k8s p = copyPointer PrunerConfigTag (PrunerConfig_DeepCopyInto k8s) p"

lemma PrunerConfig_copier [copier_intros]:
  assumes "kubeApiLaws k8s"
  shows "deepCopier (PrunerConfig_view k8s) (PrunerConfig_DeepCopyInto k8s)"
  by unfold_locales
    (intro steady_intros assms,
     auto simp: PrunerConfig_DeepCopyInto_def PrunerConfig_view_def bind_eq_Some_conv
       intro!: copy_steps copier_intros yields_return assms)

lemmas PrunerConfig_step [copy_steps] = yields_field [OF PrunerConfig_copier]

definition CommonSpecBase_DeepCopyInto ::
    "'x kubeApi \<Rightarrow> 'x CommonSpecBaseMem \<Rightarrow>
     ('x goMemory, 'x CommonSpecBaseMem) action" where
  "CommonSpecBase_DeepCopyInto k8s m =
     andThenA (copyMap strmapTag (csbm_Labels m)) (\<lambda>labels.
     andThenA (RawExtension_DeepCopyInto k8s (csbm_ApplicationConfig m)) (\<lambda>applicationConfig.
     andThenA (copyPointer PrometheusConfigTag PrometheusConfig_DeepCopyInto (csbm_Prometheus m))
       (\<lambda>prometheus.
     andThenA (copyPointer ApiTag (ResourceRequirements_DeepCopyInto k8s) (csbm_Resources m))
       (\<lambda>resources.
     andThenA (copySlice ApisTag (Toleration_DeepCopyInto k8s) (csbm_Tolerations m)) (\<lambda>tolerations.
     andThenA (copyPointer int64Tag plainCopy (csbm_TerminationGracePeriodSeconds m))
       (\<lambda>terminationGracePeriodSeconds.
     andThenA (copyPointer ServiceAccountConfigTag ServiceAccountConfig_DeepCopyInto (csbm_ServiceAccount m))
       (\<lambda>serviceAccount.
     andThenA (copySlice ApisTag (EnvVar_DeepCopyInto k8s) (csbm_Environment m)) (\<lambda>environment.
     andThenA (copySlice ApisTag (Volume_DeepCopyInto k8s) (csbm_AdditionalVolumes m))
       (\<lambda>additionalVolumes.
     andThenA (copySlice ApisTag (VolumeMount_DeepCopyInto k8s) (csbm_AdditionalVolumeMounts m))
       (\<lambda>additionalVolumeMounts.
     andThenA (copyMap strmapTag (csbm_NodeSelector m)) (\<lambda>nodeSelector.
     returnA (m\<lparr>csbm_Labels := labels, csbm_ApplicationConfig := applicationConfig,
       csbm_Prometheus := prometheus, csbm_Resources := resources,
       csbm_Tolerations := tolerations,
       csbm_TerminationGracePeriodSeconds := terminationGracePeriodSeconds,
       csbm_ServiceAccount := serviceAccount, csbm_Environment := environment,
       csbm_AdditionalVolumes := additionalVolumes,
       csbm_AdditionalVolumeMounts := additionalVolumeMounts,
       csbm_NodeSelector := nodeSelector\<rparr>))))))))))))"

definition CommonSpecBase_DeepCopy ::
    "'x kubeApi \<Rightarrow> ref option \<Rightarrow> ('x goMemory, ref option) action" where
  "CommonSpecBase_DeepCopy k8s p = copyPointer CommonSpecBaseTag (CommonSpecBase_DeepCopyInto k8s) p"

lemma CommonSpecBase_copier [copier_intros]:
  assumes "kubeApiLaws k8s"
  shows "deepCopier (CommonSpecBase_view k8s) (CommonSpecBase_DeepCopyInto k8s)"
  by unfold_locales
    (intro steady_intros assms,
     auto simp: CommonSpecBase_DeepCopyInto_def CommonSpecBase_view_def bind_eq_Some_conv
       intro!: copy_steps copier_intros yields_return assms)

lemmas CommonSpecBase_step [copy_steps] = yields_field [OF CommonSpecBase_copier]

definition ArmadaServerSpec_DeepCopyInto ::
    "'x kubeApi \<Rightarrow> 'x ArmadaServerSpecMem \<Rightarrow>
     ('x goMemory, 'x ArmadaServerSpecMem) action" where
  "ArmadaServerSpec_DeepCopyInto k8s m =
     andThenA (CommonSpecBase_DeepCopyInto k8s (asm_Base m)) (\<lambda>base.
     andThenA (copyPointer int32Tag plainCopy (asm_Replicas m)) (\<lambda>replicas.
     andThenA (copyMap strmapTag (asm_NodeSelector m)) (\<lambda>nodeSelector.
     andThenA (copyPointer IngressConfigTag IngressConfig_DeepCopyInto (asm_Ingress m)) (\<lambda>ingress.
     andThenA (copyPointer IngressConfigTag IngressConfig_DeepCopyInto (asm_ProfilingIngressConfig m))
       (\<lambda>profilingIngressConfig.
     andThenA (copySlice stringsTag plainCopy (asm_HostNames m)) (\<lambda>hostNames.
     andThenA (copyPointer ApiTag (SecurityContext_DeepCopyInto k8s) (asm_SecurityContext m))
       (\<lambda>securityContext.
     andThenA (copyPointer ApiTag (PodSecurityContext_DeepCopyInto k8s) (asm_PodSecurityContext m))
       (\<lambda>podSecurityContext.
     returnA (m\<lparr>asm_Base := base, asm_Replicas := replicas, asm_NodeSelector := nodeSelector,
       asm_Ingress := ingress, asm_ProfilingIngressConfig := profilingIngressConfig,
       asm_HostNames := hostNames, asm_SecurityContext := securityContext,
       asm_PodSecurityContext := podSecurityContext\<rparr>)))))))))"

definition ArmadaServerSpec_DeepCopy ::
    "'x kubeApi \<Rightarrow> ref option \<Rightarrow> ('x goMemory, ref option) action" where
  "ArmadaServerSpec_DeepCopy k8s p = copyPointer ArmadaServerSpecTag (ArmadaServerSpec_DeepCopyInto k8s) p"

lemma ArmadaServerSpec_copier [copier_intros]:
  assumes "kubeApiLaws k8s"
  shows "deepCopier (ArmadaServerSpec_view k8s) (ArmadaServerSpec_DeepCopyInto k8s)"
  by unfold_locales
    (intro steady_intros assms,
     auto simp: ArmadaServerSpec_DeepCopyInto_def ArmadaServerSpec_view_def bind_eq_Some_conv
       intro!: copy_steps copier_intros yields_return assms)

lemmas ArmadaServerSpec_step [copy_steps] = yields_field [OF ArmadaServerSpec_copier]

definition BinocularsSpec_DeepCopyInto ::
    "'x kubeApi \<Rightarrow> 'x BinocularsSpecMem \<Rightarrow>
     ('x goMemory, 'x BinocularsSpecMem) action" where
  "BinocularsSpec_DeepCopyInto k8s m =
     andThenA (CommonSpecBase_DeepCopyInto k8s (bnm_Base m)) (\<lambda>base.
     andThenA (copyPointer int32Tag plainCopy (bnm_Replicas m)) (\<lambda>replicas.
     andThenA (copyMap strmapTag (bnm_NodeSelector m)) (\<lambda>nodeSelector.
     andThenA (copyPointer IngressConfigTag IngressConfig_DeepCopyInto (bnm_Ingress m)) (\<lambda>ingress.
     andThenA (copyPointer IngressConfigTag IngressConfig_DeepCopyInto (bnm_ProfilingIngressConfig m))
       (\<lambda>profilingIngressConfig.
     andThenA (copySlice stringsTag plainCopy (bnm_HostNames m)) (\<lambda>hostNames.
     andThenA (copyPointer ApiTag (SecurityContext_DeepCopyInto k8s) (bnm_SecurityContext m))
       (\<lambda>securityContext.
     andThenA (copyPointer ApiTag (PodSecurityContext_DeepCopyInto k8s) (bnm_PodSecurityContext m))
       (\<lambda>podSecurityContext.
     returnA (m\<lparr>bnm_Base := base, bnm_Replicas := replicas, bnm_NodeSelector := nodeSelector,
       bnm_Ingress := ingress, bnm_ProfilingIngressConfig := profilingIngressConfig,
       bnm_HostNames := hostNames, bnm_SecurityContext := securityContext,
       bnm_PodSecurityContext := podSecurityContext\<rparr>)))))))))"

definition BinocularsSpec_DeepCopy ::
    "'x kubeApi \<Rightarrow> ref option \<Rightarrow> ('x goMemory, ref option) action" where
  "BinocularsSpec_DeepCopy k8s p = copyPointer BinocularsSpecTag (BinocularsSpec_DeepCopyInto k8s) p"

lemma BinocularsSpec_copier [copier_intros]:
  assumes "kubeApiLaws k8s"
  shows "deepCopier (BinocularsSpec_view k8s) (BinocularsSpec_DeepCopyInto k8s)"
  by unfold_locales
    (intro steady_intros assms,
     auto simp: BinocularsSpec_DeepCopyInto_def BinocularsSpec_view_def bind_eq_Some_conv
       intro!: copy_steps copier_intros yields_return assms)

lemmas BinocularsSpec_step [copy_steps] = yields_field [OF BinocularsSpec_copier]

definition EventIngesterSpec_DeepCopyInto ::
    "'x kubeApi \<Rightarrow> 'x EventIngesterSpecMem \<Rightarrow>
     ('x goMemory, 'x EventIngesterSpecMem) action" where
  "EventIngesterSpec_DeepCopyInto k8s m =
     andThenA (CommonSpecBase_DeepCopyInto k8s (eim_Base m)) (\<lambda>base.
     andThenA (copyPointer int32Tag plainCopy (eim_Replicas m)) (\<lambda>replicas.
     andThenA (copyMap strmapTag (eim_NodeSelector m)) (\<lambda>nodeSelector.
     andThenA (copyPointer ApiTag (SecurityContext_DeepCopyInto k8s) (eim_SecurityContext m))
       (\<lambda>securityContext.
     andThenA (copyPointer ApiTag (PodSecurityContext_DeepCopyInto k8s) (eim_PodSecurityContext m))
       (\<lambda>podSecurityContext.
     andThenA (copyPointer IngressConfigTag IngressConfig_DeepCopyInto (eim_ProfilingIngressConfig m))
       (\<lambda>profilingIngressConfig.
     returnA (m\<lparr>eim_Base := base, eim_Replicas := replicas, eim_NodeSelector := nodeSelector,
       eim_SecurityContext := securityContext, eim_PodSecurityContext := podSecurityContext,
       eim_ProfilingIngressConfig := profilingIngressConfig\<rparr>)))))))"

definition EventIngesterSpec_DeepCopy ::
    "'x kubeApi \<Rightarrow> ref option \<Rightarrow> ('x goMemory, ref option) action" where
  "EventIngesterSpec_DeepCopy k8s p = copyPointer EventIngesterSpecTag (EventIngesterSpec_DeepCopyInto k8s) p"

lemma EventIngesterSpec_copier [copier_intros]:
  assumes "kubeApiLaws k8s"
  shows "deepCopier (EventIngesterSpec_view k8s) (EventIngesterSpec_DeepCopyInto k8s)"
  by unfold_locales
    (intro steady_intros assms,
     auto simp: EventIngesterSpec_DeepCopyInto_def EventIngesterSpec_view_def bind_eq_Some_conv
       intro!: copy_steps copier_intros yields_return assms)

lemmas EventIngesterSpec_step [copy_steps] = yields_field [OF EventIngesterSpec_copier]

definition ExecutorSpec_DeepCopyInto ::
    "'x kubeApi \<Rightarrow> 'x ExecutorSpecMem \<Rightarrow> ('x goMemory, 'x ExecutorSpecMem) action" where
  "ExecutorSpec_DeepCopyInto k8s m =
     andThenA (CommonSpecBase_DeepCopyInto k8s (exm_Base m)) (\<lambda>base.
     andThenA (copyPointer int32Tag plainCopy (exm_Replicas m)) (\<lambda>replicas.
     andThenA (copyMap strmapTag (exm_NodeSelector m)) (\<lambda>nodeSelector.
     andThenA (copySlice AdditionalClusterRoleBindingsTag plainCopy (exm_AdditionalClusterRoleBindings m))
       (\<lambda>additionalClusterRoleBindings.
     andThenA (copyPointer ApiTag (SecurityContext_DeepCopyInto k8s) (exm_SecurityContext m))
       (\<lambda>securityContext.
     andThenA (copyPointer ApiTag (PodSecurityContext_DeepCopyInto k8s) (exm_PodSecurityContext m))
       (\<lambda>podSecurityContext.
     andThenA (copyPointer IngressConfigTag IngressConfig_DeepCopyInto (exm_ProfilingIngressConfig m))
       (\<lambda>profilingIngressConfig.
     returnA (m\<lparr>exm_Base := base, exm_Replicas := replicas, exm_NodeSelector := nodeSelector,
       exm_AdditionalClusterRoleBindings := additionalClusterRoleBindings,
       exm_SecurityContext := securityContext, exm_PodSecurityContext := podSecurityContext,
       exm_ProfilingIngressConfig := profilingIngressConfig\<rparr>))))))))"

definition ExecutorSpec_DeepCopy ::
    "'x kubeApi \<Rightarrow> ref option \<Rightarrow> ('x goMemory, ref option) action" where
  "ExecutorSpec_DeepCopy k8s p = copyPointer ExecutorSpecTag (ExecutorSpec_DeepCopyInto k8s) p"

lemma ExecutorSpec_copier [copier_intros]:
  assumes "kubeApiLaws k8s"
  shows "deepCopier (ExecutorSpec_view k8s) (ExecutorSpec_DeepCopyInto k8s)"
  by unfold_locales
    (intro steady_intros assms,
     auto simp: ExecutorSpec_DeepCopyInto_def ExecutorSpec_view_def bind_eq_Some_conv
       intro!: copy_steps copier_intros yields_return assms)

lemmas ExecutorSpec_step [copy_steps] = yields_field [OF ExecutorSpec_copier]

definition LookoutSpec_DeepCopyInto ::
    "'x kubeApi \<Rightarrow> 'x LookoutSpecMem \<Rightarrow> ('x goMemory, 'x LookoutSpecMem) action" where
  "LookoutSpec_DeepCopyInto k8s m =
     andThenA (CommonSpecBase_DeepCopyInto k8s (lkm_Base m)) (\<lambda>base.
     andThenA (copyPointer int32Tag plainCopy (lkm_Replicas m)) (\<lambda>replicas.
     andThenA (copyMap strmapTag (lkm_NodeSelector m)) (\<lambda>nodeSelector.
     andThenA (copyPointer IngressConfigTag IngressConfig_DeepCopyInto (lkm_Ingress m)) (\<lambda>ingress.
     andThenA (copySlice stringsTag plainCopy (lkm_HostNames m)) (\<lambda>hostNames.
     andThenA (copyPointer boolTag plainCopy (lkm_Migrate m)) (\<lambda>migrate.
     andThenA (copyPointer ImageTag plainCopy (lkm_MigrationDbWaitImage m)) (\<lambda>migrationDbWaitImage.
     andThenA (copyPointer boolTag plainCopy (lkm_DbPruningEnabled m)) (\<lambda>dbPruningEnabled.
     andThenA (copyPointer stringTag plainCopy (lkm_DbPruningSchedule m)) (\<lambda>dbPruningSchedule.
     andThenA (copyPointer ApiTag (SecurityContext_DeepCopyInto k8s) (lkm_SecurityContext m))
       (\<lambda>securityContext.
     andThenA (copyPointer ApiTag (PodSecurityContext_DeepCopyInto k8s) (lkm_PodSecurityContext m))
       (\<lambda>podSecurityContext.
     andThenA (copyPointer IngressConfigTag IngressConfig_DeepCopyInto (lkm_ProfilingIngressConfig m))
       (\<lambda>profilingIngressConfig.
     andThenA (copyPointer PartitionJobTableConfigTag PartitionJobTableConfig_DeepCopyInto (lkm_PartitionJobTable m))
       (\<lambda>partitionJobTable.
     returnA (m\<lparr>lkm_Base := base, lkm_Replicas := replicas, lkm_NodeSelector := nodeSelector,
       lkm_Ingress := ingress, lkm_HostNames := hostNames, lkm_Migrate := migrate,
       lkm_MigrationDbWaitImage := migrationDbWaitImage,
       lkm_DbPruningEnabled := dbPruningEnabled, lkm_DbPruningSchedule := dbPruningSchedule,
       lkm_SecurityContext := securityContext, lkm_PodSecurityContext := podSecurityContext,
       lkm_ProfilingIngressConfig := profilingIngressConfig,
       lkm_PartitionJobTable := partitionJobTable\<rparr>))))))))))))))"

definition LookoutSpec_DeepCopy ::
    "'x kubeApi \<Rightarrow> ref option \<Rightarrow> ('x goMemory, ref option) action" where
  "LookoutSpec_DeepCopy k8s p = copyPointer LookoutSpecTag (LookoutSpec_DeepCopyInto k8s) p"

lemma LookoutSpec_copier [copier_intros]:
  assumes "kubeApiLaws k8s"
  shows "deepCopier (LookoutSpec_view k8s) (LookoutSpec_DeepCopyInto k8s)"
  by unfold_locales
    (intro steady_intros assms,
     auto simp: LookoutSpec_DeepCopyInto_def LookoutSpec_view_def bind_eq_Some_conv
       intro!: copy_steps copier_intros yields_return assms)

lemmas LookoutSpec_step [copy_steps] = yields_field [OF LookoutSpec_copier]

definition LookoutIngesterSpec_DeepCopyInto ::
    "'x kubeApi \<Rightarrow> 'x LookoutIngesterSpecMem \<Rightarrow>
     ('x goMemory, 'x LookoutIngesterSpecMem) action" where
  "LookoutIngesterSpec_DeepCopyInto k8s m =
     andThenA (CommonSpecBase_DeepCopyInto k8s (lim_Base m)) (\<lambda>base.
     andThenA (copyPointer int32Tag plainCopy (lim_Replicas m)) (\<lambda>replicas.
     andThenA (copyPointer ApiTag (SecurityContext_DeepCopyInto k8s) (lim_SecurityContext m))
       (\<lambda>securityContext.
     andThenA (copyPointer ApiTag (PodSecurityContext_DeepCopyInto k8s) (lim_PodSecurityContext m))
       (\<lambda>podSecurityContext.
     andThenA (copyPointer IngressConfigTag IngressConfig_DeepCopyInto (lim_ProfilingIngressConfig m))
       (\<lambda>profilingIngressConfig.
     returnA (m\<lparr>lim_Base := base, lim_Replicas := replicas, lim_SecurityContext := securityContext,
       lim_PodSecurityContext := podSecurityContext,
       lim_ProfilingIngressConfig := profilingIngressConfig\<rparr>))))))"

definition LookoutIngesterSpec_DeepCopy ::
    "'x kubeApi \<Rightarrow> ref option \<Rightarrow> ('x goMemory, ref option) action" where
  "LookoutIngesterSpec_DeepCopy k8s p =
     copyPointer LookoutIngesterSpecTag (LookoutIngesterSpec_DeepCopyInto k8s) p"

lemma LookoutIngesterSpec_copier [copier_intros]:
  assumes "kubeApiLaws k8s"
  shows "deepCopier (LookoutIngesterSpec_view k8s) (LookoutIngesterSpec_DeepCopyInto k8s)"
  by unfold_locales
    (intro steady_intros assms,
     auto simp: LookoutIngesterSpec_DeepCopyInto_def LookoutIngesterSpec_view_def bind_eq_Some_conv
       intro!: copy_steps copier_intros yields_return assms)

lemmas LookoutIngesterSpec_step [copy_steps] = yields_field [OF LookoutIngesterSpec_copier]

definition SchedulerSpec_DeepCopyInto ::
    "'x kubeApi \<Rightarrow> 'x SchedulerSpecMem \<Rightarrow> ('x goMemory, 'x SchedulerSpecMem) action" where
  "SchedulerSpec_DeepCopyInto k8s m =
     andThenA (CommonSpecBase_DeepCopyInto k8s (sdm_Base m)) (\<lambda>base.
     andThenA (copyPointer int32Tag plainCopy (sdm_Replicas m)) (\<lambda>replicas.
     andThenA (copyPointer IngressConfigTag IngressConfig_DeepCopyInto (sdm_Ingress m)) (\<lambda>ingress.
     andThenA (copyPointer IngressConfigTag IngressConfig_DeepCopyInto (sdm_ProfilingIngressConfig m))
       (\<lambda>profilingIngressConfig.
     andThenA (copySlice stringsTag plainCopy (sdm_HostNames m)) (\<lambda>hostNames.
     andThenA (copyPointer boolTag plainCopy (sdm_Migrate m)) (\<lambda>migrate.
     andThenA (copyPointer ImageTag plainCopy (sdm_MigrationDbWaitImage m)) (\<lambda>migrationDbWaitImage.
     andThenA (copyPointer PrunerConfigTag (PrunerConfig_DeepCopyInto k8s) (sdm_Pruner m)) (\<lambda>pruner.
     andThenA (copyPointer ApiTag (SecurityContext_DeepCopyInto k8s) (sdm_SecurityContext m))
       (\<lambda>securityContext.
     andThenA (copyPointer ApiTag (PodSecurityContext_DeepCopyInto k8s) (sdm_PodSecurityContext m))
       (\<lambda>podSecurityContext.
     returnA (m\<lparr>sdm_Base := base, sdm_Replicas := replicas, sdm_Ingress := ingress,
       sdm_ProfilingIngressConfig := profilingIngressConfig, sdm_HostNames := hostNames,
       sdm_Migrate := migrate, sdm_MigrationDbWaitImage := migrationDbWaitImage,
       sdm_Pruner := pruner, sdm_SecurityContext := securityContext,
       sdm_PodSecurityContext := podSecurityContext\<rparr>)))))))))))"

definition SchedulerSpec_DeepCopy ::
    "'x kubeApi \<Rightarrow> ref option \<Rightarrow> ('x goMemory, ref option) action" where
  "SchedulerSpec_DeepCopy k8s p = copyPointer SchedulerSpecTag (SchedulerSpec_DeepCopyInto k8s) p"

lemma SchedulerSpec_copier [copier_intros]:
  assumes "kubeApiLaws k8s"
  shows "deepCopier (SchedulerSpec_view k8s) (SchedulerSpec_DeepCopyInto k8s)"
  by unfold_locales
    (intro steady_intros assms,
     auto simp: SchedulerSpec_DeepCopyInto_def SchedulerSpec_view_def bind_eq_Some_conv
       intro!: copy_steps copier_intros yields_return assms)

lemmas SchedulerSpec_step [copy_steps] = yields_field [OF SchedulerSpec_copier]

definition SchedulerIngesterSpec_DeepCopyInto ::
    "'x kubeApi \<Rightarrow> 'x SchedulerIngesterSpecMem \<Rightarrow>
     ('x goMemory, 'x SchedulerIngesterSpecMem) action" where
  "SchedulerIngesterSpec_DeepCopyInto k8s m =
     andThenA (CommonSpecBase_DeepCopyInto k8s (sim_Base m)) (\<lambda>base.
     andThenA (copyPointer int32Tag plainCopy (sim_Replicas m)) (\<lambda>replicas.
     andThenA (copyPointer ApiTag (SecurityContext_DeepCopyInto k8s) (sim_SecurityContext m))
       (\<lambda>securityContext.
     andThenA (copyPointer ApiTag (PodSecurityContext_DeepCopyInto k8s) (sim_PodSecurityContext m))
       (\<lambda>podSecurityContext.
     andThenA (copyPointer IngressConfigTag IngressConfig_DeepCopyInto (sim_ProfilingIngressConfig m))
       (\<lambda>profilingIngressConfig.
     returnA (m\<lparr>sim_Base := base, sim_Replicas := replicas, sim_SecurityContext := securityContext,
       sim_PodSecurityContext := podSecurityContext,
       sim_ProfilingIngressConfig := profilingIngressConfig\<rparr>))))))"

definition SchedulerIngesterSpec_DeepCopy ::
    "'x kubeApi \<Rightarrow> ref option \<Rightarrow> ('x goMemory, ref option) action" where
  "SchedulerIngesterSpec_DeepCopy k8s p =
     copyPointer SchedulerIngesterSpecTag (SchedulerIngesterSpec_DeepCopyInto k8s) p"

lemma SchedulerIngesterSpec_copier [copier_intros]:
  assumes "kubeApiLaws k8s"
  shows "deepCopier (SchedulerIngesterSpec_view k8s) (SchedulerIngesterSpec_DeepCopyInto k8s)"
  by unfold_locales
    (intro steady_intros assms,
     auto simp: SchedulerIngesterSpec_DeepCopyInto_def SchedulerIngesterSpec_view_def bind_eq_Some_conv
       intro!: copy_steps copier_intros yields_return assms)

lemmas SchedulerIngesterSpec_step [copy_steps] = yields_field [OF SchedulerIngesterSpec_copier]

definition LookoutStatus_DeepCopyInto ::
    "'x kubeApi \<Rightarrow> LookoutStatusMem \<Rightarrow> ('x goMemory, LookoutStatusMem) action" where
  "LookoutStatus_DeepCopyInto k8s m =
     andThenA (copySlice ApisTag (Condition_DeepCopyInto k8s) (lstm_Conditions m)) (\<lambda>conditions.
     returnA (m\<lparr>lstm_Conditions := conditions\<rparr>))"

definition LookoutStatus_DeepCopy ::
    "'x kubeApi \<Rightarrow> ref option \<Rightarrow> ('x goMemory, ref option) action" where
  "LookoutStatus_DeepCopy k8s p = copyPointer LookoutStatusTag (LookoutStatus_DeepCopyInto k8s) p"

lemma LookoutStatus_copier [copier_intros]:
  assumes "kubeApiLaws k8s"
  shows "deepCopier (LookoutStatus_view k8s) (LookoutStatus_DeepCopyInto k8s)"
  by unfold_locales
    (intro steady_intros assms,
     auto simp: LookoutStatus_DeepCopyInto_def LookoutStatus_view_def bind_eq_Some_conv
       intro!: copy_steps copier_intros yields_return assms)

lemmas LookoutStatus_step [copy_steps] = yields_field [OF LookoutStatus_copier]
section \<open>Resources\<close>

text \<open>
  The parts of a resource: \<open>TypeMeta\<close> is plain, and so is a status that is an empty struct. A resource
  is copied into an interface value by \<open>DeepCopyObject\<close>, which is nil for a nil pointer.
\<close>

definition CR_view :: "'x kubeApi \<Rightarrow> ('x cell cells \<Rightarrow> 's \<Rightarrow> 'spec option) \<Rightarrow> ('x cell cells \<Rightarrow> 't \<Rightarrow> 'status option) \<Rightarrow>
    'x cell cells \<Rightarrow> ('x, 's, 't) CRMem \<Rightarrow> (TypeMeta \<times> ('spec, 'status) CR) option" where
  "CR_view k8s specView statusView = (\<lambda>c m. do {
     meta \<leftarrow> ObjectMeta_view k8s c (crm_ObjectMeta m);
     spec \<leftarrow> specView c (crm_Spec m);
     status \<leftarrow> statusView c (crm_Status m);
     Some (crm_TypeMeta m, \<lparr>cr_Meta = meta, cr_Spec = spec, cr_Status = status\<rparr>)})"

definition CR_DeepCopyInto :: "'x kubeApi \<Rightarrow> ('s \<Rightarrow> ('x goMemory, 's) action) \<Rightarrow> ('t \<Rightarrow> ('x goMemory, 't) action) \<Rightarrow>
    ('x, 's, 't) CRMem \<Rightarrow> ('x goMemory, ('x, 's, 't) CRMem) action" where
  "CR_DeepCopyInto k8s copySpec copyStatus = (\<lambda>m.
     andThenA (ObjectMeta_DeepCopyInto k8s (crm_ObjectMeta m)) (\<lambda>meta.
     andThenA (copySpec (crm_Spec m)) (\<lambda>spec.
     andThenA (copyStatus (crm_Status m)) (\<lambda>status.
     returnA (m\<lparr>crm_ObjectMeta := meta, crm_Spec := spec, crm_Status := status\<rparr>)))))"

lemma CR_copier [copier_intros]:
  assumes laws: "kubeApiLaws k8s" and spec: "deepCopier specView copySpec" and status: "deepCopier statusView copyStatus"
  shows "deepCopier (CR_view k8s specView statusView) (CR_DeepCopyInto k8s copySpec copyStatus)"
  unfolding CR_view_def CR_DeepCopyInto_def
  by unfold_locales
    (intro steady_intros laws deepCopier.view_steady [OF spec] deepCopier.view_steady [OF status],
     auto simp: bind_eq_Some_conv
       intro!: copy_steps laws yields_return yields_field [OF spec] yields_field [OF status])

text \<open>\<open>List_DeepCopyInto\<close>: the items are copied one by one into a new backing array.\<close>

definition List_view :: "'x kubeApi \<Rightarrow> ('x cell, 'm list) tag \<Rightarrow> ('x cell cells \<Rightarrow> 'm \<Rightarrow> 'v option) \<Rightarrow>
    'x cell cells \<Rightarrow> 'x ListMem \<Rightarrow> (TypeMeta \<times> ListMeta \<times> 'v list) option" where
  "List_view k8s t itemView = (\<lambda>c m. do {
     meta \<leftarrow> ListMeta_view k8s c (lsm_ListMeta m);
     items \<leftarrow> sliceView t itemView c (lsm_Items m);
     Some (lsm_TypeMeta m, meta, items)})"

definition List_DeepCopyInto :: "'x kubeApi \<Rightarrow> ('x cell, 'm list) tag \<Rightarrow> ('m \<Rightarrow> ('x goMemory, 'm) action) \<Rightarrow>
    'x ListMem \<Rightarrow> ('x goMemory, 'x ListMem) action" where
  "List_DeepCopyInto k8s t copyItem = (\<lambda>m.
     andThenA (ListMeta_DeepCopyInto k8s (lsm_ListMeta m)) (\<lambda>meta.
     andThenA (copySlice t copyItem (lsm_Items m)) (\<lambda>items.
     returnA (m\<lparr>lsm_ListMeta := meta, lsm_Items := items\<rparr>))))"

lemma List_copier [copier_intros]:
  assumes laws: "kubeApiLaws k8s" and t: "tagged t" and item: "deepCopier itemView copyItem"
  shows "deepCopier (List_view k8s t itemView) (List_DeepCopyInto k8s t copyItem)"
  unfolding List_view_def List_DeepCopyInto_def
  by unfold_locales
    (intro steady_intros laws deepCopier.view_steady [OF item],
     auto simp: bind_eq_Some_conv intro!: copy_steps laws t item yields_return)

text \<open>An object in an interface value is its type and its address.\<close>

definition asObject ::
    "string \<Rightarrow> ('x goMemory, ref option) action \<Rightarrow>
     ('x goMemory, (string \<times> ref) option) action" where
  "asObject kind copy = andThenA copy (\<lambda>p. returnA (map_option (Pair kind) p))"

section \<open>ArmadaServer\<close>

definition ArmadaServer_view ::
    "'x kubeApi \<Rightarrow> 'x cell cells \<Rightarrow> 'x ArmadaServerMem \<Rightarrow>
     (TypeMeta \<times> ArmadaServer) option" where
  "ArmadaServer_view k8s = CR_view k8s (ArmadaServerSpec_view k8s) plainView"

definition ArmadaServer_DeepCopyInto ::
    "'x kubeApi \<Rightarrow> 'x ArmadaServerMem \<Rightarrow> ('x goMemory, 'x ArmadaServerMem) action" where
  "ArmadaServer_DeepCopyInto k8s = CR_DeepCopyInto k8s (ArmadaServerSpec_DeepCopyInto k8s) plainCopy"

definition ArmadaServer_DeepCopy ::
    "'x kubeApi \<Rightarrow> ref option \<Rightarrow> ('x goMemory, ref option) action" where
  "ArmadaServer_DeepCopy k8s p = copyPointer ArmadaServerTag (ArmadaServer_DeepCopyInto k8s) p"

definition ArmadaServer_DeepCopyObject ::
    "'x kubeApi \<Rightarrow> ref option \<Rightarrow> ('x goMemory, (string \<times> ref) option) action" where
  "ArmadaServer_DeepCopyObject k8s p = asObject ''ArmadaServer'' (ArmadaServer_DeepCopy k8s p)"

definition ArmadaServerList_view ::
    "'x kubeApi \<Rightarrow> 'x cell cells \<Rightarrow> 'x ListMem \<Rightarrow>
     (TypeMeta \<times> ListMeta \<times> (TypeMeta \<times> ArmadaServer) list) option" where
  "ArmadaServerList_view k8s = List_view k8s ArmadaServersTag (ArmadaServer_view k8s)"

definition ArmadaServerList_DeepCopyInto ::
    "'x kubeApi \<Rightarrow> 'x ListMem \<Rightarrow> ('x goMemory, 'x ListMem) action" where
  "ArmadaServerList_DeepCopyInto k8s = List_DeepCopyInto k8s ArmadaServersTag (ArmadaServer_DeepCopyInto k8s)"

definition ArmadaServerList_DeepCopy ::
    "'x kubeApi \<Rightarrow> ref option \<Rightarrow> ('x goMemory, ref option) action" where
  "ArmadaServerList_DeepCopy k8s p = copyPointer ArmadaServerListTag (ArmadaServerList_DeepCopyInto k8s) p"

definition ArmadaServerList_DeepCopyObject ::
    "'x kubeApi \<Rightarrow> ref option \<Rightarrow> ('x goMemory, (string \<times> ref) option) action" where
  "ArmadaServerList_DeepCopyObject k8s p = asObject ''ArmadaServerList'' (ArmadaServerList_DeepCopy k8s p)"

lemma ArmadaServer_copiers [copier_intros]:
  assumes "kubeApiLaws k8s"
  shows "deepCopier (ArmadaServer_view k8s) (ArmadaServer_DeepCopyInto k8s)"
    and "deepCopier (ArmadaServerList_view k8s) (ArmadaServerList_DeepCopyInto k8s)"
  unfolding ArmadaServer_view_def
  ArmadaServer_DeepCopyInto_def ArmadaServerList_view_def ArmadaServerList_DeepCopyInto_def
  by (intro copier_intros assms)+

section \<open>Binoculars\<close>

definition Binoculars_view ::
    "'x kubeApi \<Rightarrow> 'x cell cells \<Rightarrow> 'x BinocularsMem \<Rightarrow>
     (TypeMeta \<times> Binoculars) option" where
  "Binoculars_view k8s = CR_view k8s (BinocularsSpec_view k8s) plainView"

definition Binoculars_DeepCopyInto ::
    "'x kubeApi \<Rightarrow> 'x BinocularsMem \<Rightarrow> ('x goMemory, 'x BinocularsMem) action" where
  "Binoculars_DeepCopyInto k8s = CR_DeepCopyInto k8s (BinocularsSpec_DeepCopyInto k8s) plainCopy"

definition Binoculars_DeepCopy ::
    "'x kubeApi \<Rightarrow> ref option \<Rightarrow> ('x goMemory, ref option) action" where
  "Binoculars_DeepCopy k8s p = copyPointer BinocularsTag (Binoculars_DeepCopyInto k8s) p"

definition Binoculars_DeepCopyObject ::
    "'x kubeApi \<Rightarrow> ref option \<Rightarrow> ('x goMemory, (string \<times> ref) option) action" where
  "Binoculars_DeepCopyObject k8s p = asObject ''Binoculars'' (Binoculars_DeepCopy k8s p)"

definition BinocularsList_view ::
    "'x kubeApi \<Rightarrow> 'x cell cells \<Rightarrow> 'x ListMem \<Rightarrow>
     (TypeMeta \<times> ListMeta \<times> (TypeMeta \<times> Binoculars) list) option" where
  "BinocularsList_view k8s = List_view k8s BinocularssTag (Binoculars_view k8s)"

definition BinocularsList_DeepCopyInto ::
    "'x kubeApi \<Rightarrow> 'x ListMem \<Rightarrow> ('x goMemory, 'x ListMem) action" where
  "BinocularsList_DeepCopyInto k8s = List_DeepCopyInto k8s BinocularssTag (Binoculars_DeepCopyInto k8s)"

definition BinocularsList_DeepCopy ::
    "'x kubeApi \<Rightarrow> ref option \<Rightarrow> ('x goMemory, ref option) action" where
  "BinocularsList_DeepCopy k8s p = copyPointer BinocularsListTag (BinocularsList_DeepCopyInto k8s) p"

definition BinocularsList_DeepCopyObject ::
    "'x kubeApi \<Rightarrow> ref option \<Rightarrow> ('x goMemory, (string \<times> ref) option) action" where
  "BinocularsList_DeepCopyObject k8s p = asObject ''BinocularsList'' (BinocularsList_DeepCopy k8s p)"

lemma Binoculars_copiers [copier_intros]:
  assumes "kubeApiLaws k8s"
  shows "deepCopier (Binoculars_view k8s) (Binoculars_DeepCopyInto k8s)"
    and "deepCopier (BinocularsList_view k8s) (BinocularsList_DeepCopyInto k8s)"
  unfolding Binoculars_view_def
  Binoculars_DeepCopyInto_def BinocularsList_view_def BinocularsList_DeepCopyInto_def
  by (intro copier_intros assms)+

section \<open>EventIngester\<close>

definition EventIngester_view ::
    "'x kubeApi \<Rightarrow> 'x cell cells \<Rightarrow> 'x EventIngesterMem \<Rightarrow>
     (TypeMeta \<times> EventIngester) option" where
  "EventIngester_view k8s = CR_view k8s (EventIngesterSpec_view k8s) plainView"

definition EventIngester_DeepCopyInto ::
    "'x kubeApi \<Rightarrow> 'x EventIngesterMem \<Rightarrow> ('x goMemory, 'x EventIngesterMem) action" where
  "EventIngester_DeepCopyInto k8s = CR_DeepCopyInto k8s (EventIngesterSpec_DeepCopyInto k8s) plainCopy"

definition EventIngester_DeepCopy ::
    "'x kubeApi \<Rightarrow> ref option \<Rightarrow> ('x goMemory, ref option) action" where
  "EventIngester_DeepCopy k8s p = copyPointer EventIngesterTag (EventIngester_DeepCopyInto k8s) p"

definition EventIngester_DeepCopyObject ::
    "'x kubeApi \<Rightarrow> ref option \<Rightarrow> ('x goMemory, (string \<times> ref) option) action" where
  "EventIngester_DeepCopyObject k8s p = asObject ''EventIngester'' (EventIngester_DeepCopy k8s p)"

definition EventIngesterList_view ::
    "'x kubeApi \<Rightarrow> 'x cell cells \<Rightarrow> 'x ListMem \<Rightarrow>
     (TypeMeta \<times> ListMeta \<times> (TypeMeta \<times> EventIngester) list) option" where
  "EventIngesterList_view k8s = List_view k8s EventIngestersTag (EventIngester_view k8s)"

definition EventIngesterList_DeepCopyInto ::
    "'x kubeApi \<Rightarrow> 'x ListMem \<Rightarrow> ('x goMemory, 'x ListMem) action" where
  "EventIngesterList_DeepCopyInto k8s =
     List_DeepCopyInto k8s EventIngestersTag (EventIngester_DeepCopyInto k8s)"

definition EventIngesterList_DeepCopy ::
    "'x kubeApi \<Rightarrow> ref option \<Rightarrow> ('x goMemory, ref option) action" where
  "EventIngesterList_DeepCopy k8s p = copyPointer EventIngesterListTag (EventIngesterList_DeepCopyInto k8s) p"

definition EventIngesterList_DeepCopyObject ::
    "'x kubeApi \<Rightarrow> ref option \<Rightarrow> ('x goMemory, (string \<times> ref) option) action" where
  "EventIngesterList_DeepCopyObject k8s p = asObject ''EventIngesterList'' (EventIngesterList_DeepCopy k8s p)"

lemma EventIngester_copiers [copier_intros]:
  assumes "kubeApiLaws k8s"
  shows "deepCopier (EventIngester_view k8s) (EventIngester_DeepCopyInto k8s)"
    and "deepCopier (EventIngesterList_view k8s) (EventIngesterList_DeepCopyInto k8s)"
  unfolding EventIngester_view_def
  EventIngester_DeepCopyInto_def EventIngesterList_view_def EventIngesterList_DeepCopyInto_def
  by (intro copier_intros assms)+

section \<open>Executor\<close>

definition Executor_view ::
    "'x kubeApi \<Rightarrow> 'x cell cells \<Rightarrow> 'x ExecutorMem \<Rightarrow>
     (TypeMeta \<times> Executor) option" where
  "Executor_view k8s = CR_view k8s (ExecutorSpec_view k8s) plainView"

definition Executor_DeepCopyInto ::
    "'x kubeApi \<Rightarrow> 'x ExecutorMem \<Rightarrow> ('x goMemory, 'x ExecutorMem) action" where
  "Executor_DeepCopyInto k8s = CR_DeepCopyInto k8s (ExecutorSpec_DeepCopyInto k8s) plainCopy"

definition Executor_DeepCopy ::
    "'x kubeApi \<Rightarrow> ref option \<Rightarrow> ('x goMemory, ref option) action" where
  "Executor_DeepCopy k8s p = copyPointer ExecutorTag (Executor_DeepCopyInto k8s) p"

definition Executor_DeepCopyObject ::
    "'x kubeApi \<Rightarrow> ref option \<Rightarrow> ('x goMemory, (string \<times> ref) option) action" where
  "Executor_DeepCopyObject k8s p = asObject ''Executor'' (Executor_DeepCopy k8s p)"

definition ExecutorList_view ::
    "'x kubeApi \<Rightarrow> 'x cell cells \<Rightarrow> 'x ListMem \<Rightarrow>
     (TypeMeta \<times> ListMeta \<times> (TypeMeta \<times> Executor) list) option" where
  "ExecutorList_view k8s = List_view k8s ExecutorsTag (Executor_view k8s)"

definition ExecutorList_DeepCopyInto ::
    "'x kubeApi \<Rightarrow> 'x ListMem \<Rightarrow> ('x goMemory, 'x ListMem) action" where
  "ExecutorList_DeepCopyInto k8s = List_DeepCopyInto k8s ExecutorsTag (Executor_DeepCopyInto k8s)"

definition ExecutorList_DeepCopy ::
    "'x kubeApi \<Rightarrow> ref option \<Rightarrow> ('x goMemory, ref option) action" where
  "ExecutorList_DeepCopy k8s p = copyPointer ExecutorListTag (ExecutorList_DeepCopyInto k8s) p"

definition ExecutorList_DeepCopyObject ::
    "'x kubeApi \<Rightarrow> ref option \<Rightarrow> ('x goMemory, (string \<times> ref) option) action" where
  "ExecutorList_DeepCopyObject k8s p = asObject ''ExecutorList'' (ExecutorList_DeepCopy k8s p)"

lemma Executor_copiers [copier_intros]:
  assumes "kubeApiLaws k8s"
  shows "deepCopier (Executor_view k8s) (Executor_DeepCopyInto k8s)"
    and "deepCopier (ExecutorList_view k8s) (ExecutorList_DeepCopyInto k8s)"
  unfolding Executor_view_def Executor_DeepCopyInto_def ExecutorList_view_def ExecutorList_DeepCopyInto_def
  by (intro copier_intros assms)+

section \<open>Lookout\<close>

definition Lookout_view ::
    "'x kubeApi \<Rightarrow> 'x cell cells \<Rightarrow> 'x LookoutMem \<Rightarrow>
     (TypeMeta \<times> Lookout) option" where
  "Lookout_view k8s = CR_view k8s (LookoutSpec_view k8s) (LookoutStatus_view k8s)"

definition Lookout_DeepCopyInto ::
    "'x kubeApi \<Rightarrow> 'x LookoutMem \<Rightarrow> ('x goMemory, 'x LookoutMem) action" where
  "Lookout_DeepCopyInto k8s =
     CR_DeepCopyInto k8s (LookoutSpec_DeepCopyInto k8s) (LookoutStatus_DeepCopyInto k8s)"

definition Lookout_DeepCopy ::
    "'x kubeApi \<Rightarrow> ref option \<Rightarrow> ('x goMemory, ref option) action" where
  "Lookout_DeepCopy k8s p = copyPointer LookoutTag (Lookout_DeepCopyInto k8s) p"

definition Lookout_DeepCopyObject ::
    "'x kubeApi \<Rightarrow> ref option \<Rightarrow> ('x goMemory, (string \<times> ref) option) action" where
  "Lookout_DeepCopyObject k8s p = asObject ''Lookout'' (Lookout_DeepCopy k8s p)"

definition LookoutList_view ::
    "'x kubeApi \<Rightarrow> 'x cell cells \<Rightarrow> 'x ListMem \<Rightarrow>
     (TypeMeta \<times> ListMeta \<times> (TypeMeta \<times> Lookout) list) option" where
  "LookoutList_view k8s = List_view k8s LookoutsTag (Lookout_view k8s)"

definition LookoutList_DeepCopyInto ::
    "'x kubeApi \<Rightarrow> 'x ListMem \<Rightarrow> ('x goMemory, 'x ListMem) action" where
  "LookoutList_DeepCopyInto k8s = List_DeepCopyInto k8s LookoutsTag (Lookout_DeepCopyInto k8s)"

definition LookoutList_DeepCopy ::
    "'x kubeApi \<Rightarrow> ref option \<Rightarrow> ('x goMemory, ref option) action" where
  "LookoutList_DeepCopy k8s p = copyPointer LookoutListTag (LookoutList_DeepCopyInto k8s) p"

definition LookoutList_DeepCopyObject ::
    "'x kubeApi \<Rightarrow> ref option \<Rightarrow> ('x goMemory, (string \<times> ref) option) action" where
  "LookoutList_DeepCopyObject k8s p = asObject ''LookoutList'' (LookoutList_DeepCopy k8s p)"

lemma Lookout_copiers [copier_intros]:
  assumes "kubeApiLaws k8s"
  shows "deepCopier (Lookout_view k8s) (Lookout_DeepCopyInto k8s)"
    and "deepCopier (LookoutList_view k8s) (LookoutList_DeepCopyInto k8s)"
  unfolding Lookout_view_def Lookout_DeepCopyInto_def LookoutList_view_def LookoutList_DeepCopyInto_def
  by (intro copier_intros assms)+

section \<open>LookoutIngester\<close>

definition LookoutIngester_view ::
    "'x kubeApi \<Rightarrow> 'x cell cells \<Rightarrow> 'x LookoutIngesterMem \<Rightarrow>
     (TypeMeta \<times> LookoutIngester) option" where
  "LookoutIngester_view k8s = CR_view k8s (LookoutIngesterSpec_view k8s) plainView"

definition LookoutIngester_DeepCopyInto ::
    "'x kubeApi \<Rightarrow> 'x LookoutIngesterMem \<Rightarrow>
     ('x goMemory, 'x LookoutIngesterMem) action" where
  "LookoutIngester_DeepCopyInto k8s = CR_DeepCopyInto k8s (LookoutIngesterSpec_DeepCopyInto k8s) plainCopy"

definition LookoutIngester_DeepCopy ::
    "'x kubeApi \<Rightarrow> ref option \<Rightarrow> ('x goMemory, ref option) action" where
  "LookoutIngester_DeepCopy k8s p = copyPointer LookoutIngesterTag (LookoutIngester_DeepCopyInto k8s) p"

definition LookoutIngester_DeepCopyObject ::
    "'x kubeApi \<Rightarrow> ref option \<Rightarrow> ('x goMemory, (string \<times> ref) option) action" where
  "LookoutIngester_DeepCopyObject k8s p = asObject ''LookoutIngester'' (LookoutIngester_DeepCopy k8s p)"

definition LookoutIngesterList_view ::
    "'x kubeApi \<Rightarrow> 'x cell cells \<Rightarrow> 'x ListMem \<Rightarrow>
     (TypeMeta \<times> ListMeta \<times> (TypeMeta \<times> LookoutIngester) list) option" where
  "LookoutIngesterList_view k8s = List_view k8s LookoutIngestersTag (LookoutIngester_view k8s)"

definition LookoutIngesterList_DeepCopyInto ::
    "'x kubeApi \<Rightarrow> 'x ListMem \<Rightarrow> ('x goMemory, 'x ListMem) action" where
  "LookoutIngesterList_DeepCopyInto k8s =
     List_DeepCopyInto k8s LookoutIngestersTag (LookoutIngester_DeepCopyInto k8s)"

definition LookoutIngesterList_DeepCopy ::
    "'x kubeApi \<Rightarrow> ref option \<Rightarrow> ('x goMemory, ref option) action" where
  "LookoutIngesterList_DeepCopy k8s p =
     copyPointer LookoutIngesterListTag (LookoutIngesterList_DeepCopyInto k8s) p"

definition LookoutIngesterList_DeepCopyObject ::
    "'x kubeApi \<Rightarrow> ref option \<Rightarrow> ('x goMemory, (string \<times> ref) option) action" where
  "LookoutIngesterList_DeepCopyObject k8s p =
     asObject ''LookoutIngesterList'' (LookoutIngesterList_DeepCopy k8s p)"

lemma LookoutIngester_copiers [copier_intros]:
  assumes "kubeApiLaws k8s"
  shows "deepCopier (LookoutIngester_view k8s) (LookoutIngester_DeepCopyInto k8s)"
    and "deepCopier (LookoutIngesterList_view k8s) (LookoutIngesterList_DeepCopyInto k8s)"
  unfolding LookoutIngester_view_def
  LookoutIngester_DeepCopyInto_def LookoutIngesterList_view_def LookoutIngesterList_DeepCopyInto_def
  by (intro copier_intros assms)+

section \<open>Scheduler\<close>

definition Scheduler_view ::
    "'x kubeApi \<Rightarrow> 'x cell cells \<Rightarrow> 'x SchedulerMem \<Rightarrow>
     (TypeMeta \<times> Scheduler) option" where
  "Scheduler_view k8s = CR_view k8s (SchedulerSpec_view k8s) plainView"

definition Scheduler_DeepCopyInto ::
    "'x kubeApi \<Rightarrow> 'x SchedulerMem \<Rightarrow> ('x goMemory, 'x SchedulerMem) action" where
  "Scheduler_DeepCopyInto k8s = CR_DeepCopyInto k8s (SchedulerSpec_DeepCopyInto k8s) plainCopy"

definition Scheduler_DeepCopy ::
    "'x kubeApi \<Rightarrow> ref option \<Rightarrow> ('x goMemory, ref option) action" where
  "Scheduler_DeepCopy k8s p = copyPointer SchedulerTag (Scheduler_DeepCopyInto k8s) p"

definition Scheduler_DeepCopyObject ::
    "'x kubeApi \<Rightarrow> ref option \<Rightarrow> ('x goMemory, (string \<times> ref) option) action" where
  "Scheduler_DeepCopyObject k8s p = asObject ''Scheduler'' (Scheduler_DeepCopy k8s p)"

definition SchedulerList_view ::
    "'x kubeApi \<Rightarrow> 'x cell cells \<Rightarrow> 'x ListMem \<Rightarrow>
     (TypeMeta \<times> ListMeta \<times> (TypeMeta \<times> Scheduler) list) option" where
  "SchedulerList_view k8s = List_view k8s SchedulersTag (Scheduler_view k8s)"

definition SchedulerList_DeepCopyInto ::
    "'x kubeApi \<Rightarrow> 'x ListMem \<Rightarrow> ('x goMemory, 'x ListMem) action" where
  "SchedulerList_DeepCopyInto k8s = List_DeepCopyInto k8s SchedulersTag (Scheduler_DeepCopyInto k8s)"

definition SchedulerList_DeepCopy ::
    "'x kubeApi \<Rightarrow> ref option \<Rightarrow> ('x goMemory, ref option) action" where
  "SchedulerList_DeepCopy k8s p = copyPointer SchedulerListTag (SchedulerList_DeepCopyInto k8s) p"

definition SchedulerList_DeepCopyObject ::
    "'x kubeApi \<Rightarrow> ref option \<Rightarrow> ('x goMemory, (string \<times> ref) option) action" where
  "SchedulerList_DeepCopyObject k8s p = asObject ''SchedulerList'' (SchedulerList_DeepCopy k8s p)"

lemma Scheduler_copiers [copier_intros]:
  assumes "kubeApiLaws k8s"
  shows "deepCopier (Scheduler_view k8s) (Scheduler_DeepCopyInto k8s)"
    and "deepCopier (SchedulerList_view k8s) (SchedulerList_DeepCopyInto k8s)"
  unfolding Scheduler_view_def Scheduler_DeepCopyInto_def SchedulerList_view_def SchedulerList_DeepCopyInto_def
  by (intro copier_intros assms)+

section \<open>SchedulerIngester\<close>

definition SchedulerIngester_view ::
    "'x kubeApi \<Rightarrow> 'x cell cells \<Rightarrow> 'x SchedulerIngesterMem \<Rightarrow>
     (TypeMeta \<times> SchedulerIngester) option" where
  "SchedulerIngester_view k8s = CR_view k8s (SchedulerIngesterSpec_view k8s) plainView"

definition SchedulerIngester_DeepCopyInto ::
    "'x kubeApi \<Rightarrow> 'x SchedulerIngesterMem \<Rightarrow>
     ('x goMemory, 'x SchedulerIngesterMem) action" where
  "SchedulerIngester_DeepCopyInto k8s = CR_DeepCopyInto k8s (SchedulerIngesterSpec_DeepCopyInto k8s) plainCopy"

definition SchedulerIngester_DeepCopy ::
    "'x kubeApi \<Rightarrow> ref option \<Rightarrow> ('x goMemory, ref option) action" where
  "SchedulerIngester_DeepCopy k8s p = copyPointer SchedulerIngesterTag (SchedulerIngester_DeepCopyInto k8s) p"

definition SchedulerIngester_DeepCopyObject ::
    "'x kubeApi \<Rightarrow> ref option \<Rightarrow> ('x goMemory, (string \<times> ref) option) action" where
  "SchedulerIngester_DeepCopyObject k8s p = asObject ''SchedulerIngester'' (SchedulerIngester_DeepCopy k8s p)"

definition SchedulerIngesterList_view ::
    "'x kubeApi \<Rightarrow> 'x cell cells \<Rightarrow> 'x ListMem \<Rightarrow>
     (TypeMeta \<times> ListMeta \<times> (TypeMeta \<times> SchedulerIngester) list) option" where
  "SchedulerIngesterList_view k8s = List_view k8s SchedulerIngestersTag (SchedulerIngester_view k8s)"

definition SchedulerIngesterList_DeepCopyInto ::
    "'x kubeApi \<Rightarrow> 'x ListMem \<Rightarrow> ('x goMemory, 'x ListMem) action" where
  "SchedulerIngesterList_DeepCopyInto k8s =
     List_DeepCopyInto k8s SchedulerIngestersTag (SchedulerIngester_DeepCopyInto k8s)"

definition SchedulerIngesterList_DeepCopy ::
    "'x kubeApi \<Rightarrow> ref option \<Rightarrow> ('x goMemory, ref option) action" where
  "SchedulerIngesterList_DeepCopy k8s p =
     copyPointer SchedulerIngesterListTag (SchedulerIngesterList_DeepCopyInto k8s) p"

definition SchedulerIngesterList_DeepCopyObject ::
    "'x kubeApi \<Rightarrow> ref option \<Rightarrow> ('x goMemory, (string \<times> ref) option) action" where
  "SchedulerIngesterList_DeepCopyObject k8s p =
     asObject ''SchedulerIngesterList'' (SchedulerIngesterList_DeepCopy k8s p)"

lemma SchedulerIngester_copiers [copier_intros]:
  assumes "kubeApiLaws k8s"
  shows "deepCopier (SchedulerIngester_view k8s) (SchedulerIngester_DeepCopyInto k8s)"
    and "deepCopier (SchedulerIngesterList_view k8s) (SchedulerIngesterList_DeepCopyInto k8s)"
  unfolding SchedulerIngester_view_def
  SchedulerIngester_DeepCopyInto_def SchedulerIngesterList_view_def SchedulerIngesterList_DeepCopyInto_def
  by (intro copier_intros assms)+

section \<open>Queue\<close>

definition Queue_view ::
    "'x kubeApi \<Rightarrow> 'x cell cells \<Rightarrow> 'x QueueMem \<Rightarrow>
     (TypeMeta \<times> Queue) option" where
  "Queue_view k8s = CR_view k8s plainView plainView"

definition Queue_DeepCopyInto ::
    "'x kubeApi \<Rightarrow> 'x QueueMem \<Rightarrow> ('x goMemory, 'x QueueMem) action" where
  "Queue_DeepCopyInto k8s = CR_DeepCopyInto k8s plainCopy plainCopy"

definition Queue_DeepCopy ::
    "'x kubeApi \<Rightarrow> ref option \<Rightarrow> ('x goMemory, ref option) action" where
  "Queue_DeepCopy k8s p = copyPointer QueueTag (Queue_DeepCopyInto k8s) p"

definition Queue_DeepCopyObject ::
    "'x kubeApi \<Rightarrow> ref option \<Rightarrow> ('x goMemory, (string \<times> ref) option) action" where
  "Queue_DeepCopyObject k8s p = asObject ''Queue'' (Queue_DeepCopy k8s p)"

definition QueueList_view ::
    "'x kubeApi \<Rightarrow> 'x cell cells \<Rightarrow> 'x ListMem \<Rightarrow>
     (TypeMeta \<times> ListMeta \<times> (TypeMeta \<times> Queue) list) option" where
  "QueueList_view k8s = List_view k8s QueuesTag (Queue_view k8s)"

definition QueueList_DeepCopyInto ::
    "'x kubeApi \<Rightarrow> 'x ListMem \<Rightarrow> ('x goMemory, 'x ListMem) action" where
  "QueueList_DeepCopyInto k8s = List_DeepCopyInto k8s QueuesTag (Queue_DeepCopyInto k8s)"

definition QueueList_DeepCopy ::
    "'x kubeApi \<Rightarrow> ref option \<Rightarrow> ('x goMemory, ref option) action" where
  "QueueList_DeepCopy k8s p = copyPointer QueueListTag (QueueList_DeepCopyInto k8s) p"

definition QueueList_DeepCopyObject ::
    "'x kubeApi \<Rightarrow> ref option \<Rightarrow> ('x goMemory, (string \<times> ref) option) action" where
  "QueueList_DeepCopyObject k8s p = asObject ''QueueList'' (QueueList_DeepCopy k8s p)"

lemma Queue_copiers [copier_intros]:
  assumes "kubeApiLaws k8s"
  shows "deepCopier (Queue_view k8s) (Queue_DeepCopyInto k8s)"
    and "deepCopier (QueueList_view k8s) (QueueList_DeepCopyInto k8s)"
  unfolding Queue_view_def Queue_DeepCopyInto_def QueueList_view_def QueueList_DeepCopyInto_def
  by (intro copier_intros assms)+
section \<open>The contract met\<close>

text \<open>Structs that need nothing of the Kubernetes libraries meet the contract as they are.\<close>

interpretation ingressConfig: deepCopier IngressConfig_view IngressConfig_DeepCopyInto
  by (rule IngressConfig_copier)

interpretation prometheusConfig: deepCopier PrometheusConfig_view PrometheusConfig_DeepCopyInto
  by (rule PrometheusConfig_copier)

interpretation serviceAccountConfig: deepCopier ServiceAccountConfig_view ServiceAccountConfig_DeepCopyInto
  by (rule ServiceAccountConfig_copier)

interpretation partitionJobTableConfig: deepCopier PartitionJobTableConfig_view PartitionJobTableConfig_DeepCopyInto
  by (rule PartitionJobTableConfig_copier)

end
