(* ===== verification/MemoryExamples.thy ===== *)
theory MemoryExamples
  imports DeepCopy
begin

text \<open>
  Types of the Kubernetes libraries that meet \<open>kubeApiLaws\<close>, one of them with pointers of its own, and a
  memory that holds a Lookout and a list with two Schedulers that share a cell.
\<close>

datatype demoApi =
    DObjectMeta ObjectMeta
  | DListMeta ListMeta
  | DRawExtension bytes
  | DResources ResourceRequirements
  | DToleration Toleration
  | DEnvVar EnvVar
  | DVolume Volume
  | DVolumeMount VolumeMount
  | DSecurityContext SecurityContext
  | DPodSecurityContext "ref option" "ref option"
  | DCondition Condition

definition demoPodSecurityContext_view :: "demoApi cell cells \<Rightarrow> demoApi \<Rightarrow> PodSecurityContext option" where
  "demoPodSecurityContext_view c x =
     (case x of
        DPodSecurityContext uid gid \<Rightarrow> do {
          u \<leftarrow> pointerView int64Tag plainView c uid;
          g \<leftarrow> pointerView int64Tag plainView c gid;
          Some \<lparr>psc_RunAsUser = u, psc_RunAsGroup = g\<rparr>}
      | _ \<Rightarrow> None)"

definition demoPodSecurityContext_DeepCopyInto :: "demoApi \<Rightarrow> (demoApi goMemory, demoApi) action" where
  "demoPodSecurityContext_DeepCopyInto x =
     (case x of
        DPodSecurityContext uid gid \<Rightarrow>
          andThenA (copyPointer int64Tag plainCopy uid) (\<lambda>u.
          andThenA (copyPointer int64Tag plainCopy gid) (\<lambda>g.
          returnA (DPodSecurityContext u g)))
      | _ \<Rightarrow> returnA x)"

definition demoKube :: "demoApi kubeApi" where
  "demoKube = \<lparr>
     ObjectMeta_view = (\<lambda>c x. case x of DObjectMeta v \<Rightarrow> Some v | _ \<Rightarrow> None), ObjectMeta_DeepCopyInto = plainCopy,
     ListMeta_view = (\<lambda>c x. case x of DListMeta v \<Rightarrow> Some v | _ \<Rightarrow> None), ListMeta_DeepCopyInto = plainCopy,
     RawExtension_view = (\<lambda>c x. case x of DRawExtension v \<Rightarrow> Some v | _ \<Rightarrow> None), RawExtension_DeepCopyInto = plainCopy,
     ResourceRequirements_view = (\<lambda>c x. case x of DResources v \<Rightarrow> Some v | _ \<Rightarrow> None),
     ResourceRequirements_DeepCopyInto = plainCopy,
     Toleration_view = (\<lambda>c x. case x of DToleration v \<Rightarrow> Some v | _ \<Rightarrow> None), Toleration_DeepCopyInto = plainCopy,
     EnvVar_view = (\<lambda>c x. case x of DEnvVar v \<Rightarrow> Some v | _ \<Rightarrow> None), EnvVar_DeepCopyInto = plainCopy,
     Volume_view = (\<lambda>c x. case x of DVolume v \<Rightarrow> Some v | _ \<Rightarrow> None), Volume_DeepCopyInto = plainCopy,
     VolumeMount_view = (\<lambda>c x. case x of DVolumeMount v \<Rightarrow> Some v | _ \<Rightarrow> None), VolumeMount_DeepCopyInto = plainCopy,
     SecurityContext_view = (\<lambda>c x. case x of DSecurityContext v \<Rightarrow> Some v | _ \<Rightarrow> None),
     SecurityContext_DeepCopyInto = plainCopy,
     PodSecurityContext_view = demoPodSecurityContext_view,
     PodSecurityContext_DeepCopyInto = demoPodSecurityContext_DeepCopyInto,
     Condition_view = (\<lambda>c x. case x of DCondition v \<Rightarrow> Some v | _ \<Rightarrow> None), Condition_DeepCopyInto = plainCopy\<rparr>"

lemma plainCopy_any: "deepCopier (\<lambda>c. f) plainCopy"
  by unfold_locales (auto simp: steady_def plainCopy_def yields_def)

lemma demoPodSecurityContext_copier: "deepCopier demoPodSecurityContext_view demoPodSecurityContext_DeepCopyInto"
proof
  show "steady (\<lambda>c. demoPodSecurityContext_view c x)" for x
    by (cases x) (simp_all add: demoPodSecurityContext_view_def steady_intros plain_steady)
  fix h x v
  assume "wfHeap h" "demoPodSecurityContext_view (hp_cells h) x = Some v"
  then show "yields h (demoPodSecurityContext_DeepCopyInto x) (\<lambda>c y. demoPodSecurityContext_view c y = Some v)"
    by (cases x)
      (auto simp: demoPodSecurityContext_view_def demoPodSecurityContext_DeepCopyInto_def bind_eq_Some_conv
        intro!: copy_steps copier_intros yields_return)
qed

lemma kubeApiLaws_demoKube [simp]: "kubeApiLaws demoKube"
  by (simp add: kubeApiLaws_def demoKube_def plainCopy_any demoPodSecurityContext_copier)

definition demoBaseMem :: "demoApi CommonSpecBaseMem" where
  "demoBaseMem = \<lparr>csbm_Labels = Some 1, csbm_Image = \<lparr>im_Repository = ''lookout'', im_Tag = ''1.0''\<rparr>,
     csbm_ApplicationConfig = DRawExtension ''{}'', csbm_Prometheus = None, csbm_Resources = None, csbm_Tolerations = None,
     csbm_TerminationGracePeriodSeconds = None, csbm_CustomServiceAccount = '''', csbm_ServiceAccount = None,
     csbm_Environment = None, csbm_AdditionalVolumes = None, csbm_AdditionalVolumeMounts = None,
     csbm_NodeSelector = None, csbm_TopologyKey = ''''\<rparr>"

definition demoLookoutMem :: "demoApi LookoutMem" where
  "demoLookoutMem = \<lparr>crm_TypeMeta = \<lparr>tm_Kind = ''Lookout'', tm_APIVersion = ''install.armadaproject.io/v1alpha1''\<rparr>,
     crm_ObjectMeta = DObjectMeta (newMeta ''lookout'' ''armada'' Map.empty Map.empty),
     crm_Spec = \<lparr>lkm_Base = demoBaseMem, lkm_Replicas = None, lkm_NodeSelector = None, lkm_Ingress = Some 2,
       lkm_HostNames = Some 3, lkm_ClusterIssuer = '''', lkm_Migrate = None, lkm_MigrationDbWaitImage = None,
       lkm_DbPruningEnabled = None, lkm_DbPruningSchedule = None, lkm_SecurityContext = None,
       lkm_PodSecurityContext = Some 4, lkm_ProfilingIngressConfig = Some 2, lkm_PartitionJobTable = None\<rparr>,
     crm_Status = \<lparr>lstm_Conditions = None\<rparr>\<rparr>"

definition demoSchedulerMem :: "demoApi SchedulerMem" where
  "demoSchedulerMem = \<lparr>crm_TypeMeta = \<lparr>tm_Kind = ''Scheduler'', tm_APIVersion = ''install.armadaproject.io/v1alpha1''\<rparr>,
     crm_ObjectMeta = DObjectMeta (newMeta ''scheduler'' ''armada'' Map.empty Map.empty),
     crm_Spec = \<lparr>sdm_Base = demoBaseMem, sdm_Replicas = None, sdm_Ingress = Some 2, sdm_ProfilingIngressConfig = None,
       sdm_HostNames = Some 3, sdm_ClusterIssuer = '''', sdm_Migrate = None, sdm_MigrationDbWaitImage = None,
       sdm_Pruner = None, sdm_SecurityContext = None, sdm_PodSecurityContext = Some 4\<rparr>,
     crm_Status = ()\<rparr>"

text \<open>Both pointers to an Ingress configuration of the Lookout lead to one cell.\<close>

definition demoMemory :: "demoApi goMemory" where
  "demoMemory = \<lparr>hp_cells = [0 \<mapsto> tag_put LookoutTag demoLookoutMem, 1 \<mapsto> tag_put strmapTag [''team'' \<mapsto> ''blue''],
       2 \<mapsto> tag_put IngressConfigTag \<lparr>icm_Labels = Some 1, icm_Annotations = None, icm_IngressClass = ''nginx'',
          icm_Hostnames = Some 3, icm_ClusterIssuer = ''''\<rparr>,
       3 \<mapsto> tag_put stringsTag [''demo.example.com''], 4 \<mapsto> tag_put ApiTag (DPodSecurityContext (Some 5) None),
       5 \<mapsto> tag_put int64Tag 1000,
       6 \<mapsto> tag_put SchedulersTag [demoSchedulerMem, demoSchedulerMem],
       7 \<mapsto> tag_put SchedulerListTag \<lparr>lsm_TypeMeta = \<lparr>tm_Kind = ''SchedulerList'', tm_APIVersion = ''install.armadaproject.io/v1alpha1''\<rparr>,
          lsm_ListMeta = DListMeta (ListMeta ''''), lsm_Items = Some 6\<rparr>],
     hp_next = 8\<rparr>"

lemma wfHeap_demoMemory [simp]: "wfHeap demoMemory"
  by (auto simp: wfHeap_def demoMemory_def)

lemmas demo_view_defs = pointerView_def sliceView_def mapView_def plainView_def demoKube_def demoPodSecurityContext_view_def
  CommonSpecBase_view_def IngressConfig_view_def CR_view_def demoBaseMem_def

lemma demoLookout_view:
  "\<exists>v. pointerView LookoutTag (Lookout_view demoKube) (hp_cells demoMemory) (Some 0) = Some (Some v) \<and>
     lk_ProfilingIngressConfig (cr_Spec (snd v)) = lk_Ingress (cr_Spec (snd v)) \<and>
     lk_HostNames (cr_Spec (snd v)) = [''demo.example.com'']"
  by (simp add: demo_view_defs Lookout_view_def LookoutSpec_view_def LookoutStatus_view_def demoLookoutMem_def demoMemory_def
      CommonSpecBase.extend_def LookoutSpec.fields_def tags)

lemma demoSchedulers_view:
  "\<exists>v. pointerView SchedulerListTag (SchedulerList_view demoKube) (hp_cells demoMemory) (Some 7) = Some (Some v) \<and>
     length (snd (snd v)) = 2"
  by (simp add: demo_view_defs Scheduler_view_def SchedulerSpec_view_def SchedulerList_view_def List_view_def
      demoSchedulerMem_def demoMemory_def CommonSpecBase.extend_def SchedulerSpec.fields_def tags)

end
