(* ===== verification/Spec2Isabelle.thy ===== *)
theory Spec2Isabelle
  imports Panics Partitioning Stability Sharing Served Schemes Deviations OperatorExamples MemoryExamples
begin

text \<open>
  \<^bold>\<open>The program.\<close> \<open>armada-operator\<close> is a Kubernetes operator that installs the parts of Armada, a batch
  scheduler. For each of eight custom resources (ArmadaServer, Binoculars, EventIngester, Executor,
  Lookout, LookoutIngester, Scheduler, SchedulerIngester) there is a controller, whose \<open>Reconcile\<close>
  brings the cluster to the state that the resource describes, and an admission webhook, which fills
  in defaults before the resource is stored. A reconciliation fetches the resource, generates its
  objects (\<open>CommonComponents\<close>), keeps the operator's finalizer on it or runs the clean-up when it is
  being deleted, and upserts the objects in a fixed order, waiting for migration Jobs on the way.

  \<^bold>\<open>Theories and sources.\<close>
  \<^item> \<open>Prelude\<close>: results (an \<open>error\<close> or a value; a nil dereference or an index out of range is the error
    \<open>Panic\<close>), actions (state passing with errors), 32 and 64 bit integers.
  \<^item> \<open>GoStdlib\<close>: \<open>crypto/sha256\<close>, \<open>encoding/hex\<close> and the printing of integers, which the source uses.
  \<^item> \<open>KubeTypes\<close>, \<open>ApiTypes\<close>: the fields of the Kubernetes API types that the code reads or writes, and the
    types of \<open>api/install/v1alpha1\<close>.
  \<^item> \<open>Externs\<close>: YAML, owner references, finalizers, quantities and durations, which are third-party code:
    parameters, with the behaviour the code relies on as predicates (\<open>ownerLaw\<close>, \<open>finalizerLaw\<close>).
  \<^item> \<open>Builders\<close>: \<open>internal/controller/builders\<close>. \<open>CommonHelpers\<close>, \<open>Components\<close>, \<open>ClientOps\<close>:
    \<open>internal/controller/install/common_helpers.go\<close>, its pure part, \<open>CommonComponents\<close> with
    \<open>ReconcileComponents\<close>, and the part that calls the API server.
  \<^item> \<open>ArmadaServer\<close>, \<open>Binoculars\<close>, \<open>EventIngester\<close>, \<open>Executor\<close>, \<open>Lookout\<close>, \<open>LookoutIngester\<close>,
    \<open>Scheduler\<close>, \<open>SchedulerIngester\<close>: one theory for each \<open>internal/controller/install/*_controller.go\<close>.
    A function keeps its name; where two controllers have a function of the same name it is
    prefixed with the controller's.
  \<^item> \<open>Webhooks\<close>: \<open>api/install/v1alpha1/*_webhook.go\<close>.
  \<^item> \<open>Startup\<close>: \<open>cmd/main.go\<close>, every \<open>SetupWithManager\<close> and \<open>SetupWebhookWithManager\<close>, and the \<open>Queue\<close> scaffold.
  \<^item> \<open>Schemes\<close>: \<open>groupversion_info.go\<close> of both API groups and the \<open>init\<close> functions, which put the types into the
    manager's scheme before \<open>main\<close> runs; every kind that \<open>main\<close> sets up is in it.
  \<^item> \<open>GoMemory\<close>, \<open>ApiMemory\<close>, \<open>DeepCopy\<close>: Go's memory, the custom resources in it, and their deep copies in
    \<open>zz_generated.deepcopy.go\<close>. \<open>MemoryExamples\<close>: a memory for witnesses.
  \<^item> \<open>Reconciling\<close>, \<open>Installation\<close>, \<open>Healthy\<close>, \<open>Deletion\<close>, \<open>Ordering\<close>, \<open>Partitioning\<close>, \<open>Panics\<close>: what
    the reconcilers share, proved once. \<open>Examples\<close>: one custom resource of each kind, for witnesses.
  \<^item> \<open>Tenancy\<close>, \<open>Operator\<close>, \<open>Sharing\<close>, \<open>Stability\<close>: the controllers together, on one server. \<open>Operator\<close> is
    what the manager of \<open>cmd/main.go\<close> runs: requests of every kind, each handed to the \<open>Reconcile\<close> of its
    controller. \<open>OperatorExamples\<close>: a server with several custom resources, for witnesses.
  \<^item> \<open>Served\<close>: what a successful reconciliation means for who reads the server: routes to the pods of a Lookout,
    permissions and replicas of an Executor, permissions of a Binoculars.
  \<^item> \<open>Deviations\<close>: facts about the generators that a maintainer would not expect.

  \<^bold>\<open>State.\<close> A \<open>world\<close> is the server's state (opaque, of any type), the operator's heap and a ghost trace of
  the calls made. The components are pointers that the client writes through while they are being
  reconciled (the server's answer is decoded into them), so the record \<open>CommonComponents\<close> is the
  heap, a \<open>slot\<close> is the address of one object in it and an upsert gets an address. The client is a
  record of functions over that state; its documented behaviour is \<open>clientLaws\<close>, over a \<open>view\<close> of the
  server: the object under a key with the fields that clients sent. \<open>refClient\<close> and \<open>refExterns\<close> are
  instances that satisfy the laws and on which the witnesses run.

  \<^bold>\<open>Memory.\<close> The rest of the development works on values. That a value can stand for a pointer is what
  Go's deep copies provide, and there the model is one of addresses: a struct in memory (\<open>ArmadaServerMem\<close> and
  so on) has an address for every pointer, map and slice, a \<open>memory\<close> maps addresses to cells, and
  \<open>ArmadaServer_view\<close> reads the record of \<open>ApiTypes\<close> that a struct stands for.

  \<^bold>\<open>The body of a reconciliation\<close> after the components are generated is a list of steps (upsert, wait for a
  Job, delete), because the code runs one call after the other and returns at the first error. The
  controllers come in two shapes, \<open>checkFirst\<close> and \<open>generateFirst\<close> (of \<open>Installation\<close>), and each
  \<open>Reconcile\<close> is shown to be one of them; only Lookout goes on after its steps.

  \<^bold>\<open>Interfaces.\<close> The locale \<open>installer\<close> is what a reconciliation needs of a generator and of the list of
  steps (the components are well formed, no two managed objects are one object on the server, none is
  upserted twice) and carries the trace, installation and progress lemmas; it is interpreted by every
  controller. The locale \<open>tenantInstaller\<close> extends it by where the generated objects belong (the
  resource's namespace and ownership, or cluster-scoped under its name), and bounds what a reconciliation
  may change; it is interpreted by every controller too. The locale \<open>defaulter\<close> is the contract of a webhook, interpreted by every webhook. The
  locale \<open>deepCopier\<close> is the contract of a deep copy; each struct's \<open>DeepCopyInto\<close> is proved to meet it,
  where a struct contains types of the Kubernetes libraries under \<open>kubeApiLaws\<close>, which says that theirs do.

  \<^bold>\<open>Lemmas.\<close> \<open>Reconciling\<close>: the objects keep their keys through a run; the calls made are a prefix of
  the plan; a Job that was waited for is finished; what was upserted stays on the server. \<open>Healthy\<close>:
  a run on a server whose calls succeed and whose Jobs finish returns. \<open>Deletion\<close>: order of the
  clean-up, finalizer first. \<open>Ordering\<close>, \<open>Partitioning\<close>: objects that depend on a Job come after it.
  \<open>Panics\<close>: which specs cannot make a reconciliation panic. \<open>Startup\<close>: a process makes the calls of its
  plan until one fails. \<open>Tenancy\<close>: a reconciliation changes no key outside the reach of its request.
  \<open>Operator\<close>: nor does a history of reconciliations (\<open>operatorRun\<close>, a step relation whose steps are whole
  reconciliations), so what is installed elsewhere stays. \<open>Sharing\<close>: other actors may act before any call
  (\<open>sharedClient\<close>); a client under whom nobody else writes the upserted keys still keeps the laws relative
  to those keys, so the reconciliation still converges. \<open>Stability\<close>: when the API server takes an
  update whole or not at all (\<open>atomicLaw\<close>), reconciling again undoes nothing, however it ends. \<open>GoMemory\<close>: copying a pointer, map, slice or field keeps the contract.

  \<^bold>\<open>Bounds.\<close> Waiting for a Job polls every five seconds for two minutes, so 24 reads at most
  (\<open>pollLaw\<close>: the number of reads is at most the timeout over the interval, and may be less when
  calls are slow). There is no other loop that could run on: every recursion is over a list.

  \<^bold>\<open>Not modelled.\<close> the parsing of flags; logging, contexts and the watch that triggers a reconciliation; the test utilities. Fields of the API types that the
  code neither reads nor writes are left out; values that are only passed on are opaque text.
\<close>

section \<open>Reconciliation installs the components\<close>

text \<open>
  After a reconciliation the server has, for every generated object that a step upserts and that
  \<open>ReconcileComponents\<close> manages, the fields that were generated.
\<close>

definition converged :: "'s view \<Rightarrow> CommonComponents \<Rightarrow> step list \<Rightarrow> 's world \<Rightarrow> bool" where
  "converged view cc sts w \<longleftrightarrow> (\<forall>s \<in> upsertedSlots sts. managed s \<longrightarrow> derefSlot cc s \<noteq> None \<longrightarrow>
     installed view cc s w)"

lemma convergedD:
  "converged view cc sts w \<Longrightarrow> s \<in> upsertedSlots sts \<Longrightarrow> managed s \<Longrightarrow> derefSlot cc s \<noteq> None \<Longrightarrow>
     installed view cc s w"
  by (simp add: converged_def)

text \<open>
  C1: ArmadaServer. Take any client that keeps the laws of \<open>controller-runtime\<close> and any server on
  which calls succeed and Jobs finish. If the resource is live and its components can be generated,
  \<open>Reconcile\<close> returns without an error, and every managed object that it upserts is then on the
  server with the generated fields.
\<close>

theorem ArmadaServer_converges:
  assumes "clientLaws c view" "healthy c view" "ownerLaw x"
    "fetches c req w cr" "live x cr" "ArmadaServer_generate x cr = Inr cc"
  shows "\<exists>w'. ArmadaServer_Reconcile x c req w = (Inr (), w') \<and> converged view cc (ArmadaServer_steps cr cc) w'"
  unfolding converged_def ArmadaServer_Reconcile_skeleton
  by (rule armadaServer.run_converges [OF assms(1-3,6) TrueI _ ArmadaServer_ready])
    (rule generateFirst_starts [where generate = "ArmadaServer_generate x", OF assms(4-6)])

lemma ArmadaServer_converges_witness:
  "\<exists>cc w'. ArmadaServer_Reconcile refExterns refClient demoKey (demoWorld demoArmadaServer) = (Inr (), w') \<and>
     converged refView cc (ArmadaServer_steps demoArmadaServer cc) w' \<and> cc_Deployment cc \<noteq> None"
proof -
  obtain cc where cc: "ArmadaServer_generate refExterns demoArmadaServer = Inr cc"
    using demoArmadaServer_generates ..
  with armadaServer.required [of refExterns demoArmadaServer cc]
  have "cc_Deployment cc \<noteq> None" by (simp add: generated_def)
  with ArmadaServer_converges [of refClient refView refExterns demoKey "demoWorld demoArmadaServer", OF _ _ _ _ _ cc]
  show ?thesis by auto
qed

text \<open>
  C2: Lookout, whose \<open>Reconcile\<close> goes on after its steps: with a partition Job configured, the tail
  upserts that Job and updates the status, and cannot fail on a healthy server either.
\<close>

theorem Lookout_converges:
  assumes "clientLaws c view" "statusLaw c view" "healthy c view" "ownerLaw x"
    "fetches c req w cr" "live x cr" "Lookout_generateAll x cr = Inr (cc, job)"
  shows "\<exists>w'. Lookout_Reconcile x c req w = (Inr (), w') \<and> converged view cc (Lookout_steps cr cc) w'"
proof -
  obtain w' where w': "Lookout_Reconcile x c req w = (Inr (), w')"
    using Lookout_progress [OF assms(1,3,4,5-7)] ..
  have "converged view cc (Lookout_steps cr cc) w'"
    unfolding converged_def using Lookout_installs [OF assms(1,2,4,5-7) w'] by blast
  with w' show ?thesis by blast
qed

lemma Lookout_converges_witness:
  "\<exists>cc job w'. Lookout_generateAll refExterns demoLookout = Inr (cc, Some job) \<and>
     Lookout_Reconcile refExterns refClient demoKey (demoWorld demoLookout) = (Inr (), w') \<and>
     converged refView cc (Lookout_steps demoLookout cc) w'"
proof -
  obtain cc job where cc: "Lookout_generateAll refExterns demoLookout = Inr (cc, Some job)"
    using demoLookout_generates by blast
  with Lookout_converges [of refClient refView refExterns demoKey "demoWorld demoLookout", OF _ _ _ _ _ _ cc]
  show ?thesis by auto
qed

text \<open>C3: Scheduler, which checks the deletion timestamp before it generates its components.\<close>

theorem Scheduler_converges:
  assumes "clientLaws c view" "healthy c view" "ownerLaw x"
    "fetches c req w cr" "live x cr" "Scheduler_generate x cr = Inr cc"
  shows "\<exists>w'. Scheduler_Reconcile x c req w = (Inr (), w') \<and> converged view cc (Scheduler_steps cr cc) w'"
  unfolding converged_def Scheduler_Reconcile_skeleton
  by (rule scheduler.run_converges [OF assms(1-3,6) TrueI _ Scheduler_ready])
    (rule checkFirst_starts [where generate = "Scheduler_generate x", OF assms(4-6)])

lemma Scheduler_converges_witness:
  "\<exists>cc w'. Scheduler_Reconcile refExterns refClient demoKey (demoWorld demoScheduler) = (Inr (), w') \<and>
     converged refView cc (Scheduler_steps demoScheduler cc) w'"
proof -
  obtain cc where cc: "Scheduler_generate refExterns demoScheduler = Inr cc" using demoScheduler_generates ..
  with Scheduler_converges [of refClient refView refExterns demoKey "demoWorld demoScheduler", OF _ _ _ _ _ cc]
  show ?thesis by auto
qed

text \<open>
  C4: Executor. Its additional ClusterRoleBindings are named by a suffix that the user chooses, so
  two of them may be one object on the server; with distinct suffixes every one is installed.
\<close>

theorem Executor_converges:
  assumes "clientLaws c view" "healthy c view" "ownerLaw x"
    "fetches c req w cr" "live x cr" "Executor_generate x cr = Inr cc"
    "distinct (map acrb_NameSuffix (ex_AdditionalClusterRoleBindings (cr_Spec cr)))"
  shows "\<exists>w'. Executor_Reconcile x c req w = (Inr (), w') \<and> converged view cc (Executor_steps cr cc) w'"
  unfolding converged_def Executor_Reconcile_skeleton
  by (rule executor.run_converges [OF assms(1-3,6) _ _ Executor_ready])
    (simp add: Executor_separate_def assms(7),
     rule generateFirst_starts [where generate = "Executor_generate x", OF assms(4-6)])

lemma Executor_converges_witness:
  "\<exists>cc w'. Executor_Reconcile refExterns refClient demoKey (demoWorld demoExecutor) = (Inr (), w') \<and>
     converged refView cc (Executor_steps demoExecutor cc) w'"
proof -
  obtain cc where cc: "Executor_generate refExterns demoExecutor = Inr cc" using demoExecutor_generates ..
  have "distinct (map acrb_NameSuffix (ex_AdditionalClusterRoleBindings (cr_Spec demoExecutor)))"
    by (simp add: demoExecutor_def)
  with Executor_converges [of refClient refView refExterns demoKey "demoWorld demoExecutor", OF _ _ _ _ _ cc]
  show ?thesis by auto
qed

text \<open>Binoculars, with its ClusterRole and ClusterRoleBinding.\<close>

theorem Binoculars_converges:
  assumes "clientLaws c view" "healthy c view" "ownerLaw x"
    "fetches c req w cr" "live x cr" "Binoculars_generate x cr = Inr cc"
  shows "\<exists>w'. Binoculars_Reconcile x c req w = (Inr (), w') \<and> converged view cc (Binoculars_steps cr cc) w'"
  unfolding converged_def Binoculars_Reconcile_skeleton
  by (rule binoculars.run_converges [OF assms(1-3,6) TrueI _ Binoculars_ready])
    (rule generateFirst_starts [where generate = "Binoculars_generate x", OF assms(4-6)])

lemma Binoculars_converges_witness:
  "\<exists>cc w'. Binoculars_Reconcile refExterns refClient demoKey (demoWorld demoBinoculars) = (Inr (), w') \<and>
     converged refView cc (Binoculars_steps demoBinoculars cc) w'"
proof -
  obtain cc where cc: "Binoculars_generate refExterns demoBinoculars = Inr cc" using demoBinoculars_generates ..
  with Binoculars_converges [of refClient refView refExterns demoKey "demoWorld demoBinoculars", OF _ _ _ _ _ cc]
  show ?thesis by auto
qed

text \<open>EventIngester.\<close>

theorem EventIngester_converges:
  assumes "clientLaws c view" "healthy c view" "ownerLaw x"
    "fetches c req w cr" "live x cr" "EventIngester_generate x cr = Inr cc"
  shows "\<exists>w'. EventIngester_Reconcile x c req w = (Inr (), w') \<and> converged view cc (EventIngester_steps cr cc) w'"
  unfolding converged_def EventIngester_Reconcile_skeleton
  by (rule eventIngester.run_converges [OF assms(1-3,6) TrueI _ ingesters_ready(1)])
    (rule generateFirst_starts [where generate = "EventIngester_generate x", OF assms(4-6)])

lemma EventIngester_converges_witness:
  "\<exists>cc w'. EventIngester_Reconcile refExterns refClient demoKey (demoWorld demoEventIngester) = (Inr (), w') \<and>
     converged refView cc (EventIngester_steps demoEventIngester cc) w'"
proof -
  obtain cc where cc: "EventIngester_generate refExterns demoEventIngester = Inr cc" using demoEventIngester_generates ..
  with EventIngester_converges [of refClient refView refExterns demoKey "demoWorld demoEventIngester", OF _ _ _ _ _ cc]
  show ?thesis by auto
qed

text \<open>LookoutIngester.\<close>

theorem LookoutIngester_converges:
  assumes "clientLaws c view" "healthy c view" "ownerLaw x"
    "fetches c req w cr" "live x cr" "LookoutIngester_generate x cr = Inr cc"
  shows "\<exists>w'. LookoutIngester_Reconcile x c req w = (Inr (), w') \<and> converged view cc (LookoutIngester_steps cr cc) w'"
  unfolding converged_def LookoutIngester_Reconcile_skeleton
  by (rule lookoutIngester.run_converges [OF assms(1-3,6) TrueI _ ingesters_ready(2)])
    (rule checkFirst_starts [where generate = "LookoutIngester_generate x", OF assms(4-6)])

lemma LookoutIngester_converges_witness:
  "\<exists>cc w'. LookoutIngester_Reconcile refExterns refClient demoKey (demoWorld demoLookoutIngester) = (Inr (), w') \<and>
     converged refView cc (LookoutIngester_steps demoLookoutIngester cc) w'"
proof -
  obtain cc where cc: "LookoutIngester_generate refExterns demoLookoutIngester = Inr cc" using demoLookoutIngester_generates ..
  with LookoutIngester_converges [of refClient refView refExterns demoKey "demoWorld demoLookoutIngester", OF _ _ _ _ _ cc]
  show ?thesis by auto
qed

text \<open>SchedulerIngester.\<close>

theorem SchedulerIngester_converges:
  assumes "clientLaws c view" "healthy c view" "ownerLaw x"
    "fetches c req w cr" "live x cr" "SchedulerIngester_generate x cr = Inr cc"
  shows "\<exists>w'. SchedulerIngester_Reconcile x c req w = (Inr (), w') \<and> converged view cc (SchedulerIngester_steps cr cc) w'"
  unfolding converged_def SchedulerIngester_Reconcile_skeleton
  by (rule schedulerIngester.run_converges [OF assms(1-3,6) TrueI _ ingesters_ready(3)])
    (rule checkFirst_starts [where generate = "SchedulerIngester_generate x", OF assms(4-6)])

lemma SchedulerIngester_converges_witness:
  "\<exists>cc w'. SchedulerIngester_Reconcile refExterns refClient demoKey (demoWorld demoSchedulerIngester) = (Inr (), w') \<and>
     converged refView cc (SchedulerIngester_steps demoSchedulerIngester cc) w'"
proof -
  obtain cc where cc: "SchedulerIngester_generate refExterns demoSchedulerIngester = Inr cc"
    using demoSchedulerIngester_generates ..
  with SchedulerIngester_converges [of refClient refView refExterns demoKey "demoWorld demoSchedulerIngester", OF _ _ _ _ _ cc]
  show ?thesis by auto
qed

section \<open>Reconciling again, and among others\<close>

text \<open>
  C5: reconciling again does no harm. Whatever a later reconciliation of a live Binoculars with the same
  components comes to (also an error half-way), a managed object that had the generated fields before has them
  afterwards. So repeated reconciliations only add to what is installed.
\<close>

theorem Binoculars_keeps_installed:
  assumes "clientLaws c view" "resourceLaw c view" "atomicLaw c view" "ownerLaw x"
    "fetches c req w cr" "live x cr" "Binoculars_generate x cr = Inr cc" "Binoculars_Reconcile x c req w = (r, w')"
    "managed s" "installed view cc s w"
  shows "installed view cc s w'"
proof -
  have "deletesNothing (Binoculars_steps cr cc)" by (simp add: Binoculars_steps_def o_def)
  from binoculars.run_keeps_installed [OF assms(1-7) TrueI this assms(8) [unfolded Binoculars_Reconcile_skeleton] assms(9,10)]
  show ?thesis .
qed

lemma Binoculars_keeps_installed_witness:
  "\<exists>cc sec r w'. Binoculars_generate refExterns demoBinoculars = Inr cc \<and> cc_Secret cc = Some sec \<and>
     Binoculars_Reconcile refExterns refClient demoKey (holding (KSecret sec) (demoWorld demoBinoculars)) = (r, w') \<and>
     installed refView cc SSecret w'"
proof -
  obtain cc where cc: "Binoculars_generate refExterns demoBinoculars = Inr cc" using demoBinoculars_generates ..
  obtain sec where sec: "cc_Secret cc = Some sec"
    using binoculars.required [OF ownerLaw_refExterns cc] by (auto simp: generated_def)
  let ?w = "holding (KSecret sec) (demoWorld demoBinoculars)"
  obtain r w' where run: "Binoculars_Reconcile refExterns refClient demoKey ?w = (r, w')" by fastforce
  have f: "fetches refClient demoKey ?w demoBinoculars" by (rule fetches_holding) (rule fetches_demo, simp)
  have "installed refView cc SSecret ?w" using sec by (simp add: installed_def holding_def)
  with Binoculars_keeps_installed [OF clientLaws_refClient resourceLaw_refClient atomicLaw_refClient _ f _ cc run, of SSecret] cc sec run
  show ?thesis by auto
qed

text \<open>
  C6: a reconciliation among others. Before each of its calls anything may happen to the server, as long as nobody
  else writes the objects that it upserts: the reconciliation of a live EventIngester still returns
  without an error, and the server then has them.
\<close>

theorem EventIngester_converges_among_others:
  assumes "clientLaws c view" "healthy c view" "keepOff (upsertedKeys cc (EventIngester_steps cr cc)) view others" "ownerLaw x"
    "fetches (sharedClient others c) req w cr" "live x cr" "EventIngester_generate x cr = Inr cc"
  shows "\<exists>w'. EventIngester_Reconcile x (sharedClient others c) req w = (Inr (), w') \<and>
     converged (\<lambda>sh. view (sh_Server sh)) cc (EventIngester_steps cr cc) w'"
  unfolding converged_def EventIngester_Reconcile_skeleton
  by (rule eventIngester.run_converges_shared [OF assms(1-4,7) TrueI _ ingesters_ready(1)])
    (rule generateFirst_starts [where generate = "EventIngester_generate x", OF assms(5-7)])

lemma EventIngester_converges_among_others_witness:
  "\<exists>cc w'. EventIngester_Reconcile refExterns (sharedClient leaseHolder refClient) demoKey (sharedWorld (demoWorld demoEventIngester)) = (Inr (), w') \<and>
     converged (\<lambda>sh. refView (sh_Server sh)) cc (EventIngester_steps demoEventIngester cc) w'"
proof -
  obtain cc where cc: "EventIngester_generate refExterns demoEventIngester = Inr cc" using demoEventIngester_generates ..
  have "om_Namespace (metaOf ob) = ''armada''"
    if "s \<in> upsertedSlots (EventIngester_steps demoEventIngester cc)" "derefSlot cc s = Some ob" for s ob
  proof -
    have "s \<in> touchedSlots (EventIngester_steps demoEventIngester cc)" using that(1) upsertedSlots_touched by blast
    moreover have "\<not> clusterScoped (slotKind s)"
      using that(1) by (auto simp: upsertedSlots_def EventIngester_steps_def clusterScoped_def)
    ultimately show ?thesis
      using eventIngesterTenant.touched_owned(2) [OF ownerLaw_refExterns cc _ that(2)] by (simp add: demoMeta_def)
  qed
  then have "keepOff (upsertedKeys cc (EventIngester_steps demoEventIngester cc)) refView leaseHolder"
    by (intro leaseHolder_keepsOff) (fastforce simp: upsertedKeys_def keyOf_def)
  from EventIngester_converges_among_others [OF clientLaws_refClient healthy_refClient this ownerLaw_refExterns _ _ cc,
      of demoKey "sharedWorld (demoWorld demoEventIngester)"]
  show ?thesis by (auto simp: fetches_shared)
qed

section \<open>The operator as a whole\<close>

text \<open>
  C7: the operator keeps to its own. Whatever requests for whatever custom resources are reconciled, in
  any order and with any outcome (also an error, a panic or a deletion), an object that has changed afterwards
  lies in the namespace of one of the requested resources or, if it is a ClusterRole or
  ClusterRoleBinding, has the name of one of them, possibly with a suffix.
\<close>

theorem operator_confined:
  assumes "operatorLaws cs view" "finalizerLaw x" "ownerLaw x" "operatorRun x cs R s s'"
    "view s' (kind, ns, n) \<noteq> view s (kind, ns, n)"
  shows "\<exists>rq \<in> R. if kind = ClusterRoleKind \<or> kind = ClusterRoleBindingKind
     then n = snd (requestKey rq) \<or> prefix (snd (requestKey rq) @ ''-'') n
     else ns = fst (requestKey rq)"
proof -
  from assms(5) operatorRun_outside [OF assms(1-4)]
  obtain rq where rq: "rq \<in> R" "reach (requestKey rq) (kind, ns, n)" by blast
  obtain ns' n' where "requestKey rq = (ns', n')" by fastforce
  with rq show ?thesis by (intro bexI [of _ rq]) (simp_all add: clusterScoped_def)
qed

lemma operator_confined_witness:
  "\<exists>s' n. operatorRun refExterns fleetClients {ArmadaServerRequest demoKey} demoFleet s' \<and>
     rf_Objects s' (SecretKind, ''armada'', n) \<noteq> rf_Objects demoFleet (SecretKind, ''armada'', n) \<and>
     ''armada'' = fst demoKey"
proof -
  obtain s' n where s': "operatorRun refExterns fleetClients {ArmadaServerRequest demoKey} demoFleet s'"
    "rf_Objects s' (SecretKind, ''armada'', n) \<noteq> rf_Objects demoFleet (SecretKind, ''armada'', n)"
    using demoFleet_changes by blast
  have "''armada'' = fst demoKey"
    using operator_confined [where view = rf_Objects, OF operatorLaws_fleetClients finalizerLaw_refExterns ownerLaw_refExterns s'] by simp
  with s' show ?thesis by blast
qed

text \<open>
  C8: the operator's reconciliations for other namespaces do not get in the way of one another. While a live
  ArmadaServer is reconciled, any of them may run before each call, with any outcome: the reconciliation still returns
  without an error. Afterwards any more of them may follow, and the managed objects of the ArmadaServer have
  the generated fields all the time.
\<close>

theorem ArmadaServer_stays_converged:
  assumes "operatorLaws cs view" "healthy (cl_ArmadaServer cs) view" "finalizerLaw x" "ownerLaw x"
    "\<forall>rq \<in> R. fst (requestKey rq) \<noteq> crNamespace cr" "range rqs \<subseteq> R"
    "c = sharedClient (reconciling x cs rqs) (cl_ArmadaServer cs)"
    "fetches c req w cr" "live x cr" "ArmadaServer_generate x cr = Inr cc"
  shows "\<exists>w'. ArmadaServer_Reconcile x c req w = (Inr (), w') \<and>
     (\<forall>s'. operatorRun x cs R (sh_Server (w_Srv w')) s' \<longrightarrow> converged view cc (ArmadaServer_steps cr cc) (freshWorld s'))"
proof -
  have laws: "clientLaws (cl_ArmadaServer cs) view" using assms(1) by (simp add: operatorLaws_def managerLaws_def)
  have out: "\<not> reach (requestKey rq) (keyOf ob)"
    if "s \<in> upsertedSlots (ArmadaServer_steps cr cc)" "derefSlot cc s = Some ob" "rq \<in> R" for s ob rq
  proof -
    have s: "s \<in> touchedSlots (ArmadaServer_steps cr cc)" using that(1) upsertedSlots_touched by blast
    note ns = ArmadaServer_namespaced [OF s]
    from armadaServerTenant.touched_owned(2) [OF assms(4,10) s that(2) ns]
    have "om_Namespace (metaOf ob) = crNamespace cr" .
    with ns derefSlot_kind [OF that(2)] assms(5) that(3) show ?thesis by (cases "requestKey rq") (auto simp: keyOf_def)
  qed
  have off: "keepOff (upsertedKeys cc (ArmadaServer_steps cr cc)) view (reconciling x cs rqs)"
  proof (rule reconciling_keepsOff [OF assms(1,3,4)])
    fix t k
    assume "k \<in> upsertedKeys cc (ArmadaServer_steps cr cc)"
    then obtain s ob where "s \<in> upsertedSlots (ArmadaServer_steps cr cc)" "derefSlot cc s = Some ob" "k = keyOf ob"
      by (auto simp: upsertedKeys_def)
    moreover have "rqs t \<in> R" using assms(6) by blast
    ultimately show "\<not> reach (requestKey (rqs t)) k" using out by blast
  qed
  note start = generateFirst_starts [where generate = "ArmadaServer_generate x" and steps = ArmadaServer_steps
      and cleanup = "\<lambda>components. Some (ArmadaServer_deleteExternalResources c components)", OF assms(8-10)]
  obtain w' where w': "ArmadaServer_Reconcile x c req w = (Inr (), w')"
    "converged (\<lambda>sh. view (sh_Server sh)) cc (ArmadaServer_steps cr cc) w'"
    using armadaServer.run_converges_shared [OF laws assms(2) off assms(4,10) TrueI start [unfolded assms(7)] ArmadaServer_ready]
    unfolding converged_def ArmadaServer_Reconcile_skeleton assms(7) by blast
  have "converged view cc (ArmadaServer_steps cr cc) (freshWorld s')" if "operatorRun x cs R (sh_Server (w_Srv w')) s'" for s'
    unfolding converged_def
  proof (intro ballI impI)
    fix s
    assume s: "s \<in> upsertedSlots (ArmadaServer_steps cr cc)" "managed s" "derefSlot cc s \<noteq> None"
    have "installed view cc s (freshWorld (sh_Server (w_Srv w')))"
      using convergedD [OF w'(2) s] by (simp add: installed_def freshWorld_def)
    from operatorRun_installed [OF assms(1,3,4) _ out [OF s(1)] this, of R s'] that
    show "installed view cc s (freshWorld s')" by (simp add: freshWorld_def)
  qed
  with w'(1) show ?thesis by blast
qed

lemma ArmadaServer_stays_converged_witness:
  "\<exists>cc w' s'. ArmadaServer_Reconcile refExterns (sharedClient (reconciling refExterns fleetClients demoRequests) (cl_ArmadaServer fleetClients))
       demoKey (sharedWorld (freshWorld demoFleet)) = (Inr (), w') \<and>
     operatorRun refExterns fleetClients (range demoRequests) (sh_Server (w_Srv w')) s' \<and>
     converged rf_Objects cc (ArmadaServer_steps demoArmadaServer cc) (freshWorld s')"
proof -
  obtain cc where cc: "ArmadaServer_generate refExterns demoArmadaServer = Inr cc" using demoArmadaServer_generates ..
  have R: "\<forall>rq \<in> range demoRequests. fst (requestKey rq) \<noteq> crNamespace demoArmadaServer"
    by (auto simp: demoRequests_def demoMeta_def newMeta_def)
  note f = demoFleet_fetches_shared
  have "live refExterns demoArmadaServer" by simp
  from ArmadaServer_stays_converged [OF operatorLaws_fleetClients fleetClients_laws(3) finalizerLaw_refExterns ownerLaw_refExterns
      R subset_refl refl f this cc]
  obtain w' where w': "ArmadaServer_Reconcile refExterns (sharedClient (reconciling refExterns fleetClients demoRequests) (cl_ArmadaServer fleetClients))
       demoKey (sharedWorld (freshWorld demoFleet)) = (Inr (), w')"
    "\<And>s'. operatorRun refExterns fleetClients (range demoRequests) (sh_Server (w_Srv w')) s' \<Longrightarrow>
       converged rf_Objects cc (ArmadaServer_steps demoArmadaServer cc) (freshWorld s')"
    by blast
  with operatorRun.idle [of refExterns fleetClients "range demoRequests"] show ?thesis by blast
qed



text \<open>
  C32: an additional ClusterRoleBinding outlives its entry in the spec. No reconciliation of the Executor touches
  a binding whose suffix the spec does not list (any more), whatever its outcome, and neither does its deletion.
\<close>

theorem Executor_keeps_removed_binding:
  assumes "clientLaws c view" "resourceLaw c view" "finalizerLaw x" "ownerLaw x" "fetches c req w cr"
    "nameSuffix \<notin> acrb_NameSuffix ` set (ex_AdditionalClusterRoleBindings (cr_Spec cr))"
    "Executor_Reconcile x c req w = (r, w')"
  shows "view (w_Srv w') (ClusterRoleBindingKind, ns, crName cr @ ''-'' @ nameSuffix) =
     view (w_Srv w) (ClusterRoleBindingKind, ns, crName cr @ ''-'' @ nameSuffix)"
proof -
  have "confined view (\<lambda>k. k \<noteq> (ClusterRoleBindingKind, ns, crName cr @ ''-'' @ nameSuffix)) w w'"
  proof (rule executorTenant.generateFirst_within [OF assms(1-4) _ _ assms(7) [unfolded Executor_Reconcile_skeleton]])
    fix cr' cc
    assume cr': "fetches c req w cr'" "Executor_generate x cr' = Inr cc"
    then have "cr' = cr" using assms(5) by (simp add: fetches_def)
    with Executor_unlisted_binding [OF cr'(2)] assms(6)
    show "keysWithin cc (touchedSlots (Executor_steps cr' cc))
        (\<lambda>k. k \<noteq> (ClusterRoleBindingKind, ns, crName cr @ ''-'' @ nameSuffix))" by simp
  qed (auto intro: Executor_cleanup_deletes clientLawsD(3) [OF assms(1)])
  then show ?thesis by (simp add: confined_def)
qed

lemma Executor_keeps_removed_binding_witness:
  "\<exists>crb r w'. Executor_Reconcile refExterns refClient demoKey
       (holding (KClusterRoleBinding crb) (demoWorld (deleted demoExecutor))) = (r, w') \<and>
     om_Name (crb_Meta crb) = ''demo-old'' \<and>
     refView (w_Srv w') (keyOf (KClusterRoleBinding crb)) = Some (KClusterRoleBinding crb)"
proof -
  let ?crb = "\<lparr>crb_Meta = newMeta ''demo-old'' '''' Map.empty Map.empty, crb_Subjects = [],
    crb_RoleRef = \<lparr>rref_Kind = ''ClusterRole'', rref_APIGroup = '''', rref_Name = ''view''\<rparr>\<rparr>"
  let ?w = "holding (KClusterRoleBinding ?crb) (demoWorld (deleted demoExecutor))"
  obtain r w' where run: "Executor_Reconcile refExterns refClient demoKey ?w = (r, w')" by fastforce
  have f: "fetches refClient demoKey ?w (deleted demoExecutor)"
    by (rule fetches_holding) (rule fetches_demo, simp)
  have "''old'' \<notin> acrb_NameSuffix ` set (ex_AdditionalClusterRoleBindings (cr_Spec (deleted demoExecutor)))"
    by (simp add: deleted_def demoExecutor_def)
  from Executor_keeps_removed_binding [OF clientLaws_refClient resourceLaw_refClient _ _ f this run, of "''''"] run
  show ?thesis
    by (intro exI [of _ ?crb] exI [of _ r] exI [of _ w']) (simp add: holding_def keyOf_def newMeta_def deleted_def demoMeta_def)
qed

text \<open>
  C38: nothing that an Executor's spec asks for is left behind. When its deletion has gone through without error,
  every object that its reconciliation would upsert either carries an owner reference to the Executor, so
  that the garbage collector of Kubernetes removes it, or was deleted by a call of the clean-up.
\<close>

theorem Executor_cleanup_complete:
  assumes "ownerLaw x" "fetches c req w cr" "om_DeletionTimestamp (cr_Meta cr) \<noteq> None"
    "ContainsFinalizer x (cr_Meta cr) operatorFinalizer" "Executor_generate x cr = Inr cc"
    "Executor_Reconcile x c req w = (Inr (), w')"
  shows "\<exists>es. w_Trace w' = w_Trace w @ es \<and>
     (\<forall>s ob. s \<in> upsertedSlots (Executor_steps cr cc) \<longrightarrow> derefSlot cc s = Some ob \<longrightarrow>
        ownedBy ''Executor'' (cr_Meta cr) (metaOf ob) \<or> EvDelete (InComponents s) \<in> set es)"
proof -
  obtain es where es: "w_Trace w' = w_Trace w @ es"
    and deletes: "EvDelete (InComponents SClusterRole) \<in> set es"
      "\<And>i. i < length (cc_ClusterRoleBindings cc) \<Longrightarrow> EvDelete (InComponents (SClusterRoleBinding i)) \<in> set es"
    by (rule generateFirst_deletion_order [where generate = "Executor_generate x", OF assms(2-5) Executor_cleanup_order,
        OF assms(6) [unfolded Executor_Reconcile_skeleton]]) auto
  have "ownedBy ''Executor'' (cr_Meta cr) (metaOf ob) \<or> EvDelete (InComponents s) \<in> set es"
    if s: "s \<in> upsertedSlots (Executor_steps cr cc)" and ob: "derefSlot cc s = Some ob" for s ob
  proof (cases "clusterScoped (slotKind s)")
    case True
    with ob deletes show ?thesis by (cases s) (auto simp: clusterScoped_def split: if_splits)
  next
    case False
    from executorTenant.touched_owned(1) [OF assms(1,5) _ ob False] s upsertedSlots_touched show ?thesis by blast
  qed
  with es show ?thesis by blast
qed

lemma Executor_cleanup_complete_witness:
  "\<exists>cc es w'. Executor_generate refExterns (deleted demoExecutor) = Inr cc \<and>
     Executor_Reconcile refExterns refClient demoKey (demoWorld (deleted demoExecutor)) = (Inr (), w') \<and>
     EvDelete (InComponents SClusterRole) \<in> set (w_Trace w')"
proof -
  let ?cr = "deleted demoExecutor"
  obtain cc where cc: "Executor_generate refExterns ?cr = Inr cc" using demoExecutor_deleted_generates ..
  obtain w' where w': "Executor_Reconcile refExterns refClient demoKey (demoWorld ?cr) = (Inr (), w')"
    using demoExecutor_deletion_succeeds by blast
  obtain es where es: "w_Trace w' = es" "\<And>s ob. s \<in> upsertedSlots (Executor_steps ?cr cc) \<Longrightarrow> derefSlot cc s = Some ob \<Longrightarrow>
      ownedBy ''Executor'' (cr_Meta ?cr) (metaOf ob) \<or> EvDelete (InComponents s) \<in> set es"
    using Executor_cleanup_complete [of refExterns refClient demoKey "demoWorld ?cr" ?cr, OF _ _ _ _ cc w'] by auto
  obtain role where "derefSlot cc SClusterRole = Some (KClusterRole role)" "om_OwnerReferences (crole_Meta role) = []"
    using cc by (rule Executor_generate_Inr) (auto simp: Executor_createClusterRole_def newMeta_def)
  with es(2) [of SClusterRole] have "EvDelete (InComponents SClusterRole) \<in> set es"
    by (auto simp: ownedBy_def upsertedSlots_def Executor_steps_def)
  with cc w' es(1) show ?thesis by blast
qed

section \<open>Order and clean-up\<close>












text \<open>
  C14: a Lookout that is being deleted is never installed again: such a reconciliation upserts
  nothing, whatever the server answers.
\<close>

theorem Lookout_deleting_installs_nothing:
  assumes "fetches c req w cr" "om_DeletionTimestamp (cr_Meta cr) \<noteq> None" "Lookout_Reconcile x c req w = (r, w')"
  shows "\<exists>es. w_Trace w' = w_Trace w @ es \<and> (\<forall>a. EvUpsert a \<notin> set es)"
  using Lookout_deleting [OF assms(1,2), of x] assms(3)
  by (auto simp: callsOnly_def list_all_iff isUpsert_def)

lemma Lookout_deleting_installs_nothing_witness:
  "\<forall>a. EvUpsert a \<notin> set (w_Trace (snd (Lookout_Reconcile refExterns refClient demoKey (demoWorld (deleted demoLookout)))))"
proof -
  let ?w = "demoWorld (deleted demoLookout)"
  obtain r w' where run: "Lookout_Reconcile refExterns refClient demoKey ?w = (r, w')" by fastforce
  have "w_Trace ?w = []" by (simp add: demoWorld_def)
  with Lookout_deleting_installs_nothing [of refClient demoKey ?w "deleted demoLookout", OF _ _ run] run
  show ?thesis by auto
qed



section \<open>Errors and panics\<close>

text \<open>
  C16: an EventIngester whose configuration does not parse cannot be deleted: its components are generated
  before the deletion timestamp is looked at, so the reconciliation returns that error and makes no
  call, and the finalizer stays.
\<close>

theorem EventIngester_bad_config_blocks:
  assumes "fetches c req w cr" "EventIngester_generate x cr = Inl e" "EventIngester_Reconcile x c req w = (r, w')"
  shows "r = Inl e \<and> w_Trace w' = w_Trace w"
  using generateFirst_blocked [where generate = "EventIngester_generate x", OF assms(1,2)] assms(3)
  unfolding EventIngester_Reconcile_skeleton by (metis fst_conv snd_conv)

lemma EventIngester_bad_config_blocks_witness:
  "\<exists>e w'. EventIngester_Reconcile refExterns refClient demoKey (demoWorld (unconfigured (deleted demoEventIngester))) = (Inl e, w') \<and>
     w_Trace w' = []"
proof -
  let ?cr = "unconfigured (deleted demoEventIngester)"
  obtain e where e: "EventIngester_generate refExterns ?cr = Inl e"
    by (simp add: unconfigured_def EventIngester_generate_def ParseCommonApplicationConfig_def)
  obtain r w' where run: "EventIngester_Reconcile refExterns refClient demoKey (demoWorld ?cr) = (r, w')" by fastforce
  from EventIngester_bad_config_blocks [of refClient demoKey "demoWorld ?cr" ?cr, OF _ e run] run
  show ?thesis by simp
qed

text \<open>
  C17: the webhook and the controller of Scheduler together. A Scheduler that went through its
  defaulter, and that configures an Ingress when it has hostnames, never makes \<open>Reconcile\<close> panic, as
  long as the client and the libraries do not; without the defaulter the pruner may be nil.
\<close>

theorem Scheduler_defaulted_never_panics:
  assumes "clientLaws c view" "calm c" "keepsSpec c" "ownerLaw x" "errorsOnly x"
    "Scheduler_Default (SchedulerObject sent) = Inr (SchedulerObject cr)" "fetches c req w cr"
    "ingressSet (sd_HostNames (cr_Spec sent)) (sd_Ingress (cr_Spec sent))"
  shows "fst (Scheduler_Reconcile x c req w) \<noteq> Inl (Panic p)"
proof -
  from assms(6) have cr: "cr = Scheduler_applyDefaults sent" by (simp add: Scheduler_Default_def)
  then have "sd_Pruner (cr_Spec cr) \<noteq> None" "sd_HostNames (cr_Spec cr) = sd_HostNames (cr_Spec sent)"
    "sd_Ingress (cr_Spec cr) = sd_Ingress (cr_Spec sent)"
    by (simp_all add: Scheduler_applyDefaults_def Let_def)
  with Scheduler_Reconcile_panicFree [OF assms(1-5,7)] assms(8) show ?thesis by (simp add: panicFree_def)
qed

lemma Scheduler_defaulted_never_panics_witness:
  "fst (Scheduler_Reconcile refExterns refClient demoKey (demoWorld (Scheduler_applyDefaults demoScheduler))) \<noteq>
     Inl (Panic (NilDereference ''Spec.Pruner''))"
  by (rule Scheduler_defaulted_never_panics [of _ refView _ demoScheduler "Scheduler_applyDefaults demoScheduler"])
    (simp_all add: Scheduler_Default_def ingressSet_def demoScheduler_def)

text \<open>C18: an Executor never makes its controller panic, whatever its spec.\<close>

theorem Executor_never_panics:
  assumes "clientLaws c view" "calm c" "ownerLaw x" "errorsOnly x" "fetches c req w cr"
  shows "fst (Executor_Reconcile x c req w) \<noteq> Inl (Panic p)"
  using Executor_Reconcile_panicFree [OF assms] by (simp add: panicFree_def)

lemma Executor_never_panics_witness:
  "fst (Executor_Reconcile refExterns refClient demoKey (demoWorld demoExecutor)) \<noteq> Inl (Panic (NilDereference ''Job''))"
  by (rule Executor_never_panics [of _ refView _ _ _ demoExecutor]) simp_all

text \<open>
  C19: a Lookout that configures an Ingress when it has hostnames does not make its controller panic,
  not even in the part after the steps, which reads \<open>components.Jobs[0]\<close>.
\<close>

theorem Lookout_never_panics:
  assumes "clientLaws c view" "calm c" "keepsSpec c" "ownerLaw x" "errorsOnly x" "fetches c req w cr"
    "lk_HostNames (cr_Spec cr) \<noteq> [] \<Longrightarrow> lk_Ingress (cr_Spec cr) \<noteq> None"
  shows "fst (Lookout_Reconcile x c req w) \<noteq> Inl (Panic p)"
  using Lookout_Reconcile_panicFree [OF assms(1-6)] assms(7) by (simp add: panicFree_def ingressSet_def)

lemma Lookout_never_panics_witness:
  "fst (Lookout_Reconcile refExterns refClient demoKey (demoWorld demoLookout)) \<noteq>
     Inl (Panic (IndexOutOfRange ''components.Jobs''))"
  by (rule Lookout_never_panics [of _ refView _ _ _ demoLookout]) (simp_all add: demoLookout_def)



text \<open>
  A Scheduler that did not go through its defaulter and has no pruner: its CronJob is generated all
  the same, and reading the pruner's settings panics.
\<close>

theorem Scheduler_without_pruner_panics:
  assumes "JSONToYAML x (csb_ApplicationConfig (cr_Spec cr)) = Inr yaml" "UnmarshalDatabase x yaml = Inr cfg"
    "sd_Pruner (cr_Spec cr) = None"
  shows "newSchedulerCronJob x cr account = Inl (Panic (NilDereference ''Spec.Pruner''))"
  by (rule newSchedulerCronJob_panics [OF assms])

lemma Scheduler_without_pruner_panics_witness:
  "newSchedulerCronJob refExterns (prunerless demoScheduler) ''demo'' = Inl (Panic (NilDereference ''Spec.Pruner''))"
  by (rule Scheduler_without_pruner_panics) (simp_all add: prunerless_def demoScheduler_def)

section \<open>ReconcileComponents\<close>

text \<open>
  C22: \<open>ReconcileComponents\<close> returns exactly when every pointer that it follows is set, that is when the
  components have what the new ones have, and panics otherwise; it has no other error.
\<close>

theorem ReconcileComponents_returns_iff:
  "if reconcilable cc new then \<exists>cc'. ReconcileComponents cc new = Inr cc'
   else \<exists>p. ReconcileComponents cc new = Inl (Panic p)"
proof (cases "ReconcileComponents cc new")
  case (Inl e)
  with ReconcileComponents_panics [OF Inl] have "\<exists>p. ReconcileComponents cc new = Inl (Panic p)" by (cases e) simp_all
  with Inl ReconcileComponents_returns [of cc new] show ?thesis by auto
next
  case (Inr cc')
  with ReconcileComponents_returns [of cc new] show ?thesis by auto
qed

text \<open>
  C23: what it does, object by object, refines the specification \<open>reconcileSlot\<close>: an object that the new
  components have gets the new fields, one that they lack is dropped, and Jobs, ServiceMonitor
  and PrometheusRule are left as they are.
\<close>

theorem ReconcileComponents_refines_slots:
  assumes "ReconcileComponents cc new = Inr cc'"
  shows "derefSlot cc' s = reconcileSlot cc new s"
  by (rule ReconcileComponents_slot [OF assms])

lemma ReconcileComponents_refines_slots_witness:
  "\<exists>cc cc'. ReconcileComponents cc cc = Inr cc' \<and> derefSlot cc' SDeployment = reconcileSlot cc cc SDeployment \<and>
     derefSlot cc SDeployment \<noteq> None"
proof -
  obtain cc where cc: "Executor_generate refExterns demoExecutor = Inr cc" using demoExecutor_generates ..
  with executor.required [of refExterns demoExecutor cc]
  have g: "cc_Secret cc \<noteq> None" "cc_Deployment cc \<noteq> None" by (simp_all add: generated_def)
  with ReconcileComponents_returns [of cc cc] sameShape_reconcilable [of cc cc]
  obtain cc' where "ReconcileComponents cc cc = Inr cc'" by auto
  with ReconcileComponents_refines_slots [OF this, of SDeployment] g show ?thesis by auto
qed

text \<open>
  C24: ownership. After \<open>ReconcileComponents\<close> every managed object has the operator's fields of the new
  object (spec, labels, annotations, data) and the identity it had before: name, namespace, UID,
  owner references and finalizers.
\<close>

theorem ReconcileComponents_owns:
  assumes "ReconcileComponents cc new = Inr cc'" "managed s" "derefSlot cc' s = Some ob"
  shows "\<exists>n c. derefSlot new s = Some n \<and> derefSlot cc s = Some c \<and>
     ownedFields ob = ownedFields n \<and> identity (metaOf ob) = identity (metaOf c)"
  by (rule ReconcileComponents_owned [OF assms]) blast

lemma ReconcileComponents_owns_witness:
  "\<exists>cc cc' ob. ReconcileComponents cc cc = Inr cc' \<and> derefSlot cc' SSecret = Some ob \<and>
     (\<exists>n c. derefSlot cc SSecret = Some n \<and> derefSlot cc SSecret = Some c \<and>
        ownedFields ob = ownedFields n \<and> identity (metaOf ob) = identity (metaOf c))"
proof -
  obtain cc where cc: "Executor_generate refExterns demoExecutor = Inr cc" using demoExecutor_generates ..
  with executor.required [of refExterns demoExecutor cc]
  have g: "cc_Secret cc \<noteq> None" "cc_Deployment cc \<noteq> None" by (simp_all add: generated_def)
  with ReconcileComponents_returns [of cc cc] sameShape_reconcilable [of cc cc]
  obtain cc' where cc': "ReconcileComponents cc cc = Inr cc'" by auto
  with g have "derefSlot cc' SSecret \<noteq> None"
    by (auto simp: ReconcileComponents_slot reconcileSlot_def simp del: derefSlot.simps) auto
  then obtain ob where "derefSlot cc' SSecret = Some ob" by blast
  with ReconcileComponents_owns [OF cc' _ this] cc' show ?thesis by fastforce
qed



section \<open>Runs and polls\<close>



text \<open>
  C27: waiting for a Job ends. \<open>waitForJob\<close> reads the Job at most 24 times (two minutes, every five
  seconds), changes nothing on the server, and returns without an error only when the Job it read
  last is finished.
\<close>

theorem waitForJob_bounded:
  assumes "getJobLaw c view" "pollLaw c" "waitForJob c a jobPollInterval jobTimeout w = (r, w')"
  shows "(\<exists>m \<le> 24. w_Trace w' = w_Trace w @ replicate m (EvGetJob a)) \<and> view (w_Srv w') = view (w_Srv w) \<and>
     (r = Inr () \<longrightarrow> finishedAt a w')"
  using wait_run [OF assms(1,2) sameKeys_refl assms(3)] by (simp add: polled_def)

lemma waitForJob_bounded_witness:
  "\<exists>r w'. waitForJob refClient PartitionJob jobPollInterval jobTimeout (demoWorld demoLookout) = (r, w') \<and>
     (\<exists>m \<le> 24. w_Trace w' = replicate m (EvGetJob PartitionJob))"
proof -
  obtain r w' where run: "waitForJob refClient PartitionJob jobPollInterval jobTimeout (demoWorld demoLookout) = (r, w')"
    by fastforce
  have "getJobLaw (refClient :: (LookoutSpec, LookoutStatus, _) client) refView" "pollLaw (refClient :: (LookoutSpec, LookoutStatus, _) client)"
    using clientLawsD(2,4) [OF clientLaws_refClient] by blast+
  from waitForJob_bounded [OF this run] run show ?thesis by auto
qed

section \<open>What is installed\<close>





text \<open>
  C30: the pods of the partition Job get no traffic. Its labels are made from the Job's own name, so the
  selector of the Lookout's Service does not match them; the pods of the migration Job do match it.
\<close>

theorem Lookout_service_skips_partition_pods:
  assumes "ownerLaw x" "Lookout_generateAll x cr = Inr (cc, Some job)"
  shows "\<exists>svc mig. cc_Service cc = Some svc \<and> cc_Jobs cc = [mig] \<and>
     \<not> ss_Selector (svc_Spec svc) \<subseteq>\<^sub>m om_Labels (pt_Meta (js_Template (job_Spec job))) \<and>
     ss_Selector (svc_Spec svc) \<subseteq>\<^sub>m om_Labels (pt_Meta (js_Template (job_Spec mig)))"
  using assms(2)
proof (rule Lookout_generateAll_Inr)
  fix cfg svc account mig0 mig
  assume svc: "cc_Service cc = Some svc"
    "SetOwnerReference x ''Lookout'' (cr_Meta cr) svc_Meta svc_Meta_update
       (Service (crName cr) (crNamespace cr) (AllLabels (crName cr) [crLabels cr])
         (IdentityLabel (crName cr)) cfg ServiceEnableHTTPWithMetrics) = Inr svc"
    and mig: "createLookoutMigrationJob x cr account = Inr mig0" "cc_Jobs cc = [mig]"
    "SetOwnerReference x ''Lookout'' (cr_Meta cr) job_Meta job_Meta_update mig0 = Inr mig"
  obtain account' job0 where p: "createLookoutPartitionJobTableJob x cr account' = Inr job0"
    "SetOwnerReference x ''Lookout'' (cr_Meta cr) job_Meta job_Meta_update job0 = Inr job"
    using Lookout_partition_Some [OF assms(2)] .
  have "ss_Selector (svc_Spec svc) = IdentityLabel (crName cr)" using svc(2) by (auto simp: go_simps)
  moreover have "job_Spec job = job_Spec job0" "job_Spec mig = job_Spec mig0" using p(2) mig(3) by (auto simp: go_simps)
  ultimately show ?thesis
    using svc(1) mig(2) createLookoutPartitionJobTableJob_Inr(2) [OF p(1)]
      createLookoutDatabaseJob_Inr(3) [OF mig(1) [unfolded createLookoutMigrationJob_def]] by simp
qed

lemma Lookout_service_skips_partition_pods_witness:
  "\<exists>cc job svc. Lookout_generateAll refExterns demoLookout = Inr (cc, Some job) \<and> cc_Service cc = Some svc \<and>
     \<not> ss_Selector (svc_Spec svc) \<subseteq>\<^sub>m om_Labels (pt_Meta (js_Template (job_Spec job)))"
proof -
  obtain cc job where cc: "Lookout_generateAll refExterns demoLookout = Inr (cc, Some job)" using demoLookout_generates by blast
  from Lookout_service_skips_partition_pods [OF _ cc] cc show ?thesis by auto
qed



text \<open>
  The condition that a Lookout reports on its partition Job names one of three states, from the
  Job's conditions: succeeded when it is complete (even if a failure is recorded too), failed when it
  has failed and is not complete, and running when it is not finished. It is true only in the first,
  and always about the current generation.
\<close>

theorem JobTablePartitioned_states:
  "let cond = newJobTablePartitionedCondition lookout job in
     cond_Type cond = ''JobTablePartitioned'' \<and>
     cond_ObservedGeneration cond = om_Generation (cr_Meta lookout) \<and>
     (cond_Reason cond, cond_Status cond) =
       (if getTrueJobCondition job JobComplete \<noteq> None then (''Succeeded'', ConditionTrue)
        else if isJobFinished job then (''Failed'', ConditionFalse) else (''Running'', ConditionFalse))"
  by (auto simp: newJobTablePartitionedCondition_def isJobFinished_conditions Let_def
      ConditionTypeJobTablePartitioned_def ReasonPartitionJobTableSucceeded_def ReasonPartitionJobTableFailed_def
      ReasonPartitionJobTableRunning_def split: option.split)



section \<open>Webhooks\<close>



section \<open>Start-up\<close>

text \<open>
  C35: how the operator starts. It makes the calls of its plan in order (configuration, manager, nine
  controllers, eight webhooks unless they are switched off, two health checks, the manager's start) and
  stops at the first that fails. The manager starts exactly when every call before succeeded. Every
  manager that is created serves metrics with authentication if it serves them securely and
  without if not, and unless HTTP/2 is enabled both of its servers speak only HTTP/1.1, whatever TLS
  configuration they begin with.
\<close>

theorem main_starts_manager:
  assumes "main lib flags env [] = (r, log)"
  shows "prefix log (mainPlan flags env) \<and>
     (StartManager \<in> set log \<longleftrightarrow>
        (\<forall>i < length (mainPlan flags env) - 1. succeeds lib (mainPlan flags env) i)) \<and>
     (r = Inr () \<longleftrightarrow> (\<forall>i < length (mainPlan flags env). succeeds lib (mainPlan flags env) i)) \<and>
     (\<forall>options. NewManager options \<in> set log \<longrightarrow>
        (mso_FilterProvider (mgo_Metrics options) \<noteq> None \<longleftrightarrow> mso_SecureServing (mgo_Metrics options)) \<and>
        (\<not> fl_enableHTTP2 flags \<longrightarrow>
           (\<forall>tls opts. opts = mso_TLSOpts (mgo_Metrics options) \<or> opts = who_TLSOpts (mgo_WebhookServer options) \<longrightarrow>
              tls_NextProtos (fold (\<lambda>f. f) opts tls) = [''http/1.1''])))"
proof -
  from assms have run: "callAll lib (mainPlan flags env) [] = (r, log)" by (simp add: main_plan)
  obtain es where es: "mainPlan flags env = es @ [StartManager]" "StartManager \<notin> set es"
    using mainPlan_last by blast
  note all = callAll_run [OF run] and start = callAll_last [OF run [unfolded es(1)] es(2)]
  have "StartManager \<in> set log \<longleftrightarrow> (\<forall>i < length (mainPlan flags env) - 1. succeeds lib (mainPlan flags env) i)"
    using start es(1) by simp
  moreover have "options = managerOptions flags env" if "NewManager options \<in> set log" for options
    using set_mono_prefix [OF conjunct1 [OF all]] that by (intro NewManager_plan) blast
  moreover have "mso_FilterProvider (metricsServerOptions flags) \<noteq> None \<longleftrightarrow> mso_SecureServing (metricsServerOptions flags)"
    "mso_TLSOpts (metricsServerOptions flags) = tlsOptions flags"
    by (simp_all add: metricsServerOptions_def Let_def)
  moreover have "mgo_Metrics (managerOptions flags env) = metricsServerOptions flags"
    "who_TLSOpts (mgo_WebhookServer (managerOptions flags env)) = tlsOptions flags"
    by (simp_all add: managerOptions_def webhookOptions_def)
  ultimately show ?thesis
    using all http1_only [of flags] by (intro conjI allI impI) metis+
qed

lemma main_starts_manager_witness:
  "\<exists>log. main (\<lambda>_ e. if e = AddReadyzCheck ''readyz'' then Some (ApiError '''') else None) defaultFlags
       \<lparr>env_WEBHOOK_CERT_DIR = '''', env_ENABLE_WEBHOOKS = ''false''\<rparr> [] = (Inl (ApiError ''''), log) \<and>
     StartManager \<notin> set log"
proof -
  let ?lib = "\<lambda>_ e. if e = AddReadyzCheck ''readyz'' then Some (ApiError '''') else None"
  let ?env = "\<lparr>env_WEBHOOK_CERT_DIR = '''', env_ENABLE_WEBHOOKS = ''false''\<rparr>"
  have plan: "mainPlan defaultFlags ?env ! 13 = AddReadyzCheck ''readyz''" "length (mainPlan defaultFlags ?env) = 15"
    by (simp_all add: mainPlan_def controllerPlan_def)
  obtain r log where run: "main ?lib defaultFlags ?env [] = (r, log)" by fastforce
  moreover have "\<not> succeeds ?lib (mainPlan defaultFlags ?env) 13" using plan(1) by (simp add: succeeds_def)
  moreover have "r = Inl (ApiError '''')"
    using run by (simp add: main_plan mainPlan_def controllerPlan_def andThenA_def perform_def)
  ultimately show ?thesis using main_starts_manager [OF run] plan(2) by (intro exI [of _ log]) auto
qed

section \<open>Deep copies\<close>

text \<open>
  C36: a deep copy of a Lookout is deep. In a memory in which the pointer \<open>p\<close> leads to a Lookout of value \<open>v\<close>,
  \<open>DeepCopy\<close> only allocates, and its result stands for \<open>v\<close> in every memory that has the new cells:
  no later write to the original can be seen through the copy. The original stands for \<open>v\<close> in every memory
  that has the old cells, so no write to the copy can be seen through the original. The deep copies of
  the Kubernetes libraries are taken to be deep.
\<close>

theorem Lookout_DeepCopy_isolated:
  assumes "kubeApiLaws k8s" "wfHeap h" "pointerView LookoutTag (Lookout_view k8s) (hp_cells h) p = Some v"
  shows "\<exists>q h'. Lookout_DeepCopy k8s p h = (Inr q, h') \<and> grows h h' \<and>
     (\<forall>c. added h h' \<subseteq>\<^sub>m c \<longrightarrow> pointerView LookoutTag (Lookout_view k8s) c q = Some v) \<and>
     (\<forall>c. hp_cells h \<subseteq>\<^sub>m c \<longrightarrow> pointerView LookoutTag (Lookout_view k8s) c p = Some v)"
proof -
  have "deepCopier (pointerView LookoutTag (Lookout_view k8s)) (Lookout_DeepCopy k8s)"
    unfolding Lookout_DeepCopy_def [abs_def] by (intro copier_intros assms(1))
  from deepCopier.isolated [OF this assms(2), OF assms(3)] show ?thesis .
qed

lemma Lookout_DeepCopy_isolated_witness:
  "\<exists>v q h'. Lookout_DeepCopy demoKube (Some 0) demoMemory = (Inr q, h') \<and>
     lk_HostNames (cr_Spec (snd v)) = [''demo.example.com''] \<and>
     pointerView LookoutTag (Lookout_view demoKube) (added demoMemory h') q = Some (Some v)"
proof -
  obtain v where v: "pointerView LookoutTag (Lookout_view demoKube) (hp_cells demoMemory) (Some 0) = Some (Some v)"
    "lk_HostNames (cr_Spec (snd v)) = [''demo.example.com'']" using demoLookout_view by blast
  from Lookout_DeepCopy_isolated [OF kubeApiLaws_demoKube wfHeap_demoMemory v(1)] v(2) show ?thesis
    using map_le_refl by blast
qed

text \<open>
  C37: the deep copy of a list of Schedulers, as an object: nil for nil, and otherwise an object of the same
  kind at a new address, whose items stand for the same values in the new cells alone, even where the
  original's items share cells with each other.
\<close>

theorem SchedulerList_DeepCopyObject_isolated:
  assumes "kubeApiLaws k8s" "wfHeap h" "pointerView SchedulerListTag (SchedulerList_view k8s) (hp_cells h) p = Some v"
  shows "\<exists>obj h'. SchedulerList_DeepCopyObject k8s p h = (Inr obj, h') \<and> grows h h' \<and>
     (obj = None \<longleftrightarrow> p = None) \<and>
     (\<forall>kind b. obj = Some (kind, b) \<longrightarrow> kind = ''SchedulerList'' \<and> hp_cells h b = None \<and>
       (\<forall>c. added h h' \<subseteq>\<^sub>m c \<longrightarrow> pointerView SchedulerListTag (SchedulerList_view k8s) c (Some b) = Some v))"
proof -
  have "deepCopier (pointerView SchedulerListTag (SchedulerList_view k8s)) (SchedulerList_DeepCopy k8s)"
    unfolding SchedulerList_DeepCopy_def [abs_def] by (intro copier_intros assms(1))
  from deepCopier.isolated [OF this assms(2), OF assms(3)]
  obtain q h' where q: "SchedulerList_DeepCopy k8s p h = (Inr q, h')" "grows h h'"
    "\<And>c. added h h' \<subseteq>\<^sub>m c \<Longrightarrow> pointerView SchedulerListTag (SchedulerList_view k8s) c q = Some v"
    by blast
  have nil: "q = None \<longleftrightarrow> p = None"
    using q(3) [OF map_le_refl] assms(3) by (auto simp: pointerView_def split: option.splits)
  have "hp_cells h b = None" if "q = Some b" for b
  proof -
    have "b \<in> dom (added h h')"
      using q(3) [OF map_le_refl] assms(3) that nil by (auto simp: pointerView_def bind_eq_Some_conv split: option.splits)
    with added_disjoint [of h h'] assms(2) show ?thesis by auto
  qed
  with q nil show ?thesis
    by (auto simp: SchedulerList_DeepCopyObject_def asObject_def andThenA_def)
qed

lemma SchedulerList_DeepCopyObject_isolated_witness:
  "\<exists>v b h'. SchedulerList_DeepCopyObject demoKube (Some 7) demoMemory = (Inr (Some (''SchedulerList'', b)), h') \<and>
     length (snd (snd v)) = 2 \<and>
     pointerView SchedulerListTag (SchedulerList_view demoKube) (added demoMemory h') (Some b) = Some (Some v)"
proof -
  obtain v where v: "pointerView SchedulerListTag (SchedulerList_view demoKube) (hp_cells demoMemory) (Some 7) = Some (Some v)"
    "length (snd (snd v)) = 2" using demoSchedulers_view by blast
  from SchedulerList_DeepCopyObject_isolated [OF kubeApiLaws_demoKube wfHeap_demoMemory v(1)] v(2) show ?thesis
    by (metis (no_types, lifting) map_le_refl option.distinct(1) option.exhaust prod.exhaust)
qed

section \<open>Shared helpers\<close>

text \<open>
  The annotations of an Ingress, key by key: the user's win over the certificate issuer, that over the
  caller's base annotations, and those over the class and the backend protocol.
\<close>

theorem buildIngressAnnotations_value:
  "buildIngressAnnotations ic base protocol useTLS k =
     (case ic_Annotations ic k of Some v \<Rightarrow> Some v
      | None \<Rightarrow>
          if ic_ClusterIssuer ic \<noteq> '''' \<and> k \<in> {''certmanager.k8s.io/cluster-issuer'', ''cert-manager.io/cluster-issuer''}
          then Some (ic_ClusterIssuer ic)
          else (case base k of Some v \<Rightarrow> Some v
           | None \<Rightarrow>
               if k = ''kubernetes.io/ingress.class'' then Some (ic_IngressClass ic)
               else if k = ''nginx.ingress.kubernetes.io/backend-protocol''
               then Some (protocolString protocol @ (if useTLS then ''S'' else ''''))
               else if useTLS \<and> k = ''nginx.ingress.kubernetes.io/ssl-passthrough'' then Some ''true''
               else None))"
proof -
  have apply_add: "(m ++ n) k = (case n k of Some v \<Rightarrow> Some v | None \<Rightarrow> m k)" for m n :: strmap
    by (simp add: map_add_def)
  show ?thesis
    unfolding buildIngressAnnotations_def Let_def apply_add
    by (cases "ic_Annotations ic k"; cases "base k"; cases "ic_ClusterIssuer ic = ''''"; cases useTLS) (simp_all add: apply_add)
qed





end
